(* ===== verification/Prelude.thy ===== *)
theory Prelude
  imports Main "HOL-Library.Word" "HOL-Library.Monad_Syntax"
begin

text \<open>
  Shared vocabulary of the development: the machine integer types of the C code, the
  collections the component theories add their unfolding rules to, and the generic facts on
  options, words and lists the components use.
\<close>

unbundle bit_operations_syntax

section \<open>Types and collections\<close>

type_synonym u8 = "8 word"
type_synonym u16 = "16 word"
type_synonym u32 = "32 word"
type_synonym u64 = "64 word"

text \<open>\<open>reg_defs\<close>: register operations; \<open>ctx_defs\<close>: memory access through an instruction
  context; \<open>staged_defs\<close>, \<open>static_defs\<close>: the two bodies of every instruction;
  \<open>bus_defs\<close>: the memory bus.\<close>

named_theorems reg_defs
named_theorems ctx_defs
named_theorems staged_defs
named_theorems static_defs
named_theorems bus_defs

abbreviation widen :: "u8 \<Rightarrow> u16" where
  "widen b \<equiv> ucast b"

abbreviation narrow :: "u16 \<Rightarrow> u8" where
  "narrow w \<equiv> ucast w"

section \<open>Options\<close>

text \<open>While a closed run is evaluated the continuation of a bind stays as it is until the
  bound value is known.\<close>

lemma bind_weak: "x = y \<Longrightarrow> Option.bind x f = Option.bind y f"
  by simp

lemma bind_cong_fun: "(\<And>x. f x = g x) \<Longrightarrow> Option.bind m f = Option.bind m g"
  by (cases m) auto

lemma bind_pair_cong:
  "(\<And>a b. f (a, b) = g (a, b)) \<Longrightarrow> Option.bind m f = Option.bind m g"
  by (cases m) auto

lemma bind_if_left:
  "Option.bind (if b then x else y) f = (if b then Option.bind x f else Option.bind y f)"
  by simp

lemma map_option_bind_prod:
  "map_option h (Option.bind m f) = Option.bind m (\<lambda>x. map_option h (f x))"
  by (cases m) auto

lemma bind_pair_map:
  "Option.bind m (\<lambda>(a, b). Some (a, f b)) = map_option (map_prod id f) m"
  by (cases m) auto

section \<open>Words\<close>

lemma byte_of_widen [simp]: "narrow (widen b) = b"
  by (rule bit_word_eqI) (simp add: bit_simps)

lemma low_mask: "(0xFF :: u16) = mask 8"
  by (simp add: mask_eq_decr_exp)

lemma high_mask: "(0xFF00 :: u16) = push_bit 8 (mask 8)"
  by (simp add: mask_eq_decr_exp)

lemma bit_low_mask: "bit (0xFF :: u16) n \<longleftrightarrow> n < 8"
  unfolding low_mask by (auto simp: bit_simps)

lemma bit_high_mask: "bit (0xFF00 :: u16) n \<longleftrightarrow> 8 \<le> n \<and> n < 16"
  unfolding high_mask by (auto simp: bit_simps)

lemma narrow_mask [simp]: "narrow (w AND 0xFF) = narrow w"
  unfolding low_mask by (rule bit_word_eqI) (auto simp: bit_simps)

lemma unat_u16: "unat (w :: u16) < 65536"
  using unsigned_less [of w] by simp

lemma unat_u8: "unat (w :: u8) < 256"
  using unsigned_less [of w] by simp

text \<open>Splitting a 16-bit value into its two bytes and joining them again.\<close>

definition hi_byte :: "u16 \<Rightarrow> u8" where
  "hi_byte w = ucast (drop_bit 8 (w AND 0xFF00))"

definition lo_byte :: "u16 \<Rightarrow> u8" where
  "lo_byte w = ucast (w AND 0x00FF)"

definition join_bytes :: "u8 \<Rightarrow> u8 \<Rightarrow> u16" where
  "join_bytes lo hi = widen lo OR push_bit 8 (widen hi)"

lemmas byte_split_defs = join_bytes_def lo_byte_def hi_byte_def low_mask high_mask

lemma join_hi_lo [simp]: "join_bytes (lo_byte w) (hi_byte w) = w"
  unfolding byte_split_defs by (rule bit_word_eqI) (auto simp: bit_simps)

lemma lo_join [simp]: "lo_byte (join_bytes lo hi) = lo"
  unfolding byte_split_defs by (rule bit_word_eqI) (auto simp: bit_simps)

lemma hi_join [simp]: "hi_byte (join_bytes lo hi) = hi"
  unfolding byte_split_defs
  by (rule bit_word_eqI) (auto simp: bit_simps dest: bit_imp_le_length)

end
