(* ===== verification/C_Strings.thy ===== *)
theory C_Strings
  imports Prelude
begin

text \<open>
  What the programs use of the C library on strings: character classes, comparisons without case,
  \<^verbatim>\<open>strtoul\<close> and \<^verbatim>\<open>strtol\<close> in the C locale, some conversions of \<^verbatim>\<open>printf\<close>.  A C string is
  the list of its characters before the NUL, a pointer into it the rest from there.
\<close>

section \<open>Characters\<close>

definition char_code :: "char \<Rightarrow> nat" where
  "char_code c = of_char c"

definition c_isspace :: "char \<Rightarrow> bool" where
  "c_isspace c \<longleftrightarrow> char_code c = 32 \<or> 9 \<le> char_code c \<and> char_code c \<le> 13"

definition c_isdigit :: "char \<Rightarrow> bool" where
  "c_isdigit c \<longleftrightarrow> 48 \<le> char_code c \<and> char_code c \<le> 57"

definition digit_value :: "char \<Rightarrow> nat option" where
  "digit_value c =
    (let n = char_code c in
     if 48 \<le> n \<and> n \<le> 57 then Some (n - 48)
     else if 65 \<le> n \<and> n \<le> 70 then Some (n - 55)
     else if 97 \<le> n \<and> n \<le> 102 then Some (n - 87)
     else None)"

definition c_isxdigit :: "char \<Rightarrow> bool" where
  "c_isxdigit c \<longleftrightarrow> digit_value c \<noteq> None"

definition c_tolower :: "char \<Rightarrow> char" where
  "c_tolower c = (if 65 \<le> char_code c \<and> char_code c \<le> 90 then char_of (char_code c + 32) else c)"

text \<open>\<open>strncasecmp(s, p, strlen(p)) == 0\<close> and \<open>strcasecmp(s, p) == 0\<close>\<close>

definition has_prefix_nocase :: "string \<Rightarrow> string \<Rightarrow> bool" where
  "has_prefix_nocase p s \<longleftrightarrow> List.map c_tolower (take (length p) s) = List.map c_tolower p"

definition equal_nocase :: "string \<Rightarrow> string \<Rightarrow> bool" where
  "equal_nocase s p \<longleftrightarrow> List.map c_tolower s = List.map c_tolower p"

section \<open>Numbers\<close>

fun read_digits :: "nat \<Rightarrow> nat \<Rightarrow> string \<Rightarrow> nat \<times> string" where
  "read_digits base v [] = (v, [])"
| "read_digits base v (c # cs) =
    (case digit_value c of
       Some d \<Rightarrow> if d < base then read_digits base (v * base + d) cs else (v, c # cs)
     | None \<Rightarrow> (v, c # cs))"

text \<open>The prefix \<open>0x\<close> counts only in front of a hexadecimal digit.\<close>

definition read_base :: "nat \<Rightarrow> string \<Rightarrow> nat \<times> string" where
  "read_base base s =
    (case s of
       a # x # c # cs \<Rightarrow>
         if (base = 0 \<or> base = 16) \<and> a = CHR ''0'' \<and> c_tolower x = CHR ''x'' \<and> c_isxdigit c
         then (16, c # cs)
         else (if base \<noteq> 0 then base else if a = CHR ''0'' then 8 else 10, s)
     | a # cs \<Rightarrow> (if base \<noteq> 0 then base else if a = CHR ''0'' then 8 else 10, s)
     | [] \<Rightarrow> (if base \<noteq> 0 then base else 10, s))"

definition read_sign :: "string \<Rightarrow> bool \<times> string" where
  "read_sign s =
    (case s of
       c # cs \<Rightarrow> if c = CHR ''-'' then (True, cs) else if c = CHR ''+'' then (False, cs) else (False, s)
     | [] \<Rightarrow> (False, s))"

text \<open>Sign, magnitude and rest, or \<open>None\<close> when there is no digit.\<close>

definition read_number :: "nat \<Rightarrow> string \<Rightarrow> (bool \<times> nat \<times> string) option" where
  "read_number base s =
    (let (neg, s) = read_sign (dropWhile c_isspace s);
         (base, s) = read_base base s;
         (v, rest) = read_digits base 0 s
     in if length rest < length s then Some (neg, v, rest) else None)"

text \<open>Both answer 0 and the start of the string where there is no number, and the nearest bound where
  the number is out of range.\<close>

definition c_strtoul :: "nat \<Rightarrow> string \<Rightarrow> u64 \<times> string" where
  "c_strtoul base s =
    (case read_number base s of
       None \<Rightarrow> (0, s)
     | Some (neg, v, rest) \<Rightarrow>
         (if v \<ge> 2 ^ 64 then - 1 else if neg then - of_nat v else of_nat v, rest))"

definition c_strtol :: "nat \<Rightarrow> string \<Rightarrow> int \<times> string" where
  "c_strtol base s =
    (case read_number base s of
       None \<Rightarrow> (0, s)
     | Some (neg, v, rest) \<Rightarrow>
         (max (- (2 ^ 63)) (min (2 ^ 63 - 1) (if neg then - int v else int v)), rest))"

section \<open>Printed numbers\<close>

definition hex_digit :: "nat \<Rightarrow> char" where
  "hex_digit n = ''0123456789ABCDEF'' ! n"

fun hex_text :: "nat \<Rightarrow> nat \<Rightarrow> string" where
  "hex_text 0 n = []"
| "hex_text (Suc w) n = hex_text w (n div 16) @ [hex_digit (n mod 16)]"

definition hex2 :: "u8 \<Rightarrow> string" where "hex2 v = hex_text 2 (unat v)"
definition hex4 :: "u16 \<Rightarrow> string" where "hex4 v = hex_text 4 (unat v)"

fun dec_text :: "nat \<Rightarrow> string" where
  "dec_text n = (if n < 10 then [hex_digit n] else dec_text (n div 10) @ [hex_digit (n mod 10)])"

declare dec_text.simps [simp del]

text \<open>\<^verbatim>\<open>%+hhd\<close>\<close>

definition signed_text :: "u8 \<Rightarrow> string" where
  "signed_text v = (if sint v < 0 then ''-'' else ''+'') @ dec_text (nat \<bar>sint v\<bar>)"

text \<open>Evaluation of a printed number.\<close>

lemma hex_text_eval:
  "hex_text (numeral k) n = hex_text (pred_numeral k) (n div 16) @ [hex_digit (n mod 16)]"
  "hex_digit n = ''0123456789ABCDEF'' ! n"
  by (simp_all only: numeral_eq_Suc [of k] hex_text.simps hex_digit_def)

lemma hex_digit_cases:
  assumes "n < 16"
  shows "digit_value (hex_digit n) = Some n" "\<not> c_isspace (hex_digit n)" "c_tolower (hex_digit n) \<noteq> CHR ''x''"
    "hex_digit n \<noteq> CHR ''-''" "hex_digit n \<noteq> CHR ''+''" "hex_digit n \<noteq> CHR ''@''" "hex_digit n \<noteq> CHR ''x''"
proof -
  have "list_all (\<lambda>n. digit_value (hex_digit n) = Some n \<and> \<not> c_isspace (hex_digit n)
      \<and> c_tolower (hex_digit n) \<noteq> CHR ''x'' \<and> hex_digit n \<noteq> CHR ''-'' \<and> hex_digit n \<noteq> CHR ''+''
      \<and> hex_digit n \<noteq> CHR ''@'' \<and> hex_digit n \<noteq> CHR ''x'') [0..<16]"
    by code_simp
  then show "digit_value (hex_digit n) = Some n" "\<not> c_isspace (hex_digit n)" "c_tolower (hex_digit n) \<noteq> CHR ''x''"
    "hex_digit n \<noteq> CHR ''-''" "hex_digit n \<noteq> CHR ''+''" "hex_digit n \<noteq> CHR ''@''" "hex_digit n \<noteq> CHR ''x''"
    using assms by (auto simp: list_all_iff)
qed

lemma length_hex_text [simp]: "length (hex_text w n) = w"
  by (induction w arbitrary: n) auto

lemma hex_text_digit: "c \<in> set (hex_text w n) \<Longrightarrow> \<exists>d < 16. c = hex_digit d"
proof (induction w arbitrary: n)
  case (Suc w)
  moreover have "n mod 16 < 16" by simp
  ultimately show ?case by (auto simp del: mod_less_divisor)
qed simp

lemma read_hex_text:
  "read_digits 16 v (hex_text w n @ rest) = read_digits 16 (v * 16 ^ w + n mod 16 ^ w) rest"
proof (induction w arbitrary: n rest)
  case (Suc w)
  have "n mod 16 ^ Suc w = 16 * (n div 16 mod 16 ^ w) + n mod 16"
    using mod_mult2_eq [of n 16 "16 ^ w"] by simp
  then show ?case by (simp add: Suc hex_digit_cases algebra_simps)
qed simp

text \<open>The characters at which a number of the given base stops.\<close>

definition stops :: "nat \<Rightarrow> string \<Rightarrow> bool" where
  "stops base s \<longleftrightarrow> (case s of [] \<Rightarrow> True | c # _ \<Rightarrow> (case digit_value c of None \<Rightarrow> True | Some d \<Rightarrow> base \<le> d))"

lemma read_stops: "stops base s \<Longrightarrow> read_digits base v s = (v, s)"
  by (cases s) (auto simp: stops_def split: option.splits)

lemma strtoul_hex_text:
  assumes "2 \<le> w" "w \<le> 16" "n < 16 ^ w" "stops 16 rest"
  shows "c_strtoul 16 (hex_text w n @ rest) = (of_nat n, rest)"
proof -
  obtain a b xs where h: "hex_text w n = a # b # xs"
    using assms(1) length_hex_text [of w n] by (cases "hex_text w n"; cases "tl (hex_text w n)") auto
  have d: "\<exists>d < 16. a = hex_digit d" "\<exists>d < 16. b = hex_digit d"
    using hex_text_digit [of _ w n] h by auto
  have "\<not> c_isspace a" "a \<noteq> CHR ''-''" "a \<noteq> CHR ''+''" "c_tolower b \<noteq> CHR ''x''"
    using d by (auto simp: hex_digit_cases)
  then have "read_sign (dropWhile c_isspace (hex_text w n @ rest)) = (False, hex_text w n @ rest)"
    "read_base 16 (hex_text w n @ rest) = (16, hex_text w n @ rest)"
    by (simp_all add: h read_sign_def read_base_def split: list.split)
  then have "read_number 16 (hex_text w n @ rest) = Some (False, n, rest)"
    using assms by (simp add: read_number_def read_hex_text read_stops)
  moreover have "n < 2 ^ 64"
  proof -
    have "(16::nat) ^ w \<le> 16 ^ 16" using assms(2) by (intro power_increasing) auto
    then show ?thesis using assms(3) by simp
  qed
  ultimately show ?thesis by (simp add: c_strtoul_def)
qed

end
