(* ===== verification/Registers.thy ===== *)
theory Registers
  imports Prelude
begin

text \<open>
  The register file of \<^verbatim>\<open>src/registers.h\<close> and \<^verbatim>\<open>src/registers.c\<close>: the record, the bits of
  the status register, the bit accessors and the operations that set the status bits from a
  value.  A carry disposition is the C \<^verbatim>\<open>int\<close> it is in the source.  The two print functions
  are left out except for the list of status bits they print.
\<close>

section \<open>Data\<close>

definition register_SR_Bit_C :: u8 where "register_SR_Bit_C = 0x01"
definition register_SR_Bit_Z :: u8 where "register_SR_Bit_Z = 0x02"
definition register_SR_Bit_I :: u8 where "register_SR_Bit_I = 0x04"
definition register_SR_Bit_D :: u8 where "register_SR_Bit_D = 0x08"
definition register_SR_Bit_B :: u8 where "register_SR_Bit_B = 0x10"
definition register_SR_Bit_IGN :: u8 where "register_SR_Bit_IGN = 0x20"
definition register_SR_Bit_V :: u8 where "register_SR_Bit_V = 0x40"
definition register_SR_Bit_N :: u8 where "register_SR_Bit_N = 0x80"

lemmas sr_bit_defs =
  register_SR_Bit_C_def register_SR_Bit_Z_def register_SR_Bit_I_def register_SR_Bit_D_def
  register_SR_Bit_B_def register_SR_Bit_IGN_def register_SR_Bit_V_def register_SR_Bit_N_def

record registers =
  reg_A :: u8
  reg_X :: u8
  reg_Y :: u8
  reg_SP :: u8
  reg_PC :: u16
  reg_SR :: u8

definition registers_Carry_clear :: int where "registers_Carry_clear = 0"
definition registers_Carry_set :: int where "registers_Carry_set = 1"
definition registers_Carry_ignore :: int where "registers_Carry_ignore = 2"

lemmas carry_defs = registers_Carry_clear_def registers_Carry_set_def registers_Carry_ignore_def

section \<open>Operations\<close>

definition registers_SR_get_bit :: "registers \<Rightarrow> u8 \<Rightarrow> u8" where
  "registers_SR_get_bit r which_bit = (if reg_SR r AND which_bit \<noteq> 0 then 1 else 0)"

definition registers_SR_set_bit :: "registers \<Rightarrow> u8 \<Rightarrow> u8 \<Rightarrow> registers" where
  "registers_SR_set_bit r which_bit v =
     (if v \<noteq> 0 then r\<lparr>reg_SR := reg_SR r OR which_bit\<rparr>
      else r\<lparr>reg_SR := reg_SR r AND NOT which_bit\<rparr>)"

definition registers_reset :: "registers \<Rightarrow> registers" where
  "registers_reset r = r\<lparr>reg_A := 0, reg_X := 0, reg_Y := 0, reg_SP := 0, reg_PC := 0xFFFC,
     reg_SR := 0\<rparr>"

text \<open>\<^verbatim>\<open>registers_init(NULL)\<close> allocates; the fresh record is the parameter.\<close>

definition registers_init :: "registers option \<Rightarrow> registers \<Rightarrow> registers" where
  "registers_init the_registers fresh =
     (case the_registers of Some r \<Rightarrow> registers_reset r | None \<Rightarrow> registers_reset fresh)"

definition registers_status_with_value :: "registers \<Rightarrow> u8 \<Rightarrow> int \<Rightarrow> registers" where
  "registers_status_with_value r v carry_status =
    (let r = registers_SR_set_bit r register_SR_Bit_Z (of_bool (v = 0));
         r = registers_SR_set_bit r register_SR_Bit_N (of_bool (v AND 0x80 = 0x80))
     in if carry_status < registers_Carry_ignore
        then registers_SR_set_bit r register_SR_Bit_C (word_of_int carry_status) else r)"

definition registers_did_set_A :: "registers \<Rightarrow> int \<Rightarrow> registers" where
  "registers_did_set_A r carry_status =
    (let r = registers_SR_set_bit r register_SR_Bit_Z (of_bool (reg_A r = 0));
         r = registers_SR_set_bit r register_SR_Bit_N (of_bool (reg_A r AND 0x80 = 0x80))
     in if carry_status < registers_Carry_ignore
        then registers_SR_set_bit r register_SR_Bit_C (word_of_int carry_status) else r)"

definition registers_did_set_X :: "registers \<Rightarrow> int \<Rightarrow> registers" where
  "registers_did_set_X r carry_status =
    (let r = registers_SR_set_bit r register_SR_Bit_Z (of_bool (reg_X r = 0));
         r = registers_SR_set_bit r register_SR_Bit_N (of_bool (reg_X r AND 0x80 = 0x80))
     in if carry_status < registers_Carry_ignore
        then registers_SR_set_bit r register_SR_Bit_C (word_of_int carry_status) else r)"

definition registers_did_set_Y :: "registers \<Rightarrow> int \<Rightarrow> registers" where
  "registers_did_set_Y r carry_status =
    (let r = registers_SR_set_bit r register_SR_Bit_Z (of_bool (reg_Y r = 0));
         r = registers_SR_set_bit r register_SR_Bit_N (of_bool (reg_Y r AND 0x80 = 0x80))
     in if carry_status < registers_Carry_ignore
        then registers_SR_set_bit r register_SR_Bit_C (word_of_int carry_status) else r)"

text \<open>The integer arguments of the status part of \<^verbatim>\<open>registers_snprintf\<close>, in print order: the
  format string labels them N V B D I Z C.\<close>

definition registers_printed_SR :: "registers \<Rightarrow> u8 list" where
  "registers_printed_SR r = List.map (registers_SR_get_bit r)
     [register_SR_Bit_N, register_SR_Bit_V, register_SR_Bit_B, register_SR_Bit_D,
      register_SR_Bit_IGN, register_SR_Bit_Z, register_SR_Bit_C]"

section \<open>Laws\<close>

lemma set_bit_simps [simp]:
  "reg_A (registers_SR_set_bit r b v) = reg_A r"
  "reg_X (registers_SR_set_bit r b v) = reg_X r"
  "reg_Y (registers_SR_set_bit r b v) = reg_Y r"
  "reg_SP (registers_SR_set_bit r b v) = reg_SP r"
  "reg_PC (registers_SR_set_bit r b v) = reg_PC r"
  "reg_SR (registers_SR_set_bit r b v) =
     (if v = 0 then reg_SR r AND NOT b else reg_SR r OR b)"
  by (simp_all add: registers_SR_set_bit_def)

lemma and_single_bit: "(w AND push_bit n 1 = (0 :: 'a::len word)) \<longleftrightarrow> \<not> bit w n"
  unfolding bit_eq_iff by (auto simp: bit_simps dest: bit_imp_le_length)

text \<open>The status bits are the eight bits of a byte.\<close>

lemma sr_bits_push:
  "register_SR_Bit_C = push_bit 0 1" "register_SR_Bit_Z = push_bit 1 1"
  "register_SR_Bit_I = push_bit 2 1" "register_SR_Bit_D = push_bit 3 1"
  "register_SR_Bit_B = push_bit 4 1" "register_SR_Bit_IGN = push_bit 5 1"
  "register_SR_Bit_V = push_bit 6 1" "register_SR_Bit_N = push_bit 7 1"
  by (simp_all add: sr_bit_defs)

lemma get_bit_iff:
  "registers_SR_get_bit r register_SR_Bit_C = of_bool (bit (reg_SR r) 0)"
  "registers_SR_get_bit r register_SR_Bit_Z = of_bool (bit (reg_SR r) 1)"
  "registers_SR_get_bit r register_SR_Bit_I = of_bool (bit (reg_SR r) 2)"
  "registers_SR_get_bit r register_SR_Bit_D = of_bool (bit (reg_SR r) 3)"
  "registers_SR_get_bit r register_SR_Bit_B = of_bool (bit (reg_SR r) 4)"
  "registers_SR_get_bit r register_SR_Bit_IGN = of_bool (bit (reg_SR r) 5)"
  "registers_SR_get_bit r register_SR_Bit_V = of_bool (bit (reg_SR r) 6)"
  "registers_SR_get_bit r register_SR_Bit_N = of_bool (bit (reg_SR r) 7)"
  unfolding registers_SR_get_bit_def sr_bits_push
  by (simp_all only: and_single_bit) (simp_all split: if_splits)

text \<open>Setting a group of bits is seen by a later read of the group, and by no read of a
  disjoint group.\<close>

lemma get_set_bit_same:
  "b \<noteq> 0 \<Longrightarrow> registers_SR_get_bit (registers_SR_set_bit r b v) b = (if v = 0 then 0 else 1)"
proof -
  assume "b \<noteq> 0"
  moreover have "(reg_SR r OR b) AND b = b"
    by (rule bit_word_eqI) (auto simp: bit_simps)
  moreover have "(reg_SR r AND NOT b) AND b = 0"
    by (rule bit_word_eqI) (auto simp: bit_simps)
  ultimately show ?thesis by (simp add: registers_SR_get_bit_def)
qed

lemma get_set_bit_other:
  assumes "b AND b' = 0"
  shows "registers_SR_get_bit (registers_SR_set_bit r b v) b' = registers_SR_get_bit r b'"
proof -
  have n: "\<not> bit b n" if "bit b' n" for n
    using assms that by (metis bit_0_eq bit_and_iff bot_apply bot_bool_def)
  have "(reg_SR r OR b) AND b' = reg_SR r AND b'"
    by (rule bit_word_eqI) (auto simp: bit_simps n)
  moreover have "(reg_SR r AND NOT b) AND b' = reg_SR r AND b'"
    by (rule bit_word_eqI) (auto simp: bit_simps n dest: bit_imp_le_length)
  ultimately show ?thesis by (simp add: registers_SR_get_bit_def)
qed

text \<open>The four status setters differ only in the value they look at.\<close>

lemma did_set_is_status:
  "registers_did_set_A r cy = registers_status_with_value r (reg_A r) cy"
  "registers_did_set_X r cy = registers_status_with_value r (reg_X r) cy"
  "registers_did_set_Y r cy = registers_status_with_value r (reg_Y r) cy"
  by (simp_all add: registers_did_set_A_def registers_did_set_X_def registers_did_set_Y_def
      registers_status_with_value_def Let_def)

lemma status_frame [simp]:
  "reg_A (registers_status_with_value r v cy) = reg_A r"
  "reg_X (registers_status_with_value r v cy) = reg_X r"
  "reg_Y (registers_status_with_value r v cy) = reg_Y r"
  "reg_SP (registers_status_with_value r v cy) = reg_SP r"
  "reg_PC (registers_status_with_value r v cy) = reg_PC r"
  by (simp_all add: registers_status_with_value_def Let_def)

lemma sr_bits_disjoint:
  "register_SR_Bit_Z AND register_SR_Bit_N = 0" "register_SR_Bit_Z AND register_SR_Bit_C = 0"
  "register_SR_Bit_N AND register_SR_Bit_Z = 0" "register_SR_Bit_N AND register_SR_Bit_C = 0"
  "register_SR_Bit_C AND register_SR_Bit_Z = 0" "register_SR_Bit_C AND register_SR_Bit_N = 0"
  by (simp_all add: sr_bit_defs)

lemma sr_bits_nonzero:
  "register_SR_Bit_Z \<noteq> 0" "register_SR_Bit_N \<noteq> 0" "register_SR_Bit_C \<noteq> 0"
  by (simp_all add: sr_bit_defs)

lemma status_bits:
  "registers_SR_get_bit (registers_status_with_value r v cy) register_SR_Bit_Z = of_bool (v = 0)"
  "registers_SR_get_bit (registers_status_with_value r v cy) register_SR_Bit_N
     = of_bool (v AND 0x80 = 0x80)"
  "registers_SR_get_bit (registers_status_with_value r v cy) register_SR_Bit_C =
     (if cy < 2 then of_bool (word_of_int cy \<noteq> (0 :: u8))
      else registers_SR_get_bit r register_SR_Bit_C)"
  by (simp_all add: registers_status_with_value_def Let_def carry_defs get_set_bit_same
      get_set_bit_other sr_bits_disjoint sr_bits_nonzero)

lemma sign_bit: "(v AND 0x80 = (0x80 :: u8)) \<longleftrightarrow> sint v < 0"
proof -
  have "(v AND 0x80 = (0x80 :: u8)) \<longleftrightarrow> bit v 7"
  proof
    assume "v AND 0x80 = 0x80"
    then have "bit (v AND push_bit 7 1) 7" by simp
    then show "bit v 7" by (simp only: bit_and_iff)
  next
    assume b: "bit v 7"
    have "v AND push_bit 7 1 = push_bit 7 1"
    proof (rule bit_word_eqI)
      fix n show "bit (v AND push_bit 7 1) n = bit (push_bit 7 1 :: u8) n"
        using b by (cases "n = 7") (auto simp only: bit_and_iff bit_push_bit_iff bit_1_iff)
    qed
    then show "v AND 0x80 = 0x80" by simp
  qed
  also have "bit v 7 \<longleftrightarrow> sint v < 0"
    using bit_last_iff [of v] by simp
  finally show ?thesis .
qed

end
