(* ===== verification/Addr_Range.thy ===== *)
theory Addr_Range
  imports Prelude
begin

text \<open>
  Address ranges, \<^verbatim>\<open>src/libmembus/memory_addr_range.h\<close> and \<^verbatim>\<open>.c\<close>: a start address and a
  length, both 16 bits wide, with the C arithmetic written out (32-bit sums where the source
  widens, 16-bit wrap where it stores into a \<^verbatim>\<open>uint16_t\<close>).
\<close>

section \<open>Data and operations\<close>

record memory_addr_range =
  addr_lo :: u16
  addr_len :: u16

definition memory_addr_range_undef :: memory_addr_range where
  "memory_addr_range_undef = \<lparr>addr_lo = 0, addr_len = 0\<rparr>"

definition memory_addr_range_with_lo_and_hi :: "u16 \<Rightarrow> u16 \<Rightarrow> memory_addr_range" where
  "memory_addr_range_with_lo_and_hi lo hi = \<lparr>addr_lo = lo, addr_len = hi - lo + 1\<rparr>"

definition memory_addr_range_with_lo_and_len :: "u16 \<Rightarrow> u16 \<Rightarrow> memory_addr_range" where
  "memory_addr_range_with_lo_and_len lo len = \<lparr>addr_lo = lo, addr_len = len\<rparr>"

text \<open>\<open>(uint32_t)lo + (uint32_t)len\<close>\<close>

definition range_sum :: "memory_addr_range \<Rightarrow> u32" where
  "range_sum r = ucast (addr_lo r) + ucast (addr_len r)"

definition memory_addr_range_get_end :: "memory_addr_range \<Rightarrow> u16" where
  "memory_addr_range_get_end r =
     (let addr_end = range_sum r in if addr_end < 0x00010000 then ucast addr_end else 0xFFFF)"

definition memory_addr_range_get_end_with_wrap :: "memory_addr_range \<Rightarrow> u16" where
  "memory_addr_range_get_end_with_wrap r = ucast (range_sum r AND 0xFFFF)"

text \<open>The comparison promotes its operands to \<^verbatim>\<open>int\<close>, so it does not wrap.\<close>

definition memory_addr_range_does_include :: "memory_addr_range \<Rightarrow> u16 \<Rightarrow> bool" where
  "memory_addr_range_does_include r idx \<longleftrightarrow>
     addr_len r \<noteq> 0 \<and> addr_lo r \<le> idx \<and> uint idx < uint (addr_lo r) + uint (addr_len r)"

definition range_last :: "memory_addr_range \<Rightarrow> u16" where
  "range_last r = addr_lo r + addr_len r - 1"

definition memory_addr_range_do_intersect ::
    "memory_addr_range \<Rightarrow> memory_addr_range \<Rightarrow> bool" where
  "memory_addr_range_do_intersect r1 r2 =
    (if addr_len r2 \<noteq> 0 \<and> addr_len r1 \<noteq> 0
     then if addr_lo r2 \<le> addr_lo r1 then range_last r2 \<ge> addr_lo r1
          else range_last r1 \<ge> addr_lo r2
     else False)"

definition memory_addr_range_intersection ::
    "memory_addr_range \<Rightarrow> memory_addr_range \<Rightarrow> memory_addr_range" where
  "memory_addr_range_intersection r1 r2 =
    (if addr_len r2 \<noteq> 0 \<and> addr_len r1 \<noteq> 0
     then if addr_lo r2 \<le> addr_lo r1
          then let r1end = range_last r1; r2end = range_last r2
               in if r2end \<ge> addr_lo r1
                  then \<lparr>addr_lo = addr_lo r1,
                        addr_len = (if r2end \<le> r1end then r2end else r1end) - addr_lo r1 + 1\<rparr>
                  else memory_addr_range_undef
          else let r1end = range_last r1; r2end = range_last r2
               in if r1end \<ge> addr_lo r2
                  then \<lparr>addr_lo = addr_lo r2,
                        addr_len = (if r1end \<le> r2end then r1end else r2end) - addr_lo r2 + 1\<rparr>
                  else memory_addr_range_undef
     else memory_addr_range_undef)"

definition memory_addr_range_union ::
    "memory_addr_range \<Rightarrow> memory_addr_range \<Rightarrow> memory_addr_range" where
  "memory_addr_range_union r1 r2 =
    (if addr_len r2 \<noteq> 0 \<and> addr_len r1 \<noteq> 0
     then if addr_lo r2 \<le> addr_lo r1
          then let r1end = range_last r1; r2end = range_last r2
               in if r2end \<ge> addr_lo r1
                  then \<lparr>addr_lo = addr_lo r2,
                        addr_len = (if r2end \<le> r1end then r1end else r2end) - addr_lo r2 + 1\<rparr>
                  else memory_addr_range_undef
          else let r1end = range_last r1; r2end = range_last r2
               in if r1end \<ge> addr_lo r2
                  then \<lparr>addr_lo = addr_lo r1,
                        addr_len = (if r1end \<le> r2end then r2end else r1end) - addr_lo r1 + 1\<rparr>
                  else memory_addr_range_undef
     else memory_addr_range_undef)"

section \<open>Ranges as sets of addresses\<close>

definition range_set :: "memory_addr_range \<Rightarrow> u16 set" where
  "range_set r = {a. memory_addr_range_does_include r a}"

text \<open>A range that ends at or before the top of the address space.\<close>

definition range_fits :: "memory_addr_range \<Rightarrow> bool" where
  "range_fits r \<longleftrightarrow> unat (addr_lo r) + unat (addr_len r) \<le> 0x10000"

lemma nonempty_len: "addr_len r \<noteq> 0 \<longleftrightarrow> 0 < unat (addr_len r)"
  by (simp add: unat_gt_0)

lemma unat_range_last:
  assumes "range_fits r" "addr_len r \<noteq> 0"
  shows "unat (range_last r) = unat (addr_lo r) + unat (addr_len r) - 1"
proof -
  let ?n = "unat (addr_lo r) + unat (addr_len r) - 1"
  have "1 \<le> unat (addr_lo r) + unat (addr_len r)"
    using assms(2) by (simp add: nonempty_len)
  then have "range_last r = word_of_nat ?n"
    by (simp add: range_last_def of_nat_diff)
  moreover have "?n < 2 ^ 16"
    using assms by (auto simp: range_fits_def nonempty_len)
  ultimately show ?thesis by (simp add: unat_of_nat)
qed

lemma in_range_set:
  "a \<in> range_set r \<longleftrightarrow>
     addr_len r \<noteq> 0 \<and> unat (addr_lo r) \<le> unat a \<and> unat a < unat (addr_lo r) + unat (addr_len r)"
  unfolding range_set_def mem_Collect_eq memory_addr_range_does_include_def word_le_nat_alt
    uint_nat of_nat_add [symmetric] of_nat_less_iff ..

lemma range_set_interval:
  "\<lbrakk>range_fits r; addr_len r \<noteq> 0\<rbrakk> \<Longrightarrow> range_set r = {addr_lo r .. range_last r}"
  by (auto simp: in_range_set word_le_nat_alt unat_range_last nonempty_len)

lemma range_set_empty: "addr_len r = 0 \<Longrightarrow> range_set r = {}"
  by (auto simp: in_range_set)

lemma unat_interval_len:
  assumes "lo \<le> hi" "\<not> (lo = 0 \<and> hi = 0xFFFF)"
  shows "unat (hi - lo + 1 :: u16) = unat hi - unat lo + 1"
proof -
  have le: "unat lo \<le> unat hi" using assms(1) by (simp add: word_le_nat_alt)
  have w: "hi - lo + 1 = word_of_nat (unat hi - unat lo + 1)"
    using le by (simp add: of_nat_diff)
  have "unat hi < 65536" by (rule unat_u16)
  have "unat hi = 65535 \<Longrightarrow> unat lo = 0 \<Longrightarrow> False"
  proof -
    assume "unat hi = 65535" "unat lo = 0"
    then have "hi = 0xFFFF" "lo = 0" by (simp_all add: word_unat_eq_iff)
    then show False using assms(2) by simp
  qed
  with \<open>unat hi < 65536\<close> le have "unat hi - unat lo + 1 < 65536" by arith
  then show ?thesis unfolding w unat_of_nat by simp
qed

lemma interval_range_set:
  assumes "lo \<le> hi" "\<not> (lo = 0 \<and> hi = 0xFFFF)"
  shows "range_set \<lparr>addr_lo = lo, addr_len = hi - lo + 1\<rparr> = {lo .. hi}"
proof -
  let ?r = "\<lparr>addr_lo = lo, addr_len = hi - lo + 1\<rparr>"
  have n: "unat (addr_len ?r) = unat hi - unat lo + 1"
    using unat_interval_len [OF assms] by simp
  have le: "unat lo \<le> unat hi" using assms(1) by (simp add: word_le_nat_alt)
  have "unat hi < 65536" by (rule unat_u16)
  then have fits: "range_fits ?r" using n le by (simp add: range_fits_def)
  have "addr_len ?r \<noteq> 0" unfolding nonempty_len n by simp
  with fits have "range_set ?r = {addr_lo ?r .. range_last ?r}" by (rule range_set_interval)
  then show ?thesis by (simp add: range_last_def)
qed

lemma range_last_top:
  assumes "range_fits r" "addr_lo r = 0" shows "range_last r \<noteq> 0xFFFF \<or> addr_len r = 0"
proof (rule disjCI)
  assume n: "addr_len r \<noteq> 0"
  have "unat (addr_len r) < 65536" by (rule unat_u16)
  then have "unat (range_last r) \<noteq> 65535"
    using unat_range_last [OF assms(1) n] assms(2) n by (simp add: nonempty_len)
  then show "range_last r \<noteq> 0xFFFF" by auto
qed

lemma lo_le_last:
  "\<lbrakk>range_fits r; addr_len r \<noteq> 0\<rbrakk> \<Longrightarrow> addr_lo r \<le> range_last r"
  by (auto simp: word_le_nat_alt unat_range_last nonempty_len)

text \<open>The intersection of two intervals with their ends.\<close>

lemma range_set_intersection:
  assumes "range_fits r1" "range_fits r2"
  shows "range_set (memory_addr_range_intersection r1 r2) = range_set r1 \<inter> range_set r2"
proof (cases "addr_len r1 \<noteq> 0 \<and> addr_len r2 \<noteq> 0")
  case False
  then show ?thesis
    by (auto simp: memory_addr_range_intersection_def memory_addr_range_undef_def in_range_set)
next
  case True
  let ?lo = "max (addr_lo r1) (addr_lo r2)" and ?hi = "min (range_last r1) (range_last r2)"
  have sets: "range_set r1 \<inter> range_set r2 = {?lo .. ?hi}"
    using True assms by (auto simp: range_set_interval)
  have last: "addr_lo r1 \<le> range_last r1" "addr_lo r2 \<le> range_last r2"
    using True assms by (auto intro: lo_le_last)
  have eq: "memory_addr_range_intersection r1 r2 =
      (if ?lo \<le> ?hi then \<lparr>addr_lo = ?lo, addr_len = ?hi - ?lo + 1\<rparr> else memory_addr_range_undef)"
    using True last by (auto simp: memory_addr_range_intersection_def Let_def max_def min_def)
  show ?thesis
  proof (cases "?lo \<le> ?hi")
    case le: True
    have "\<not> (?lo = 0 \<and> ?hi = 0xFFFF)"
    proof
      assume a: "?lo = 0 \<and> ?hi = 0xFFFF"
      have "addr_lo r1 \<le> 0" "0xFFFF \<le> range_last r1"
        using a by (metis max.cobounded1, metis min.cobounded1)
      then have "addr_lo r1 = 0" "range_last r1 = 0xFFFF"
        using unat_u16 [of "range_last r1"] by (simp_all add: word_le_nat_alt word_unat_eq_iff)
      with range_last_top [OF assms(1)] True show False by simp
    qed
    then have "range_set \<lparr>addr_lo = ?lo, addr_len = ?hi - ?lo + 1\<rparr> = {?lo .. ?hi}"
      by (rule interval_range_set [OF le])
    then show ?thesis unfolding sets eq using le by (simp only: if_True)
  next
    case False
    then show ?thesis unfolding sets eq if_not_P [OF False] by (simp add: range_set_empty memory_addr_range_undef_def)
  qed
qed

text \<open>Two ranges intersect when they share an address.\<close>

lemma do_intersect_iff:
  assumes "range_fits r1" "range_fits r2"
  shows "memory_addr_range_do_intersect r1 r2 \<longleftrightarrow> range_set r1 \<inter> range_set r2 \<noteq> {}"
proof (cases "addr_len r1 \<noteq> 0 \<and> addr_len r2 \<noteq> 0")
  case False
  then show ?thesis by (auto simp: memory_addr_range_do_intersect_def range_set_empty)
next
  case True
  then have "addr_lo r1 \<le> range_last r1" "addr_lo r2 \<le> range_last r2"
    using assms by (auto intro: lo_le_last)
  moreover have "range_set r1 \<inter> range_set r2 =
      {max (addr_lo r1) (addr_lo r2) .. min (range_last r1) (range_last r2)}"
    using True assms by (auto simp: range_set_interval)
  ultimately show ?thesis using True
    by (auto simp: memory_addr_range_do_intersect_def)
qed

text \<open>The union of two ranges that intersect, unless it is the whole address space: its length
  does not fit 16 bits, and the code returns a range of length 0.\<close>

lemma range_set_union:
  assumes fits: "range_fits r1" "range_fits r2"
    and meet: "range_set r1 \<inter> range_set r2 \<noteq> {}"
    and part: "range_set r1 \<union> range_set r2 \<noteq> UNIV"
  shows "range_set (memory_addr_range_union r1 r2) = range_set r1 \<union> range_set r2"
proof -
  have n: "addr_len r1 \<noteq> 0" "addr_len r2 \<noteq> 0"
    using meet by (auto simp: range_set_empty)
  let ?lo = "min (addr_lo r1) (addr_lo r2)" and ?hi = "max (range_last r1) (range_last r2)"
  have I: "range_set r1 = {addr_lo r1 .. range_last r1}" "range_set r2 = {addr_lo r2 .. range_last r2}"
    using fits n by (simp_all add: range_set_interval)
  have x: "addr_lo r1 \<le> range_last r2" "addr_lo r2 \<le> range_last r1"
    using meet unfolding I by auto
  have sets: "range_set r1 \<union> range_set r2 = {?lo .. ?hi}"
    unfolding I using x by (auto simp: min_def max_def)
  have "memory_addr_range_union r1 r2 = \<lparr>addr_lo = ?lo, addr_len = ?hi - ?lo + 1\<rparr>"
    using n x by (auto simp: memory_addr_range_union_def Let_def min_def max_def)
  moreover have "?lo \<le> ?hi" using x by (auto simp: min_def max_def)
  moreover have "\<not> (?lo = 0 \<and> ?hi = 0xFFFF)"
  proof
    assume a: "?lo = 0 \<and> ?hi = 0xFFFF"
    have "x \<le> 0xFFFF" for x :: u16 using unat_u16 [of x] by (simp add: word_le_nat_alt)
    then have "{?lo .. ?hi} = UNIV" using a by auto
    then show False using part sets by simp
  qed
  ultimately show ?thesis using interval_range_set sets by simp
qed

end
