(* ===== verification/Byte_Store.thy ===== *)
theory Byte_Store
  imports Prelude
begin

text \<open>
  The interface the processor relies on: a store of bytes at 16-bit addresses, read and written
  one at a time by operations that may fail and that may change more than the bytes (a bus
  updates its caches on a read).  The laws say that on the addresses in \<open>cells\<close> the operations
  behave as lookup and update of one function \<open>view\<close>.  The modules and the bus interpret the
  locale; its lemmas are what the range operations and the stack need.
\<close>

section \<open>Runs of accesses at consecutive addresses\<close>

fun write_run :: "('s \<Rightarrow> u16 \<Rightarrow> u8 \<Rightarrow> 's option) \<Rightarrow> nat \<Rightarrow> u8 list \<Rightarrow> 's \<Rightarrow> 's option" where
  "write_run wr a [] s = Some s"
| "write_run wr a (b # bs) s = do { s \<leftarrow> wr s (word_of_nat a) b; write_run wr (Suc a) bs s }"

fun read_run :: "('s \<Rightarrow> u16 \<Rightarrow> (u8 \<times> 's) option) \<Rightarrow> nat \<Rightarrow> nat \<Rightarrow> 's \<Rightarrow> (u8 list \<times> 's) option" where
  "read_run rd a 0 s = Some ([], s)"
| "read_run rd a (Suc n) s = do {
     (b, s) \<leftarrow> rd s (word_of_nat a);
     (bs, s) \<leftarrow> read_run rd (Suc a) n s;
     Some (b # bs, s) }"

text \<open>The function that holds \<open>bs\<close> from address \<open>a\<close> on and agrees with \<open>f\<close> elsewhere.\<close>

fun overlay :: "(u16 \<Rightarrow> u8) \<Rightarrow> nat \<Rightarrow> u8 list \<Rightarrow> u16 \<Rightarrow> u8" where
  "overlay f a [] = f"
| "overlay f a (b # bs) = overlay (f(word_of_nat a := b)) (Suc a) bs"

lemma word_of_nat_inj: "\<lbrakk>i < 65536; j < 65536\<rbrakk> \<Longrightarrow> (word_of_nat i :: u16) = word_of_nat j \<longleftrightarrow> i = j"
  by (simp add: word_unat_eq_iff unat_of_nat)

lemma overlay_below: "\<lbrakk>i < a; a + length bs \<le> 65536\<rbrakk> \<Longrightarrow> overlay f a bs (word_of_nat i) = f (word_of_nat i)"
  by (induction bs arbitrary: f a) (auto simp: word_of_nat_inj)

lemma overlay_above:
  "\<lbrakk>a + length bs \<le> i; i < 65536\<rbrakk> \<Longrightarrow> overlay f a bs (word_of_nat i) = f (word_of_nat i)"
  by (induction bs arbitrary: f a) (auto simp: word_of_nat_inj)

lemma overlay_nth:
  "\<lbrakk>i < length bs; a + length bs \<le> 65536\<rbrakk> \<Longrightarrow> overlay f a bs (word_of_nat (a + i)) = bs ! i"
proof (induction bs arbitrary: f a i)
  case (Cons b bs)
  show ?case
  proof (cases i)
    case 0
    then show ?thesis using Cons.prems by (simp add: overlay_below)
  next
    case (Suc j)
    then show ?thesis using Cons.IH [of j "Suc a"] Cons.prems by simp
  qed
qed simp

section \<open>The interface\<close>

locale byte_store =
  fixes ok :: "'s \<Rightarrow> bool"
    and cells :: "u16 set"
    and rd :: "'s \<Rightarrow> u16 \<Rightarrow> (u8 \<times> 's) option"
    and wr :: "'s \<Rightarrow> u16 \<Rightarrow> u8 \<Rightarrow> 's option"
    and view :: "'s \<Rightarrow> u16 \<Rightarrow> u8"
  assumes rd_view: "\<lbrakk>ok s; a \<in> cells\<rbrakk> \<Longrightarrow> \<exists>s'. rd s a = Some (view s a, s') \<and> ok s' \<and> view s' = view s"
    and wr_view: "\<lbrakk>ok s; a \<in> cells\<rbrakk> \<Longrightarrow> \<exists>s'. wr s a v = Some s' \<and> ok s' \<and> view s' = (view s)(a := v)"
begin

lemma read_after_write:
  assumes "ok s" "a \<in> cells" "c \<in> cells"
  shows "\<exists>s1 s2. wr s a v = Some s1 \<and> rd s1 c = Some (if c = a then v else view s c, s2)"
  using wr_view [OF assms(1,2), of v] rd_view assms(3) by fastforce

lemma write_run_view:
  "\<lbrakk>ok s; \<forall>i < length bs. word_of_nat (a + i) \<in> cells\<rbrakk>
    \<Longrightarrow> \<exists>s'. write_run wr a bs s = Some s' \<and> ok s' \<and> view s' = overlay (view s) a bs"
proof (induction bs arbitrary: a s)
  case (Cons b bs)
  then obtain s1 where s1: "wr s (word_of_nat a) b = Some s1" "ok s1"
      "view s1 = (view s)(word_of_nat a := b)"
    using wr_view [of s "word_of_nat a" b] by force
  have "\<forall>i < length bs. word_of_nat (Suc a + i) \<in> cells"
  proof (intro allI impI)
    fix i assume "i < length bs"
    then have "Suc i < length (b # bs)" by simp
    then have "word_of_nat (a + Suc i) \<in> cells" using Cons.prems(2) by blast
    then show "word_of_nat (Suc a + i) \<in> cells" by simp
  qed
  from Cons.IH [OF s1(2) this] obtain s2 where s2: "write_run wr (Suc a) bs s1 = Some s2"
      "ok s2" "view s2 = overlay (view s1) (Suc a) bs"
    by blast
  have "view s2 = overlay (view s) a (b # bs)"
    unfolding s2(3) s1(3) by simp
  with s1(1) s2(1,2) show ?case by simp
qed simp

lemma read_run_view:
  "\<lbrakk>ok s; \<forall>i < n. word_of_nat (a + i) \<in> cells\<rbrakk>
    \<Longrightarrow> \<exists>s'. read_run rd a n s = Some (List.map (\<lambda>i. view s (word_of_nat (a + i))) [0..<n], s')
          \<and> ok s' \<and> view s' = view s"
proof (induction n arbitrary: a s)
  case (Suc n)
  then obtain s1 where s1: "rd s (word_of_nat a) = Some (view s (word_of_nat a), s1)" "ok s1"
      "view s1 = view s"
    using rd_view [of s "word_of_nat a"] by force
  have c: "\<forall>i < n. word_of_nat (Suc a + i) \<in> cells"
  proof (intro allI impI)
    fix i assume "i < n"
    then have "word_of_nat (a + Suc i) \<in> cells" using Suc.prems(2) by blast
    then show "word_of_nat (Suc a + i) \<in> cells" by simp
  qed
  have m: "List.map (\<lambda>i. view s (word_of_nat (a + i))) [0..<Suc n]
      = view s (word_of_nat a) # List.map (\<lambda>i. view s (word_of_nat (Suc a + i))) [0..<n]"
    by (simp add: upt_conv_Cons map_Suc_upt [symmetric] add.assoc add.left_commute del: upt_Suc)
  from Suc.IH [OF s1(2) c] s1 show ?case unfolding m by auto
qed simp

text \<open>Writing a block and reading it back returns the block.\<close>

lemma write_read_run:
  assumes "ok s" "a + length bs \<le> 65536" "\<forall>i < length bs. word_of_nat (a + i) \<in> cells"
  shows "\<exists>s1 s2. write_run wr a bs s = Some s1 \<and> read_run rd a (length bs) s1 = Some (bs, s2)
      \<and> ok s2 \<and> view s2 = overlay (view s) a bs"
proof -
  obtain s1 where s1: "write_run wr a bs s = Some s1" "ok s1" "view s1 = overlay (view s) a bs"
    using write_run_view [OF assms(1,3)] by blast
  have "List.map (\<lambda>i. view s1 (word_of_nat (a + i))) [0..<length bs] = bs"
    unfolding s1(3) by (rule nth_equalityI) (use assms(2) in \<open>simp_all add: overlay_nth del: of_nat_add\<close>)
  with read_run_view [OF s1(2) assms(3)] s1 show ?thesis by auto
qed

end

end
