(* ===== verification/Bus_Modules.thy ===== *)
theory Bus_Modules
  imports Addr_Range Byte_Store
begin

text \<open>
  The modules a memory bus is made of, \<^verbatim>\<open>src/libmembus/membus_private.h\<close> and
  \<^verbatim>\<open>src/libmembus/membus_module_{byte,word,std64k,paged,mirror}.c\<close>.  A module is an object on
  a heap; its private data is a constructor of \<open>membus_module_impl\<close>, and the callback pointers of
  its header become the functions \<open>module_read\<close> and \<open>module_write\<close>, which branch on it.  A mirror
  forwards to the module it holds a reference to.  The out parameter \<^verbatim>\<open>uint8_t *value\<close> of a read
  is a \<^typ>\<open>u8 option\<close>: \<open>None\<close> is the null pointer, and a store through it is undefined, so the
  read has no result.  Memory that \<^verbatim>\<open>malloc\<close> returns is a parameter.
\<close>

section \<open>Data\<close>

datatype membus_module_op_result =
    membus_module_op_result_not_accepted
  | membus_module_op_result_accepted
  | membus_module_op_result_observed

definition membus_module_mode_rw :: u32 where "membus_module_mode_rw = 0"
definition membus_module_mode_ro :: u32 where "membus_module_mode_ro = 1"
definition membus_module_mode_wo :: u32 where "membus_module_mode_wo = 2"
definition membus_module_mode_mask :: u32 where "membus_module_mode_mask = 3"

lemmas mode_defs = membus_module_mode_rw_def membus_module_mode_ro_def membus_module_mode_wo_def
  membus_module_mode_mask_def

type_synonym module_ref = nat

datatype membus_module_impl =
    Byte_impl u16
  | Word_impl u32
  | Std64k_impl "u16 \<Rightarrow> u8"
  | Paged_impl u32 "u16 \<Rightarrow> u8"
  | Mirror_impl module_ref

record membus_module =
  ref_count :: u32
  addr_range :: memory_addr_range
  module_impl :: membus_module_impl

type_synonym module_heap = "membus_module option list"

definition deref :: "module_heap \<Rightarrow> module_ref \<Rightarrow> membus_module option" where
  "deref h m = (if m < length h then h ! m else None)"

definition module_malloc :: "module_heap \<Rightarrow> membus_module \<Rightarrow> module_heap \<times> module_ref" where
  "module_malloc h md = (h @ [Some md], length h)"

definition set_impl :: "module_heap \<Rightarrow> module_ref \<Rightarrow> membus_module_impl \<Rightarrow> module_heap" where
  "set_impl h m i = (case deref h m of None \<Rightarrow> h | Some md \<Rightarrow> h[m := Some (md\<lparr>module_impl := i\<rparr>)])"

section \<open>The callbacks of each kind of module\<close>

text \<open>\<open>*value = v\<close>\<close>

definition store_value :: "u8 option \<Rightarrow> u8 \<Rightarrow> u8 option option" where
  "store_value p v = (case p of None \<Rightarrow> None | Some _ \<Rightarrow> Some (Some v))"

definition membus_module_byte_read_addr ::
    "u16 \<Rightarrow> u8 option \<Rightarrow> (membus_module_op_result \<times> u8 option) option" where
  "membus_module_byte_read_addr flags_and_byte p =
    (if ucast (drop_bit 8 flags_and_byte) AND membus_module_mode_mask \<noteq> membus_module_mode_wo
     then do {
       p \<leftarrow> store_value p (ucast (flags_and_byte AND 0x00FF));
       Some (membus_module_op_result_accepted, p) }
     else Some (membus_module_op_result_not_accepted, p))"

definition membus_module_byte_write_addr :: "u16 \<Rightarrow> u8 \<Rightarrow> membus_module_op_result \<times> u16" where
  "membus_module_byte_write_addr flags_and_byte v =
    (if ucast (drop_bit 8 flags_and_byte) AND membus_module_mode_mask \<noteq> membus_module_mode_ro
     then (membus_module_op_result_accepted, (flags_and_byte AND 0xFF00) OR ucast v)
     else (membus_module_op_result_not_accepted, flags_and_byte))"

text \<open>The shift count of the word module is \<open>0\<close> or \<open>8\<close> for an address in its range; the C shift is
  undefined once the mask no longer fits an \<^verbatim>\<open>int\<close>.\<close>

definition word_shift :: "membus_module \<Rightarrow> u16 \<Rightarrow> nat" where
  "word_shift md addr = unat (push_bit 3 (addr - addr_lo (addr_range md)))"

definition membus_module_word_read_addr ::
    "membus_module \<Rightarrow> u32 \<Rightarrow> u16 \<Rightarrow> u8 option \<Rightarrow> (membus_module_op_result \<times> u8 option) option" where
  "membus_module_word_read_addr md flags_and_word addr p =
    (if drop_bit 16 flags_and_word AND membus_module_mode_mask \<noteq> membus_module_mode_wo
     then let addr = word_shift md addr
          in if addr < 24
             then do {
               p \<leftarrow> store_value p
                 (ucast (drop_bit addr (flags_and_word AND push_bit addr 0x00FF)));
               Some (membus_module_op_result_accepted, p) }
             else None
     else Some (membus_module_op_result_not_accepted, p))"

definition membus_module_word_write_addr ::
    "membus_module \<Rightarrow> u32 \<Rightarrow> u16 \<Rightarrow> u8 \<Rightarrow> (membus_module_op_result \<times> u32) option" where
  "membus_module_word_write_addr md flags_and_word addr v =
    (if drop_bit 16 flags_and_word AND membus_module_mode_mask \<noteq> membus_module_mode_ro
     then let addr = word_shift md addr
          in if addr < 24
             then Some (membus_module_op_result_accepted,
                    (flags_and_word AND 0xFFFF0000) OR push_bit addr (ucast v))
             else None
     else Some (membus_module_op_result_not_accepted, flags_and_word))"

definition membus_module_std64k_read_addr ::
    "(u16 \<Rightarrow> u8) \<Rightarrow> u16 \<Rightarrow> u8 option \<Rightarrow> (membus_module_op_result \<times> u8 option) option" where
  "membus_module_std64k_read_addr BYTES addr p = do {
     p \<leftarrow> store_value p (BYTES addr);
     Some (membus_module_op_result_accepted, p) }"

definition membus_module_std64k_write_addr ::
    "(u16 \<Rightarrow> u8) \<Rightarrow> u16 \<Rightarrow> u8 \<Rightarrow> membus_module_op_result \<times> (u16 \<Rightarrow> u8)" where
  "membus_module_std64k_write_addr BYTES addr v =
     (membus_module_op_result_accepted, BYTES(addr := v))"

text \<open>\<open>pages[addr >> 8][addr & 0xFF]\<close> is the byte at offset \<open>addr\<close> of the block; outside the
  allocated pages it is undefined.\<close>

definition membus_module_paged_read_addr ::
    "membus_module \<Rightarrow> u32 \<Rightarrow> (u16 \<Rightarrow> u8) \<Rightarrow> u16 \<Rightarrow> u8 option
      \<Rightarrow> (membus_module_op_result \<times> u8 option) option" where
  "membus_module_paged_read_addr md mode pages addr p =
    (if mode AND membus_module_mode_mask \<noteq> membus_module_mode_wo
     then let addr = addr - addr_lo (addr_range md)
          in if addr < addr_len (addr_range md)
             then do {
               p \<leftarrow> store_value p (pages addr);
               Some (membus_module_op_result_accepted, p) }
             else None
     else Some (membus_module_op_result_not_accepted, p))"

definition membus_module_paged_write_addr ::
    "membus_module \<Rightarrow> u32 \<Rightarrow> (u16 \<Rightarrow> u8) \<Rightarrow> u16 \<Rightarrow> u8
      \<Rightarrow> (membus_module_op_result \<times> (u16 \<Rightarrow> u8)) option" where
  "membus_module_paged_write_addr md mode pages addr v =
    (if mode AND membus_module_mode_mask \<noteq> membus_module_mode_ro
     then let addr = addr - addr_lo (addr_range md)
          in if addr < addr_len (addr_range md)
             then Some (membus_module_op_result_accepted, pages(addr := v))
             else None
     else Some (membus_module_op_result_not_accepted, pages))"

text \<open>The address a mirror hands to the module it mirrors.\<close>

definition mirror_addr :: "membus_module \<Rightarrow> membus_module \<Rightarrow> u16 \<Rightarrow> u16" where
  "mirror_addr md other addr = (addr - addr_lo (addr_range md)) + addr_lo (addr_range other)"

partial_function (option) module_read ::
    "module_heap \<Rightarrow> module_ref \<Rightarrow> u16 \<Rightarrow> u8 option
      \<Rightarrow> (membus_module_op_result \<times> u8 option) option" where
  "module_read h m addr p = do {
     md \<leftarrow> deref h m;
     case module_impl md of
       Byte_impl flags_and_byte \<Rightarrow> membus_module_byte_read_addr flags_and_byte p
     | Word_impl flags_and_word \<Rightarrow> membus_module_word_read_addr md flags_and_word addr p
     | Std64k_impl BYTES \<Rightarrow> membus_module_std64k_read_addr BYTES addr p
     | Paged_impl mode pages \<Rightarrow> membus_module_paged_read_addr md mode pages addr p
     | Mirror_impl original_module \<Rightarrow> do {
         other \<leftarrow> deref h original_module;
         module_read h original_module (mirror_addr md other addr) p } }"

partial_function (option) module_write ::
    "module_heap \<Rightarrow> module_ref \<Rightarrow> u16 \<Rightarrow> u8
      \<Rightarrow> (membus_module_op_result \<times> module_heap) option" where
  "module_write h m addr v = do {
     md \<leftarrow> deref h m;
     case module_impl md of
       Byte_impl flags_and_byte \<Rightarrow>
         (let (rc, fb) = membus_module_byte_write_addr flags_and_byte v
          in Some (rc, set_impl h m (Byte_impl fb)))
     | Word_impl flags_and_word \<Rightarrow> do {
         (rc, fw) \<leftarrow> membus_module_word_write_addr md flags_and_word addr v;
         Some (rc, set_impl h m (Word_impl fw)) }
     | Std64k_impl BYTES \<Rightarrow>
         (let (rc, ram) = membus_module_std64k_write_addr BYTES addr v
          in Some (rc, set_impl h m (Std64k_impl ram)))
     | Paged_impl mode pages \<Rightarrow> do {
         (rc, ps) \<leftarrow> membus_module_paged_write_addr md mode pages addr v;
         Some (rc, set_impl h m (Paged_impl mode ps)) }
     | Mirror_impl original_module \<Rightarrow> do {
         other \<leftarrow> deref h original_module;
         module_write h original_module (mirror_addr md other addr) v } }"

section \<open>Allocation and reference counts\<close>

definition membus_module_get_ref_count :: "module_heap \<Rightarrow> module_ref \<Rightarrow> u32 option" where
  "membus_module_get_ref_count h m = map_option ref_count (deref h m)"

definition membus_module_retain :: "module_heap \<Rightarrow> module_ref \<Rightarrow> module_heap option" where
  "membus_module_retain h m = do {
     md \<leftarrow> deref h m;
     Some (h[m := Some (md\<lparr>ref_count := ref_count md + 1\<rparr>)]) }"

text \<open>The free callback of a mirror releases the original; the other kinds have none.\<close>

partial_function (option) membus_module_release ::
    "module_heap \<Rightarrow> module_ref \<Rightarrow> module_heap option" where
  "membus_module_release h m = do {
     md \<leftarrow> deref h m;
     let md = md\<lparr>ref_count := ref_count md - 1\<rparr>;
     let h = h[m := Some md];
     if ref_count md \<noteq> 0 then Some h
     else do {
       h \<leftarrow> (case module_impl md of
              Mirror_impl original_module \<Rightarrow> membus_module_release h original_module
            | _ \<Rightarrow> Some h);
       Some (h[m := None]) } }"

definition membus_module_byte_alloc ::
    "module_heap \<Rightarrow> u32 \<Rightarrow> u16 \<Rightarrow> module_heap \<times> module_ref" where
  "membus_module_byte_alloc h mode addr = module_malloc h
     \<lparr>ref_count = 0, addr_range = memory_addr_range_with_lo_and_len addr 1,
      module_impl = Byte_impl (ucast (push_bit 8 mode OR 0xCA))\<rparr>"

definition membus_module_word_alloc ::
    "module_heap \<Rightarrow> u32 \<Rightarrow> u16 \<Rightarrow> module_heap \<times> module_ref" where
  "membus_module_word_alloc h mode addr = module_malloc h
     \<lparr>ref_count = 0, addr_range = memory_addr_range_with_lo_and_len addr 2,
      module_impl = Word_impl (push_bit 16 mode OR 0xFACE)\<rparr>"

definition membus_module_std64k_alloc ::
    "module_heap \<Rightarrow> (u16 \<Rightarrow> u8) \<Rightarrow> module_heap \<times> module_ref" where
  "membus_module_std64k_alloc h junk = module_malloc h
     \<lparr>ref_count = 0, addr_range = \<lparr>addr_lo = 0x0000, addr_len = 0xFFFF\<rparr>,
      module_impl = Std64k_impl junk\<rparr>"

definition membus_module_paged_alloc ::
    "module_heap \<Rightarrow> (u16 \<Rightarrow> u8) \<Rightarrow> u32 \<Rightarrow> u8 \<Rightarrow> u8 \<Rightarrow> module_heap \<times> module_ref" where
  "membus_module_paged_alloc h junk mode base_page n_pages =
    (let end_page = widen base_page + widen n_pages;
         n_pages = (if end_page > 0x0100 then narrow (0x0100 - widen base_page) else n_pages)
     in module_malloc h
       \<lparr>ref_count = 0,
        addr_range = memory_addr_range_with_lo_and_len
          (push_bit 8 (widen base_page)) (push_bit 8 (widen n_pages)),
        module_impl = Paged_impl mode junk\<rparr>)"

definition membus_module_mirror_alloc ::
    "module_heap \<Rightarrow> module_ref \<Rightarrow> u16 \<Rightarrow> (module_heap \<times> module_ref option) option" where
  "membus_module_mirror_alloc h original_module mirror_base_addr = do {
     ORIGINAL_MODULE \<leftarrow> deref h original_module;
     let mirror_end_addr =
       (ucast mirror_base_addr + ucast (addr_len (addr_range ORIGINAL_MODULE)) - 1 :: u32);
     if mirror_end_addr < 0x00010000 then do {
       h \<leftarrow> membus_module_retain h original_module;
       let (h, m) = module_malloc h
         \<lparr>ref_count = 0,
          addr_range = memory_addr_range_with_lo_and_hi mirror_base_addr (ucast mirror_end_addr),
          module_impl = Mirror_impl original_module\<rparr>;
       Some (h, Some m) }
     else Some (h, None) }"

section \<open>One kind of module at a time\<close>

lemma deref_length: "deref h m = Some md \<Longrightarrow> m < length h"
  by (simp add: deref_def split: if_splits)

lemma deref_set_impl:
  "deref (set_impl h m i) k =
    (if k = m then map_option (\<lambda>md. md\<lparr>module_impl := i\<rparr>) (deref h m) else deref h k)"
  by (auto simp: set_impl_def deref_def split: option.splits)

lemma deref_alloc [simp]: "deref (h @ [Some md]) (length h) = Some md"
  by (simp add: deref_def)

lemma deref_append: "deref h k = Some x \<Longrightarrow> deref (h @ ms) k = Some x"
  by (auto simp: deref_def nth_append split: if_splits)

lemma store_value_Some [simp]: "store_value (Some x) v = Some (Some v)"
  by (simp add: store_value_def)

lemma store_value_null [simp]: "store_value None v = None"
  by (simp add: store_value_def)

lemma module_read_kind:
  assumes "deref h m = Some md"
  shows
    "module_impl md = Byte_impl fb \<Longrightarrow> module_read h m addr p = membus_module_byte_read_addr fb p"
    "module_impl md = Word_impl fw \<Longrightarrow>
       module_read h m addr p = membus_module_word_read_addr md fw addr p"
    "module_impl md = Std64k_impl ram \<Longrightarrow>
       module_read h m addr p = membus_module_std64k_read_addr ram addr p"
    "module_impl md = Paged_impl mode ps \<Longrightarrow>
       module_read h m addr p = membus_module_paged_read_addr md mode ps addr p"
    "\<lbrakk>module_impl md = Mirror_impl orig; deref h orig = Some other\<rbrakk> \<Longrightarrow>
       module_read h m addr p = module_read h orig (mirror_addr md other addr) p"
  using assms by (subst module_read.simps; simp)+

lemma module_write_kind:
  assumes "deref h m = Some md"
  shows
    "module_impl md = Byte_impl fb \<Longrightarrow> module_write h m addr v =
       Some (fst (membus_module_byte_write_addr fb v),
             set_impl h m (Byte_impl (snd (membus_module_byte_write_addr fb v))))"
    "module_impl md = Word_impl fw \<Longrightarrow> module_write h m addr v =
       map_option (map_prod id (\<lambda>w. set_impl h m (Word_impl w)))
         (membus_module_word_write_addr md fw addr v)"
    "module_impl md = Std64k_impl ram \<Longrightarrow> module_write h m addr v =
       Some (membus_module_op_result_accepted, set_impl h m (Std64k_impl (ram(addr := v))))"
    "module_impl md = Paged_impl mode ps \<Longrightarrow> module_write h m addr v =
       map_option (map_prod id (\<lambda>p. set_impl h m (Paged_impl mode p)))
         (membus_module_paged_write_addr md mode ps addr v)"
    "\<lbrakk>module_impl md = Mirror_impl orig; deref h orig = Some other\<rbrakk> \<Longrightarrow>
       module_write h m addr v = module_write h orig (mirror_addr md other addr) v"
  using assms
  by (subst module_write.simps;
      simp add: bind_pair_map split_beta membus_module_std64k_write_addr_def)+

section \<open>Modules as byte stores\<close>

text \<open>A module used on its own: an access that is not accepted has no result.\<close>

definition module_load :: "module_ref \<Rightarrow> module_heap \<Rightarrow> u16 \<Rightarrow> (u8 \<times> module_heap) option" where
  "module_load m h a =
    (case module_read h m a (Some 0) of
       Some (membus_module_op_result_accepted, Some v) \<Rightarrow> Some (v, h) | _ \<Rightarrow> None)"

definition module_store :: "module_ref \<Rightarrow> module_heap \<Rightarrow> u16 \<Rightarrow> u8 \<Rightarrow> module_heap option" where
  "module_store m h a v =
    (case module_write h m a v of
       Some (membus_module_op_result_accepted, h) \<Rightarrow> Some h | _ \<Rightarrow> None)"

definition offset_in :: "memory_addr_range \<Rightarrow> u16 set" where
  "offset_in r = {a. a - addr_lo r < addr_len r}"

definition module_view :: "module_ref \<Rightarrow> module_heap \<Rightarrow> u16 \<Rightarrow> u8" where
  "module_view m h a =
    (case deref h m of
       None \<Rightarrow> 0
     | Some md \<Rightarrow>
        (case module_impl md of
           Byte_impl fb \<Rightarrow> if a = addr_lo (addr_range md) then ucast (fb AND 0x00FF) else 0
         | Std64k_impl ram \<Rightarrow> ram a
         | Paged_impl _ ps \<Rightarrow> ps (a - addr_lo (addr_range md))
         | _ \<Rightarrow> 0))"

definition std64k_at :: "module_ref \<Rightarrow> module_heap \<Rightarrow> bool" where
  "std64k_at m h = (case deref h m of None \<Rightarrow> False
     | Some md \<Rightarrow> (case module_impl md of Std64k_impl _ \<Rightarrow> True | _ \<Rightarrow> False))"

definition paged_at :: "module_ref \<Rightarrow> memory_addr_range \<Rightarrow> module_heap \<Rightarrow> bool" where
  "paged_at m r h = (case deref h m of None \<Rightarrow> False
     | Some md \<Rightarrow> addr_range md = r \<and>
        (case module_impl md of
           Paged_impl mode _ \<Rightarrow> mode AND membus_module_mode_mask = membus_module_mode_rw
         | _ \<Rightarrow> False))"

definition byte_at :: "module_ref \<Rightarrow> memory_addr_range \<Rightarrow> module_heap \<Rightarrow> bool" where
  "byte_at m r h = (case deref h m of None \<Rightarrow> False
     | Some md \<Rightarrow> addr_range md = r \<and>
        (case module_impl md of
           Byte_impl fb \<Rightarrow> ucast (drop_bit 8 fb) AND membus_module_mode_mask = membus_module_mode_rw
         | _ \<Rightarrow> False))"

lemma std64k_atE:
  assumes "std64k_at m h"
  obtains md ram where "deref h m = Some md" "module_impl md = Std64k_impl ram"
  using assms by (auto simp: std64k_at_def split: option.splits membus_module_impl.splits)

lemma paged_atE:
  assumes "paged_at m r h"
  obtains md mode ps where "deref h m = Some md" "module_impl md = Paged_impl mode ps"
    "mode AND membus_module_mode_mask = membus_module_mode_rw" "addr_range md = r"
  using assms by (auto simp: paged_at_def split: option.splits membus_module_impl.splits)

lemma byte_atE:
  assumes "byte_at m r h"
  obtains md fb where "deref h m = Some md" "module_impl md = Byte_impl fb" "addr_range md = r"
    "ucast (drop_bit 8 fb) AND membus_module_mode_mask = membus_module_mode_rw"
  using assms by (auto simp: byte_at_def split: option.splits membus_module_impl.splits)

interpretation std64k_store:
  byte_store "std64k_at m" UNIV "module_load m" "module_store m" "module_view m" for m
proof
  fix s a
  assume "std64k_at m s"
  then obtain md ram where md: "deref s m = Some md" "module_impl md = Std64k_impl ram"
    by (rule std64k_atE)
  note k = module_read_kind(3) [OF md] module_write_kind(3) [OF md]
  show "\<exists>s'. module_load m s a = Some (module_view m s a, s') \<and> std64k_at m s'
      \<and> module_view m s' = module_view m s"
    using md by (simp add: module_load_def module_view_def std64k_at_def k
        membus_module_std64k_read_addr_def)
  show "\<exists>s'. module_store m s a v = Some s' \<and> std64k_at m s'
      \<and> module_view m s' = (module_view m s)(a := v)" for v
    using md by (auto simp: module_store_def module_view_def std64k_at_def k deref_set_impl fun_eq_iff)
qed

interpretation paged_store:
  byte_store "paged_at m r" "offset_in r" "module_load m" "module_store m" "module_view m" for m r
proof
  fix s a
  assume "paged_at m r s" and a: "a \<in> offset_in r"
  then obtain md mode ps where md: "deref s m = Some md" "module_impl md = Paged_impl mode ps"
      "mode AND membus_module_mode_mask = membus_module_mode_rw" "addr_range md = r"
    by (elim paged_atE)
  note k = module_read_kind(4) [OF md(1,2)] module_write_kind(4) [OF md(1,2)]
    membus_module_paged_read_addr_def membus_module_paged_write_addr_def
  show "\<exists>s'. module_load m s a = Some (module_view m s a, s') \<and> paged_at m r s'
      \<and> module_view m s' = module_view m s"
    using md a by (simp add: module_load_def module_view_def paged_at_def k offset_in_def mode_defs)
  show "\<exists>s'. module_store m s a v = Some s' \<and> paged_at m r s'
      \<and> module_view m s' = (module_view m s)(a := v)" for v
    using md a by (auto simp: module_store_def module_view_def paged_at_def k offset_in_def
        mode_defs deref_set_impl fun_eq_iff)
qed

lemma byte_flags_kept: "drop_bit 8 ((fb AND 0xFF00) OR ucast (v :: u8)) = drop_bit 8 (fb :: u16)"
  unfolding high_mask by (rule bit_word_eqI) (auto simp: bit_simps dest: bit_imp_le_length)

lemma byte_value_set: "ucast (((fb AND 0xFF00) OR ucast v) AND (0x00FF :: u16)) = (v :: u8)"
  unfolding high_mask low_mask
  by (rule bit_word_eqI) (auto simp: bit_simps dest: bit_imp_le_length)

interpretation byte_module_store:
  byte_store "byte_at m r" "{addr_lo r}" "module_load m" "module_store m" "module_view m" for m r
proof
  fix s a
  assume "byte_at m r s" and a: "a \<in> {addr_lo r}"
  then obtain md fb where md: "deref s m = Some md" "module_impl md = Byte_impl fb"
      "addr_range md = r" "ucast (drop_bit 8 fb) AND membus_module_mode_mask = membus_module_mode_rw"
    by (elim byte_atE)
  note k = module_read_kind(1) [OF md(1,2)] module_write_kind(1) [OF md(1,2)]
    membus_module_byte_read_addr_def membus_module_byte_write_addr_def
  show "\<exists>s'. module_load m s a = Some (module_view m s a, s') \<and> byte_at m r s'
      \<and> module_view m s' = module_view m s"
    using md a by (simp add: module_load_def module_view_def byte_at_def k mode_defs)
  fix v :: u8
  obtain fb' where fb': "fb' = (fb AND 0xFF00) OR ucast v" by blast
  have f: "drop_bit 8 fb' = drop_bit 8 fb" "ucast (fb' AND 0x00FF) = v"
    unfolding fb' by (simp_all only: byte_flags_kept byte_value_set)
  show "\<exists>s'. module_store m s a v = Some s' \<and> byte_at m r s'
      \<and> module_view m s' = (module_view m s)(a := v)"
    using md a f by (auto simp: module_store_def module_view_def byte_at_def k fb' [symmetric]
        mode_defs deref_set_impl fun_eq_iff)
qed

section \<open>Well-formed heaps: every access in range returns\<close>

text \<open>A mirror is allocated after the module it mirrors and has its length; a word is two bytes
  long.  These facts are what keeps the mirror recursion finite and every access defined.\<close>

definition module_ok :: "module_heap \<Rightarrow> module_ref \<Rightarrow> membus_module \<Rightarrow> bool" where
  "module_ok h m md \<longleftrightarrow>
    (case module_impl md of
       Word_impl _ \<Rightarrow> addr_len (addr_range md) = 2
     | Mirror_impl orig \<Rightarrow> orig < m \<and>
         (\<exists>other. deref h orig = Some other \<and> addr_len (addr_range md) = addr_len (addr_range other))
     | _ \<Rightarrow> True)"

definition heap_ok :: "module_heap \<Rightarrow> bool" where
  "heap_ok h \<longleftrightarrow> (\<forall>m md. deref h m = Some md \<longrightarrow> module_ok h m md)"

text \<open>What an access may change: the private data of modules that are not mirrors.\<close>

definition same_shape :: "module_heap \<Rightarrow> module_heap \<Rightarrow> bool" where
  "same_shape h h' \<longleftrightarrow> (\<forall>m. map_option addr_range (deref h m) = map_option addr_range (deref h' m)
     \<and> map_option ref_count (deref h m) = map_option ref_count (deref h' m))"

lemma same_shape_refl [simp]: "same_shape h h"
  by (simp add: same_shape_def)

lemma offset_lt_two: "(x :: u16) < 2 \<Longrightarrow> unat (push_bit 3 x) < 24"
proof -
  assume "x < 2"
  then have "unat x < 2" by (simp add: word_less_nat_alt)
  then show ?thesis
    by (simp add: push_bit_eq_mult unat_word_ariths)
qed

lemma word_shift_ok:
  "\<lbrakk>addr_len (addr_range md) = 2; a \<in> offset_in (addr_range md)\<rbrakk> \<Longrightarrow> word_shift md a < 24"
  by (simp add: word_shift_def offset_in_def offset_lt_two)

lemma mirror_addr_offset:
  "addr_len (addr_range md) = addr_len (addr_range other) \<Longrightarrow>
    mirror_addr md other a \<in> offset_in (addr_range other) \<longleftrightarrow> a \<in> offset_in (addr_range md)"
  by (simp add: mirror_addr_def offset_in_def)

lemma included_offset: "memory_addr_range_does_include r a \<Longrightarrow> a \<in> offset_in r"
proof -
  assume "memory_addr_range_does_include r a"
  then have "unat (addr_lo r) \<le> unat a" "unat a < unat (addr_lo r) + unat (addr_len r)"
    using in_range_set [of a r] by (auto simp: range_set_def)
  then show ?thesis
    by (simp add: offset_in_def word_less_nat_alt unat_sub word_le_nat_alt)
qed

lemma module_read_total:
  "\<lbrakk>heap_ok h; deref h m = Some md; a \<in> offset_in (addr_range md)\<rbrakk>
    \<Longrightarrow> \<exists>rc v'. module_read h m a (Some v) = Some (rc, Some v')"
proof (induction m arbitrary: md a rule: less_induct)
  case (less m)
  note md = less.prems(2)
  have ok: "module_ok h m md" using less.prems by (auto simp: heap_ok_def)
  show ?case
  proof (cases "module_impl md")
    case (Byte_impl fb)
    then show ?thesis by (simp add: module_read_kind(1) [OF md] membus_module_byte_read_addr_def)
  next
    case (Word_impl fw)
    then show ?thesis using ok less.prems(3)
      by (simp add: module_read_kind(2) [OF md] membus_module_word_read_addr_def module_ok_def
          word_shift_ok Let_def)
  next
    case (Std64k_impl ram)
    then show ?thesis by (simp add: module_read_kind(3) [OF md] membus_module_std64k_read_addr_def)
  next
    case (Paged_impl mode ps)
    then show ?thesis using less.prems(3)
      by (simp add: module_read_kind(4) [OF md] membus_module_paged_read_addr_def offset_in_def)
  next
    case (Mirror_impl orig)
    then obtain other where o: "orig < m" "deref h orig = Some other"
        "addr_len (addr_range md) = addr_len (addr_range other)"
      using ok by (auto simp: module_ok_def)
    then show ?thesis
      using less.IH [OF o(1) less.prems(1) o(2)] less.prems(3) mirror_addr_offset [OF o(3)]
      by (simp add: module_read_kind(5) [OF md Mirror_impl])
  qed
qed

lemma set_impl_ok:
  assumes "heap_ok h" "deref h m = Some md" "\<forall>orig. i \<noteq> Mirror_impl orig"
    "\<forall>fw. i = Word_impl fw \<longrightarrow> addr_len (addr_range md) = 2"
  shows "heap_ok (set_impl h m i)" and "same_shape h (set_impl h m i)"
proof -
  show "same_shape h (set_impl h m i)"
    using assms(2) by (auto simp: same_shape_def deref_set_impl)
  have other: "\<exists>x. deref (set_impl h m i) k = Some x \<and> addr_range x = addr_range y"
    if "deref h k = Some y" for k y
    using that by (auto simp: deref_set_impl)
  show "heap_ok (set_impl h m i)"
    unfolding heap_ok_def
  proof (intro allI impI)
    fix k x assume x: "deref (set_impl h m i) k = Some x"
    show "module_ok (set_impl h m i) k x"
    proof (cases "k = m")
      case True
      then show ?thesis using x assms
        by (auto simp: deref_set_impl module_ok_def split: membus_module_impl.splits)
    next
      case False
      then have "module_ok h k x" using x assms(1) by (auto simp: deref_set_impl heap_ok_def)
      then show ?thesis using other
        by (fastforce simp: module_ok_def split: membus_module_impl.splits)
    qed
  qed
qed

lemma module_write_total:
  "\<lbrakk>heap_ok h; deref h m = Some md; a \<in> offset_in (addr_range md)\<rbrakk>
    \<Longrightarrow> \<exists>rc h'. module_write h m a v = Some (rc, h') \<and> heap_ok h' \<and> same_shape h h'"
proof (induction m arbitrary: md a rule: less_induct)
  case (less m)
  note md = less.prems(2)
  have ok: "module_ok h m md" using less.prems by (auto simp: heap_ok_def)
  note keep = set_impl_ok [OF less.prems(1) md]
  show ?case
  proof (cases "module_impl md")
    case (Byte_impl fb)
    then show ?thesis using keep by (simp add: module_write_kind(1) [OF md])
  next
    case (Word_impl fw)
    then show ?thesis using ok less.prems(3) keep
      by (simp add: module_write_kind(2) [OF md] membus_module_word_write_addr_def module_ok_def
          word_shift_ok Let_def)
  next
    case (Std64k_impl ram)
    then show ?thesis using keep by (simp add: module_write_kind(3) [OF md])
  next
    case (Paged_impl mode ps)
    then show ?thesis using less.prems(3) keep
      by (simp add: module_write_kind(4) [OF md] membus_module_paged_write_addr_def offset_in_def)
  next
    case (Mirror_impl orig)
    then obtain other where o: "orig < m" "deref h orig = Some other"
        "addr_len (addr_range md) = addr_len (addr_range other)"
      using ok by (auto simp: module_ok_def)
    then show ?thesis
      using less.IH [OF o(1) less.prems(1) o(2)] less.prems(3) mirror_addr_offset [OF o(3)]
      by (simp add: module_write_kind(5) [OF md Mirror_impl])
  qed
qed

end
