(* ===== verification/Membus.thy ===== *)
theory Membus
  imports Bus_Modules
begin

text \<open>
  The memory bus, \<^verbatim>\<open>src/libmembus/membus.h\<close> and \<^verbatim>\<open>membus.c\<close>: modules are registered in
  tiers, an access walks the tiers until a module accepts it, three jump vectors answer the
  addresses nobody accepted, and the last eight bytes read and written are kept in two rings.
  The linked lists of tiers and modules are lists here, the tier node of \<^verbatim>\<open>pre_op\<close> and
  \<^verbatim>\<open>post_op\<close> is the list of its modules (\<open>None\<close> for the null pointer).  The heap of modules is
  a field of the bus.  The mutex is left out: one thread runs the bus.
\<close>

section \<open>Data\<close>

definition MEMORY_ADDR_NMI_VECTOR :: u16 where "MEMORY_ADDR_NMI_VECTOR = 0xFFFA"
definition MEMORY_ADDR_RES_VECTOR :: u16 where "MEMORY_ADDR_RES_VECTOR = 0xFFFC"
definition MEMORY_ADDR_IRQ_VECTOR :: u16 where "MEMORY_ADDR_IRQ_VECTOR = 0xFFFE"

lemmas vector_addr_defs =
  MEMORY_ADDR_NMI_VECTOR_def MEMORY_ADDR_RES_VECTOR_def MEMORY_ADDR_IRQ_VECTOR_def

definition MEMBUS_TIER_PRE_OP :: int where "MEMBUS_TIER_PRE_OP = - 2147483648"
definition MEMBUS_TIER_POST_OP :: int where "MEMBUS_TIER_POST_OP = 2147483647"

record membus =
  pre_op :: "module_ref list option"
  tiers :: "(int \<times> module_ref list) list"
  post_op :: "module_ref list option"
  nmi_vector :: u16
  res_vector :: u16
  irq_vector :: u16
  cache_disable :: bool
  rcache_idx :: u8
  wcache_idx :: u8
  rcache :: "u8 list"
  wcache :: "u8 list"
  bus_heap :: module_heap

text \<open>\<^verbatim>\<open>membus_alloc\<close> leaves the rings and their indices as \<^verbatim>\<open>malloc\<close> returned them: the
  parameter \<open>junk\<close>.\<close>

definition membus_alloc :: "membus \<Rightarrow> membus" where
  "membus_alloc junk = junk\<lparr>pre_op := None, tiers := [], post_op := None,
     nmi_vector := 0x0FF0, res_vector := 0xF00F, irq_vector := 0xCAFE, cache_disable := False\<rparr>"

section \<open>The rings\<close>

definition membus_rcache_push :: "membus \<Rightarrow> u8 \<Rightarrow> membus" where
  "membus_rcache_push b v =
     b\<lparr>rcache := (rcache b)[unat (rcache_idx b) mod 8 := v], rcache_idx := rcache_idx b + 1\<rparr>"

text \<open>The index expression of a peek is an \<^verbatim>\<open>int\<close>: \<^verbatim>\<open>-1 % 8\<close> is \<^verbatim>\<open>-1\<close>, out of bounds.\<close>

definition membus_rcache_peek :: "membus \<Rightarrow> u8 option" where
  "membus_rcache_peek b =
     (if rcache_idx b = 0 then None else Some (rcache b ! ((unat (rcache_idx b) - 1) mod 8)))"

definition membus_rcache_pop :: "membus \<Rightarrow> u8 \<times> membus" where
  "membus_rcache_pop b =
     (let i = rcache_idx b - 1 in (rcache b ! (unat i mod 8), b\<lparr>rcache_idx := i\<rparr>))"

definition membus_wcache_push :: "membus \<Rightarrow> u8 \<Rightarrow> membus" where
  "membus_wcache_push b v =
     b\<lparr>wcache := (wcache b)[unat (wcache_idx b) mod 8 := v], wcache_idx := wcache_idx b + 1\<rparr>"

definition membus_wcache_peek :: "membus \<Rightarrow> u8 option" where
  "membus_wcache_peek b =
     (if wcache_idx b = 0 then None else Some (wcache b ! ((unat (wcache_idx b) - 1) mod 8)))"

definition membus_wcache_pop :: "membus \<Rightarrow> u8 \<times> membus" where
  "membus_wcache_pop b =
     (let i = wcache_idx b - 1 in (wcache b ! (unat i mod 8), b\<lparr>wcache_idx := i\<rparr>))"

definition membus_get_cache_disable :: "membus \<Rightarrow> bool" where
  "membus_get_cache_disable b = cache_disable b"

definition membus_set_cache_disable :: "membus \<Rightarrow> bool \<Rightarrow> membus" where
  "membus_set_cache_disable b should_disable = b\<lparr>cache_disable := should_disable\<rparr>"

section \<open>Registration\<close>

text \<open>Insert before the first module whose range does not start below the new one's.\<close>

fun insert_module :: "module_heap \<Rightarrow> module_ref \<Rightarrow> module_ref list \<Rightarrow> module_ref list option" where
  "insert_module h new [] = Some [new]"
| "insert_module h new (m # ms) = do {
     md \<leftarrow> deref h m;
     the_module \<leftarrow> deref h new;
     if addr_lo (addr_range md) < addr_lo (addr_range the_module)
     then do { ms \<leftarrow> insert_module h new ms; Some (m # ms) }
     else Some (new # m # ms) }"

text \<open>\<open>at_root\<close> holds while \<^verbatim>\<open>prev_tier\<close> is null: a tier that belongs in front of the first one
  becomes the whole list, since the source does not link the old list behind it.\<close>

fun insert_in_tiers :: "module_heap \<Rightarrow> int \<Rightarrow> module_ref \<Rightarrow> bool
    \<Rightarrow> (int \<times> module_ref list) list \<Rightarrow> (int \<times> module_ref list) list option" where
  "insert_in_tiers h tier new at_root [] = Some [(tier, [new])]"
| "insert_in_tiers h tier new at_root ((t, ms) # ts) =
    (if t < tier then do {
       ts \<leftarrow> insert_in_tiers h tier new False ts;
       Some ((t, ms) # ts) }
     else if t = tier then do { ms \<leftarrow> insert_module h new ms; Some ((t, ms) # ts) }
     else if at_root then Some [(tier, [new])]
     else Some ((tier, [new]) # (t, ms) # ts))"

definition membus_register_module :: "membus \<Rightarrow> int \<Rightarrow> module_ref \<Rightarrow> (bool \<times> membus) option" where
  "membus_register_module b tier the_module = do {
     h \<leftarrow> membus_module_retain (bus_heap b) the_module;
     let b = b\<lparr>bus_heap := h\<rparr>;
     if tier = MEMBUS_TIER_PRE_OP then do {
       ms \<leftarrow> insert_module h the_module (case pre_op b of None \<Rightarrow> [] | Some ms \<Rightarrow> ms);
       Some (True, b\<lparr>pre_op := Some ms\<rparr>) }
     else if tier = MEMBUS_TIER_POST_OP then do {
       ms \<leftarrow> insert_module h the_module (case post_op b of None \<Rightarrow> [] | Some ms \<Rightarrow> ms);
       Some (True, b\<lparr>post_op := Some ms\<rparr>) }
     else do {
       ts \<leftarrow> insert_in_tiers h tier the_module True (tiers b);
       Some (True, b\<lparr>tiers := ts\<rparr>) } }"

fun release_modules :: "module_heap \<Rightarrow> module_ref list \<Rightarrow> module_heap option" where
  "release_modules h [] = Some h"
| "release_modules h (m # ms) = do { h \<leftarrow> membus_module_release h m; release_modules h ms }"

fun release_tiers :: "module_heap \<Rightarrow> (int \<times> module_ref list) list \<Rightarrow> module_heap option" where
  "release_tiers h [] = Some h"
| "release_tiers h ((t, ms) # ts) = do { h \<leftarrow> release_modules h ms; release_tiers h ts }"

text \<open>The bus is gone afterwards; the heap of modules is what is left.\<close>

definition membus_free :: "membus \<Rightarrow> module_heap option" where
  "membus_free b = do {
     h \<leftarrow> (case pre_op b of None \<Rightarrow> Some (bus_heap b) | Some ms \<Rightarrow> release_modules (bus_heap b) ms);
     h \<leftarrow> release_tiers h (tiers b);
     (case post_op b of None \<Rightarrow> Some h | Some ms \<Rightarrow> release_modules h ms) }"

section \<open>Reading a byte\<close>

text \<open>The chain of the pre-op tier is called with a null value pointer.\<close>

fun pre_op_reads :: "module_heap \<Rightarrow> u16 \<Rightarrow> module_ref list \<Rightarrow> unit option" where
  "pre_op_reads h addr [] = Some ()"
| "pre_op_reads h addr (m # ms) = do {
     md \<leftarrow> deref h m;
     if addr_lo (addr_range md) \<le> addr then do {
       _ \<leftarrow> (if memory_addr_range_does_include (addr_range md) addr
             then map_option (\<lambda>_. ()) (module_read h m addr None) else Some ());
       pre_op_reads h addr ms }
     else Some () }"

text \<open>The state of the tier walk: \<^verbatim>\<open>is_looping\<close>, \<^verbatim>\<open>did_read_value\<close> and the value.\<close>

fun read_modules :: "module_heap \<Rightarrow> u16 \<Rightarrow> module_ref list \<Rightarrow> bool \<times> bool \<times> u8
    \<Rightarrow> (bool \<times> bool \<times> u8) option" where
  "read_modules h addr [] st = Some st"
| "read_modules h addr (m # ms) (is_looping, did_read_value, v) =
    (if is_looping \<and> \<not> did_read_value then do {
       md \<leftarrow> deref h m;
       if addr_lo (addr_range md) \<le> addr then
         if memory_addr_range_does_include (addr_range md) addr then do {
           (rc, p) \<leftarrow> module_read h m addr (Some v);
           v \<leftarrow> p;
           read_modules h addr ms
             (rc \<noteq> membus_module_op_result_not_accepted, rc = membus_module_op_result_accepted, v) }
         else read_modules h addr ms (is_looping, did_read_value, v)
       else Some (is_looping, did_read_value, v) }
     else Some (is_looping, did_read_value, v))"

fun read_tiers :: "module_heap \<Rightarrow> u16 \<Rightarrow> (int \<times> module_ref list) list \<Rightarrow> bool \<times> bool \<times> u8
    \<Rightarrow> (bool \<times> bool \<times> u8) option" where
  "read_tiers h addr [] st = Some st"
| "read_tiers h addr ((t, ms) # ts) (is_looping, did_read_value, v) =
    (if is_looping \<and> \<not> did_read_value
     then do {
       st \<leftarrow> read_modules h addr ms (is_looping, did_read_value, v);
       read_tiers h addr ts st }
     else Some (is_looping, did_read_value, v))"

definition read_vector :: "membus \<Rightarrow> u16 \<Rightarrow> u8 option" where
  "read_vector b addr =
    (if addr = MEMORY_ADDR_NMI_VECTOR then Some (lo_byte (nmi_vector b))
     else if addr = MEMORY_ADDR_NMI_VECTOR + 1 then Some (hi_byte (nmi_vector b))
     else if addr = MEMORY_ADDR_RES_VECTOR then Some (lo_byte (res_vector b))
     else if addr = MEMORY_ADDR_RES_VECTOR + 1 then Some (hi_byte (res_vector b))
     else if addr = MEMORY_ADDR_IRQ_VECTOR then Some (lo_byte (irq_vector b))
     else if addr = MEMORY_ADDR_IRQ_VECTOR + 1 then Some (hi_byte (irq_vector b))
     else None)"

text \<open>The post-op chain reads into a copy of the value.\<close>

fun post_op_reads :: "module_heap \<Rightarrow> u16 \<Rightarrow> u8 \<Rightarrow> module_ref list \<Rightarrow> unit option" where
  "post_op_reads h addr v [] = Some ()"
| "post_op_reads h addr v (m # ms) = do {
     md \<leftarrow> deref h m;
     if addr_lo (addr_range md) \<le> addr then do {
       _ \<leftarrow> (if memory_addr_range_does_include (addr_range md) addr
             then map_option (\<lambda>_. ()) (module_read h m addr (Some v)) else Some ());
       post_op_reads h addr v ms }
     else Some () }"

definition membus_read_addr :: "membus \<Rightarrow> u16 \<Rightarrow> (u8 \<times> membus) option" where
  "membus_read_addr b addr = do {
     _ \<leftarrow> (case pre_op b of None \<Rightarrow> Some () | Some ms \<Rightarrow> pre_op_reads (bus_heap b) addr ms);
     (is_looping, did_read_value, v) \<leftarrow> read_tiers (bus_heap b) addr (tiers b) (True, False, 0x00);
     let (did_read_value, v) =
       (if did_read_value then (True, v)
        else case read_vector b addr of None \<Rightarrow> (False, v) | Some v \<Rightarrow> (True, v));
     _ \<leftarrow> (case post_op b of None \<Rightarrow> Some () | Some ms \<Rightarrow> post_op_reads (bus_heap b) addr v ms);
     Some (v, if did_read_value \<and> \<not> cache_disable b then membus_rcache_push b v else b) }"

section \<open>Writing a byte\<close>

fun chain_writes :: "u16 \<Rightarrow> u8 \<Rightarrow> module_ref list \<Rightarrow> module_heap \<Rightarrow> module_heap option" where
  "chain_writes addr v [] h = Some h"
| "chain_writes addr v (m # ms) h = do {
     md \<leftarrow> deref h m;
     if addr_lo (addr_range md) \<le> addr then do {
       h \<leftarrow> (if memory_addr_range_does_include (addr_range md) addr
             then map_option snd (module_write h m addr v) else Some h);
       chain_writes addr v ms h }
     else Some h }"

fun write_modules :: "u16 \<Rightarrow> u8 \<Rightarrow> module_ref list \<Rightarrow> bool \<times> bool \<times> module_heap
    \<Rightarrow> (bool \<times> bool \<times> module_heap) option" where
  "write_modules addr v [] st = Some st"
| "write_modules addr v (m # ms) (is_looping, did_write_value, h) =
    (if is_looping \<and> \<not> did_write_value then do {
       md \<leftarrow> deref h m;
       if addr_lo (addr_range md) \<le> addr then
         if memory_addr_range_does_include (addr_range md) addr then do {
           (rc, h) \<leftarrow> module_write h m addr v;
           write_modules addr v ms
             (rc \<noteq> membus_module_op_result_not_accepted, rc = membus_module_op_result_accepted, h) }
         else write_modules addr v ms (is_looping, did_write_value, h)
       else Some (is_looping, did_write_value, h) }
     else Some (is_looping, did_write_value, h))"

fun write_tiers :: "u16 \<Rightarrow> u8 \<Rightarrow> (int \<times> module_ref list) list \<Rightarrow> bool \<times> bool \<times> module_heap
    \<Rightarrow> (bool \<times> bool \<times> module_heap) option" where
  "write_tiers addr v [] st = Some st"
| "write_tiers addr v ((t, ms) # ts) (is_looping, did_write_value, h) =
    (if is_looping \<and> \<not> did_write_value
     then do {
       st \<leftarrow> write_modules addr v ms (is_looping, did_write_value, h);
       write_tiers addr v ts st }
     else Some (is_looping, did_write_value, h))"

definition write_vector :: "membus \<Rightarrow> u16 \<Rightarrow> u8 \<Rightarrow> membus option" where
  "write_vector b addr v =
    (if addr = MEMORY_ADDR_NMI_VECTOR
       then Some (b\<lparr>nmi_vector := (nmi_vector b AND 0xFF00) OR widen v\<rparr>)
     else if addr = MEMORY_ADDR_NMI_VECTOR + 1
       then Some (b\<lparr>nmi_vector := (nmi_vector b AND 0x00FF) OR push_bit 8 (widen v)\<rparr>)
     else if addr = MEMORY_ADDR_RES_VECTOR
       then Some (b\<lparr>res_vector := (res_vector b AND 0xFF00) OR widen v\<rparr>)
     else if addr = MEMORY_ADDR_RES_VECTOR + 1
       then Some (b\<lparr>res_vector := (res_vector b AND 0x00FF) OR push_bit 8 (widen v)\<rparr>)
     else if addr = MEMORY_ADDR_IRQ_VECTOR
       then Some (b\<lparr>irq_vector := (irq_vector b AND 0xFF00) OR widen v\<rparr>)
     else if addr = MEMORY_ADDR_IRQ_VECTOR + 1
       then Some (b\<lparr>irq_vector := (irq_vector b AND 0x00FF) OR push_bit 8 (widen v)\<rparr>)
     else None)"

definition membus_write_addr :: "membus \<Rightarrow> u16 \<Rightarrow> u8 \<Rightarrow> membus option" where
  "membus_write_addr b addr v = do {
     h \<leftarrow> (case pre_op b of None \<Rightarrow> Some (bus_heap b) | Some ms \<Rightarrow> chain_writes addr 0 ms (bus_heap b));
     (is_looping, did_write_value, h) \<leftarrow> write_tiers addr v (tiers b) (True, False, h);
     let b = b\<lparr>bus_heap := h\<rparr>;
     let (did_write_value, b) =
       (if did_write_value then (True, b)
        else case write_vector b addr v of None \<Rightarrow> (False, b) | Some b \<Rightarrow> (True, b));
     h \<leftarrow> (case post_op b of None \<Rightarrow> Some (bus_heap b) | Some ms \<Rightarrow> chain_writes addr v ms (bus_heap b));
     let b = b\<lparr>bus_heap := h\<rparr>;
     Some (if did_write_value \<and> \<not> cache_disable b then membus_wcache_push b v else b) }"

section \<open>Ranges of addresses\<close>

text \<open>The two 32-bit bounds of a range loop: the range operations pull an end beyond the address
  space back to \<open>0xFFFF\<close>, the stream operations to \<open>0x10000\<close>.  The loop variable is truncated
  to 16 bits by each access.\<close>

definition range_stop :: "memory_addr_range \<Rightarrow> nat" where
  "range_stop r =
    (let addr_end = unat (addr_lo r) + unat (addr_len r)
     in if addr_end > 0x10000 then 0xFFFF else addr_end)"

definition stream_stop :: "memory_addr_range \<Rightarrow> nat" where
  "stream_stop r =
    (let addr_end = unat (addr_lo r) + unat (addr_len r)
     in if addr_end > 0x10000 then 0x10000 else addr_end)"

definition membus_write_byte_to_range :: "membus \<Rightarrow> memory_addr_range \<Rightarrow> u8 \<Rightarrow> membus option" where
  "membus_write_byte_to_range b r v =
    (let addr = unat (addr_lo r)
     in write_run membus_write_addr addr (replicate (range_stop r - addr) v) b)"

text \<open>The pieces alternate, low byte first.\<close>

fun word_pieces :: "u8 \<Rightarrow> u8 \<Rightarrow> nat \<Rightarrow> nat \<Rightarrow> u8 list" where
  "word_pieces lo hi piece 0 = []"
| "word_pieces lo hi piece (Suc n) =
     (if piece \<noteq> 0 then hi else lo) # word_pieces lo hi ((piece + 1) mod 2) n"

definition membus_write_word_to_range :: "membus \<Rightarrow> memory_addr_range \<Rightarrow> u16 \<Rightarrow> membus option" where
  "membus_write_word_to_range b r v =
    (let addr = unat (addr_lo r); lo = ucast (v AND 0x00FF); hi = ucast (drop_bit 8 v)
     in write_run membus_write_addr addr (word_pieces lo hi 0 (range_stop r - addr)) b)"

definition membus_copy_out_bytes ::
    "membus \<Rightarrow> memory_addr_range \<Rightarrow> (u8 list \<times> membus) option" where
  "membus_copy_out_bytes b r =
    (let addr = unat (addr_lo r) in read_run membus_read_addr addr (range_stop r - addr) b)"

text \<open>Reading past the end of the caller's buffer is undefined.\<close>

definition membus_copy_in_bytes ::
    "membus \<Rightarrow> u8 list \<Rightarrow> memory_addr_range \<Rightarrow> membus option" where
  "membus_copy_in_bytes b bytes_ptr r =
    (let addr = unat (addr_lo r); n = range_stop r - addr
     in if length bytes_ptr < n then None
        else write_run membus_write_addr addr (take n bytes_ptr) b)"

text \<open>\<^verbatim>\<open>fread\<close> takes the bytes that are left in the stream, up to the length asked for.\<close>

function load_chunks :: "nat \<Rightarrow> nat \<Rightarrow> nat \<Rightarrow> u8 list \<Rightarrow> membus \<Rightarrow> (nat \<times> u8 list \<times> membus) option" where
  "load_chunks addr addr_end total_bytes stream b =
    (if addr < addr_end then
       let read_len = (if addr_end - addr + 1 > 4096 then 4096 else addr_end - addr + 1);
           bytes_read = min read_len (length stream)
       in if bytes_read = 0 then Some (total_bytes, stream, b)
          else do {
            b \<leftarrow> write_run membus_write_addr addr (take bytes_read stream) b;
            load_chunks (addr + bytes_read) addr_end (total_bytes + bytes_read)
              (drop bytes_read stream) b }
     else Some (total_bytes, stream, b))"
  by pat_completeness auto

termination
  by (relation "measure (\<lambda>(_, _, _, stream, _). length stream)") (auto simp: Let_def)

definition membus_load_from_stream ::
    "membus \<Rightarrow> memory_addr_range \<Rightarrow> u8 list \<Rightarrow> (nat \<times> u8 list \<times> membus) option" where
  "membus_load_from_stream b r stream =
     load_chunks (unat (addr_lo r)) (stream_stop r) 0 stream b"

text \<open>\<^verbatim>\<open>fwrite\<close> to a stream that takes everything.\<close>

function save_chunks :: "nat \<Rightarrow> nat \<Rightarrow> nat \<Rightarrow> u8 list \<Rightarrow> membus \<Rightarrow> (nat \<times> u8 list \<times> membus) option" where
  "save_chunks addr addr_end total_bytes out b =
    (if addr < addr_end then
       let write_len = (if addr_end - addr > 4096 then 4096 else addr_end - addr)
       in do {
            (bytes, b) \<leftarrow> read_run membus_read_addr addr write_len b;
            save_chunks (addr + write_len) addr_end (total_bytes + write_len) (out @ bytes) b }
     else Some (total_bytes, out, b))"
  by pat_completeness auto

termination
  by (relation "measure (\<lambda>(addr, addr_end, _). addr_end - addr)") (auto simp: Let_def)

definition membus_save_to_stream ::
    "membus \<Rightarrow> memory_addr_range \<Rightarrow> (nat \<times> u8 list \<times> membus) option" where
  "membus_save_to_stream b r = save_chunks (unat (addr_lo r)) (stream_stop r) 0 [] b"

declare load_chunks.simps [simp del]
declare save_chunks.simps [simp del]

section \<open>Well-formed buses\<close>

text \<open>Every reference is to a live module, the modules of a tier are in the order of their start
  addresses, the tiers are in increasing order, and no module listens before the operation (the
  modules of this library dereference the null pointer a pre-op read passes).\<close>

definition module_lo :: "module_heap \<Rightarrow> module_ref \<Rightarrow> u16" where
  "module_lo h m = (case deref h m of None \<Rightarrow> 0 | Some md \<Rightarrow> addr_lo (addr_range md))"

definition chain_ok :: "module_heap \<Rightarrow> module_ref list \<Rightarrow> bool" where
  "chain_ok h ms \<longleftrightarrow> (\<forall>m \<in> set ms. deref h m \<noteq> None)
     \<and> sorted_wrt (\<lambda>m n. module_lo h m \<le> module_lo h n) ms"

definition tiers_ok :: "module_heap \<Rightarrow> (int \<times> module_ref list) list \<Rightarrow> bool" where
  "tiers_ok h ts \<longleftrightarrow> (\<forall>(t, ms) \<in> set ts. chain_ok h ms) \<and> sorted_wrt (<) (List.map fst ts)"

definition bus_ok :: "membus \<Rightarrow> bool" where
  "bus_ok b \<longleftrightarrow> heap_ok (bus_heap b) \<and> tiers_ok (bus_heap b) (tiers b) \<and> pre_op b = None
     \<and> (\<forall>ms. post_op b = Some ms \<longrightarrow> chain_ok (bus_heap b) ms)"

lemma same_shape_deref:
  assumes "same_shape h h'"
  shows "deref h m = None \<longleftrightarrow> deref h' m = None" and "module_lo h m = module_lo h' m"
proof -
  have e: "map_option addr_range (deref h m) = map_option addr_range (deref h' m)"
    using assms by (simp add: same_shape_def)
  then show "deref h m = None \<longleftrightarrow> deref h' m = None"
    by (cases "deref h m"; cases "deref h' m") auto
  show "module_lo h m = module_lo h' m"
    using e by (cases "deref h m"; cases "deref h' m") (auto simp: module_lo_def)
qed

lemma same_shape_trans: "\<lbrakk>same_shape h1 h2; same_shape h2 h3\<rbrakk> \<Longrightarrow> same_shape h1 h3"
  by (simp add: same_shape_def)

lemma same_shape_chain: "same_shape h h' \<Longrightarrow> chain_ok h ms = chain_ok h' ms"
  by (simp add: chain_ok_def same_shape_deref)

lemma same_shape_tiers: "same_shape h h' \<Longrightarrow> tiers_ok h ts = tiers_ok h' ts"
  by (simp add: tiers_ok_def same_shape_chain)

lemma chain_ok_Cons:
  "chain_ok h (m # ms) \<Longrightarrow> chain_ok h ms \<and> (\<exists>md. deref h m = Some md)"
  by (auto simp: chain_ok_def)

lemma tiers_ok_Cons: "tiers_ok h ((t, ms) # ts) \<Longrightarrow> tiers_ok h ts \<and> chain_ok h ms"
  by (auto simp: tiers_ok_def)

end
