(* ===== verification/Isa_Base.thy ===== *)
theory Isa_Base
  imports Registers Membus
begin

text \<open>
  What every instruction of the processor works on, \<^verbatim>\<open>src/isa_6502.h\<close> and the head of
  \<^verbatim>\<open>src/isa_6502.c\<close>: addressing modes, pipeline stages, the instruction context, the stack.

  An instruction exists twice.  Its staged body is called once per clock cycle and keeps its
  progress in C \<^verbatim>\<open>static\<close> variables; its static body runs at once and adds the cycles.  The record
  \<open>isa_locals\<close> holds the variables of both: for a staged body it is the value the statics have
  between calls, for a static body the indeterminate value its automatic variables start with.
  A body that cannot complete a memory access (see \<open>module_read\<close>) has no result.
\<close>

section \<open>Data\<close>

datatype isa_6502_addressing =
    isa_6502_addressing_undefined
  | isa_6502_addressing_accumulator
  | isa_6502_addressing_absolute
  | isa_6502_addressing_absolute_x_indexed
  | isa_6502_addressing_absolute_y_indexed
  | isa_6502_addressing_immediate
  | isa_6502_addressing_implied
  | isa_6502_addressing_indirect
  | isa_6502_addressing_x_indexed_indirect
  | isa_6502_addressing_indirect_y_indexed
  | isa_6502_addressing_relative
  | isa_6502_addressing_zeropage
  | isa_6502_addressing_zeropage_x_indexed
  | isa_6502_addressing_zeropage_y_indexed
  | isa_6502_addressing_zeropage_indirect
  | isa_6502_addressing_absolute_x_indexed_indirect

text \<open>The operand count of a mode; \<open>None\<close> for the index \<open>-1\<close> of the undefined mode.\<close>

definition isa_6502_addressing_operand_counts :: "isa_6502_addressing \<Rightarrow> nat option" where
  "isa_6502_addressing_operand_counts m =
    (case m of
       isa_6502_addressing_undefined \<Rightarrow> None
     | isa_6502_addressing_accumulator \<Rightarrow> Some 0
     | isa_6502_addressing_absolute \<Rightarrow> Some 2
     | isa_6502_addressing_absolute_x_indexed \<Rightarrow> Some 2
     | isa_6502_addressing_absolute_y_indexed \<Rightarrow> Some 2
     | isa_6502_addressing_immediate \<Rightarrow> Some 1
     | isa_6502_addressing_implied \<Rightarrow> Some 0
     | isa_6502_addressing_indirect \<Rightarrow> Some 2
     | isa_6502_addressing_x_indexed_indirect \<Rightarrow> Some 1
     | isa_6502_addressing_indirect_y_indexed \<Rightarrow> Some 1
     | isa_6502_addressing_relative \<Rightarrow> Some 1
     | isa_6502_addressing_zeropage \<Rightarrow> Some 1
     | isa_6502_addressing_zeropage_x_indexed \<Rightarrow> Some 1
     | isa_6502_addressing_zeropage_y_indexed \<Rightarrow> Some 1
     | isa_6502_addressing_zeropage_indirect \<Rightarrow> Some 1
     | isa_6502_addressing_absolute_x_indexed_indirect \<Rightarrow> Some 2)"

datatype isa_6502_instr_stage =
    isa_6502_instr_stage_pre_load_PC
  | isa_6502_instr_stage_post_load_PC
  | isa_6502_instr_stage_pre_fetch_opcode
  | isa_6502_instr_stage_post_fetch_opcode
  | isa_6502_instr_stage_pre_decode_opcode
  | isa_6502_instr_stage_post_decode_opcode
  | isa_6502_instr_stage_pre_next_cycle
  | isa_6502_instr_stage_next_cycle
  | isa_6502_instr_stage_end
  | isa_6502_instr_stage_disasm
  | isa_6502_instr_stage_execution_complete
  | isa_6502_instr_stage_enter_nmi
  | isa_6502_instr_stage_exec_nmi
  | isa_6502_instr_stage_enter_irq
  | isa_6502_instr_stage_exec_irq
  | isa_6502_instr_stage_exec_dma
  | isa_6502_instr_stage_illegal_instruction

record isa_6502_instr_context =
  opcode :: u8
  addressing_mode :: isa_6502_addressing
  cycle_count :: u64
  memory :: membus
  registers :: registers

record isa_locals =
  ADDR16 :: u16
  ADDR16_pre_index :: u16
  INDIRECT :: u16
  ADDR8 :: u8
  DELTA :: u8
  OPERAND :: u16
  OPERAND8 :: u8
  is_BCD :: bool
  is_OPERAND_SET :: bool
  is_penultimate :: bool
  local_A :: u8
  local_X :: u8
  local_Y :: u8
  local_SR :: u8
  local_cycle_count :: u8
  local_flag_bits :: u8

type_synonym staged_body =
  "isa_locals \<Rightarrow> isa_6502_instr_context
    \<Rightarrow> (isa_6502_instr_stage \<times> isa_locals \<times> isa_6502_instr_context) option"

type_synonym static_body =
  "isa_6502_instr_stage \<Rightarrow> isa_locals \<Rightarrow> isa_6502_instr_context
    \<Rightarrow> (isa_6502_instr_stage \<times> isa_6502_instr_context) option"

text \<open>Every staged body overwrites the stage it is passed, so only the static bodies take it: the
  loads and stores return it as it came.\<close>

text \<open>Update of the registers of a context, and the two things every body returns.\<close>

definition with_reg :: "(registers \<Rightarrow> registers) \<Rightarrow> isa_6502_instr_context \<Rightarrow> isa_6502_instr_context" where
  "with_reg f c = c\<lparr>registers := f (registers c)\<rparr>"

definition add_cycles :: "u64 \<Rightarrow> isa_6502_instr_context \<Rightarrow> isa_6502_instr_context" where
  "add_cycles n c = c\<lparr>cycle_count := cycle_count c + n\<rparr>"

abbreviation next_cycle ::
    "isa_locals \<Rightarrow> isa_6502_instr_context
      \<Rightarrow> (isa_6502_instr_stage \<times> isa_locals \<times> isa_6502_instr_context) option" where
  "next_cycle l c \<equiv> Some (isa_6502_instr_stage_next_cycle, l, c)"

abbreviation instr_end ::
    "isa_locals \<Rightarrow> isa_6502_instr_context
      \<Rightarrow> (isa_6502_instr_stage \<times> isa_locals \<times> isa_6502_instr_context) option" where
  "instr_end l c \<equiv> Some (isa_6502_instr_stage_end, l, c)"

section \<open>Memory and stack\<close>

definition rd :: "isa_6502_instr_context \<Rightarrow> u16 \<Rightarrow> (u8 \<times> isa_6502_instr_context) option" where
  "rd c a = do { (v, m) \<leftarrow> membus_read_addr (memory c) a; Some (v, c\<lparr>memory := m\<rparr>) }"

definition wr :: "isa_6502_instr_context \<Rightarrow> u16 \<Rightarrow> u8 \<Rightarrow> isa_6502_instr_context option" where
  "wr c a v = do { m \<leftarrow> membus_write_addr (memory c) a v; Some (c\<lparr>memory := m\<rparr>) }"

text \<open>\<open>membus_read_addr(memory, PC++)\<close>\<close>

definition fetch :: "isa_6502_instr_context \<Rightarrow> (u8 \<times> isa_6502_instr_context) option" where
  "fetch c =
    (let pc = reg_PC (registers c) in rd (with_reg (\<lambda>r. r\<lparr>reg_PC := pc + 1\<rparr>) c) pc)"

definition isa_6502_pop :: "registers \<Rightarrow> membus \<Rightarrow> (u8 \<times> registers \<times> membus) option" where
  "isa_6502_pop r m =
    (let r = r\<lparr>reg_SP := reg_SP r + 1\<rparr> in do {
       (v, m) \<leftarrow> membus_read_addr m (0x0100 + (widen (reg_SP r) AND 0x00FF));
       Some (v, r, m) })"

definition isa_6502_push :: "registers \<Rightarrow> membus \<Rightarrow> u8 \<Rightarrow> (registers \<times> membus) option" where
  "isa_6502_push r m v =
    (let a = 0x0100 + (widen (reg_SP r) AND 0x00FF) in do {
       m \<leftarrow> membus_write_addr m a v;
       Some (r\<lparr>reg_SP := reg_SP r - 1\<rparr>, m) })"

definition pop :: "isa_6502_instr_context \<Rightarrow> (u8 \<times> isa_6502_instr_context) option" where
  "pop c = do {
     (v, r, m) \<leftarrow> isa_6502_pop (registers c) (memory c);
     Some (v, c\<lparr>registers := r, memory := m\<rparr>) }"

definition push :: "isa_6502_instr_context \<Rightarrow> u8 \<Rightarrow> isa_6502_instr_context option" where
  "push c v = do {
     (r, m) \<leftarrow> isa_6502_push (registers c) (memory c) v;
     Some (c\<lparr>registers := r, memory := m\<rparr>) }"

lemmas access_defs [ctx_defs] = rd_def wr_def fetch_def isa_6502_pop_def isa_6502_push_def
  pop_def push_def with_reg_def add_cycles_def

section \<open>Running a staged body\<close>

text \<open>Up to \<open>n\<close> clock cycles: the body is called, the cycle counter advances, and the run stops
  once the body answers that the instruction has ended.\<close>

primrec run_cycles :: "nat \<Rightarrow> staged_body \<Rightarrow> staged_body" where
  "run_cycles 0 f l c = next_cycle l c"
| "run_cycles (Suc n) f l c = do {
     (at_stage, l, c) \<leftarrow> f l c;
     let c = add_cycles 1 c;
     if at_stage = isa_6502_instr_stage_end then instr_end l c else run_cycles n f l c }"

lemma run_cycles_numeral [simp]:
  "run_cycles (numeral k) f l c = do {
     (at_stage, l, c) \<leftarrow> f l c;
     let c = add_cycles 1 c;
     if at_stage = isa_6502_instr_stage_end then instr_end l c
     else run_cycles (pred_numeral k) f l c }"
  by (simp add: numeral_eq_Suc)

text \<open>The stage and context a staged run leaves, and those of a static call: its caller ignores the
  stage it returns and takes the instruction as ended.\<close>

definition staged_outcome ::
    "nat \<Rightarrow> staged_body \<Rightarrow> isa_locals \<Rightarrow> isa_6502_instr_context
      \<Rightarrow> (isa_6502_instr_stage \<times> isa_6502_instr_context) option" where
  "staged_outcome n f l c = map_option (\<lambda>(at_stage, l, c). (at_stage, c)) (run_cycles n f l c)"

definition static_outcome ::
    "static_body \<Rightarrow> isa_locals \<Rightarrow> isa_6502_instr_context
      \<Rightarrow> (isa_6502_instr_stage \<times> isa_6502_instr_context) option" where
  "static_outcome f l c =
     map_option (\<lambda>(at_stage, c). (isa_6502_instr_stage_end, c)) (f isa_6502_instr_stage_next_cycle l c)"

section \<open>Statements the bodies share\<close>

text \<open>One C statement each, on the variables and the context: the fetch of an address byte, the
  fetch of the two halves of an address, the same through the zero page pointer \<open>ADDR8\<close>.\<close>

type_synonym statement =
  "isa_locals \<Rightarrow> isa_6502_instr_context \<Rightarrow> (isa_locals \<times> isa_6502_instr_context) option"

definition ADDR8_fetch :: statement where
  "ADDR8_fetch l c = do { (v, c) \<leftarrow> fetch c; Some (l\<lparr>ADDR8 := v\<rparr>, c) }"

definition ADDR16_fetch_lo :: statement where
  "ADDR16_fetch_lo l c = do { (v, c) \<leftarrow> fetch c; Some (l\<lparr>ADDR16 := widen v\<rparr>, c) }"

definition ADDR16_fetch_hi :: statement where
  "ADDR16_fetch_hi l c = do {
     (v, c) \<leftarrow> fetch c;
     Some (l\<lparr>ADDR16 := ADDR16 l OR push_bit 8 (widen v)\<rparr>, c) }"

definition ADDR16_zeropage_lo :: statement where
  "ADDR16_zeropage_lo l c = do {
     (v, c) \<leftarrow> rd c (widen (ADDR8 l));
     Some (l\<lparr>ADDR8 := ADDR8 l + 1, ADDR16 := widen v\<rparr>, c) }"

definition ADDR16_zeropage_hi :: statement where
  "ADDR16_zeropage_hi l c = do {
     (v, c) \<leftarrow> rd c (widen (ADDR8 l));
     Some (l\<lparr>ADDR16 := ADDR16 l OR push_bit 8 (widen v)\<rparr>, c) }"

text \<open>The operand is an 8-bit variable in some bodies and a 16-bit one in others.\<close>

definition OPERAND_read :: "u16 \<Rightarrow> statement" where
  "OPERAND_read a l c = do { (v, c) \<leftarrow> rd c a; Some (l\<lparr>OPERAND := widen v\<rparr>, c) }"

definition OPERAND_fetch :: statement where
  "OPERAND_fetch l c = do { (v, c) \<leftarrow> fetch c; Some (l\<lparr>OPERAND := widen v\<rparr>, c) }"

definition OPERAND8_read :: "u16 \<Rightarrow> statement" where
  "OPERAND8_read a l c = do { (v, c) \<leftarrow> rd c a; Some (l\<lparr>OPERAND8 := v\<rparr>, c) }"

definition OPERAND8_fetch :: statement where
  "OPERAND8_fetch l c = do { (v, c) \<leftarrow> fetch c; Some (l\<lparr>OPERAND8 := v\<rparr>, c) }"

definition same_page :: "u16 \<Rightarrow> u16 \<Rightarrow> bool" where
  "same_page a b \<longleftrightarrow> a AND 0xFF00 = b AND 0xFF00"

text \<open>\<open>ADDR16_pre_index = ADDR16; ADDR16 += index\<close>\<close>

definition ADDR16_index :: "u8 \<Rightarrow> isa_locals \<Rightarrow> isa_locals" where
  "ADDR16_index i l = l\<lparr>ADDR16_pre_index := ADDR16 l, ADDR16 := ADDR16 l + widen i\<rparr>"

text \<open>A statement, then the answer that the instruction goes on or has ended.\<close>

definition and_next :: "statement \<Rightarrow> staged_body" where
  "and_next s l c = do { (l, c) \<leftarrow> s l c; next_cycle l c }"

definition and_end :: "statement \<Rightarrow> staged_body" where
  "and_end s l c = do { (l, c) \<leftarrow> s l c; instr_end l c }"

lemmas statement_defs [ctx_defs] = ADDR8_fetch_def ADDR16_fetch_lo_def ADDR16_fetch_hi_def
  ADDR16_zeropage_lo_def ADDR16_zeropage_hi_def OPERAND_read_def OPERAND_fetch_def
  OPERAND8_read_def OPERAND8_fetch_def ADDR16_index_def and_next_def and_end_def

end
