(* ===== verification/Inline_Disasm.thy ===== *)
theory Inline_Disasm
  imports C_Strings Isa_Base
begin

text \<open>
  What the disassembly functions of the instructions share (\<^verbatim>\<open>ISA_6502_DISASM\<close> in \<^verbatim>\<open>src/isa_6502/*.c\<close>,
  compiled with \<^verbatim>\<open>ENABLE_DISASSEMBLY\<close>): called after an instruction, such a function pops from the
  rings of the bus what the instruction has read and written, and prints it by a format string.
\<close>

section \<open>Formats\<close>

text \<open>The conversions of \<^verbatim>\<open>snprintf\<close> that occur, each with or without the position of its argument.\<close>

datatype conversion = Hex2 | Hex4 | Signed | Digit

definition read_conversion :: "string \<Rightarrow> (conversion \<times> string) option" where
  "read_conversion s =
    (if take 5 s = ''02hhX'' then Some (Hex2, drop 5 s)
     else if take 4 s = ''04hX'' then Some (Hex4, drop 4 s)
     else if take 4 s = ''+hhd'' then Some (Signed, drop 4 s)
     else if take 3 s = ''hhu'' then Some (Digit, drop 3 s)
     else None)"

text \<open>Behind the percent sign: the position, from 0 on, the conversion and the rest.\<close>

definition read_directive :: "nat \<Rightarrow> string \<Rightarrow> (nat \<times> conversion \<times> string) option" where
  "read_directive k s =
    (case s of
       d # c # s' \<Rightarrow>
         if c = CHR ''$'' then
           (case digit_value d of
              None \<Rightarrow> None
            | Some n \<Rightarrow> map_option (\<lambda>(cv, s). (n - 1, cv, s)) (read_conversion s'))
         else map_option (\<lambda>(cv, s). (k, cv, s)) (read_conversion s)
     | _ \<Rightarrow> None)"

datatype piece = Text char | Argument nat conversion

lemma read_conversion_length: "read_conversion s = Some (cv, s') \<Longrightarrow> length s' \<le> length s"
  by (auto simp: read_conversion_def split: if_splits)

lemma read_directive_length: "read_directive k s = Some (n, cv, s') \<Longrightarrow> length s' \<le> length s"
  by (auto simp: read_directive_def dest!: read_conversion_length split: list.splits if_splits option.splits)

function read_format :: "nat \<Rightarrow> string \<Rightarrow> piece list option" where
  "read_format k [] = Some []"
| "read_format k (c # s) =
    (if c = CHR ''%'' then
       (case read_directive k s of
          None \<Rightarrow> None
        | Some (n, cv, s') \<Rightarrow> map_option ((#) (Argument n cv)) (read_format (k + 1) s'))
     else map_option ((#) (Text c)) (read_format k s))"
  by pat_completeness auto

termination
  by (relation "measure (\<lambda>(k, s). length s)") (auto dest!: read_directive_length)

text \<open>An argument is an \<^verbatim>\<open>int\<close>, of which a conversion takes the low bytes.\<close>

fun convert :: "conversion \<Rightarrow> u32 \<Rightarrow> string" where
  "convert Hex2 v = hex2 (ucast v)"
| "convert Hex4 v = hex4 (ucast v)"
| "convert Signed v = signed_text (ucast v)"
| "convert Digit v = dec_text (unat (ucast v :: u8))"

definition print_piece :: "u32 list \<Rightarrow> piece \<Rightarrow> string" where
  "print_piece args p =
    (case p of Text c \<Rightarrow> [c] | Argument n cv \<Rightarrow> convert cv (if n < length args then args ! n else 0))"

text \<open>What is written to a buffer that is long enough.  A directive without an argument does not occur.\<close>

definition c_snprintf :: "string \<Rightarrow> u32 list \<Rightarrow> string option" where
  "c_snprintf fmt args = map_option (\<lambda>ps. concat (List.map (print_piece args) ps)) (read_format 0 fmt)"

section \<open>Disassembly functions\<close>

text \<open>The variables of the functions; one that is printed without having been set has the value it
  happens to have.\<close>

datatype disasm_var =
  Operand | Operand1 | Operand2 | Operand3 | Operand4 | Value | Value1 | Value2 | Result

type_synonym disasm_vars = "disasm_var \<Rightarrow> u8"

text \<open>\<open>x = membus_rcache_pop(opcode_context->memory)\<close>, \<open>x = membus_wcache_pop(...)\<close>\<close>

datatype disasm_pop = Rcache disasm_var | Wcache disasm_var

fun run_pops :: "disasm_pop list \<Rightarrow> disasm_vars \<Rightarrow> membus \<Rightarrow> disasm_vars \<times> membus" where
  "run_pops [] vars b = (vars, b)"
| "run_pops (Rcache x # ps) vars b = (let (v, b) = membus_rcache_pop b in run_pops ps (vars(x := v)) b)"
| "run_pops (Wcache x # ps) vars b = (let (v, b) = membus_wcache_pop b in run_pops ps (vars(x := v)) b)"

datatype disasm_arg = Of_var disasm_var | Of_signed disasm_var | Of_A | Of_X | Of_Y | Of_PC | Of_flag u8

fun arg_value :: "disasm_vars \<Rightarrow> registers \<Rightarrow> disasm_arg \<Rightarrow> u32" where
  "arg_value vars r (Of_var x) = ucast (vars x)"
| "arg_value vars r (Of_signed x) = scast (vars x)"
| "arg_value vars r Of_A = ucast (reg_A r)"
| "arg_value vars r Of_X = ucast (reg_X r)"
| "arg_value vars r Of_Y = ucast (reg_Y r)"
| "arg_value vars r Of_PC = ucast (reg_PC r)"
| "arg_value vars r (Of_flag which) = ucast (registers_SR_get_bit r which)"

text \<open>A function is, for each addressing mode, what it pops, its format and the arguments.  \<open>None\<close>: the
  format stays the null pointer.\<close>

type_synonym disasm_body = "isa_6502_addressing \<Rightarrow> (disasm_pop list \<times> string \<times> disasm_arg list) option"

definition run_disasm ::
    "disasm_body \<Rightarrow> disasm_vars \<Rightarrow> isa_6502_instr_context \<Rightarrow> (string \<times> isa_6502_instr_context) option" where
  "run_disasm body vars c = do {
     (pops, fmt, args) \<leftarrow> body (addressing_mode c);
     let (vars, b) = run_pops pops vars (memory c);
     text \<leftarrow> c_snprintf fmt (List.map (arg_value vars (registers c)) args);
     Some (text, c\<lparr>memory := b\<rparr>) }"

section \<open>What a disassembly leaves\<close>

text \<open>The variables and their values are in the text only, and the pops move only the indices of the rings.\<close>

lemma run_pops_bus: "\<exists>i j. snd (run_pops pops vars b) = b\<lparr>rcache_idx := i, wcache_idx := j\<rparr>"
proof (induction pops vars b rule: run_pops.induct)
  case (1 vars b)
  then show ?case by (intro exI [of _ "rcache_idx b"] exI [of _ "wcache_idx b"]) simp
qed (fastforce simp: membus_rcache_pop_def membus_wcache_pop_def Let_def)+

lemma run_pops_vars: "snd (run_pops pops vars b) = snd (run_pops pops vars' b)"
proof (induction pops arbitrary: vars vars' b)
  case (Cons p pops)
  show ?case by (cases p; simp add: split_beta; rule Cons.IH)
qed simp

lemma run_disasm_vars: "map_option snd (run_disasm body vars c) = map_option snd (run_disasm body vars' c)"
proof (cases "body (addressing_mode c)")
  case (Some e)
  obtain pops fmt args where e: "e = (pops, fmt, args)" by (cases e)
  show ?thesis
    using arg_cong [where f = "\<lambda>b. c\<lparr>memory := b\<rparr>", OF run_pops_vars [of pops vars "memory c" vars']]
    by (cases "read_format 0 fmt") (simp_all add: Some e run_disasm_def c_snprintf_def split_beta)
qed (simp add: run_disasm_def)

lemma run_disasm_bus:
  assumes "run_disasm body vars c = Some (shown, c')"
  shows "\<exists>i j. memory c' = (memory c)\<lparr>rcache_idx := i, wcache_idx := j\<rparr>"
proof -
  obtain pops where "memory c' = snd (run_pops pops vars (memory c))"
    using assms by (auto simp: run_disasm_def bind_eq_Some_conv split_beta Let_def)
  then show ?thesis using run_pops_bus [of pops vars "memory c"] by simp
qed

end
