(* ===== verification/Isa_Alu.thy ===== *)
theory Isa_Alu
  imports Isa_Base
begin

text \<open>
  The two-operand instructions of \<^verbatim>\<open>src/isa_6502/{ADC,SBC,AND,EOR,ORA}.c\<close>.  The five files
  contain the same operand fetch, staged and static, word for word; it is translated once
  (\<open>operand_cycle\<close> and \<open>operand_static\<close>).
\<close>

section \<open>The operand fetch\<close>

definition operand_cycle :: staged_body where
  "operand_cycle l c =
    (if cycle_count c = 1 then
       (case addressing_mode c of
          isa_6502_addressing_immediate \<Rightarrow> and_end OPERAND_fetch l c
        | isa_6502_addressing_zeropage \<Rightarrow> and_next ADDR8_fetch l c
        | isa_6502_addressing_zeropage_x_indexed \<Rightarrow> and_next ADDR8_fetch l c
        | isa_6502_addressing_x_indexed_indirect \<Rightarrow> and_next ADDR8_fetch l c
        | isa_6502_addressing_indirect_y_indexed \<Rightarrow> and_next ADDR8_fetch l c
        | isa_6502_addressing_absolute \<Rightarrow> and_next ADDR16_fetch_lo l c
        | isa_6502_addressing_absolute_x_indexed \<Rightarrow> and_next ADDR16_fetch_lo l c
        | isa_6502_addressing_absolute_y_indexed \<Rightarrow> and_next ADDR16_fetch_lo l c
        | _ \<Rightarrow> next_cycle l c)
     else if cycle_count c = 2 then
       (case addressing_mode c of
          isa_6502_addressing_zeropage \<Rightarrow> and_end (OPERAND_read (widen (ADDR8 l))) l c
        | isa_6502_addressing_zeropage_x_indexed \<Rightarrow>
            next_cycle (l\<lparr>ADDR8 := ADDR8 l + reg_X (registers c)\<rparr>) c
        | isa_6502_addressing_absolute \<Rightarrow> and_next ADDR16_fetch_hi l c
        | isa_6502_addressing_absolute_x_indexed \<Rightarrow> and_next ADDR16_fetch_hi l c
        | isa_6502_addressing_absolute_y_indexed \<Rightarrow> and_next ADDR16_fetch_hi l c
        | isa_6502_addressing_x_indexed_indirect \<Rightarrow>
            next_cycle (l\<lparr>ADDR8 := ADDR8 l + reg_X (registers c)\<rparr>) c
        | isa_6502_addressing_indirect_y_indexed \<Rightarrow> and_next ADDR16_zeropage_lo l c
        | _ \<Rightarrow> next_cycle l c)
     else if cycle_count c = 3 then
       (case addressing_mode c of
          isa_6502_addressing_zeropage_x_indexed \<Rightarrow> and_end (OPERAND_read (widen (ADDR8 l))) l c
        | isa_6502_addressing_absolute \<Rightarrow> and_end (OPERAND_read (ADDR16 l)) l c
        | isa_6502_addressing_absolute_x_indexed \<Rightarrow>
            (let l = ADDR16_index (reg_X (registers c)) l
             in if same_page (ADDR16_pre_index l) (ADDR16 l)
                then and_end (OPERAND_read (ADDR16 l)) l c else next_cycle l c)
        | isa_6502_addressing_absolute_y_indexed \<Rightarrow>
            (let l = ADDR16_index (reg_Y (registers c)) l
             in if same_page (ADDR16_pre_index l) (ADDR16 l)
                then and_end (OPERAND_read (ADDR16 l)) l c else next_cycle l c)
        | isa_6502_addressing_x_indexed_indirect \<Rightarrow> and_next ADDR16_zeropage_lo l c
        | isa_6502_addressing_indirect_y_indexed \<Rightarrow> and_next ADDR16_zeropage_hi l c
        | _ \<Rightarrow> next_cycle l c)
     else if cycle_count c = 4 then
       (case addressing_mode c of
          isa_6502_addressing_absolute_x_indexed \<Rightarrow> and_end (OPERAND_read (ADDR16 l)) l c
        | isa_6502_addressing_absolute_y_indexed \<Rightarrow> and_end (OPERAND_read (ADDR16 l)) l c
        | isa_6502_addressing_x_indexed_indirect \<Rightarrow> and_next ADDR16_zeropage_hi l c
        | isa_6502_addressing_indirect_y_indexed \<Rightarrow>
            (let l = ADDR16_index (reg_Y (registers c)) l
             in if same_page (ADDR16_pre_index l) (ADDR16 l)
                then and_end (OPERAND_read (ADDR16 l)) l c else next_cycle l c)
        | _ \<Rightarrow> next_cycle l c)
     else if cycle_count c = 5 then and_end (OPERAND_read (ADDR16 l)) l c
     else next_cycle l c)"

text \<open>The static fetch returns the operand and adds the cycles.  In the two indexed absolute modes
  it reads from \<open>ADDR8\<close>, a variable that nothing has set.\<close>

definition operand_static :: "isa_locals \<Rightarrow> isa_6502_instr_context \<Rightarrow> (u16 \<times> isa_6502_instr_context) option" where
  "operand_static l c =
    (case addressing_mode c of
       isa_6502_addressing_immediate \<Rightarrow> do {
         (l, c) \<leftarrow> OPERAND_fetch l c;
         Some (OPERAND l, add_cycles 1 c) }
     | isa_6502_addressing_zeropage \<Rightarrow> do {
         (l, c) \<leftarrow> ADDR8_fetch l c;
         (l, c) \<leftarrow> OPERAND_read (widen (ADDR8 l)) l c;
         Some (OPERAND l, add_cycles 2 c) }
     | isa_6502_addressing_zeropage_x_indexed \<Rightarrow> do {
         (l, c) \<leftarrow> ADDR8_fetch l c;
         let l = l\<lparr>ADDR8 := ADDR8 l + reg_X (registers c)\<rparr>;
         (l, c) \<leftarrow> OPERAND_read (widen (ADDR8 l)) l c;
         Some (OPERAND l, add_cycles 3 c) }
     | isa_6502_addressing_absolute \<Rightarrow> do {
         (l, c) \<leftarrow> ADDR16_fetch_lo l c;
         (l, c) \<leftarrow> ADDR16_fetch_hi l c;
         (l, c) \<leftarrow> OPERAND_read (ADDR16 l) l c;
         Some (OPERAND l, add_cycles 3 c) }
     | isa_6502_addressing_absolute_x_indexed \<Rightarrow> do {
         (l, c) \<leftarrow> ADDR16_fetch_lo l c;
         (l, c) \<leftarrow> ADDR16_fetch_hi l c;
         let l = ADDR16_index (reg_X (registers c)) l;
         (l, c) \<leftarrow> OPERAND_read (widen (ADDR8 l)) l c;
         Some (OPERAND l, add_cycles (3 + of_bool (\<not> same_page (ADDR16_pre_index l) (ADDR16 l))) c) }
     | isa_6502_addressing_absolute_y_indexed \<Rightarrow> do {
         (l, c) \<leftarrow> ADDR16_fetch_lo l c;
         (l, c) \<leftarrow> ADDR16_fetch_hi l c;
         let l = ADDR16_index (reg_Y (registers c)) l;
         (l, c) \<leftarrow> OPERAND_read (widen (ADDR8 l)) l c;
         Some (OPERAND l, add_cycles (3 + of_bool (\<not> same_page (ADDR16_pre_index l) (ADDR16 l))) c) }
     | isa_6502_addressing_x_indexed_indirect \<Rightarrow> do {
         (l, c) \<leftarrow> ADDR8_fetch l c;
         let l = l\<lparr>ADDR8 := ADDR8 l + reg_X (registers c)\<rparr>;
         (l, c) \<leftarrow> ADDR16_zeropage_lo l c;
         (l, c) \<leftarrow> ADDR16_zeropage_hi l c;
         (l, c) \<leftarrow> OPERAND_read (ADDR16 l) l c;
         Some (OPERAND l, add_cycles 5 c) }
     | isa_6502_addressing_indirect_y_indexed \<Rightarrow> do {
         (l, c) \<leftarrow> ADDR8_fetch l c;
         (l, c) \<leftarrow> ADDR16_zeropage_lo l c;
         (l, c) \<leftarrow> ADDR16_zeropage_hi l c;
         let l = ADDR16_index (reg_Y (registers c)) l;
         (l, c) \<leftarrow> OPERAND_read (ADDR16 l) l c;
         Some (OPERAND l, add_cycles (4 + of_bool (\<not> same_page (ADDR16_pre_index l) (ADDR16 l))) c) }
     | _ \<Rightarrow> Some (OPERAND l, c))"

section \<open>Add and subtract\<close>

text \<open>The tail both bodies of \<^verbatim>\<open>ADC\<close> share: the sum (decimal digit by decimal digit when \<open>is_BCD\<close>), the
  overflow test before the last decimal correction, the flags on top of \<open>flag_bits\<close>.\<close>

definition adc_sum :: "bool \<Rightarrow> u16 \<Rightarrow> registers \<Rightarrow> u16" where
  "adc_sum bcd operand r =
    (let A = widen (reg_A r); C = widen (registers_SR_get_bit r register_SR_Bit_C)
     in if bcd then
          let ALU = (operand AND 0x000F) + (A AND 0x000F) + C;
              ALU = (if ALU > 0x0009 then ALU + 0x0006 else ALU)
          in (operand AND 0x00F0) + (A AND 0x00F0) + (if ALU > 0x000F then 0x0010 else 0x0000)
             + (ALU AND 0x000F)
        else operand + A + C)"

definition overflow_bit :: "u16 \<Rightarrow> u16 \<Rightarrow> u16 \<Rightarrow> bool" where
  "overflow_bit A operand ALU \<longleftrightarrow> NOT (A XOR operand) AND (A XOR ALU) AND 0x0080 \<noteq> 0"

definition alu_flags :: "u8 \<Rightarrow> bool \<Rightarrow> u16 \<Rightarrow> u8" where
  "alu_flags flag_bits overflow ALU =
    (let f = (if overflow then flag_bits OR register_SR_Bit_V else flag_bits);
         f = (if ALU AND 0x00FF = 0 then f OR register_SR_Bit_Z else f);
         f = (if ALU AND 0x0080 \<noteq> 0 then f OR register_SR_Bit_N else f)
     in if ALU AND 0xFF00 \<noteq> 0 then f OR register_SR_Bit_C else f)"

definition alu_store :: "u8 \<Rightarrow> bool \<Rightarrow> u16 \<Rightarrow> registers \<Rightarrow> registers" where
  "alu_store flag_bits overflow ALU r =
     r\<lparr>reg_SR := (reg_SR r AND NOT (register_SR_Bit_C OR register_SR_Bit_Z OR register_SR_Bit_V
         OR register_SR_Bit_N)) OR alu_flags flag_bits overflow ALU,
       reg_A := ucast (ALU AND 0x00FF)\<rparr>"

definition adc_finish :: "bool \<Rightarrow> u16 \<Rightarrow> u8 \<Rightarrow> registers \<Rightarrow> registers" where
  "adc_finish bcd operand flag_bits r =
    (let ALU = adc_sum bcd operand r;
         overflow = overflow_bit (widen (reg_A r)) operand ALU;
         ALU = (if bcd \<and> ALU > 0x009F then ALU + 0x0060 else ALU)
     in alu_store flag_bits overflow ALU r)"

text \<open>\<^verbatim>\<open>SBC\<close> adds the complement of the operand, taken on 16 bits.\<close>

definition sbc_sum :: "bool \<Rightarrow> u16 \<Rightarrow> registers \<Rightarrow> u16" where
  "sbc_sum bcd operand r =
    (let A = widen (reg_A r); C = widen (registers_SR_get_bit r register_SR_Bit_C)
     in if bcd then
          let ALU = (operand AND 0x000F) + (A AND 0x000F) + C;
              ALU = (if ALU \<le> 0x000F then ALU - 0x0006 else ALU)
          in (operand AND 0x00F0) + (A AND 0x00F0) + (if ALU > 0x000F then 0x0010 else 0x0000)
             + (ALU AND 0x000F)
        else operand + A + C)"

definition sbc_finish :: "bool \<Rightarrow> u16 \<Rightarrow> u8 \<Rightarrow> registers \<Rightarrow> registers" where
  "sbc_finish bcd operand flag_bits r =
    (let operand = NOT operand;
         ALU = sbc_sum bcd operand r;
         overflow = overflow_bit (widen (reg_A r)) operand ALU;
         ALU = (if bcd \<and> ALU \<le> 0x00FF then ALU - 0x0060 else ALU)
     in alu_store flag_bits overflow ALU r)"

definition decimal_mode :: "isa_6502_instr_context \<Rightarrow> bool" where
  "decimal_mode c \<longleftrightarrow> registers_SR_get_bit (registers c) register_SR_Bit_D \<noteq> 0"

definition isa_6502_ADC :: staged_body where
  "isa_6502_ADC l c = do {
     let l = (if cycle_count c = 1 then l\<lparr>is_BCD := decimal_mode c\<rparr> else l);
     (at_stage, l, c) \<leftarrow> operand_cycle l c;
     if at_stage = isa_6502_instr_stage_end
     then instr_end l (with_reg (adc_finish (is_BCD l) (OPERAND l) 0x00) c)
     else Some (at_stage, l, c) }"

text \<open>The static bodies of \<^verbatim>\<open>ADC\<close> and \<^verbatim>\<open>SBC\<close> never set \<open>flag_bits\<close> before they add to it.\<close>

definition isa_6502_static_ADC :: static_body where
  "isa_6502_static_ADC at_stage l c = do {
     let bcd = decimal_mode c;
     (operand, c) \<leftarrow> operand_static l c;
     Some (isa_6502_instr_stage_end,
       with_reg (adc_finish bcd operand (local_flag_bits l)) c) }"

definition isa_6502_SBC :: staged_body where
  "isa_6502_SBC l c = do {
     let l = (if cycle_count c = 1 then l\<lparr>is_BCD := decimal_mode c\<rparr> else l);
     (at_stage, l, c) \<leftarrow> operand_cycle l c;
     if at_stage = isa_6502_instr_stage_end
     then instr_end (l\<lparr>OPERAND := NOT (OPERAND l)\<rparr>)
            (with_reg (sbc_finish (is_BCD l) (OPERAND l) 0x00) c)
     else Some (at_stage, l, c) }"

definition isa_6502_static_SBC :: static_body where
  "isa_6502_static_SBC at_stage l c = do {
     let bcd = decimal_mode c;
     (operand, c) \<leftarrow> operand_static l c;
     Some (isa_6502_instr_stage_end,
       with_reg (sbc_finish bcd operand (local_flag_bits l)) c) }"

section \<open>And, exclusive or, or\<close>

definition logic_finish :: "(u8 \<Rightarrow> u8 \<Rightarrow> u8) \<Rightarrow> u16 \<Rightarrow> registers \<Rightarrow> registers" where
  "logic_finish f operand r =
     registers_did_set_A (r\<lparr>reg_A := f (reg_A r) (ucast operand)\<rparr>) registers_Carry_ignore"

definition isa_6502_AND :: staged_body where
  "isa_6502_AND l c = do {
     (at_stage, l, c) \<leftarrow> operand_cycle l c;
     if at_stage = isa_6502_instr_stage_end
     then instr_end l (with_reg (logic_finish (AND) (OPERAND l)) c)
     else Some (at_stage, l, c) }"

definition isa_6502_static_AND :: static_body where
  "isa_6502_static_AND at_stage l c = do {
     (operand, c) \<leftarrow> operand_static l c;
     Some (isa_6502_instr_stage_end, with_reg (logic_finish (AND) operand) c) }"

definition isa_6502_EOR :: staged_body where
  "isa_6502_EOR l c = do {
     (at_stage, l, c) \<leftarrow> operand_cycle l c;
     if at_stage = isa_6502_instr_stage_end
     then instr_end l (with_reg (logic_finish (XOR) (OPERAND l)) c)
     else Some (at_stage, l, c) }"

definition isa_6502_static_EOR :: static_body where
  "isa_6502_static_EOR at_stage l c = do {
     (operand, c) \<leftarrow> operand_static l c;
     Some (isa_6502_instr_stage_end, with_reg (logic_finish (XOR) operand) c) }"

definition isa_6502_ORA :: staged_body where
  "isa_6502_ORA l c = do {
     (at_stage, l, c) \<leftarrow> operand_cycle l c;
     if at_stage = isa_6502_instr_stage_end
     then instr_end l (with_reg (logic_finish (OR) (OPERAND l)) c)
     else Some (at_stage, l, c) }"

definition isa_6502_static_ORA :: static_body where
  "isa_6502_static_ORA at_stage l c = do {
     (operand, c) \<leftarrow> operand_static l c;
     Some (isa_6502_instr_stage_end, with_reg (logic_finish (OR) operand) c) }"

lemmas alu_staged_defs [staged_defs] = isa_6502_ADC_def isa_6502_SBC_def isa_6502_AND_def
  isa_6502_EOR_def isa_6502_ORA_def operand_cycle_def

lemmas alu_static_defs [static_defs] = isa_6502_static_ADC_def isa_6502_static_SBC_def
  isa_6502_static_AND_def isa_6502_static_EOR_def isa_6502_static_ORA_def operand_static_def

section \<open>The two bodies agree\<close>

text \<open>The modes in which both bodies read the operand the same way.\<close>

definition operand_modes :: "isa_6502_addressing set" where
  "operand_modes = {isa_6502_addressing_immediate, isa_6502_addressing_zeropage,
     isa_6502_addressing_zeropage_x_indexed, isa_6502_addressing_absolute,
     isa_6502_addressing_x_indexed_indirect, isa_6502_addressing_indirect_y_indexed}"

end
