(* ===== verification/Isa65_Alu.thy ===== *)
theory Isa65_Alu
  imports Isa_Alu
begin

text \<open>
  The two-operand instructions of the 65C02, \<^verbatim>\<open>src/isa_65C02/{AND,EOR,ORA,ADC,SBC}.c\<close>.  The fetch has a
  further mode, \<open>($XX)\<close>; \<^verbatim>\<open>ADC\<close> and \<^verbatim>\<open>SBC\<close> take a further cycle in decimal mode.  What is computed is that
  of \<open>Isa_Alu\<close>: the tails of the files are those of the base dialect.
\<close>

section \<open>AND, EOR, ORA\<close>

definition operand65_cycle :: staged_body where
  "operand65_cycle l c =
    (if cycle_count c = 1 then
       (case addressing_mode c of
          isa_6502_addressing_immediate \<Rightarrow> and_end OPERAND_fetch l c
        | isa_6502_addressing_zeropage \<Rightarrow> and_next ADDR8_fetch l c
        | isa_6502_addressing_zeropage_x_indexed \<Rightarrow> and_next ADDR8_fetch l c
        | isa_6502_addressing_x_indexed_indirect \<Rightarrow> and_next ADDR8_fetch l c
        | isa_6502_addressing_indirect_y_indexed \<Rightarrow> and_next ADDR8_fetch l c
        | isa_6502_addressing_zeropage_indirect \<Rightarrow> and_next ADDR8_fetch l c
        | isa_6502_addressing_absolute \<Rightarrow> and_next ADDR16_fetch_lo l c
        | isa_6502_addressing_absolute_x_indexed \<Rightarrow> and_next ADDR16_fetch_lo l c
        | isa_6502_addressing_absolute_y_indexed \<Rightarrow> and_next ADDR16_fetch_lo l c
        | _ \<Rightarrow> next_cycle l c)
     else if cycle_count c = 2 then
       (case addressing_mode c of
          isa_6502_addressing_zeropage \<Rightarrow> and_end (OPERAND_read (widen (ADDR8 l))) l c
        | isa_6502_addressing_zeropage_x_indexed \<Rightarrow>
              next_cycle (l\<lparr>ADDR8 := ADDR8 l + reg_X (registers c)\<rparr>) c
        | isa_6502_addressing_absolute \<Rightarrow> and_next ADDR16_fetch_hi l c
        | isa_6502_addressing_absolute_x_indexed \<Rightarrow> and_next ADDR16_fetch_hi l c
        | isa_6502_addressing_absolute_y_indexed \<Rightarrow> and_next ADDR16_fetch_hi l c
        | isa_6502_addressing_x_indexed_indirect \<Rightarrow>
              next_cycle (l\<lparr>ADDR8 := ADDR8 l + reg_X (registers c)\<rparr>) c
        | isa_6502_addressing_zeropage_indirect \<Rightarrow> and_next ADDR16_zeropage_lo l c
        | isa_6502_addressing_indirect_y_indexed \<Rightarrow> and_next ADDR16_zeropage_lo l c
        | _ \<Rightarrow> next_cycle l c)
     else if cycle_count c = 3 then
       (case addressing_mode c of
          isa_6502_addressing_zeropage_x_indexed \<Rightarrow>
              and_end (OPERAND_read (widen (ADDR8 l))) l c
        | isa_6502_addressing_absolute \<Rightarrow> and_end (OPERAND_read (ADDR16 l)) l c
        | isa_6502_addressing_absolute_x_indexed \<Rightarrow>
              (let l = ADDR16_index (reg_X (registers c)) l
               in if same_page (ADDR16_pre_index l) (ADDR16 l) then and_end (OPERAND_read (ADDR16 l)) l c
                  else next_cycle l c)
        | isa_6502_addressing_absolute_y_indexed \<Rightarrow>
              (let l = ADDR16_index (reg_Y (registers c)) l
               in if same_page (ADDR16_pre_index l) (ADDR16 l) then and_end (OPERAND_read (ADDR16 l)) l c
                  else next_cycle l c)
        | isa_6502_addressing_x_indexed_indirect \<Rightarrow> and_next ADDR16_zeropage_lo l c
        | isa_6502_addressing_zeropage_indirect \<Rightarrow> and_next ADDR16_zeropage_hi l c
        | isa_6502_addressing_indirect_y_indexed \<Rightarrow> and_next ADDR16_zeropage_hi l c
        | _ \<Rightarrow> next_cycle l c)
     else if cycle_count c = 4 then
       (case addressing_mode c of
          isa_6502_addressing_absolute_x_indexed \<Rightarrow>
              and_end (OPERAND_read (ADDR16 l)) l c
        | isa_6502_addressing_absolute_y_indexed \<Rightarrow>
              and_end (OPERAND_read (ADDR16 l)) l c
        | isa_6502_addressing_x_indexed_indirect \<Rightarrow> and_next ADDR16_zeropage_hi l c
        | isa_6502_addressing_indirect_y_indexed \<Rightarrow>
              (let l = ADDR16_index (reg_Y (registers c)) l
               in if same_page (ADDR16_pre_index l) (ADDR16 l) then and_end (OPERAND_read (ADDR16 l)) l c
                  else next_cycle l c)
        | isa_6502_addressing_zeropage_indirect \<Rightarrow>
              and_end (OPERAND_read (ADDR16 l)) l c
        | _ \<Rightarrow> next_cycle l c)
     else if cycle_count c = 5 then
       and_end (OPERAND_read (ADDR16 l)) l c
     else next_cycle l c)"

text \<open>The static fetch of the five files is one text.  As in the base dialect it reads from \<open>ADDR8\<close> in
  the two indexed absolute modes.\<close>

definition operand65_static :: statement where
  "operand65_static l c =
    (case addressing_mode c of
         isa_6502_addressing_immediate \<Rightarrow>
             do {
               (l, c) \<leftarrow> OPERAND_fetch l c;
               Some (l, add_cycles 1 c) }
       | isa_6502_addressing_zeropage \<Rightarrow>
             do {
               (l, c) \<leftarrow> ADDR8_fetch l c;
               (l, c) \<leftarrow> OPERAND_read (widen (ADDR8 l)) l c;
               Some (l, add_cycles 2 c) }
       | isa_6502_addressing_zeropage_x_indexed \<Rightarrow>
             do {
               (l, c) \<leftarrow> ADDR8_fetch l c;
               let l = l\<lparr>ADDR8 := ADDR8 l + reg_X (registers c)\<rparr>;
               (l, c) \<leftarrow> OPERAND_read (widen (ADDR8 l)) l c;
               Some (l, add_cycles 3 c) }
       | isa_6502_addressing_zeropage_indirect \<Rightarrow>
             do {
               (l, c) \<leftarrow> ADDR8_fetch l c;
               (l, c) \<leftarrow> ADDR16_zeropage_lo l c;
               (l, c) \<leftarrow> ADDR16_zeropage_hi l c;
               (l, c) \<leftarrow> OPERAND_read (ADDR16 l) l c;
               Some (l, add_cycles 4 c) }
       | isa_6502_addressing_absolute \<Rightarrow>
             do {
               (l, c) \<leftarrow> ADDR16_fetch_lo l c;
               (l, c) \<leftarrow> ADDR16_fetch_hi l c;
               (l, c) \<leftarrow> OPERAND_read (ADDR16 l) l c;
               Some (l, add_cycles 3 c) }
       | isa_6502_addressing_absolute_x_indexed \<Rightarrow>
             do {
               (l, c) \<leftarrow> ADDR16_fetch_lo l c;
               (l, c) \<leftarrow> ADDR16_fetch_hi l c;
               let l = ADDR16_index (reg_X (registers c)) l;
               (l, c) \<leftarrow> OPERAND_read (widen (ADDR8 l)) l c;
               Some (l, add_cycles (3 + of_bool (\<not> same_page (ADDR16_pre_index l) (ADDR16 l))) c) }
       | isa_6502_addressing_absolute_y_indexed \<Rightarrow>
             do {
               (l, c) \<leftarrow> ADDR16_fetch_lo l c;
               (l, c) \<leftarrow> ADDR16_fetch_hi l c;
               let l = ADDR16_index (reg_Y (registers c)) l;
               (l, c) \<leftarrow> OPERAND_read (widen (ADDR8 l)) l c;
               Some (l, add_cycles (3 + of_bool (\<not> same_page (ADDR16_pre_index l) (ADDR16 l))) c) }
       | isa_6502_addressing_x_indexed_indirect \<Rightarrow>
             do {
               (l, c) \<leftarrow> ADDR8_fetch l c;
               let l = l\<lparr>ADDR8 := ADDR8 l + reg_X (registers c)\<rparr>;
               (l, c) \<leftarrow> ADDR16_zeropage_lo l c;
               (l, c) \<leftarrow> ADDR16_zeropage_hi l c;
               (l, c) \<leftarrow> OPERAND_read (ADDR16 l) l c;
               Some (l, add_cycles 5 c) }
       | isa_6502_addressing_indirect_y_indexed \<Rightarrow>
             do {
               (l, c) \<leftarrow> ADDR8_fetch l c;
               (l, c) \<leftarrow> ADDR16_zeropage_lo l c;
               (l, c) \<leftarrow> ADDR16_zeropage_hi l c;
               let l = ADDR16_index (reg_Y (registers c)) l;
               (l, c) \<leftarrow> OPERAND_read (ADDR16 l) l c;
               Some (l, add_cycles (4 + of_bool (\<not> same_page (ADDR16_pre_index l) (ADDR16 l))) c) }
       | _ \<Rightarrow> Some (l, c))"

definition isa_65C02_AND :: staged_body where
  "isa_65C02_AND l c = do {
     (at_stage, l, c) \<leftarrow> operand65_cycle l c;
     if at_stage = isa_6502_instr_stage_end
     then instr_end l (with_reg (logic_finish (AND) (OPERAND l)) c)
     else Some (at_stage, l, c) }"

definition isa_65C02_static_AND :: static_body where
  "isa_65C02_static_AND at_stage l c = do {
     (l, c) \<leftarrow> operand65_static l c;
     Some (isa_6502_instr_stage_end, with_reg (logic_finish (AND) (OPERAND l)) c) }"

definition isa_65C02_EOR :: staged_body where
  "isa_65C02_EOR l c = do {
     (at_stage, l, c) \<leftarrow> operand65_cycle l c;
     if at_stage = isa_6502_instr_stage_end
     then instr_end l (with_reg (logic_finish (XOR) (OPERAND l)) c)
     else Some (at_stage, l, c) }"

definition isa_65C02_static_EOR :: static_body where
  "isa_65C02_static_EOR at_stage l c = do {
     (l, c) \<leftarrow> operand65_static l c;
     Some (isa_6502_instr_stage_end, with_reg (logic_finish (XOR) (OPERAND l)) c) }"

definition isa_65C02_ORA :: staged_body where
  "isa_65C02_ORA l c = do {
     (at_stage, l, c) \<leftarrow> operand65_cycle l c;
     if at_stage = isa_6502_instr_stage_end
     then instr_end l (with_reg (logic_finish (OR) (OPERAND l)) c)
     else Some (at_stage, l, c) }"

definition isa_65C02_static_ORA :: static_body where
  "isa_65C02_static_ORA at_stage l c = do {
     (l, c) \<leftarrow> operand65_static l c;
     Some (isa_6502_instr_stage_end, with_reg (logic_finish (OR) (OPERAND l)) c) }"

section \<open>ADC and SBC\<close>

text \<open>The end of a cycle that has read the operand: outside decimal mode the instruction ends, in
  decimal mode one more cycle follows.  In the indexed modes \<open>is_OPERAND_SET\<close> remembers whether the
  operand is there already.\<close>

definition OPERAND_unless_BCD :: "u16 \<Rightarrow> staged_body" where
  "OPERAND_unless_BCD a l c = do {
     (l, c) \<leftarrow> OPERAND_read a l c;
     if \<not> is_BCD l then instr_end l c else next_cycle l c }"

definition OPERAND_in_page :: staged_body where
  "OPERAND_in_page l c =
    (if same_page (ADDR16_pre_index l) (ADDR16 l) then do {
       (l, c) \<leftarrow> OPERAND_read (ADDR16 l) l c;
       let l = l\<lparr>is_OPERAND_SET := True\<rparr>;
       if \<not> is_BCD l then instr_end l c else next_cycle l c }
     else next_cycle (l\<lparr>is_OPERAND_SET := False\<rparr>) c)"

definition OPERAND_if_unset :: staged_body where
  "OPERAND_if_unset l c =
    (if is_OPERAND_SET l then instr_end l c else OPERAND_unless_BCD (ADDR16 l) l c)"

text \<open>No cycle handles the \<open>($XX)\<close> mode of the 65C02.\<close>

definition adder65_cycle :: staged_body where
  "adder65_cycle l c =
    (if cycle_count c = 1 then
       (let l = l\<lparr>is_BCD := decimal_mode c\<rparr> in
        (case addressing_mode c of
          isa_6502_addressing_immediate \<Rightarrow>
              do {
                (l, c) \<leftarrow> OPERAND_fetch l c;
                if \<not> is_BCD l then instr_end l c else next_cycle l c }
        | isa_6502_addressing_zeropage \<Rightarrow> and_next ADDR8_fetch l c
        | isa_6502_addressing_zeropage_x_indexed \<Rightarrow> and_next ADDR8_fetch l c
        | isa_6502_addressing_x_indexed_indirect \<Rightarrow> and_next ADDR8_fetch l c
        | isa_6502_addressing_indirect_y_indexed \<Rightarrow> and_next ADDR8_fetch l c
        | isa_6502_addressing_absolute \<Rightarrow> and_next ADDR16_fetch_lo l c
        | isa_6502_addressing_absolute_x_indexed \<Rightarrow> and_next ADDR16_fetch_lo l c
        | isa_6502_addressing_absolute_y_indexed \<Rightarrow> and_next ADDR16_fetch_lo l c
        | _ \<Rightarrow> next_cycle l c))
     else if cycle_count c = 2 then
       (case addressing_mode c of
          isa_6502_addressing_immediate \<Rightarrow> instr_end l c
        | isa_6502_addressing_zeropage \<Rightarrow> OPERAND_unless_BCD (widen (ADDR8 l)) l c
        | isa_6502_addressing_zeropage_x_indexed \<Rightarrow>
              next_cycle (l\<lparr>ADDR8 := ADDR8 l + reg_X (registers c)\<rparr>) c
        | isa_6502_addressing_absolute \<Rightarrow> and_next ADDR16_fetch_hi l c
        | isa_6502_addressing_absolute_x_indexed \<Rightarrow> and_next ADDR16_fetch_hi l c
        | isa_6502_addressing_absolute_y_indexed \<Rightarrow> and_next ADDR16_fetch_hi l c
        | isa_6502_addressing_x_indexed_indirect \<Rightarrow>
              next_cycle (l\<lparr>ADDR8 := ADDR8 l + reg_X (registers c)\<rparr>) c
        | isa_6502_addressing_indirect_y_indexed \<Rightarrow> and_next ADDR16_zeropage_lo l c
        | _ \<Rightarrow> next_cycle l c)
     else if cycle_count c = 3 then
       (case addressing_mode c of
          isa_6502_addressing_zeropage \<Rightarrow> instr_end l c
        | isa_6502_addressing_zeropage_x_indexed \<Rightarrow> OPERAND_unless_BCD (widen (ADDR8 l)) l c
        | isa_6502_addressing_absolute \<Rightarrow> OPERAND_unless_BCD (ADDR16 l) l c
        | isa_6502_addressing_absolute_x_indexed \<Rightarrow>
              OPERAND_in_page (ADDR16_index (reg_X (registers c)) l) c
        | isa_6502_addressing_absolute_y_indexed \<Rightarrow>
              OPERAND_in_page (ADDR16_index (reg_Y (registers c)) l) c
        | isa_6502_addressing_x_indexed_indirect \<Rightarrow> and_next ADDR16_zeropage_lo l c
        | isa_6502_addressing_indirect_y_indexed \<Rightarrow> and_next ADDR16_zeropage_hi l c
        | _ \<Rightarrow> next_cycle l c)
     else if cycle_count c = 4 then
       (case addressing_mode c of
          isa_6502_addressing_zeropage_x_indexed \<Rightarrow> instr_end l c
        | isa_6502_addressing_absolute \<Rightarrow> instr_end l c
        | isa_6502_addressing_absolute_x_indexed \<Rightarrow> OPERAND_if_unset l c
        | isa_6502_addressing_absolute_y_indexed \<Rightarrow> OPERAND_if_unset l c
        | isa_6502_addressing_x_indexed_indirect \<Rightarrow> and_next ADDR16_zeropage_hi l c
        | isa_6502_addressing_indirect_y_indexed \<Rightarrow>
              OPERAND_in_page (ADDR16_index (reg_Y (registers c)) l) c
        | _ \<Rightarrow> next_cycle l c)
     else if cycle_count c = 5 then
       (case addressing_mode c of
          isa_6502_addressing_absolute_x_indexed \<Rightarrow> instr_end l c
        | isa_6502_addressing_absolute_y_indexed \<Rightarrow> instr_end l c
        | isa_6502_addressing_x_indexed_indirect \<Rightarrow> OPERAND_unless_BCD (ADDR16 l) l c
        | isa_6502_addressing_indirect_y_indexed \<Rightarrow> OPERAND_if_unset l c
        | _ \<Rightarrow> next_cycle l c)
     else if cycle_count c = 6 then
       (case addressing_mode c of
          isa_6502_addressing_x_indexed_indirect \<Rightarrow> instr_end l c
        | isa_6502_addressing_indirect_y_indexed \<Rightarrow> instr_end l c
        | _ \<Rightarrow> next_cycle l c)
     else next_cycle l c)"

definition isa_65C02_ADC :: staged_body where
  "isa_65C02_ADC l c = do {
     (at_stage, l, c) \<leftarrow> adder65_cycle l c;
     if at_stage = isa_6502_instr_stage_end
     then instr_end l (with_reg (adc_finish (is_BCD l) (OPERAND l) 0x00) c)
     else Some (at_stage, l, c) }"

definition isa_65C02_static_ADC :: static_body where
  "isa_65C02_static_ADC at_stage l c = do {
     let bcd = decimal_mode c;
     (l, c) \<leftarrow> operand65_static l c;
     Some (isa_6502_instr_stage_end,
       with_reg (adc_finish bcd (OPERAND l) (local_flag_bits l)) (add_cycles (of_bool bcd) c)) }"

definition isa_65C02_SBC :: staged_body where
  "isa_65C02_SBC l c = do {
     (at_stage, l, c) \<leftarrow> adder65_cycle l c;
     if at_stage = isa_6502_instr_stage_end
     then instr_end (l\<lparr>OPERAND := NOT (OPERAND l)\<rparr>) (with_reg (sbc_finish (is_BCD l) (OPERAND l) 0x00) c)
     else Some (at_stage, l, c) }"

definition isa_65C02_static_SBC :: static_body where
  "isa_65C02_static_SBC at_stage l c = do {
     let bcd = decimal_mode c;
     (l, c) \<leftarrow> operand65_static l c;
     Some (isa_6502_instr_stage_end,
       with_reg (sbc_finish bcd (OPERAND l) (local_flag_bits l)) (add_cycles (of_bool bcd) c)) }"

lemmas alu65_staged_defs [staged_defs] = isa_65C02_AND_def isa_65C02_EOR_def isa_65C02_ORA_def
  isa_65C02_ADC_def isa_65C02_SBC_def operand65_cycle_def adder65_cycle_def OPERAND_unless_BCD_def
  OPERAND_in_page_def OPERAND_if_unset_def

lemmas alu65_static_defs [static_defs] = isa_65C02_static_AND_def isa_65C02_static_EOR_def
  isa_65C02_static_ORA_def isa_65C02_static_ADC_def isa_65C02_static_SBC_def operand65_static_def


end
