(* ===== verification/Isa_Load.thy ===== *)
theory Isa_Load
  imports Isa_Base
begin

text \<open>
  Loads and stores, \<^verbatim>\<open>src/isa_6502/{LDA,LDX,LDY,STA,STX,STY}.c\<close>.  \<^verbatim>\<open>LDX.c\<close> and \<^verbatim>\<open>LDY.c\<close> are
  the same text but for the register they set, \<^verbatim>\<open>STX.c\<close> and \<^verbatim>\<open>STY.c\<close> differ in the
  register they store and index with; each body is a definition of its own over the shared
  statements.
\<close>

section \<open>LDA\<close>

text \<open>In cycle 4 of the \<open>($XX),Y\<close> mode the high byte of the pointer is or-ed in without a shift, and in
  the \<open>($XX,X)\<close> mode the high byte is never read.\<close>

definition ADDR16_zeropage_unshifted :: statement where
  "ADDR16_zeropage_unshifted l c = do {
     (v, c) \<leftarrow> rd c (widen (ADDR8 l));
     Some (l\<lparr>ADDR16 := ADDR16 l OR widen v\<rparr>, c) }"

definition LDA_cycle :: staged_body where
  "LDA_cycle l c =
    (if cycle_count c = 1 then
       (case addressing_mode c of
          isa_6502_addressing_immediate \<Rightarrow> and_end OPERAND8_fetch l c
        | isa_6502_addressing_zeropage \<Rightarrow> and_next ADDR8_fetch l c
        | isa_6502_addressing_zeropage_x_indexed \<Rightarrow> and_next ADDR8_fetch l c
        | isa_6502_addressing_x_indexed_indirect \<Rightarrow> and_next ADDR8_fetch l c
        | isa_6502_addressing_indirect_y_indexed \<Rightarrow> and_next ADDR8_fetch l c
        | isa_6502_addressing_absolute \<Rightarrow> and_next ADDR16_fetch_lo l c
        | isa_6502_addressing_absolute_x_indexed \<Rightarrow> and_next ADDR16_fetch_lo l c
        | isa_6502_addressing_absolute_y_indexed \<Rightarrow> and_next ADDR16_fetch_lo l c
        | _ \<Rightarrow> next_cycle l c)
     else if cycle_count c = 2 then
       (case addressing_mode c of
          isa_6502_addressing_zeropage \<Rightarrow> and_end (OPERAND8_read (widen (ADDR8 l))) l c
        | isa_6502_addressing_zeropage_x_indexed \<Rightarrow>
              next_cycle (l\<lparr>ADDR8 := ADDR8 l + reg_X (registers c)\<rparr>) c
        | isa_6502_addressing_absolute \<Rightarrow> and_next ADDR16_fetch_hi l c
        | isa_6502_addressing_absolute_x_indexed \<Rightarrow> and_next ADDR16_fetch_hi l c
        | isa_6502_addressing_absolute_y_indexed \<Rightarrow> and_next ADDR16_fetch_hi l c
        | _ \<Rightarrow> next_cycle l c)
     else if cycle_count c = 3 then
       (case addressing_mode c of
          isa_6502_addressing_zeropage_x_indexed \<Rightarrow>
              and_end (OPERAND8_read (widen (ADDR8 l))) l c
        | isa_6502_addressing_absolute \<Rightarrow> and_end (OPERAND8_read (ADDR16 l)) l c
        | isa_6502_addressing_absolute_x_indexed \<Rightarrow>
              (let l = ADDR16_index (reg_X (registers c)) l
               in if same_page (ADDR16_pre_index l) (ADDR16 l)
                  then and_end (OPERAND8_read (ADDR16 l)) l c else next_cycle l c)
        | isa_6502_addressing_absolute_y_indexed \<Rightarrow>
              (let l = ADDR16_index (reg_Y (registers c)) l
               in if same_page (ADDR16_pre_index l) (ADDR16 l)
                  then and_end (OPERAND8_read (ADDR16 l)) l c else next_cycle l c)
        | isa_6502_addressing_x_indexed_indirect \<Rightarrow>
              next_cycle (l\<lparr>ADDR8 := ADDR8 l + reg_X (registers c)\<rparr>) c
        | isa_6502_addressing_indirect_y_indexed \<Rightarrow> and_next ADDR16_zeropage_lo l c
        | _ \<Rightarrow> next_cycle l c)
     else if cycle_count c = 4 then
       (case addressing_mode c of
          isa_6502_addressing_absolute_x_indexed \<Rightarrow>
              and_end (OPERAND8_read (ADDR16 l)) l c
        | isa_6502_addressing_absolute_y_indexed \<Rightarrow>
              and_end (OPERAND8_read (ADDR16 l)) l c
        | isa_6502_addressing_x_indexed_indirect \<Rightarrow> and_next ADDR16_zeropage_lo l c
        | isa_6502_addressing_indirect_y_indexed \<Rightarrow>
              do {
                (l, c) \<leftarrow> ADDR16_zeropage_unshifted l c;
                let l = ADDR16_index (reg_Y (registers c)) l;
                if same_page (ADDR16_pre_index l) (ADDR16 l)
                then and_end (OPERAND8_read (ADDR16 l)) l c else next_cycle l c }
        | _ \<Rightarrow> next_cycle l c)
     else if cycle_count c = 5 then
       and_end (OPERAND8_read (ADDR16 l)) l c
     else next_cycle l c)"

definition load_A :: "u8 \<Rightarrow> registers \<Rightarrow> registers" where
  "load_A v r = registers_did_set_A (r\<lparr>reg_A := v\<rparr>) registers_Carry_ignore"

definition isa_6502_LDA :: staged_body where
  "isa_6502_LDA l c = do {
     (at_stage, l, c) \<leftarrow> LDA_cycle l c;
     if at_stage = isa_6502_instr_stage_end
     then instr_end l (with_reg (load_A (OPERAND8 l)) c) else Some (at_stage, l, c) }"

definition LDA_fetch_static :: statement where
  "LDA_fetch_static l c =
    (case addressing_mode c of
       isa_6502_addressing_immediate \<Rightarrow>
           do {
             (l, c) \<leftarrow> OPERAND8_fetch l c;
             Some (l, add_cycles 1 c) }
     | isa_6502_addressing_zeropage \<Rightarrow>
           do {
             (l, c) \<leftarrow> ADDR8_fetch l c;
             (l, c) \<leftarrow> OPERAND8_read (widen (ADDR8 l)) l c;
             Some (l, add_cycles 2 c) }
     | isa_6502_addressing_zeropage_x_indexed \<Rightarrow>
           do {
             (l, c) \<leftarrow> ADDR8_fetch l c;
             let l = l\<lparr>ADDR8 := ADDR8 l + reg_X (registers c)\<rparr>;
             (l, c) \<leftarrow> OPERAND8_read (widen (ADDR8 l)) l c;
             Some (l, add_cycles 3 c) }
     | isa_6502_addressing_absolute \<Rightarrow>
           do {
             (l, c) \<leftarrow> ADDR16_fetch_lo l c;
             (l, c) \<leftarrow> ADDR16_fetch_hi l c;
             (l, c) \<leftarrow> OPERAND8_read (ADDR16 l) l c;
             Some (l, add_cycles 3 c) }
     | isa_6502_addressing_absolute_x_indexed \<Rightarrow>
           do {
             (l, c) \<leftarrow> ADDR16_fetch_lo l c;
             (l, c) \<leftarrow> ADDR16_fetch_hi l c;
             let l = ADDR16_index (reg_X (registers c)) l;
             (l, c) \<leftarrow> OPERAND8_read (ADDR16 l) l c;
             Some (l, add_cycles (3 + of_bool (\<not> same_page (ADDR16_pre_index l) (ADDR16 l))) c) }
     | isa_6502_addressing_absolute_y_indexed \<Rightarrow>
           do {
             (l, c) \<leftarrow> ADDR16_fetch_lo l c;
             (l, c) \<leftarrow> ADDR16_fetch_hi l c;
             let l = ADDR16_index (reg_Y (registers c)) l;
             (l, c) \<leftarrow> OPERAND8_read (ADDR16 l) l c;
             Some (l, add_cycles (3 + of_bool (\<not> same_page (ADDR16_pre_index l) (ADDR16 l))) c) }
     | isa_6502_addressing_x_indexed_indirect \<Rightarrow>
           do {
             (l, c) \<leftarrow> ADDR8_fetch l c;
             let l = l\<lparr>ADDR8 := ADDR8 l + reg_X (registers c)\<rparr>;
             (l, c) \<leftarrow> ADDR16_zeropage_lo l c;
             (l, c) \<leftarrow> ADDR16_zeropage_hi l c;
             (l, c) \<leftarrow> OPERAND8_read (ADDR16 l) l c;
             Some (l, add_cycles 5 c) }
     | isa_6502_addressing_indirect_y_indexed \<Rightarrow>
           do {
             (l, c) \<leftarrow> ADDR8_fetch l c;
             (l, c) \<leftarrow> ADDR16_zeropage_lo l c;
             (l, c) \<leftarrow> ADDR16_zeropage_hi l c;
             let l = ADDR16_index (reg_Y (registers c)) l;
             (l, c) \<leftarrow> OPERAND8_read (ADDR16 l) l c;
             Some (l, add_cycles (4 + of_bool (\<not> same_page (ADDR16_pre_index l) (ADDR16 l))) c) }
     | _ \<Rightarrow> Some (l, add_cycles (ucast (local_cycle_count l)) c))"

definition isa_6502_static_LDA :: static_body where
  "isa_6502_static_LDA at_stage l c = do {
     (l, c) \<leftarrow> LDA_fetch_static l c;
     Some (at_stage, with_reg (load_A (OPERAND8 l)) c) }"

section \<open>LDX and LDY\<close>

text \<open>\<^verbatim>\<open>LDX.c\<close> handles the modes indexed by X; the dispatch table asks it for those indexed by Y, which
  no case of either body matches.\<close>

definition LDX_cycle :: staged_body where
  "LDX_cycle l c =
    (if cycle_count c = 1 then
       (case addressing_mode c of
          isa_6502_addressing_immediate \<Rightarrow> and_end OPERAND8_fetch l c
        | isa_6502_addressing_zeropage \<Rightarrow> and_next ADDR8_fetch l c
        | isa_6502_addressing_zeropage_x_indexed \<Rightarrow> and_next ADDR8_fetch l c
        | isa_6502_addressing_absolute \<Rightarrow> and_next ADDR16_fetch_lo l c
        | isa_6502_addressing_absolute_x_indexed \<Rightarrow> and_next ADDR16_fetch_lo l c
        | _ \<Rightarrow> next_cycle l c)
     else if cycle_count c = 2 then
       (case addressing_mode c of
          isa_6502_addressing_zeropage \<Rightarrow> and_end (OPERAND8_read (widen (ADDR8 l))) l c
        | isa_6502_addressing_zeropage_x_indexed \<Rightarrow>
              next_cycle (l\<lparr>ADDR8 := ADDR8 l + reg_X (registers c)\<rparr>) c
        | isa_6502_addressing_absolute \<Rightarrow> and_next ADDR16_fetch_hi l c
        | isa_6502_addressing_absolute_x_indexed \<Rightarrow> and_next ADDR16_fetch_hi l c
        | _ \<Rightarrow> next_cycle l c)
     else if cycle_count c = 3 then
       (case addressing_mode c of
          isa_6502_addressing_zeropage_x_indexed \<Rightarrow>
              and_end (OPERAND8_read (widen (ADDR8 l))) l c
        | isa_6502_addressing_absolute \<Rightarrow> and_end (OPERAND8_read (ADDR16 l)) l c
        | isa_6502_addressing_absolute_x_indexed \<Rightarrow>
              (let l = ADDR16_index (reg_X (registers c)) l
               in if same_page (ADDR16_pre_index l) (ADDR16 l)
                  then and_end (OPERAND8_read (ADDR16 l)) l c else next_cycle l c)
        | _ \<Rightarrow> next_cycle l c)
     else if cycle_count c = 4 then
       (case addressing_mode c of
          isa_6502_addressing_absolute_x_indexed \<Rightarrow>
              and_end (OPERAND8_read (ADDR16 l)) l c
        | _ \<Rightarrow> next_cycle l c)
     else next_cycle l c)"

definition load_X :: "u8 \<Rightarrow> registers \<Rightarrow> registers" where
  "load_X v r = registers_did_set_X (r\<lparr>reg_X := v\<rparr>) registers_Carry_ignore"

definition isa_6502_LDX :: staged_body where
  "isa_6502_LDX l c = do {
     (at_stage, l, c) \<leftarrow> LDX_cycle l c;
     if at_stage = isa_6502_instr_stage_end
     then instr_end l (with_reg (load_X (OPERAND8 l)) c) else Some (at_stage, l, c) }"

definition LDX_fetch_static :: statement where
  "LDX_fetch_static l c =
    (case addressing_mode c of
       isa_6502_addressing_immediate \<Rightarrow>
           do {
             (l, c) \<leftarrow> OPERAND8_fetch l c;
             Some (l, add_cycles 1 c) }
     | isa_6502_addressing_zeropage \<Rightarrow>
           do {
             (l, c) \<leftarrow> ADDR8_fetch l c;
             (l, c) \<leftarrow> OPERAND8_read (widen (ADDR8 l)) l c;
             Some (l, add_cycles 2 c) }
     | isa_6502_addressing_zeropage_x_indexed \<Rightarrow>
           do {
             (l, c) \<leftarrow> ADDR8_fetch l c;
             let l = l\<lparr>ADDR8 := ADDR8 l + reg_X (registers c)\<rparr>;
             (l, c) \<leftarrow> OPERAND8_read (widen (ADDR8 l)) l c;
             Some (l, add_cycles 4 c) }
     | isa_6502_addressing_absolute \<Rightarrow>
           do {
             (l, c) \<leftarrow> ADDR16_fetch_lo l c;
             (l, c) \<leftarrow> ADDR16_fetch_hi l c;
             (l, c) \<leftarrow> OPERAND8_read (ADDR16 l) l c;
             Some (l, add_cycles 4 c) }
     | isa_6502_addressing_absolute_x_indexed \<Rightarrow>
           do {
             (l, c) \<leftarrow> ADDR16_fetch_lo l c;
             (l, c) \<leftarrow> ADDR16_fetch_hi l c;
             let l = ADDR16_index (reg_X (registers c)) l;
             (l, c) \<leftarrow> OPERAND8_read (ADDR16 l) l c;
             Some (l, add_cycles (4 + of_bool (\<not> same_page (ADDR16_pre_index l) (ADDR16 l))) c) }
     | _ \<Rightarrow> Some (l, add_cycles (ucast (local_cycle_count l)) c))"

definition isa_6502_static_LDX :: static_body where
  "isa_6502_static_LDX at_stage l c = do {
     (l, c) \<leftarrow> LDX_fetch_static l c;
     Some (at_stage, with_reg (load_X (OPERAND8 l)) c) }"

definition LDY_cycle :: staged_body where
  "LDY_cycle l c =
    (if cycle_count c = 1 then
       (case addressing_mode c of
          isa_6502_addressing_immediate \<Rightarrow> and_end OPERAND8_fetch l c
        | isa_6502_addressing_zeropage \<Rightarrow> and_next ADDR8_fetch l c
        | isa_6502_addressing_zeropage_x_indexed \<Rightarrow> and_next ADDR8_fetch l c
        | isa_6502_addressing_absolute \<Rightarrow> and_next ADDR16_fetch_lo l c
        | isa_6502_addressing_absolute_x_indexed \<Rightarrow> and_next ADDR16_fetch_lo l c
        | _ \<Rightarrow> next_cycle l c)
     else if cycle_count c = 2 then
       (case addressing_mode c of
          isa_6502_addressing_zeropage \<Rightarrow> and_end (OPERAND8_read (widen (ADDR8 l))) l c
        | isa_6502_addressing_zeropage_x_indexed \<Rightarrow>
              next_cycle (l\<lparr>ADDR8 := ADDR8 l + reg_X (registers c)\<rparr>) c
        | isa_6502_addressing_absolute \<Rightarrow> and_next ADDR16_fetch_hi l c
        | isa_6502_addressing_absolute_x_indexed \<Rightarrow> and_next ADDR16_fetch_hi l c
        | _ \<Rightarrow> next_cycle l c)
     else if cycle_count c = 3 then
       (case addressing_mode c of
          isa_6502_addressing_zeropage_x_indexed \<Rightarrow>
              and_end (OPERAND8_read (widen (ADDR8 l))) l c
        | isa_6502_addressing_absolute \<Rightarrow> and_end (OPERAND8_read (ADDR16 l)) l c
        | isa_6502_addressing_absolute_x_indexed \<Rightarrow>
              (let l = ADDR16_index (reg_X (registers c)) l
               in if same_page (ADDR16_pre_index l) (ADDR16 l)
                  then and_end (OPERAND8_read (ADDR16 l)) l c else next_cycle l c)
        | _ \<Rightarrow> next_cycle l c)
     else if cycle_count c = 4 then
       (case addressing_mode c of
          isa_6502_addressing_absolute_x_indexed \<Rightarrow>
              and_end (OPERAND8_read (ADDR16 l)) l c
        | _ \<Rightarrow> next_cycle l c)
     else next_cycle l c)"

definition load_Y :: "u8 \<Rightarrow> registers \<Rightarrow> registers" where
  "load_Y v r = registers_did_set_Y (r\<lparr>reg_Y := v\<rparr>) registers_Carry_ignore"

definition isa_6502_LDY :: staged_body where
  "isa_6502_LDY l c = do {
     (at_stage, l, c) \<leftarrow> LDY_cycle l c;
     if at_stage = isa_6502_instr_stage_end
     then instr_end l (with_reg (load_Y (OPERAND8 l)) c) else Some (at_stage, l, c) }"

definition LDY_fetch_static :: statement where
  "LDY_fetch_static l c =
    (case addressing_mode c of
       isa_6502_addressing_immediate \<Rightarrow>
           do {
             (l, c) \<leftarrow> OPERAND8_fetch l c;
             Some (l, add_cycles 1 c) }
     | isa_6502_addressing_zeropage \<Rightarrow>
           do {
             (l, c) \<leftarrow> ADDR8_fetch l c;
             (l, c) \<leftarrow> OPERAND8_read (widen (ADDR8 l)) l c;
             Some (l, add_cycles 2 c) }
     | isa_6502_addressing_zeropage_x_indexed \<Rightarrow>
           do {
             (l, c) \<leftarrow> ADDR8_fetch l c;
             let l = l\<lparr>ADDR8 := ADDR8 l + reg_X (registers c)\<rparr>;
             (l, c) \<leftarrow> OPERAND8_read (widen (ADDR8 l)) l c;
             Some (l, add_cycles 4 c) }
     | isa_6502_addressing_absolute \<Rightarrow>
           do {
             (l, c) \<leftarrow> ADDR16_fetch_lo l c;
             (l, c) \<leftarrow> ADDR16_fetch_hi l c;
             (l, c) \<leftarrow> OPERAND8_read (ADDR16 l) l c;
             Some (l, add_cycles 4 c) }
     | isa_6502_addressing_absolute_x_indexed \<Rightarrow>
           do {
             (l, c) \<leftarrow> ADDR16_fetch_lo l c;
             (l, c) \<leftarrow> ADDR16_fetch_hi l c;
             let l = ADDR16_index (reg_X (registers c)) l;
             (l, c) \<leftarrow> OPERAND8_read (ADDR16 l) l c;
             Some (l, add_cycles (4 + of_bool (\<not> same_page (ADDR16_pre_index l) (ADDR16 l))) c) }
     | _ \<Rightarrow> Some (l, add_cycles (ucast (local_cycle_count l)) c))"

definition isa_6502_static_LDY :: static_body where
  "isa_6502_static_LDY at_stage l c = do {
     (l, c) \<leftarrow> LDY_fetch_static l c;
     Some (at_stage, with_reg (load_Y (OPERAND8 l)) c) }"

section \<open>STA\<close>

text \<open>Cycle 5 of the two indirect modes completes the address and goes on to a cycle 6 that no case
  handles.\<close>

definition STA_cycle :: staged_body where
  "STA_cycle l c =
    (if cycle_count c = 1 then
       (case addressing_mode c of
          isa_6502_addressing_zeropage \<Rightarrow> and_next ADDR8_fetch l c
        | isa_6502_addressing_zeropage_x_indexed \<Rightarrow> and_next ADDR8_fetch l c
        | isa_6502_addressing_x_indexed_indirect \<Rightarrow> and_next ADDR8_fetch l c
        | isa_6502_addressing_indirect_y_indexed \<Rightarrow> and_next ADDR8_fetch l c
        | isa_6502_addressing_absolute \<Rightarrow> and_next ADDR16_fetch_lo l c
        | isa_6502_addressing_absolute_x_indexed \<Rightarrow> and_next ADDR16_fetch_lo l c
        | isa_6502_addressing_absolute_y_indexed \<Rightarrow> and_next ADDR16_fetch_lo l c
        | _ \<Rightarrow> next_cycle l c)
     else if cycle_count c = 2 then
       (case addressing_mode c of
          isa_6502_addressing_zeropage \<Rightarrow>
              instr_end (l\<lparr>ADDR16 := widen (ADDR8 l)\<rparr>) c
        | isa_6502_addressing_zeropage_x_indexed \<Rightarrow>
              next_cycle (l\<lparr>ADDR8 := ADDR8 l + reg_X (registers c)\<rparr>) c
        | isa_6502_addressing_absolute \<Rightarrow> and_next ADDR16_fetch_hi l c
        | isa_6502_addressing_absolute_x_indexed \<Rightarrow> and_next ADDR16_fetch_hi l c
        | isa_6502_addressing_absolute_y_indexed \<Rightarrow> and_next ADDR16_fetch_hi l c
        | _ \<Rightarrow> next_cycle l c)
     else if cycle_count c = 3 then
       (case addressing_mode c of
          isa_6502_addressing_zeropage_x_indexed \<Rightarrow>
              instr_end (l\<lparr>ADDR16 := widen (ADDR8 l)\<rparr>) c
        | isa_6502_addressing_absolute \<Rightarrow> instr_end l c
        | isa_6502_addressing_absolute_x_indexed \<Rightarrow>
              next_cycle (l\<lparr>ADDR16 := ADDR16 l + widen (reg_X (registers c))\<rparr>) c
        | isa_6502_addressing_absolute_y_indexed \<Rightarrow>
              next_cycle (l\<lparr>ADDR16 := ADDR16 l + widen (reg_Y (registers c))\<rparr>) c
        | isa_6502_addressing_x_indexed_indirect \<Rightarrow>
              next_cycle (l\<lparr>ADDR8 := ADDR8 l + reg_X (registers c)\<rparr>) c
        | isa_6502_addressing_indirect_y_indexed \<Rightarrow> and_next ADDR16_zeropage_lo l c
        | _ \<Rightarrow> next_cycle l c)
     else if cycle_count c = 4 then
       (case addressing_mode c of
          isa_6502_addressing_absolute_x_indexed \<Rightarrow> instr_end l c
        | isa_6502_addressing_absolute_y_indexed \<Rightarrow> instr_end l c
        | isa_6502_addressing_x_indexed_indirect \<Rightarrow> and_next ADDR16_zeropage_lo l c
        | isa_6502_addressing_indirect_y_indexed \<Rightarrow> and_next ADDR16_zeropage_hi l c
        | _ \<Rightarrow> next_cycle l c)
     else if cycle_count c = 5 then
       (case addressing_mode c of
          isa_6502_addressing_x_indexed_indirect \<Rightarrow> and_next ADDR16_zeropage_hi l c
        | isa_6502_addressing_indirect_y_indexed \<Rightarrow>
              next_cycle (l\<lparr>ADDR16 := ADDR16 l + widen (reg_Y (registers c))\<rparr>) c
        | _ \<Rightarrow> next_cycle l c)
     else next_cycle l c)"

definition isa_6502_STA :: staged_body where
  "isa_6502_STA l c = do {
     (at_stage, l, c) \<leftarrow> STA_cycle l c;
     if at_stage = isa_6502_instr_stage_end
     then do { c \<leftarrow> wr c (ADDR16 l) (reg_A (registers c)); instr_end l c }
     else Some (at_stage, l, c) }"

definition STA_address_static :: statement where
  "STA_address_static l c =
    (case addressing_mode c of
       isa_6502_addressing_zeropage \<Rightarrow>
           do {
             (l, c) \<leftarrow> ADDR16_fetch_lo l c;
             Some (l, add_cycles 2 c) }
     | isa_6502_addressing_zeropage_x_indexed \<Rightarrow>
           do {
             (l, c) \<leftarrow> ADDR8_fetch l c;
             let l = l\<lparr>ADDR8 := ADDR8 l + reg_X (registers c)\<rparr>;
             let l = l\<lparr>ADDR16 := widen (ADDR8 l)\<rparr>;
             Some (l, add_cycles 3 c) }
     | isa_6502_addressing_x_indexed_indirect \<Rightarrow>
           do {
             (l, c) \<leftarrow> ADDR8_fetch l c;
             let l = l\<lparr>ADDR8 := ADDR8 l + reg_X (registers c)\<rparr>;
             (l, c) \<leftarrow> ADDR16_zeropage_lo l c;
             (l, c) \<leftarrow> ADDR16_zeropage_hi l c;
             Some (l, add_cycles 5 c) }
     | isa_6502_addressing_indirect_y_indexed \<Rightarrow>
           do {
             (l, c) \<leftarrow> ADDR8_fetch l c;
             (l, c) \<leftarrow> ADDR16_zeropage_lo l c;
             (l, c) \<leftarrow> ADDR16_zeropage_hi l c;
             let l = l\<lparr>ADDR16 := ADDR16 l + widen (reg_Y (registers c))\<rparr>;
             Some (l, add_cycles 5 c) }
     | isa_6502_addressing_absolute \<Rightarrow>
           do {
             (l, c) \<leftarrow> ADDR16_fetch_lo l c;
             (l, c) \<leftarrow> ADDR16_fetch_hi l c;
             Some (l, add_cycles 3 c) }
     | isa_6502_addressing_absolute_x_indexed \<Rightarrow>
           do {
             (l, c) \<leftarrow> ADDR16_fetch_lo l c;
             (l, c) \<leftarrow> ADDR16_fetch_hi l c;
             let l = l\<lparr>ADDR16 := ADDR16 l + widen (reg_X (registers c))\<rparr>;
             Some (l, add_cycles 4 c) }
     | isa_6502_addressing_absolute_y_indexed \<Rightarrow>
           do {
             (l, c) \<leftarrow> ADDR16_fetch_lo l c;
             (l, c) \<leftarrow> ADDR16_fetch_hi l c;
             let l = l\<lparr>ADDR16 := ADDR16 l + widen (reg_Y (registers c))\<rparr>;
             Some (l, add_cycles 4 c) }
     | _ \<Rightarrow> Some (l, add_cycles (ucast (local_cycle_count l)) c))"

definition isa_6502_static_STA :: static_body where
  "isa_6502_static_STA at_stage l c = do {
     (l, c) \<leftarrow> STA_address_static l c;
     c \<leftarrow> wr c (ADDR16 l) (reg_A (registers c));
     Some (at_stage, c) }"

section \<open>STX and STY\<close>

definition STX_cycle :: staged_body where
  "STX_cycle l c =
    (if cycle_count c = 1 then
       (case addressing_mode c of
          isa_6502_addressing_zeropage \<Rightarrow> and_next ADDR8_fetch l c
        | isa_6502_addressing_zeropage_y_indexed \<Rightarrow> and_next ADDR8_fetch l c
        | isa_6502_addressing_absolute \<Rightarrow> and_next ADDR16_fetch_lo l c
        | _ \<Rightarrow> next_cycle l c)
     else if cycle_count c = 2 then
       (case addressing_mode c of
          isa_6502_addressing_zeropage \<Rightarrow>
              instr_end (l\<lparr>ADDR16 := widen (ADDR8 l)\<rparr>) c
        | isa_6502_addressing_zeropage_y_indexed \<Rightarrow>
              next_cycle (l\<lparr>ADDR8 := ADDR8 l + reg_Y (registers c)\<rparr>) c
        | isa_6502_addressing_absolute \<Rightarrow> and_next ADDR16_fetch_hi l c
        | _ \<Rightarrow> next_cycle l c)
     else if cycle_count c = 3 then
       (case addressing_mode c of
          isa_6502_addressing_zeropage_y_indexed \<Rightarrow>
              instr_end (l\<lparr>ADDR16 := widen (ADDR8 l)\<rparr>) c
        | _ \<Rightarrow> instr_end l c)
     else next_cycle l c)"

definition isa_6502_STX :: staged_body where
  "isa_6502_STX l c = do {
     (at_stage, l, c) \<leftarrow> STX_cycle l c;
     if at_stage = isa_6502_instr_stage_end
     then do { c \<leftarrow> wr c (ADDR16 l) (reg_X (registers c)); instr_end l c }
     else Some (at_stage, l, c) }"

definition STX_address_static :: statement where
  "STX_address_static l c =
    (case addressing_mode c of
       isa_6502_addressing_zeropage \<Rightarrow>
           do {
             (l, c) \<leftarrow> ADDR16_fetch_lo l c;
             Some (l, add_cycles 2 c) }
     | isa_6502_addressing_zeropage_y_indexed \<Rightarrow>
           do {
             (l, c) \<leftarrow> ADDR8_fetch l c;
             let l = l\<lparr>ADDR8 := ADDR8 l + reg_Y (registers c)\<rparr>;
             let l = l\<lparr>ADDR16 := widen (ADDR8 l)\<rparr>;
             Some (l, add_cycles 3 c) }
     | isa_6502_addressing_absolute \<Rightarrow>
           do {
             (l, c) \<leftarrow> ADDR16_fetch_lo l c;
             (l, c) \<leftarrow> ADDR16_fetch_hi l c;
             Some (l, add_cycles 3 c) }
     | _ \<Rightarrow> Some (l, add_cycles (ucast (local_cycle_count l)) c))"

definition isa_6502_static_STX :: static_body where
  "isa_6502_static_STX at_stage l c = do {
     (l, c) \<leftarrow> STX_address_static l c;
     c \<leftarrow> wr c (ADDR16 l) (reg_X (registers c));
     Some (at_stage, c) }"

definition STY_cycle :: staged_body where
  "STY_cycle l c =
    (if cycle_count c = 1 then
       (case addressing_mode c of
          isa_6502_addressing_zeropage \<Rightarrow> and_next ADDR8_fetch l c
        | isa_6502_addressing_zeropage_x_indexed \<Rightarrow> and_next ADDR8_fetch l c
        | isa_6502_addressing_absolute \<Rightarrow> and_next ADDR16_fetch_lo l c
        | _ \<Rightarrow> next_cycle l c)
     else if cycle_count c = 2 then
       (case addressing_mode c of
          isa_6502_addressing_zeropage \<Rightarrow>
              instr_end (l\<lparr>ADDR16 := widen (ADDR8 l)\<rparr>) c
        | isa_6502_addressing_zeropage_x_indexed \<Rightarrow>
              next_cycle (l\<lparr>ADDR8 := ADDR8 l + reg_X (registers c)\<rparr>) c
        | isa_6502_addressing_absolute \<Rightarrow> and_next ADDR16_fetch_hi l c
        | _ \<Rightarrow> next_cycle l c)
     else if cycle_count c = 3 then
       (case addressing_mode c of
          isa_6502_addressing_zeropage_x_indexed \<Rightarrow>
              instr_end (l\<lparr>ADDR16 := widen (ADDR8 l)\<rparr>) c
        | _ \<Rightarrow> instr_end l c)
     else next_cycle l c)"

definition isa_6502_STY :: staged_body where
  "isa_6502_STY l c = do {
     (at_stage, l, c) \<leftarrow> STY_cycle l c;
     if at_stage = isa_6502_instr_stage_end
     then do { c \<leftarrow> wr c (ADDR16 l) (reg_Y (registers c)); instr_end l c }
     else Some (at_stage, l, c) }"

definition STY_address_static :: statement where
  "STY_address_static l c =
    (case addressing_mode c of
       isa_6502_addressing_zeropage \<Rightarrow>
           do {
             (l, c) \<leftarrow> ADDR16_fetch_lo l c;
             Some (l, add_cycles 2 c) }
     | isa_6502_addressing_zeropage_x_indexed \<Rightarrow>
           do {
             (l, c) \<leftarrow> ADDR8_fetch l c;
             let l = l\<lparr>ADDR8 := ADDR8 l + reg_X (registers c)\<rparr>;
             let l = l\<lparr>ADDR16 := widen (ADDR8 l)\<rparr>;
             Some (l, add_cycles 3 c) }
     | isa_6502_addressing_absolute \<Rightarrow>
           do {
             (l, c) \<leftarrow> ADDR16_fetch_lo l c;
             (l, c) \<leftarrow> ADDR16_fetch_hi l c;
             Some (l, add_cycles 3 c) }
     | _ \<Rightarrow> Some (l, add_cycles (ucast (local_cycle_count l)) c))"

definition isa_6502_static_STY :: static_body where
  "isa_6502_static_STY at_stage l c = do {
     (l, c) \<leftarrow> STY_address_static l c;
     c \<leftarrow> wr c (ADDR16 l) (reg_Y (registers c));
     Some (at_stage, c) }"

lemmas load_staged_defs [staged_defs] = isa_6502_LDA_def LDA_cycle_def isa_6502_LDX_def LDX_cycle_def isa_6502_LDY_def LDY_cycle_def isa_6502_STA_def STA_cycle_def isa_6502_STX_def STX_cycle_def isa_6502_STY_def STY_cycle_def
  ADDR16_zeropage_unshifted_def

lemmas load_static_defs [static_defs] = isa_6502_static_LDA_def isa_6502_static_LDX_def isa_6502_static_LDY_def isa_6502_static_STA_def isa_6502_static_STX_def isa_6502_static_STY_def
  LDA_fetch_static_def LDX_fetch_static_def LDY_fetch_static_def STA_address_static_def
  STX_address_static_def STY_address_static_def

end
