(* ===== verification/Isa65_Load.thy ===== *)
theory Isa65_Load
  imports Isa_Load
begin

text \<open>
  Loads and stores of the 65C02, \<^verbatim>\<open>src/isa_65C02/{LDA,STA,STZ}.c\<close>: the mode \<open>($XX)\<close> in \<^verbatim>\<open>LDA\<close> and \<^verbatim>\<open>STA\<close>,
  whose high byte \<^verbatim>\<open>LDA\<close> or-s in without a shift, and the store of zero.
\<close>

section \<open>LDA\<close>

definition LDA65_cycle :: staged_body where
  "LDA65_cycle l c =
    (if cycle_count c = 1 then
       (case addressing_mode c of
          isa_6502_addressing_immediate \<Rightarrow> and_end OPERAND8_fetch l c
        | isa_6502_addressing_zeropage \<Rightarrow> and_next ADDR8_fetch l c
        | isa_6502_addressing_zeropage_x_indexed \<Rightarrow> and_next ADDR8_fetch l c
        | isa_6502_addressing_x_indexed_indirect \<Rightarrow> and_next ADDR8_fetch l c
        | isa_6502_addressing_indirect_y_indexed \<Rightarrow> and_next ADDR8_fetch l c
        | isa_6502_addressing_zeropage_indirect \<Rightarrow> and_next ADDR8_fetch l c
        | isa_6502_addressing_absolute \<Rightarrow> and_next ADDR16_fetch_lo l c
        | isa_6502_addressing_absolute_x_indexed \<Rightarrow> and_next ADDR16_fetch_lo l c
        | isa_6502_addressing_absolute_y_indexed \<Rightarrow> and_next ADDR16_fetch_lo l c
        | _ \<Rightarrow> next_cycle l c)
     else if cycle_count c = 2 then
       (case addressing_mode c of
          isa_6502_addressing_zeropage \<Rightarrow> and_end (OPERAND8_read (widen (ADDR8 l))) l c
        | isa_6502_addressing_zeropage_x_indexed \<Rightarrow>
              next_cycle (l\<lparr>ADDR8 := ADDR8 l + reg_X (registers c)\<rparr>) c
        | isa_6502_addressing_absolute \<Rightarrow> and_next ADDR16_fetch_hi l c
        | isa_6502_addressing_absolute_x_indexed \<Rightarrow> and_next ADDR16_fetch_hi l c
        | isa_6502_addressing_absolute_y_indexed \<Rightarrow> and_next ADDR16_fetch_hi l c
        | isa_6502_addressing_x_indexed_indirect \<Rightarrow> next_cycle l c
        | isa_6502_addressing_indirect_y_indexed \<Rightarrow> next_cycle l c
        | isa_6502_addressing_zeropage_indirect \<Rightarrow> and_next ADDR16_zeropage_lo l c
        | _ \<Rightarrow> next_cycle l c)
     else if cycle_count c = 3 then
       (case addressing_mode c of
          isa_6502_addressing_zeropage_x_indexed \<Rightarrow>
              and_end (OPERAND8_read (widen (ADDR8 l))) l c
        | isa_6502_addressing_absolute \<Rightarrow> and_end (OPERAND8_read (ADDR16 l)) l c
        | isa_6502_addressing_absolute_x_indexed \<Rightarrow>
              (let l = ADDR16_index (reg_X (registers c)) l
               in if same_page (ADDR16_pre_index l) (ADDR16 l) then and_end (OPERAND8_read (ADDR16 l)) l c
                  else next_cycle l c)
        | isa_6502_addressing_absolute_y_indexed \<Rightarrow>
              (let l = ADDR16_index (reg_Y (registers c)) l
               in if same_page (ADDR16_pre_index l) (ADDR16 l) then and_end (OPERAND8_read (ADDR16 l)) l c
                  else next_cycle l c)
        | isa_6502_addressing_x_indexed_indirect \<Rightarrow>
              next_cycle (l\<lparr>ADDR8 := ADDR8 l + reg_X (registers c)\<rparr>) c
        | isa_6502_addressing_indirect_y_indexed \<Rightarrow> and_next ADDR16_zeropage_lo l c
        | isa_6502_addressing_zeropage_indirect \<Rightarrow>
              and_next ADDR16_zeropage_unshifted l c
        | _ \<Rightarrow> next_cycle l c)
     else if cycle_count c = 4 then
       (case addressing_mode c of
          isa_6502_addressing_absolute_x_indexed \<Rightarrow>
              and_end (OPERAND8_read (ADDR16 l)) l c
        | isa_6502_addressing_absolute_y_indexed \<Rightarrow>
              and_end (OPERAND8_read (ADDR16 l)) l c
        | isa_6502_addressing_x_indexed_indirect \<Rightarrow> and_next ADDR16_zeropage_lo l c
        | isa_6502_addressing_indirect_y_indexed \<Rightarrow>
              do {
                (l, c) \<leftarrow> ADDR16_zeropage_unshifted l c;
                let l = ADDR16_index (reg_Y (registers c)) l;
                if same_page (ADDR16_pre_index l) (ADDR16 l) then and_end (OPERAND8_read (ADDR16 l)) l c
                else next_cycle l c }
        | isa_6502_addressing_zeropage_indirect \<Rightarrow>
              and_end (OPERAND8_read (ADDR16 l)) l c
        | _ \<Rightarrow> next_cycle l c)
     else if cycle_count c = 5 then
       and_end (OPERAND8_read (ADDR16 l)) l c
     else next_cycle l c)"

definition isa_65C02_LDA :: staged_body where
  "isa_65C02_LDA l c = do {
     (at_stage, l, c) \<leftarrow> LDA65_cycle l c;
     if at_stage = isa_6502_instr_stage_end
     then instr_end l (with_reg (load_A (OPERAND8 l)) c) else Some (at_stage, l, c) }"

definition LDA65_static :: statement where
  "LDA65_static l c =
    (case addressing_mode c of
         isa_6502_addressing_immediate \<Rightarrow>
             do {
               (l, c) \<leftarrow> OPERAND8_fetch l c;
               Some (l, add_cycles 1 c) }
       | isa_6502_addressing_zeropage \<Rightarrow>
             do {
               (l, c) \<leftarrow> ADDR8_fetch l c;
               (l, c) \<leftarrow> OPERAND8_read (widen (ADDR8 l)) l c;
               Some (l, add_cycles 2 c) }
       | isa_6502_addressing_zeropage_x_indexed \<Rightarrow>
             do {
               (l, c) \<leftarrow> ADDR8_fetch l c;
               let l = l\<lparr>ADDR8 := ADDR8 l + reg_X (registers c)\<rparr>;
               (l, c) \<leftarrow> OPERAND8_read (widen (ADDR8 l)) l c;
               Some (l, add_cycles 3 c) }
       | isa_6502_addressing_zeropage_indirect \<Rightarrow>
             do {
               (l, c) \<leftarrow> ADDR8_fetch l c;
               (l, c) \<leftarrow> ADDR16_zeropage_lo l c;
               (l, c) \<leftarrow> ADDR16_zeropage_hi l c;
               (l, c) \<leftarrow> OPERAND8_read (ADDR16 l) l c;
               Some (l, add_cycles 4 c) }
       | isa_6502_addressing_absolute \<Rightarrow>
             do {
               (l, c) \<leftarrow> ADDR16_fetch_lo l c;
               (l, c) \<leftarrow> ADDR16_fetch_hi l c;
               (l, c) \<leftarrow> OPERAND8_read (ADDR16 l) l c;
               Some (l, add_cycles 3 c) }
       | isa_6502_addressing_absolute_x_indexed \<Rightarrow>
             do {
               (l, c) \<leftarrow> ADDR16_fetch_lo l c;
               (l, c) \<leftarrow> ADDR16_fetch_hi l c;
               let l = ADDR16_index (reg_X (registers c)) l;
               (l, c) \<leftarrow> OPERAND8_read (ADDR16 l) l c;
               Some (l, add_cycles (3 + of_bool (\<not> same_page (ADDR16_pre_index l) (ADDR16 l))) c) }
       | isa_6502_addressing_absolute_y_indexed \<Rightarrow>
             do {
               (l, c) \<leftarrow> ADDR16_fetch_lo l c;
               (l, c) \<leftarrow> ADDR16_fetch_hi l c;
               let l = ADDR16_index (reg_Y (registers c)) l;
               (l, c) \<leftarrow> OPERAND8_read (ADDR16 l) l c;
               Some (l, add_cycles (3 + of_bool (\<not> same_page (ADDR16_pre_index l) (ADDR16 l))) c) }
       | isa_6502_addressing_x_indexed_indirect \<Rightarrow>
             do {
               (l, c) \<leftarrow> ADDR8_fetch l c;
               let l = l\<lparr>ADDR8 := ADDR8 l + reg_X (registers c)\<rparr>;
               (l, c) \<leftarrow> ADDR16_zeropage_lo l c;
               (l, c) \<leftarrow> ADDR16_zeropage_hi l c;
               (l, c) \<leftarrow> OPERAND8_read (ADDR16 l) l c;
               Some (l, add_cycles 5 c) }
       | isa_6502_addressing_indirect_y_indexed \<Rightarrow>
             do {
               (l, c) \<leftarrow> ADDR8_fetch l c;
               (l, c) \<leftarrow> ADDR16_zeropage_lo l c;
               (l, c) \<leftarrow> ADDR16_zeropage_hi l c;
               let l = ADDR16_index (reg_Y (registers c)) l;
               (l, c) \<leftarrow> OPERAND8_read (ADDR16 l) l c;
               Some (l, add_cycles (4 + of_bool (\<not> same_page (ADDR16_pre_index l) (ADDR16 l))) c) }
       | _ \<Rightarrow> Some (l, add_cycles (ucast (local_cycle_count l)) c))"

definition isa_65C02_static_LDA :: static_body where
  "isa_65C02_static_LDA at_stage l c = do {
     (l, c) \<leftarrow> LDA65_static l c;
     Some (at_stage, with_reg (load_A (OPERAND8 l)) c) }"

section \<open>STA and STZ\<close>

text \<open>The two files end a store in the same way; they differ in the walk to the address.  In cycle 2 of
  the zero page mode \<^verbatim>\<open>STZ\<close> ends without setting the address.\<close>

definition STA65_cycle :: staged_body where
  "STA65_cycle l c =
    (if cycle_count c = 1 then
       (case addressing_mode c of
          isa_6502_addressing_zeropage \<Rightarrow> and_next ADDR8_fetch l c
        | isa_6502_addressing_zeropage_x_indexed \<Rightarrow> and_next ADDR8_fetch l c
        | isa_6502_addressing_x_indexed_indirect \<Rightarrow> and_next ADDR8_fetch l c
        | isa_6502_addressing_indirect_y_indexed \<Rightarrow> and_next ADDR8_fetch l c
        | isa_6502_addressing_zeropage_indirect \<Rightarrow> and_next ADDR8_fetch l c
        | isa_6502_addressing_absolute \<Rightarrow> and_next ADDR16_fetch_lo l c
        | isa_6502_addressing_absolute_x_indexed \<Rightarrow> and_next ADDR16_fetch_lo l c
        | isa_6502_addressing_absolute_y_indexed \<Rightarrow> and_next ADDR16_fetch_lo l c
        | _ \<Rightarrow> next_cycle l c)
     else if cycle_count c = 2 then
       (case addressing_mode c of
          isa_6502_addressing_zeropage \<Rightarrow>
              instr_end (l\<lparr>ADDR16 := widen (ADDR8 l)\<rparr>) c
        | isa_6502_addressing_zeropage_x_indexed \<Rightarrow>
              next_cycle (l\<lparr>ADDR8 := ADDR8 l + reg_X (registers c)\<rparr>) c
        | isa_6502_addressing_x_indexed_indirect \<Rightarrow> next_cycle l c
        | isa_6502_addressing_indirect_y_indexed \<Rightarrow> next_cycle l c
        | isa_6502_addressing_zeropage_indirect \<Rightarrow> and_next ADDR16_zeropage_lo l c
        | isa_6502_addressing_absolute \<Rightarrow> and_next ADDR16_fetch_hi l c
        | isa_6502_addressing_absolute_x_indexed \<Rightarrow> and_next ADDR16_fetch_hi l c
        | isa_6502_addressing_absolute_y_indexed \<Rightarrow> and_next ADDR16_fetch_hi l c
        | _ \<Rightarrow> next_cycle l c)
     else if cycle_count c = 3 then
       (case addressing_mode c of
          isa_6502_addressing_zeropage_x_indexed \<Rightarrow>
              instr_end (l\<lparr>ADDR16 := widen (ADDR8 l)\<rparr>) c
        | isa_6502_addressing_absolute \<Rightarrow> instr_end l c
        | isa_6502_addressing_absolute_x_indexed \<Rightarrow>
              next_cycle (l\<lparr>ADDR16 := ADDR16 l + widen (reg_X (registers c))\<rparr>) c
        | isa_6502_addressing_absolute_y_indexed \<Rightarrow>
              next_cycle (l\<lparr>ADDR16 := ADDR16 l + widen (reg_Y (registers c))\<rparr>) c
        | isa_6502_addressing_zeropage_indirect \<Rightarrow> and_next ADDR16_zeropage_hi l c
        | isa_6502_addressing_x_indexed_indirect \<Rightarrow>
              next_cycle (l\<lparr>ADDR8 := ADDR8 l + reg_X (registers c)\<rparr>) c
        | isa_6502_addressing_indirect_y_indexed \<Rightarrow> and_next ADDR16_zeropage_lo l c
        | _ \<Rightarrow> next_cycle l c)
     else if cycle_count c = 4 then
       (case addressing_mode c of
          isa_6502_addressing_absolute_x_indexed \<Rightarrow> instr_end l c
        | isa_6502_addressing_absolute_y_indexed \<Rightarrow> instr_end l c
        | isa_6502_addressing_zeropage_indirect \<Rightarrow> instr_end l c
        | isa_6502_addressing_x_indexed_indirect \<Rightarrow> and_next ADDR16_zeropage_lo l c
        | isa_6502_addressing_indirect_y_indexed \<Rightarrow> and_next ADDR16_zeropage_hi l c
        | _ \<Rightarrow> next_cycle l c)
     else if cycle_count c = 5 then
       (case addressing_mode c of
          isa_6502_addressing_x_indexed_indirect \<Rightarrow> and_next ADDR16_zeropage_hi l c
        | isa_6502_addressing_indirect_y_indexed \<Rightarrow>
              next_cycle (l\<lparr>ADDR16 := ADDR16 l + widen (reg_Y (registers c))\<rparr>) c
        | _ \<Rightarrow> next_cycle l c)
     else next_cycle l c)"

definition isa_65C02_STA :: staged_body where
  "isa_65C02_STA l c = do {
     (at_stage, l, c) \<leftarrow> STA65_cycle l c;
     if at_stage = isa_6502_instr_stage_end
     then do { c \<leftarrow> wr c (ADDR16 l) (reg_A (registers c)); instr_end l c } else Some (at_stage, l, c) }"

definition STA65_static :: statement where
  "STA65_static l c =
    (case addressing_mode c of
         isa_6502_addressing_zeropage \<Rightarrow>
             do {
               (l, c) \<leftarrow> ADDR16_fetch_lo l c;
               Some (l, add_cycles 2 c) }
       | isa_6502_addressing_zeropage_x_indexed \<Rightarrow>
             do {
               (l, c) \<leftarrow> ADDR8_fetch l c;
               let l = l\<lparr>ADDR8 := ADDR8 l + reg_X (registers c)\<rparr>;
               let l = l\<lparr>ADDR16 := widen (ADDR8 l)\<rparr>;
               Some (l, add_cycles 3 c) }
       | isa_6502_addressing_x_indexed_indirect \<Rightarrow>
             do {
               (l, c) \<leftarrow> ADDR8_fetch l c;
               let l = l\<lparr>ADDR8 := ADDR8 l + reg_X (registers c)\<rparr>;
               (l, c) \<leftarrow> ADDR16_zeropage_lo l c;
               (l, c) \<leftarrow> ADDR16_zeropage_hi l c;
               Some (l, add_cycles 5 c) }
       | isa_6502_addressing_zeropage_indirect \<Rightarrow>
             do {
               (l, c) \<leftarrow> ADDR8_fetch l c;
               (l, c) \<leftarrow> ADDR16_zeropage_lo l c;
               (l, c) \<leftarrow> ADDR16_zeropage_hi l c;
               Some (l, add_cycles 4 c) }
       | isa_6502_addressing_indirect_y_indexed \<Rightarrow>
             do {
               (l, c) \<leftarrow> ADDR8_fetch l c;
               (l, c) \<leftarrow> ADDR16_zeropage_lo l c;
               (l, c) \<leftarrow> ADDR16_zeropage_hi l c;
               let l = l\<lparr>ADDR16 := ADDR16 l + widen (reg_Y (registers c))\<rparr>;
               Some (l, add_cycles 5 c) }
       | isa_6502_addressing_absolute \<Rightarrow>
             do {
               (l, c) \<leftarrow> ADDR16_fetch_lo l c;
               (l, c) \<leftarrow> ADDR16_fetch_hi l c;
               Some (l, add_cycles 3 c) }
       | isa_6502_addressing_absolute_x_indexed \<Rightarrow>
             do {
               (l, c) \<leftarrow> ADDR16_fetch_lo l c;
               (l, c) \<leftarrow> ADDR16_fetch_hi l c;
               let l = l\<lparr>ADDR16 := ADDR16 l + widen (reg_X (registers c))\<rparr>;
               Some (l, add_cycles 4 c) }
       | isa_6502_addressing_absolute_y_indexed \<Rightarrow>
             do {
               (l, c) \<leftarrow> ADDR16_fetch_lo l c;
               (l, c) \<leftarrow> ADDR16_fetch_hi l c;
               let l = l\<lparr>ADDR16 := ADDR16 l + widen (reg_Y (registers c))\<rparr>;
               Some (l, add_cycles 4 c) }
       | _ \<Rightarrow> Some (l, add_cycles (ucast (local_cycle_count l)) c))"

definition isa_65C02_static_STA :: static_body where
  "isa_65C02_static_STA at_stage l c = do {
     (l, c) \<leftarrow> STA65_static l c;
     c \<leftarrow> wr c (ADDR16 l) (reg_A (registers c));
     Some (at_stage, c) }"

definition STZ_cycle :: staged_body where
  "STZ_cycle l c =
    (if cycle_count c = 1 then
       (case addressing_mode c of
          isa_6502_addressing_zeropage \<Rightarrow> and_next ADDR8_fetch l c
        | isa_6502_addressing_zeropage_x_indexed \<Rightarrow> and_next ADDR8_fetch l c
        | isa_6502_addressing_absolute \<Rightarrow> and_next ADDR16_fetch_lo l c
        | isa_6502_addressing_absolute_x_indexed \<Rightarrow> and_next ADDR16_fetch_lo l c
        | _ \<Rightarrow> next_cycle l c)
     else if cycle_count c = 2 then
       (case addressing_mode c of
          isa_6502_addressing_zeropage \<Rightarrow> instr_end l c
        | isa_6502_addressing_zeropage_x_indexed \<Rightarrow>
              (let l = l\<lparr>ADDR8 := ADDR8 l + reg_X (registers c)\<rparr>; l = l\<lparr>ADDR16 := widen (ADDR8 l)\<rparr>
               in next_cycle l c)
        | isa_6502_addressing_absolute \<Rightarrow> and_next ADDR16_fetch_hi l c
        | isa_6502_addressing_absolute_x_indexed \<Rightarrow> and_next ADDR16_fetch_hi l c
        | _ \<Rightarrow> next_cycle l c)
     else if cycle_count c = 3 then
       (case addressing_mode c of
          isa_6502_addressing_zeropage_x_indexed \<Rightarrow>
              instr_end (l\<lparr>ADDR16 := widen (ADDR8 l)\<rparr>) c
        | isa_6502_addressing_absolute \<Rightarrow> instr_end l c
        | isa_6502_addressing_absolute_x_indexed \<Rightarrow>
              next_cycle (l\<lparr>ADDR16 := ADDR16 l + widen (reg_X (registers c))\<rparr>) c
        | _ \<Rightarrow> next_cycle l c)
     else if cycle_count c = 4 then
       instr_end l c
     else next_cycle l c)"

definition isa_65C02_STZ :: staged_body where
  "isa_65C02_STZ l c = do {
     (at_stage, l, c) \<leftarrow> STZ_cycle l c;
     if at_stage = isa_6502_instr_stage_end
     then do { c \<leftarrow> wr c (ADDR16 l) 0x00; instr_end l c } else Some (at_stage, l, c) }"

definition STZ_static :: statement where
  "STZ_static l c =
    (case addressing_mode c of
         isa_6502_addressing_zeropage \<Rightarrow>
             do {
               (l, c) \<leftarrow> ADDR16_fetch_lo l c;
               Some (l, add_cycles 2 c) }
       | isa_6502_addressing_zeropage_x_indexed \<Rightarrow>
             do {
               (l, c) \<leftarrow> ADDR8_fetch l c;
               let l = l\<lparr>ADDR8 := ADDR8 l + reg_X (registers c)\<rparr>;
               let l = l\<lparr>ADDR16 := widen (ADDR8 l)\<rparr>;
               Some (l, add_cycles 3 c) }
       | isa_6502_addressing_absolute \<Rightarrow>
             do {
               (l, c) \<leftarrow> ADDR16_fetch_lo l c;
               (l, c) \<leftarrow> ADDR16_fetch_hi l c;
               Some (l, add_cycles 3 c) }
       | isa_6502_addressing_absolute_x_indexed \<Rightarrow>
             do {
               (l, c) \<leftarrow> ADDR16_fetch_lo l c;
               (l, c) \<leftarrow> ADDR16_fetch_hi l c;
               let l = l\<lparr>ADDR16 := ADDR16 l + widen (reg_X (registers c))\<rparr>;
               Some (l, add_cycles 4 c) }
       | _ \<Rightarrow> Some (l, add_cycles (ucast (local_cycle_count l)) c))"

definition isa_65C02_static_STZ :: static_body where
  "isa_65C02_static_STZ at_stage l c = do {
     (l, c) \<leftarrow> STZ_static l c;
     c \<leftarrow> wr c (ADDR16 l) 0x00;
     Some (isa_6502_instr_stage_end, c) }"

lemmas load65_staged_defs [staged_defs] = isa_65C02_LDA_def LDA65_cycle_def isa_65C02_STA_def
  STA65_cycle_def isa_65C02_STZ_def STZ_cycle_def

lemmas load65_static_defs [static_defs] = isa_65C02_static_LDA_def LDA65_static_def
  isa_65C02_static_STA_def STA65_static_def isa_65C02_static_STZ_def STZ_static_def


end
