(* ===== verification/Isa_Test.thy ===== *)
theory Isa_Test
  imports Isa_Base
begin

text \<open>
  Comparisons and the bit test, \<^verbatim>\<open>src/isa_6502/{CMP,CPX,CPY,BIT}.c\<close>.
\<close>

section \<open>CMP\<close>

text \<open>The flags of a comparison of a register with the operand.\<close>

definition compare_flags :: "nat \<Rightarrow> nat \<Rightarrow> u8" where
  "compare_flags R operand =
    (if R > operand then register_SR_Bit_C
     else if R = operand then register_SR_Bit_C OR register_SR_Bit_Z
     else register_SR_Bit_N)"

definition compare_finish :: "nat \<Rightarrow> nat \<Rightarrow> registers \<Rightarrow> registers" where
  "compare_finish R operand r =
     r\<lparr>reg_SR := (reg_SR r AND NOT (register_SR_Bit_C OR register_SR_Bit_Z OR register_SR_Bit_N))
       OR compare_flags R operand\<rparr>"

text \<open>The staged body ends the four zero page modes in cycle 1, before it has read the operand, and
  reads the absolute operand at \<open>ADDR8\<close>.\<close>

definition ADDR16_zeropage_or :: statement where
  "ADDR16_zeropage_or l c = do {
     (v, c) \<leftarrow> rd c (widen (ADDR8 l));
     Some (l\<lparr>ADDR16 := ADDR16 l OR widen v\<rparr>, c) }"

definition CMP_cycle :: staged_body where
  "CMP_cycle l c =
    (if cycle_count c = 1 then
       (case addressing_mode c of
          isa_6502_addressing_immediate \<Rightarrow> and_end OPERAND8_fetch l c
        | isa_6502_addressing_zeropage \<Rightarrow> and_end ADDR8_fetch l c
        | isa_6502_addressing_zeropage_x_indexed \<Rightarrow> and_end ADDR8_fetch l c
        | isa_6502_addressing_x_indexed_indirect \<Rightarrow> and_end ADDR8_fetch l c
        | isa_6502_addressing_indirect_y_indexed \<Rightarrow> and_end ADDR8_fetch l c
        | isa_6502_addressing_absolute \<Rightarrow> and_next ADDR16_fetch_lo l c
        | isa_6502_addressing_absolute_x_indexed \<Rightarrow> and_next ADDR16_fetch_lo l c
        | isa_6502_addressing_absolute_y_indexed \<Rightarrow> and_next ADDR16_fetch_lo l c
        | _ \<Rightarrow> next_cycle l c)
     else if cycle_count c = 2 then
       (case addressing_mode c of
          isa_6502_addressing_zeropage \<Rightarrow> and_end (OPERAND8_read (widen (ADDR8 l))) l c
        | isa_6502_addressing_zeropage_x_indexed \<Rightarrow>
              next_cycle (l\<lparr>ADDR8 := ADDR8 l + reg_X (registers c)\<rparr>) c
        | isa_6502_addressing_x_indexed_indirect \<Rightarrow>
              next_cycle (l\<lparr>ADDR8 := ADDR8 l + reg_X (registers c)\<rparr>) c
        | isa_6502_addressing_indirect_y_indexed \<Rightarrow> and_next ADDR16_zeropage_lo l c
        | isa_6502_addressing_absolute \<Rightarrow> and_next ADDR16_fetch_hi l c
        | isa_6502_addressing_absolute_x_indexed \<Rightarrow> and_next ADDR16_fetch_hi l c
        | isa_6502_addressing_absolute_y_indexed \<Rightarrow> and_next ADDR16_fetch_hi l c
        | _ \<Rightarrow> next_cycle l c)
     else if cycle_count c = 3 then
       (case addressing_mode c of
          isa_6502_addressing_zeropage_x_indexed \<Rightarrow>
              and_end (OPERAND8_read (widen (ADDR8 l))) l c
        | isa_6502_addressing_x_indexed_indirect \<Rightarrow> and_next ADDR16_zeropage_lo l c
        | isa_6502_addressing_indirect_y_indexed \<Rightarrow> and_next ADDR16_zeropage_or l c
        | isa_6502_addressing_absolute \<Rightarrow> and_end (OPERAND8_read (widen (ADDR8 l))) l c
        | isa_6502_addressing_absolute_x_indexed \<Rightarrow>
              (let l = ADDR16_index (reg_X (registers c)) l
               in if same_page (ADDR16_pre_index l) (ADDR16 l)
                  then and_end (OPERAND8_read (ADDR16 l)) l c else next_cycle l c)
        | isa_6502_addressing_absolute_y_indexed \<Rightarrow>
              (let l = ADDR16_index (reg_Y (registers c)) l
               in if same_page (ADDR16_pre_index l) (ADDR16 l)
                  then and_end (OPERAND8_read (ADDR16 l)) l c else next_cycle l c)
        | _ \<Rightarrow> next_cycle l c)
     else if cycle_count c = 4 then
       (case addressing_mode c of
          isa_6502_addressing_absolute_x_indexed \<Rightarrow>
              and_end (OPERAND8_read (ADDR16 l)) l c
        | isa_6502_addressing_absolute_y_indexed \<Rightarrow>
              and_end (OPERAND8_read (ADDR16 l)) l c
        | isa_6502_addressing_x_indexed_indirect \<Rightarrow> and_next ADDR16_zeropage_or l c
        | isa_6502_addressing_indirect_y_indexed \<Rightarrow>
              (let l = ADDR16_index (reg_Y (registers c)) l
               in if same_page (ADDR16_pre_index l) (ADDR16 l)
                  then and_end (OPERAND8_read (ADDR16 l)) l c else next_cycle l c)
        | _ \<Rightarrow> next_cycle l c)
     else if cycle_count c = 5 then
       and_end (OPERAND8_read (ADDR16 l)) l c
     else next_cycle l c)"

definition isa_6502_CMP :: staged_body where
  "isa_6502_CMP l c = do {
     (at_stage, l, c) \<leftarrow> CMP_cycle l c;
     if at_stage = isa_6502_instr_stage_end
     then instr_end l (with_reg
            (compare_finish (unat (reg_A (registers c))) (unat (OPERAND8 l))) c)
     else Some (at_stage, l, c) }"

definition CMP_fetch_static :: statement where
  "CMP_fetch_static l c =
    (case addressing_mode c of
       isa_6502_addressing_immediate \<Rightarrow>
           do {
             (l, c) \<leftarrow> OPERAND8_fetch l c;
             Some (l, add_cycles 1 c) }
     | isa_6502_addressing_zeropage \<Rightarrow>
           do {
             (l, c) \<leftarrow> ADDR8_fetch l c;
             (l, c) \<leftarrow> OPERAND8_read (widen (ADDR8 l)) l c;
             Some (l, add_cycles 2 c) }
     | isa_6502_addressing_zeropage_x_indexed \<Rightarrow>
           do {
             (l, c) \<leftarrow> ADDR8_fetch l c;
             let l = l\<lparr>ADDR8 := ADDR8 l + reg_X (registers c)\<rparr>;
             (l, c) \<leftarrow> OPERAND8_read (widen (ADDR8 l)) l c;
             Some (l, add_cycles 3 c) }
     | isa_6502_addressing_x_indexed_indirect \<Rightarrow>
           do {
             (l, c) \<leftarrow> ADDR8_fetch l c;
             let l = l\<lparr>ADDR8 := ADDR8 l + reg_X (registers c)\<rparr>;
             (l, c) \<leftarrow> ADDR16_zeropage_lo l c;
             (l, c) \<leftarrow> ADDR16_zeropage_hi l c;
             let l = l\<lparr>ADDR8 := ADDR8 l + 1\<rparr>;
             (l, c) \<leftarrow> OPERAND8_read (ADDR16 l) l c;
             Some (l, add_cycles 5 c) }
     | isa_6502_addressing_indirect_y_indexed \<Rightarrow>
           do {
             (l, c) \<leftarrow> ADDR8_fetch l c;
             (l, c) \<leftarrow> ADDR16_zeropage_lo l c;
             (l, c) \<leftarrow> ADDR16_zeropage_hi l c;
             let l = l\<lparr>ADDR8 := ADDR8 l + 1\<rparr>;
             let l = ADDR16_index (reg_Y (registers c)) l;
             (l, c) \<leftarrow> OPERAND8_read (ADDR16 l) l c;
             Some (l, add_cycles (4 + of_bool (\<not> same_page (ADDR16_pre_index l) (ADDR16 l))) c) }
     | isa_6502_addressing_absolute \<Rightarrow>
           do {
             (l, c) \<leftarrow> ADDR16_fetch_lo l c;
             (l, c) \<leftarrow> ADDR16_fetch_hi l c;
             (l, c) \<leftarrow> OPERAND8_read (ADDR16 l) l c;
             Some (l, add_cycles 3 c) }
     | isa_6502_addressing_absolute_x_indexed \<Rightarrow>
           do {
             (l, c) \<leftarrow> ADDR16_fetch_lo l c;
             (l, c) \<leftarrow> ADDR16_fetch_hi l c;
             let l = ADDR16_index (reg_X (registers c)) l;
             (l, c) \<leftarrow> OPERAND8_read (ADDR16 l) l c;
             Some (l, add_cycles (3 + of_bool (\<not> same_page (ADDR16_pre_index l) (ADDR16 l))) c) }
     | isa_6502_addressing_absolute_y_indexed \<Rightarrow>
           do {
             (l, c) \<leftarrow> ADDR16_fetch_lo l c;
             (l, c) \<leftarrow> ADDR16_fetch_hi l c;
             let l = ADDR16_index (reg_Y (registers c)) l;
             (l, c) \<leftarrow> OPERAND8_read (ADDR16 l) l c;
             Some (l, add_cycles (3 + of_bool (\<not> same_page (ADDR16_pre_index l) (ADDR16 l))) c) }
     | _ \<Rightarrow> Some (l, add_cycles (ucast (local_cycle_count l)) c))"

definition isa_6502_static_CMP :: static_body where
  "isa_6502_static_CMP at_stage l c = do {
     (l, c) \<leftarrow> CMP_fetch_static l c;
     Some (isa_6502_instr_stage_end,
       with_reg (compare_finish (unat (reg_A (registers c))) (unat (OPERAND8 l))) c) }"

section \<open>CPX and CPY\<close>

definition CPX_cycle :: staged_body where
  "CPX_cycle l c =
    (if cycle_count c = 1 then
       (case addressing_mode c of
          isa_6502_addressing_immediate \<Rightarrow> and_end OPERAND_fetch l c
        | isa_6502_addressing_zeropage \<Rightarrow> and_next ADDR8_fetch l c
        | isa_6502_addressing_absolute \<Rightarrow> and_next ADDR16_fetch_lo l c
        | _ \<Rightarrow> next_cycle l c)
     else if cycle_count c = 2 then
       (case addressing_mode c of
          isa_6502_addressing_zeropage \<Rightarrow> and_end (OPERAND_read (widen (ADDR8 l))) l c
        | isa_6502_addressing_absolute \<Rightarrow> and_next ADDR16_fetch_hi l c
        | _ \<Rightarrow> next_cycle l c)
     else if cycle_count c = 3 then
       and_end (OPERAND_read (ADDR16 l)) l c
     else next_cycle l c)"

definition isa_6502_CPX :: staged_body where
  "isa_6502_CPX l c = do {
     (at_stage, l, c) \<leftarrow> CPX_cycle l c;
     if at_stage = isa_6502_instr_stage_end
     then instr_end l (with_reg
            (compare_finish (unat (reg_X (registers c))) (unat (OPERAND l))) c)
     else Some (at_stage, l, c) }"

definition CPX_fetch_static :: statement where
  "CPX_fetch_static l c =
    (case addressing_mode c of
       isa_6502_addressing_immediate \<Rightarrow>
           do {
             (l, c) \<leftarrow> OPERAND_fetch l c;
             Some (l, add_cycles 1 c) }
     | isa_6502_addressing_zeropage \<Rightarrow>
           do {
             (l, c) \<leftarrow> ADDR8_fetch l c;
             (l, c) \<leftarrow> OPERAND_read (widen (ADDR8 l)) l c;
             Some (l, add_cycles 2 c) }
     | isa_6502_addressing_absolute \<Rightarrow>
           do {
             (l, c) \<leftarrow> ADDR16_fetch_lo l c;
             (l, c) \<leftarrow> ADDR16_fetch_hi l c;
             (l, c) \<leftarrow> OPERAND_read (ADDR16 l) l c;
             Some (l, add_cycles 3 c) }
     | _ \<Rightarrow> Some (l, add_cycles (ucast (local_cycle_count l)) c))"

definition isa_6502_static_CPX :: static_body where
  "isa_6502_static_CPX at_stage l c = do {
     (l, c) \<leftarrow> CPX_fetch_static l c;
     Some (isa_6502_instr_stage_end,
       with_reg (compare_finish (unat (reg_X (registers c))) (unat (OPERAND l))) c) }"

definition CPY_cycle :: staged_body where
  "CPY_cycle l c =
    (if cycle_count c = 1 then
       (case addressing_mode c of
          isa_6502_addressing_immediate \<Rightarrow> and_end OPERAND_fetch l c
        | isa_6502_addressing_zeropage \<Rightarrow> and_next ADDR8_fetch l c
        | isa_6502_addressing_absolute \<Rightarrow> and_next ADDR16_fetch_lo l c
        | _ \<Rightarrow> next_cycle l c)
     else if cycle_count c = 2 then
       (case addressing_mode c of
          isa_6502_addressing_zeropage \<Rightarrow> and_end (OPERAND_read (widen (ADDR8 l))) l c
        | isa_6502_addressing_absolute \<Rightarrow> and_next ADDR16_fetch_hi l c
        | _ \<Rightarrow> next_cycle l c)
     else if cycle_count c = 3 then
       and_end (OPERAND_read (ADDR16 l)) l c
     else next_cycle l c)"

definition isa_6502_CPY :: staged_body where
  "isa_6502_CPY l c = do {
     (at_stage, l, c) \<leftarrow> CPY_cycle l c;
     if at_stage = isa_6502_instr_stage_end
     then instr_end l (with_reg
            (compare_finish (unat (reg_Y (registers c))) (unat (OPERAND l))) c)
     else Some (at_stage, l, c) }"

definition CPY_fetch_static :: statement where
  "CPY_fetch_static l c =
    (case addressing_mode c of
       isa_6502_addressing_immediate \<Rightarrow>
           do {
             (l, c) \<leftarrow> OPERAND_fetch l c;
             Some (l, add_cycles 1 c) }
     | isa_6502_addressing_zeropage \<Rightarrow>
           do {
             (l, c) \<leftarrow> ADDR8_fetch l c;
             (l, c) \<leftarrow> OPERAND_read (widen (ADDR8 l)) l c;
             Some (l, add_cycles 2 c) }
     | isa_6502_addressing_absolute \<Rightarrow>
           do {
             (l, c) \<leftarrow> ADDR16_fetch_lo l c;
             (l, c) \<leftarrow> ADDR16_fetch_hi l c;
             (l, c) \<leftarrow> OPERAND_read (ADDR16 l) l c;
             Some (l, add_cycles 3 c) }
     | _ \<Rightarrow> Some (l, add_cycles (ucast (local_cycle_count l)) c))"

definition isa_6502_static_CPY :: static_body where
  "isa_6502_static_CPY at_stage l c = do {
     (l, c) \<leftarrow> CPY_fetch_static l c;
     Some (isa_6502_instr_stage_end,
       with_reg (compare_finish (unat (reg_Y (registers c))) (unat (OPERAND l))) c) }"

section \<open>BIT\<close>

definition bit_finish :: "u8 \<Rightarrow> registers \<Rightarrow> registers" where
  "bit_finish operand r =
    (let A_AND_M = reg_A r AND operand;
         SR = reg_SR r AND NOT (register_SR_Bit_V OR register_SR_Bit_Z OR register_SR_Bit_N)
     in r\<lparr>reg_SR := SR OR ((operand AND 0xC0) OR (if A_AND_M \<noteq> 0 then 0 else register_SR_Bit_Z))\<rparr>)"

definition BIT_cycle :: staged_body where
  "BIT_cycle l c =
    (if cycle_count c = 1 then
       (case addressing_mode c of
          isa_6502_addressing_zeropage \<Rightarrow> and_next ADDR8_fetch l c
        | isa_6502_addressing_absolute \<Rightarrow> and_next ADDR16_fetch_lo l c
        | _ \<Rightarrow> next_cycle l c)
     else if cycle_count c = 2 then
       (case addressing_mode c of
          isa_6502_addressing_zeropage \<Rightarrow> and_end (OPERAND8_read (widen (ADDR8 l))) l c
        | isa_6502_addressing_absolute \<Rightarrow> and_next ADDR16_fetch_hi l c
        | _ \<Rightarrow> next_cycle l c)
     else if cycle_count c = 3 then
       and_end (OPERAND8_read (ADDR16 l)) l c
     else next_cycle l c)"

definition isa_6502_BIT :: staged_body where
  "isa_6502_BIT l c = do {
     (at_stage, l, c) \<leftarrow> BIT_cycle l c;
     if at_stage = isa_6502_instr_stage_end
     then instr_end l (with_reg (bit_finish (OPERAND8 l)) c) else Some (at_stage, l, c) }"

definition BIT_fetch_static :: statement where
  "BIT_fetch_static l c =
    (case addressing_mode c of
       isa_6502_addressing_zeropage \<Rightarrow>
           do {
             (l, c) \<leftarrow> ADDR8_fetch l c;
             (l, c) \<leftarrow> OPERAND8_read (widen (ADDR8 l)) l c;
             Some (l, add_cycles 2 c) }
     | isa_6502_addressing_absolute \<Rightarrow>
           do {
             (l, c) \<leftarrow> ADDR16_fetch_lo l c;
             (l, c) \<leftarrow> ADDR16_fetch_hi l c;
             (l, c) \<leftarrow> OPERAND8_read (ADDR16 l) l c;
             Some (l, add_cycles 3 c) }
     | _ \<Rightarrow> Some (l, add_cycles (ucast (local_cycle_count l)) c))"

definition isa_6502_static_BIT :: static_body where
  "isa_6502_static_BIT at_stage l c = do {
     (l, c) \<leftarrow> BIT_fetch_static l c;
     Some (isa_6502_instr_stage_end, with_reg (bit_finish (OPERAND8 l)) c) }"

lemmas test_staged_defs [staged_defs] = isa_6502_CMP_def CMP_cycle_def isa_6502_CPX_def CPX_cycle_def isa_6502_CPY_def CPY_cycle_def isa_6502_BIT_def BIT_cycle_def
  ADDR16_zeropage_or_def

lemmas test_static_defs [static_defs] = isa_6502_static_CMP_def CMP_fetch_static_def isa_6502_static_CPX_def CPX_fetch_static_def isa_6502_static_CPY_def CPY_fetch_static_def isa_6502_static_BIT_def BIT_fetch_static_def

end
