(* ===== verification/Isa65_Test.thy ===== *)
theory Isa65_Test
  imports Isa_Test
begin

text \<open>
  Comparison and bit test of the 65C02, \<^verbatim>\<open>src/isa_65C02/{CMP,BIT}.c\<close>.  \<^verbatim>\<open>CMP\<close> ends its zero page modes,
  the new one included, in cycle 1; \<^verbatim>\<open>BIT\<close> has an immediate and two indexed modes more than the base
  dialect's and treats them all alike.
\<close>

definition CMP65_cycle :: staged_body where
  "CMP65_cycle l c =
    (if cycle_count c = 1 then
       (case addressing_mode c of
          isa_6502_addressing_immediate \<Rightarrow> and_end OPERAND8_fetch l c
        | isa_6502_addressing_zeropage \<Rightarrow> and_end ADDR8_fetch l c
        | isa_6502_addressing_zeropage_x_indexed \<Rightarrow> and_end ADDR8_fetch l c
        | isa_6502_addressing_x_indexed_indirect \<Rightarrow> and_end ADDR8_fetch l c
        | isa_6502_addressing_indirect_y_indexed \<Rightarrow> and_end ADDR8_fetch l c
        | isa_6502_addressing_zeropage_indirect \<Rightarrow> and_end ADDR8_fetch l c
        | isa_6502_addressing_absolute \<Rightarrow> and_next ADDR16_fetch_lo l c
        | isa_6502_addressing_absolute_x_indexed \<Rightarrow> and_next ADDR16_fetch_lo l c
        | isa_6502_addressing_absolute_y_indexed \<Rightarrow> and_next ADDR16_fetch_lo l c
        | _ \<Rightarrow> next_cycle l c)
     else if cycle_count c = 2 then
       (case addressing_mode c of
          isa_6502_addressing_zeropage \<Rightarrow> and_end (OPERAND8_read (widen (ADDR8 l))) l c
        | isa_6502_addressing_zeropage_x_indexed \<Rightarrow>
              next_cycle (l\<lparr>ADDR8 := ADDR8 l + reg_X (registers c)\<rparr>) c
        | isa_6502_addressing_x_indexed_indirect \<Rightarrow>
              next_cycle (l\<lparr>ADDR8 := ADDR8 l + reg_X (registers c)\<rparr>) c
        | isa_6502_addressing_indirect_y_indexed \<Rightarrow> and_next ADDR16_zeropage_lo l c
        | isa_6502_addressing_zeropage_indirect \<Rightarrow> and_next ADDR16_zeropage_lo l c
        | isa_6502_addressing_absolute \<Rightarrow> and_next ADDR16_fetch_hi l c
        | isa_6502_addressing_absolute_x_indexed \<Rightarrow> and_next ADDR16_fetch_hi l c
        | isa_6502_addressing_absolute_y_indexed \<Rightarrow> and_next ADDR16_fetch_hi l c
        | _ \<Rightarrow> next_cycle l c)
     else if cycle_count c = 3 then
       (case addressing_mode c of
          isa_6502_addressing_zeropage_x_indexed \<Rightarrow>
              and_end (OPERAND8_read (widen (ADDR8 l))) l c
        | isa_6502_addressing_x_indexed_indirect \<Rightarrow> and_next ADDR16_zeropage_lo l c
        | isa_6502_addressing_indirect_y_indexed \<Rightarrow>
              and_next ADDR16_zeropage_or l c
        | isa_6502_addressing_zeropage_indirect \<Rightarrow>
              and_next ADDR16_zeropage_or l c
        | isa_6502_addressing_absolute \<Rightarrow> and_end (OPERAND8_read (widen (ADDR8 l))) l c
        | isa_6502_addressing_absolute_x_indexed \<Rightarrow>
              (let l = ADDR16_index (reg_X (registers c)) l
               in if same_page (ADDR16_pre_index l) (ADDR16 l) then and_end (OPERAND8_read (ADDR16 l)) l c
                  else next_cycle l c)
        | isa_6502_addressing_absolute_y_indexed \<Rightarrow>
              (let l = ADDR16_index (reg_Y (registers c)) l
               in if same_page (ADDR16_pre_index l) (ADDR16 l) then and_end (OPERAND8_read (ADDR16 l)) l c
                  else next_cycle l c)
        | _ \<Rightarrow> next_cycle l c)
     else if cycle_count c = 4 then
       (case addressing_mode c of
          isa_6502_addressing_absolute_x_indexed \<Rightarrow>
              and_end (OPERAND8_read (ADDR16 l)) l c
        | isa_6502_addressing_absolute_y_indexed \<Rightarrow>
              and_end (OPERAND8_read (ADDR16 l)) l c
        | isa_6502_addressing_x_indexed_indirect \<Rightarrow>
              and_next ADDR16_zeropage_or l c
        | isa_6502_addressing_indirect_y_indexed \<Rightarrow>
              (let l = ADDR16_index (reg_Y (registers c)) l
               in if same_page (ADDR16_pre_index l) (ADDR16 l) then and_end (OPERAND8_read (ADDR16 l)) l c
                  else next_cycle l c)
        | isa_6502_addressing_zeropage_indirect \<Rightarrow>
              and_end (OPERAND8_read (ADDR16 l)) l c
        | _ \<Rightarrow> next_cycle l c)
     else if cycle_count c = 5 then
       and_end (OPERAND8_read (ADDR16 l)) l c
     else next_cycle l c)"

definition isa_65C02_CMP :: staged_body where
  "isa_65C02_CMP l c = do {
     (at_stage, l, c) \<leftarrow> CMP65_cycle l c;
     if at_stage = isa_6502_instr_stage_end
     then instr_end l (with_reg
            (compare_finish (unat (reg_A (registers c))) (unat (OPERAND8 l))) c)
     else Some (at_stage, l, c) }"

definition CMP65_static :: statement where
  "CMP65_static l c =
    (case addressing_mode c of
         isa_6502_addressing_immediate \<Rightarrow>
             do {
               (l, c) \<leftarrow> OPERAND8_fetch l c;
               Some (l, add_cycles 1 c) }
       | isa_6502_addressing_zeropage \<Rightarrow>
             do {
               (l, c) \<leftarrow> ADDR8_fetch l c;
               (l, c) \<leftarrow> OPERAND8_read (widen (ADDR8 l)) l c;
               Some (l, add_cycles 2 c) }
       | isa_6502_addressing_zeropage_x_indexed \<Rightarrow>
             do {
               (l, c) \<leftarrow> ADDR8_fetch l c;
               let l = l\<lparr>ADDR8 := ADDR8 l + reg_X (registers c)\<rparr>;
               (l, c) \<leftarrow> OPERAND8_read (widen (ADDR8 l)) l c;
               Some (l, add_cycles 3 c) }
       | isa_6502_addressing_x_indexed_indirect \<Rightarrow>
             do {
               (l, c) \<leftarrow> ADDR8_fetch l c;
               let l = l\<lparr>ADDR8 := ADDR8 l + reg_X (registers c)\<rparr>;
               (l, c) \<leftarrow> ADDR16_zeropage_lo l c;
               (l, c) \<leftarrow> ADDR16_zeropage_hi l c;
               let l = l\<lparr>ADDR8 := ADDR8 l + 1\<rparr>;
               (l, c) \<leftarrow> OPERAND8_read (ADDR16 l) l c;
               Some (l, add_cycles 5 c) }
       | isa_6502_addressing_zeropage_indirect \<Rightarrow>
             do {
               (l, c) \<leftarrow> ADDR8_fetch l c;
               (l, c) \<leftarrow> ADDR16_zeropage_lo l c;
               (l, c) \<leftarrow> ADDR16_zeropage_hi l c;
               (l, c) \<leftarrow> OPERAND8_read (ADDR16 l) l c;
               Some (l, add_cycles 4 c) }
       | isa_6502_addressing_indirect_y_indexed \<Rightarrow>
             do {
               (l, c) \<leftarrow> ADDR8_fetch l c;
               (l, c) \<leftarrow> ADDR16_zeropage_lo l c;
               (l, c) \<leftarrow> ADDR16_zeropage_hi l c;
               let l = l\<lparr>ADDR8 := ADDR8 l + 1\<rparr>;
               let l = ADDR16_index (reg_Y (registers c)) l;
               (l, c) \<leftarrow> OPERAND8_read (ADDR16 l) l c;
               Some (l, add_cycles (4 + of_bool (\<not> same_page (ADDR16_pre_index l) (ADDR16 l))) c) }
       | isa_6502_addressing_absolute \<Rightarrow>
             do {
               (l, c) \<leftarrow> ADDR16_fetch_lo l c;
               (l, c) \<leftarrow> ADDR16_fetch_hi l c;
               (l, c) \<leftarrow> OPERAND8_read (ADDR16 l) l c;
               Some (l, add_cycles 3 c) }
       | isa_6502_addressing_absolute_x_indexed \<Rightarrow>
             do {
               (l, c) \<leftarrow> ADDR16_fetch_lo l c;
               (l, c) \<leftarrow> ADDR16_fetch_hi l c;
               let l = ADDR16_index (reg_X (registers c)) l;
               (l, c) \<leftarrow> OPERAND8_read (ADDR16 l) l c;
               Some (l, add_cycles (3 + of_bool (\<not> same_page (ADDR16_pre_index l) (ADDR16 l))) c) }
       | isa_6502_addressing_absolute_y_indexed \<Rightarrow>
             do {
               (l, c) \<leftarrow> ADDR16_fetch_lo l c;
               (l, c) \<leftarrow> ADDR16_fetch_hi l c;
               let l = ADDR16_index (reg_Y (registers c)) l;
               (l, c) \<leftarrow> OPERAND8_read (ADDR16 l) l c;
               Some (l, add_cycles (3 + of_bool (\<not> same_page (ADDR16_pre_index l) (ADDR16 l))) c) }
       | _ \<Rightarrow> Some (l, add_cycles (ucast (local_cycle_count l)) c))"

definition isa_65C02_static_CMP :: static_body where
  "isa_65C02_static_CMP at_stage l c = do {
     (l, c) \<leftarrow> CMP65_static l c;
     Some (isa_6502_instr_stage_end,
       with_reg (compare_finish (unat (reg_A (registers c))) (unat (OPERAND8 l))) c) }"

definition BIT65_cycle :: staged_body where
  "BIT65_cycle l c =
    (if cycle_count c = 1 then
       (case addressing_mode c of
          isa_6502_addressing_immediate \<Rightarrow> and_end OPERAND8_fetch l c
        | isa_6502_addressing_zeropage \<Rightarrow> and_next ADDR8_fetch l c
        | isa_6502_addressing_zeropage_x_indexed \<Rightarrow> and_next ADDR8_fetch l c
        | isa_6502_addressing_absolute \<Rightarrow> and_next ADDR16_fetch_lo l c
        | isa_6502_addressing_absolute_x_indexed \<Rightarrow> and_next ADDR16_fetch_lo l c
        | _ \<Rightarrow> next_cycle l c)
     else if cycle_count c = 2 then
       (case addressing_mode c of
          isa_6502_addressing_zeropage \<Rightarrow> and_end (OPERAND8_read (widen (ADDR8 l))) l c
        | isa_6502_addressing_zeropage_x_indexed \<Rightarrow>
              next_cycle (l\<lparr>ADDR8 := ADDR8 l + reg_X (registers c)\<rparr>) c
        | isa_6502_addressing_absolute \<Rightarrow> and_next ADDR16_fetch_hi l c
        | isa_6502_addressing_absolute_x_indexed \<Rightarrow> and_next ADDR16_fetch_hi l c
        | _ \<Rightarrow> next_cycle l c)
     else if cycle_count c = 3 then
       (case addressing_mode c of
          isa_6502_addressing_zeropage_x_indexed \<Rightarrow>
              and_end (OPERAND8_read (widen (ADDR8 l))) l c
        | isa_6502_addressing_absolute \<Rightarrow> and_end (OPERAND8_read (ADDR16 l)) l c
        | isa_6502_addressing_absolute_x_indexed \<Rightarrow>
              (let l = ADDR16_index (reg_X (registers c)) l
               in if same_page (ADDR16_pre_index l) (ADDR16 l) then and_end (OPERAND8_read (ADDR16 l)) l c
                  else next_cycle l c)
        | _ \<Rightarrow> next_cycle l c)
     else if cycle_count c = 4 then
       and_end (OPERAND8_read (ADDR16 l)) l c
     else next_cycle l c)"

definition isa_65C02_BIT :: staged_body where
  "isa_65C02_BIT l c = do {
     (at_stage, l, c) \<leftarrow> BIT65_cycle l c;
     if at_stage = isa_6502_instr_stage_end
     then instr_end l (with_reg (bit_finish (OPERAND8 l)) c) else Some (at_stage, l, c) }"

definition BIT65_static :: statement where
  "BIT65_static l c =
    (case addressing_mode c of
         isa_6502_addressing_immediate \<Rightarrow>
             do {
               (l, c) \<leftarrow> OPERAND8_fetch l c;
               Some (l, add_cycles 1 c) }
       | isa_6502_addressing_zeropage \<Rightarrow>
             do {
               (l, c) \<leftarrow> ADDR8_fetch l c;
               (l, c) \<leftarrow> OPERAND8_read (widen (ADDR8 l)) l c;
               Some (l, add_cycles 2 c) }
       | isa_6502_addressing_zeropage_x_indexed \<Rightarrow>
             do {
               (l, c) \<leftarrow> ADDR8_fetch l c;
               let l = l\<lparr>ADDR8 := ADDR8 l + reg_X (registers c)\<rparr>;
               (l, c) \<leftarrow> OPERAND8_read (widen (ADDR8 l)) l c;
               Some (l, add_cycles 3 c) }
       | isa_6502_addressing_absolute \<Rightarrow>
             do {
               (l, c) \<leftarrow> ADDR16_fetch_lo l c;
               (l, c) \<leftarrow> ADDR16_fetch_hi l c;
               (l, c) \<leftarrow> OPERAND8_read (ADDR16 l) l c;
               Some (l, add_cycles 3 c) }
       | isa_6502_addressing_absolute_x_indexed \<Rightarrow>
             do {
               (l, c) \<leftarrow> ADDR16_fetch_lo l c;
               (l, c) \<leftarrow> ADDR16_fetch_hi l c;
               let l = ADDR16_index (reg_X (registers c)) l;
               (l, c) \<leftarrow> OPERAND8_read (ADDR16 l) l c;
               Some (l, add_cycles (4 + of_bool (\<not> same_page (ADDR16_pre_index l) (ADDR16 l))) c) }
       | _ \<Rightarrow> Some (l, add_cycles (ucast (local_cycle_count l)) c))"

definition isa_65C02_static_BIT :: static_body where
  "isa_65C02_static_BIT at_stage l c = do {
     (l, c) \<leftarrow> BIT65_static l c;
     Some (isa_6502_instr_stage_end, with_reg (bit_finish (OPERAND8 l)) c) }"

lemmas test65_staged_defs [staged_defs] = isa_65C02_CMP_def CMP65_cycle_def isa_65C02_BIT_def
  BIT65_cycle_def

lemmas test65_static_defs [static_defs] = isa_65C02_static_CMP_def CMP65_static_def
  isa_65C02_static_BIT_def BIT65_static_def


end
