(* ===== verification/Isa_Rmw.thy ===== *)
theory Isa_Rmw
  imports Isa_Base
begin

text \<open>
  Read-modify-write instructions, \<^verbatim>\<open>src/isa_6502/{INC,DEC,ASL,LSR,ROL,ROR}.c\<close>.  \<^verbatim>\<open>INC.c\<close> and \<^verbatim>\<open>DEC.c\<close>
  differ in one operator, the four shift files share the walk through the addressing modes
  (\<open>shift_cycle\<close>, \<open>shift_fetch_static\<close>) and differ in the value they compute.
\<close>

section \<open>INC and DEC\<close>

text \<open>\<open>OPERAND++\<close> and \<open>OPERAND--\<close> as \<open>OPERAND8 + d\<close>.\<close>

definition step_cycle :: "u8 \<Rightarrow> staged_body" where
  "step_cycle d l c =
    (if cycle_count c = 1 then
       (case addressing_mode c of
          isa_6502_addressing_zeropage \<Rightarrow> and_next ADDR8_fetch l c
        | isa_6502_addressing_zeropage_x_indexed \<Rightarrow> and_next ADDR8_fetch l c
        | isa_6502_addressing_absolute \<Rightarrow> and_next ADDR16_fetch_lo l c
        | isa_6502_addressing_absolute_x_indexed \<Rightarrow> and_next ADDR16_fetch_lo l c
        | _ \<Rightarrow> next_cycle l c)
     else if cycle_count c = 2 then
       (case addressing_mode c of
          isa_6502_addressing_zeropage \<Rightarrow>
              do {
                (l, c) \<leftarrow> OPERAND8_read (widen (ADDR8 l)) l c;
                next_cycle (l\<lparr>ADDR16 := widen (ADDR8 l)\<rparr>) c }
        | isa_6502_addressing_zeropage_x_indexed \<Rightarrow>
              next_cycle (l\<lparr>ADDR8 := ADDR8 l + reg_X (registers c)\<rparr>) c
        | isa_6502_addressing_absolute \<Rightarrow> and_next ADDR16_fetch_hi l c
        | isa_6502_addressing_absolute_x_indexed \<Rightarrow> and_next ADDR16_fetch_hi l c
        | _ \<Rightarrow> next_cycle l c)
     else if cycle_count c = 3 then
       (case addressing_mode c of
          isa_6502_addressing_zeropage \<Rightarrow>
              next_cycle (l\<lparr>OPERAND8 := OPERAND8 l + d\<rparr>) c
        | isa_6502_addressing_zeropage_x_indexed \<Rightarrow>
              do {
                (l, c) \<leftarrow> OPERAND8_read (widen (ADDR8 l)) l c;
                next_cycle (l\<lparr>ADDR16 := widen (ADDR8 l)\<rparr>) c }
        | isa_6502_addressing_absolute \<Rightarrow> and_next (OPERAND8_read (ADDR16 l)) l c
        | isa_6502_addressing_absolute_x_indexed \<Rightarrow>
              next_cycle (l\<lparr>ADDR16 := ADDR16 l + widen (reg_X (registers c))\<rparr>) c
        | _ \<Rightarrow> next_cycle l c)
     else if cycle_count c = 4 then
       (case addressing_mode c of
          isa_6502_addressing_zeropage \<Rightarrow> instr_end l c
        | isa_6502_addressing_zeropage_x_indexed \<Rightarrow>
              next_cycle (l\<lparr>OPERAND8 := OPERAND8 l + d\<rparr>) c
        | isa_6502_addressing_absolute \<Rightarrow>
              next_cycle (l\<lparr>OPERAND8 := OPERAND8 l + d\<rparr>) c
        | isa_6502_addressing_absolute_x_indexed \<Rightarrow>
              and_next (OPERAND8_read (ADDR16 l)) l c
        | _ \<Rightarrow> next_cycle l c)
     else if cycle_count c = 5 then
       (case addressing_mode c of
          isa_6502_addressing_zeropage_x_indexed \<Rightarrow> instr_end l c
        | isa_6502_addressing_absolute \<Rightarrow> instr_end l c
        | isa_6502_addressing_absolute_x_indexed \<Rightarrow>
              next_cycle (l\<lparr>OPERAND8 := OPERAND8 l + d\<rparr>) c
        | _ \<Rightarrow> next_cycle l c)
     else if cycle_count c = 6 then
       instr_end l c
     else next_cycle l c)"

definition step_static :: "u8 \<Rightarrow> statement" where
  "step_static d l c = do {
     (l, c) \<leftarrow> (case addressing_mode c of
         isa_6502_addressing_zeropage \<Rightarrow>
             do {
               (l, c) \<leftarrow> ADDR8_fetch l c;
               (l, c) \<leftarrow> OPERAND8_read (widen (ADDR8 l)) l c;
               let l = l\<lparr>ADDR16 := widen (ADDR8 l)\<rparr>;
               Some (l, add_cycles 4 c) }
       | isa_6502_addressing_zeropage_x_indexed \<Rightarrow>
             do {
               (l, c) \<leftarrow> ADDR8_fetch l c;
               let l = l\<lparr>ADDR8 := ADDR8 l + reg_X (registers c)\<rparr>;
               (l, c) \<leftarrow> OPERAND8_read (widen (ADDR8 l)) l c;
               let l = l\<lparr>ADDR16 := widen (ADDR8 l)\<rparr>;
               Some (l, add_cycles 5 c) }
       | isa_6502_addressing_absolute \<Rightarrow>
             do {
               (l, c) \<leftarrow> ADDR16_fetch_lo l c;
               (l, c) \<leftarrow> ADDR16_fetch_hi l c;
               (l, c) \<leftarrow> OPERAND8_read (ADDR16 l) l c;
               Some (l, add_cycles 5 c) }
       | isa_6502_addressing_absolute_x_indexed \<Rightarrow>
             do {
               (l, c) \<leftarrow> ADDR16_fetch_lo l c;
               (l, c) \<leftarrow> ADDR16_fetch_hi l c;
               let l = l\<lparr>ADDR16 := ADDR16 l + widen (reg_X (registers c))\<rparr>;
               (l, c) \<leftarrow> OPERAND8_read (ADDR16 l) l c;
               Some (l, add_cycles 6 c) }
       | _ \<Rightarrow> Some (l, add_cycles (ucast (local_cycle_count l)) c));
     let l = l\<lparr>OPERAND8 := OPERAND8 l + d\<rparr>;
     c \<leftarrow> wr c (ADDR16 l) (OPERAND8 l);
     Some (l, with_reg (\<lambda>r. registers_status_with_value r (OPERAND8 l) registers_Carry_ignore) c) }"

definition isa_6502_INC :: staged_body where
  "isa_6502_INC l c = do {
     (at_stage, l, c) \<leftarrow> step_cycle 1 l c;
     if at_stage = isa_6502_instr_stage_end
     then do {
       c \<leftarrow> wr c (ADDR16 l) (OPERAND8 l);
       instr_end l
         (with_reg (\<lambda>r. registers_status_with_value r (OPERAND8 l) registers_Carry_ignore) c) }
     else Some (at_stage, l, c) }"

definition isa_6502_static_INC :: static_body where
  "isa_6502_static_INC at_stage l c = do {
     (l, c) \<leftarrow> step_static 1 l c;
     Some (isa_6502_instr_stage_end, c) }"

definition isa_6502_DEC :: staged_body where
  "isa_6502_DEC l c = do {
     (at_stage, l, c) \<leftarrow> step_cycle (- 1) l c;
     if at_stage = isa_6502_instr_stage_end
     then do {
       c \<leftarrow> wr c (ADDR16 l) (OPERAND8 l);
       instr_end l
         (with_reg (\<lambda>r. registers_status_with_value r (OPERAND8 l) registers_Carry_ignore) c) }
     else Some (at_stage, l, c) }"

definition isa_6502_static_DEC :: static_body where
  "isa_6502_static_DEC at_stage l c = do {
     (l, c) \<leftarrow> step_static (- 1) l c;
     Some (isa_6502_instr_stage_end, c) }"

section \<open>Shifts and rotations\<close>

text \<open>The 16-bit value after the operation and whether the carry is set.\<close>

type_synonym shift_op = "registers \<Rightarrow> u16 \<Rightarrow> u16 \<times> bool"

definition carry_in :: "registers \<Rightarrow> u16" where
  "carry_in r = widen (registers_SR_get_bit r register_SR_Bit_C)"

definition asl_op :: shift_op where
  "asl_op r v = (let v = push_bit 1 v in (v, v AND 0xFF00 \<noteq> 0))"

definition rol_op :: shift_op where
  "rol_op r v = (let v = push_bit 1 v OR carry_in r in (v, v AND 0xFF00 \<noteq> 0))"

definition lsr_op :: shift_op where
  "lsr_op r v = (drop_bit 1 v, v AND 0x01 \<noteq> 0)"

definition ror_op :: shift_op where
  "ror_op r v = ((drop_bit 1 v OR push_bit 7 (carry_in r)) AND 0x00FF, v AND 0x01 \<noteq> 0)"

definition shift_status :: "u16 \<Rightarrow> bool \<Rightarrow> registers \<Rightarrow> registers" where
  "shift_status v carry r = registers_status_with_value r (ucast (v AND 0x00FF))
     (if carry then registers_Carry_set else registers_Carry_clear)"

definition shift_A :: "shift_op \<Rightarrow> registers \<Rightarrow> registers" where
  "shift_A f r =
    (let (v, carry) = f r (widen (reg_A r))
     in registers_did_set_A (r\<lparr>reg_A := ucast (v AND 0x00FF)\<rparr>)
          (if carry then registers_Carry_set else registers_Carry_clear))"

text \<open>The walk through the modes: \<open>is_penultimate\<close> is set in the cycle that is to compute the value
  and nothing clears it before the next instruction.\<close>

definition shift_cycle :: staged_body where
  "shift_cycle l c =
    (if cycle_count c = 1 then
       (let l = l\<lparr>is_penultimate := False\<rparr> in
        (case addressing_mode c of
          isa_6502_addressing_zeropage \<Rightarrow> and_next ADDR8_fetch l c
        | isa_6502_addressing_zeropage_x_indexed \<Rightarrow> and_next ADDR8_fetch l c
        | isa_6502_addressing_absolute \<Rightarrow> and_next ADDR16_fetch_lo l c
        | isa_6502_addressing_absolute_x_indexed \<Rightarrow> and_next ADDR16_fetch_lo l c
        | _ \<Rightarrow> next_cycle l c))
     else if cycle_count c = 2 then
       (case addressing_mode c of
          isa_6502_addressing_zeropage \<Rightarrow> and_next (OPERAND_read (widen (ADDR8 l))) l c
        | isa_6502_addressing_zeropage_x_indexed \<Rightarrow>
              next_cycle (l\<lparr>ADDR8 := ADDR8 l + reg_X (registers c)\<rparr>) c
        | isa_6502_addressing_absolute \<Rightarrow> and_next ADDR16_fetch_hi l c
        | isa_6502_addressing_absolute_x_indexed \<Rightarrow> and_next ADDR16_fetch_hi l c
        | _ \<Rightarrow> next_cycle l c)
     else if cycle_count c = 3 then
       (case addressing_mode c of
          isa_6502_addressing_zeropage \<Rightarrow>
              next_cycle (l\<lparr>is_penultimate := True\<rparr>) c
        | isa_6502_addressing_zeropage_x_indexed \<Rightarrow>
              and_next (OPERAND_read (widen (ADDR8 l))) l c
        | isa_6502_addressing_absolute \<Rightarrow> and_next (OPERAND_read (ADDR16 l)) l c
        | isa_6502_addressing_absolute_x_indexed \<Rightarrow>
              next_cycle (l\<lparr>ADDR16 := ADDR16 l + widen (reg_X (registers c))\<rparr>) c
        | _ \<Rightarrow> next_cycle l c)
     else if cycle_count c = 4 then
       (case addressing_mode c of
          isa_6502_addressing_zeropage \<Rightarrow>
              instr_end (l\<lparr>ADDR16 := widen (ADDR8 l)\<rparr>) c
        | isa_6502_addressing_zeropage_x_indexed \<Rightarrow>
              next_cycle (l\<lparr>is_penultimate := True\<rparr>) c
        | isa_6502_addressing_absolute \<Rightarrow>
              next_cycle (l\<lparr>is_penultimate := True\<rparr>) c
        | isa_6502_addressing_absolute_x_indexed \<Rightarrow>
              and_next (OPERAND_read (ADDR16 l)) l c
        | _ \<Rightarrow> next_cycle l c)
     else if cycle_count c = 5 then
       (case addressing_mode c of
          isa_6502_addressing_zeropage_x_indexed \<Rightarrow>
              instr_end (l\<lparr>ADDR16 := widen (ADDR8 l)\<rparr>) c
        | isa_6502_addressing_absolute \<Rightarrow> instr_end l c
        | isa_6502_addressing_absolute_x_indexed \<Rightarrow>
              next_cycle (l\<lparr>is_penultimate := True\<rparr>) c
        | _ \<Rightarrow> next_cycle l c)
     else if cycle_count c = 6 then
       instr_end l c
     else next_cycle l c)"

text \<open>The tail of the four staged bodies.\<close>

definition shift_tail :: "shift_op \<Rightarrow> isa_6502_instr_stage \<Rightarrow> staged_body" where
  "shift_tail f at_stage l c =
    (if is_penultimate l then
       let (v, carry) = f (registers c) (OPERAND l)
       in Some (at_stage, l\<lparr>OPERAND := v\<rparr>, with_reg (shift_status v carry) c)
     else if at_stage = isa_6502_instr_stage_end then do {
       c \<leftarrow> wr c (ADDR16 l) (ucast (OPERAND l));
       Some (at_stage, l, c) }
     else Some (at_stage, l, c))"

definition shift_fetch_static :: statement where
  "shift_fetch_static l c =
    (case addressing_mode c of
       isa_6502_addressing_zeropage \<Rightarrow>
           do {
             (l, c) \<leftarrow> ADDR8_fetch l c;
             (l, c) \<leftarrow> OPERAND_read (widen (ADDR8 l)) l c;
             let l = l\<lparr>ADDR16 := widen (ADDR8 l)\<rparr>;
             Some (l, add_cycles 4 c) }
     | isa_6502_addressing_zeropage_x_indexed \<Rightarrow>
           do {
             (l, c) \<leftarrow> ADDR8_fetch l c;
             let l = l\<lparr>ADDR8 := ADDR8 l + reg_X (registers c)\<rparr>;
             (l, c) \<leftarrow> OPERAND_read (widen (ADDR8 l)) l c;
             let l = l\<lparr>ADDR16 := widen (ADDR8 l)\<rparr>;
             Some (l, add_cycles 5 c) }
     | isa_6502_addressing_absolute \<Rightarrow>
           do {
             (l, c) \<leftarrow> ADDR16_fetch_lo l c;
             (l, c) \<leftarrow> ADDR16_fetch_hi l c;
             (l, c) \<leftarrow> OPERAND_read (ADDR16 l) l c;
             Some (l, add_cycles 5 c) }
     | isa_6502_addressing_absolute_x_indexed \<Rightarrow>
           do {
             (l, c) \<leftarrow> ADDR16_fetch_lo l c;
             (l, c) \<leftarrow> ADDR16_fetch_hi l c;
             let l = l\<lparr>ADDR16 := ADDR16 l + widen (reg_X (registers c))\<rparr>;
             (l, c) \<leftarrow> OPERAND_read (ADDR16 l) l c;
             Some (l, add_cycles 6 c) }
     | _ \<Rightarrow> Some (l, add_cycles (ucast (local_cycle_count l)) c))"

definition shift_static :: "shift_op \<Rightarrow> static_body" where
  "shift_static f at_stage l c =
    (if addressing_mode c = isa_6502_addressing_accumulator
     then Some (isa_6502_instr_stage_end, add_cycles 1 (with_reg (shift_A f) c))
     else do {
       (l, c) \<leftarrow> shift_fetch_static l c;
       let (v, carry) = f (registers c) (OPERAND l);
       c \<leftarrow> wr (with_reg (shift_status v carry) c) (ADDR16 l) (ucast v);
       Some (isa_6502_instr_stage_end, c) })"

definition isa_6502_ASL :: staged_body where
  "isa_6502_ASL l c =
    (if cycle_count c = 1 \<and> addressing_mode c = isa_6502_addressing_accumulator
     then instr_end (l\<lparr>is_penultimate := False,
       OPERAND := fst (asl_op (registers c) (widen (reg_A (registers c))))\<rparr>)
            (with_reg (shift_A asl_op) c)
     else do {
       (at_stage, l, c) \<leftarrow> shift_cycle l c;
       shift_tail asl_op at_stage l c })"

definition isa_6502_static_ASL :: static_body where
  "isa_6502_static_ASL = shift_static asl_op"

definition isa_6502_ROL :: staged_body where
  "isa_6502_ROL l c =
    (if cycle_count c = 1 \<and> addressing_mode c = isa_6502_addressing_accumulator
     then instr_end (l\<lparr>is_penultimate := False,
       OPERAND := fst (rol_op (registers c) (widen (reg_A (registers c))))\<rparr>)
            (with_reg (shift_A rol_op) c)
     else do {
       (at_stage, l, c) \<leftarrow> shift_cycle l c;
       shift_tail rol_op at_stage l c })"

definition isa_6502_static_ROL :: static_body where
  "isa_6502_static_ROL = shift_static rol_op"

definition isa_6502_LSR :: staged_body where
  "isa_6502_LSR l c =
    (if cycle_count c = 1 \<and> addressing_mode c = isa_6502_addressing_accumulator
     then instr_end (l\<lparr>is_penultimate := False\<rparr>)
            (with_reg (shift_A lsr_op) c)
     else do {
       (at_stage, l, c) \<leftarrow> shift_cycle l c;
       shift_tail lsr_op at_stage l c })"

definition isa_6502_static_LSR :: static_body where
  "isa_6502_static_LSR = shift_static lsr_op"

definition isa_6502_ROR :: staged_body where
  "isa_6502_ROR l c =
    (if cycle_count c = 1 \<and> addressing_mode c = isa_6502_addressing_accumulator
     then instr_end (l\<lparr>is_penultimate := False\<rparr>)
            (with_reg (shift_A ror_op) c)
     else do {
       (at_stage, l, c) \<leftarrow> shift_cycle l c;
       shift_tail ror_op at_stage l c })"

definition isa_6502_static_ROR :: static_body where
  "isa_6502_static_ROR = shift_static ror_op"

lemmas rmw_staged_defs [staged_defs] = isa_6502_INC_def isa_6502_DEC_def step_cycle_def
  isa_6502_ASL_def isa_6502_ROL_def isa_6502_LSR_def isa_6502_ROR_def shift_cycle_def shift_tail_def

lemmas rmw_static_defs [static_defs] = isa_6502_static_INC_def isa_6502_static_DEC_def
  step_static_def isa_6502_static_ASL_def isa_6502_static_ROL_def isa_6502_static_LSR_def
  isa_6502_static_ROR_def shift_static_def shift_fetch_static_def

end
