(* ===== verification/Isa65_Rmw.thy ===== *)
theory Isa65_Rmw
  imports Isa_Rmw
begin

text \<open>
  Read-modify-write instructions of the 65C02, \<^verbatim>\<open>src/isa_65C02/{INC,DEC,ASL,ROL,LSR,ROR,TSB,TRB}.c\<close>.
\<close>

section \<open>INC and DEC\<close>

text \<open>Beside the four memory modes, whose text is that of the base dialect, the accumulator mode.  Both
  files increment there.\<close>

definition increment_A :: "registers \<Rightarrow> registers" where
  "increment_A r = registers_did_set_A (r\<lparr>reg_A := reg_A r + 1\<rparr>) registers_Carry_ignore"

definition isa_65C02_INC :: staged_body where
  "isa_65C02_INC l c =
    (if cycle_count c = 1 \<and> addressing_mode c = isa_6502_addressing_accumulator
     then instr_end l (with_reg increment_A c)
     else isa_6502_INC l c)"

definition isa_65C02_static_INC :: static_body where
  "isa_65C02_static_INC at_stage l c =
    (if addressing_mode c = isa_6502_addressing_accumulator
     then Some (isa_6502_instr_stage_end, add_cycles 1 (with_reg increment_A c))
     else isa_6502_static_INC at_stage l c)"

definition isa_65C02_DEC :: staged_body where
  "isa_65C02_DEC l c =
    (if cycle_count c = 1 \<and> addressing_mode c = isa_6502_addressing_accumulator
     then instr_end l (with_reg increment_A c)
     else isa_6502_DEC l c)"

definition isa_65C02_static_DEC :: static_body where
  "isa_65C02_static_DEC at_stage l c =
    (if addressing_mode c = isa_6502_addressing_accumulator
     then Some (isa_6502_instr_stage_end, add_cycles 1 (with_reg increment_A c))
     else isa_6502_static_DEC at_stage l c)"

section \<open>Shifts and rotations\<close>

text \<open>In the absolute X-indexed mode an address in the page of its base saves a cycle.  As in the base
  dialect, \<open>is_penultimate\<close> stays set once the value has been computed.\<close>

definition shift65_cycle :: staged_body where
  "shift65_cycle l c =
    (if cycle_count c = 1 then
       (let l = l\<lparr>is_penultimate := False\<rparr> in
        (case addressing_mode c of
          isa_6502_addressing_zeropage \<Rightarrow> and_next ADDR8_fetch l c
        | isa_6502_addressing_zeropage_x_indexed \<Rightarrow> and_next ADDR8_fetch l c
        | isa_6502_addressing_absolute \<Rightarrow> and_next ADDR16_fetch_lo l c
        | isa_6502_addressing_absolute_x_indexed \<Rightarrow> and_next ADDR16_fetch_lo l c
        | _ \<Rightarrow> next_cycle l c))
     else if cycle_count c = 2 then
       (case addressing_mode c of
          isa_6502_addressing_zeropage \<Rightarrow> and_next (OPERAND_read (widen (ADDR8 l))) l c
        | isa_6502_addressing_zeropage_x_indexed \<Rightarrow>
              next_cycle (l\<lparr>ADDR8 := ADDR8 l + reg_X (registers c)\<rparr>) c
        | isa_6502_addressing_absolute \<Rightarrow> and_next ADDR16_fetch_hi l c
        | isa_6502_addressing_absolute_x_indexed \<Rightarrow> and_next ADDR16_fetch_hi l c
        | _ \<Rightarrow> next_cycle l c)
     else if cycle_count c = 3 then
       (case addressing_mode c of
          isa_6502_addressing_zeropage \<Rightarrow>
              next_cycle (l\<lparr>is_penultimate := True\<rparr>) c
        | isa_6502_addressing_zeropage_x_indexed \<Rightarrow>
              and_next (OPERAND_read (widen (ADDR8 l))) l c
        | isa_6502_addressing_absolute \<Rightarrow> and_next (OPERAND_read (ADDR16 l)) l c
        | isa_6502_addressing_absolute_x_indexed \<Rightarrow>
              next_cycle (ADDR16_index (reg_X (registers c)) l) c
        | _ \<Rightarrow> next_cycle l c)
     else if cycle_count c = 4 then
       (case addressing_mode c of
          isa_6502_addressing_zeropage \<Rightarrow>
              instr_end (l\<lparr>ADDR16 := widen (ADDR8 l)\<rparr>) c
        | isa_6502_addressing_zeropage_x_indexed \<Rightarrow>
              next_cycle (l\<lparr>is_penultimate := True\<rparr>) c
        | isa_6502_addressing_absolute \<Rightarrow>
              next_cycle (l\<lparr>is_penultimate := True\<rparr>) c
        | isa_6502_addressing_absolute_x_indexed \<Rightarrow>
              (if same_page (ADDR16_pre_index l) (ADDR16 l) then do {
                      (l, c) \<leftarrow> OPERAND_read (ADDR16 l) l c;
                      let l = l\<lparr>is_penultimate := True\<rparr>;
                      next_cycle l c }
               else next_cycle l c)
        | _ \<Rightarrow> next_cycle l c)
     else if cycle_count c = 5 then
       (case addressing_mode c of
          isa_6502_addressing_zeropage_x_indexed \<Rightarrow>
              instr_end (l\<lparr>ADDR16 := widen (ADDR8 l)\<rparr>) c
        | isa_6502_addressing_absolute \<Rightarrow> instr_end l c
        | isa_6502_addressing_absolute_x_indexed \<Rightarrow>
              (if is_penultimate l then instr_end l c
               else do {
                      (l, c) \<leftarrow> OPERAND_read (ADDR16 l) l c;
                      let l = l\<lparr>is_penultimate := True\<rparr>;
                      next_cycle l c })
        | _ \<Rightarrow> next_cycle l c)
     else if cycle_count c = 6 then
       instr_end l c
     else next_cycle l c)"

definition shift65_fetch_static :: statement where
  "shift65_fetch_static l c =
    (case addressing_mode c of
         isa_6502_addressing_zeropage \<Rightarrow>
             do {
               (l, c) \<leftarrow> ADDR8_fetch l c;
               (l, c) \<leftarrow> OPERAND_read (widen (ADDR8 l)) l c;
               let l = l\<lparr>ADDR16 := widen (ADDR8 l)\<rparr>;
               Some (l, add_cycles 4 c) }
       | isa_6502_addressing_zeropage_x_indexed \<Rightarrow>
             do {
               (l, c) \<leftarrow> ADDR8_fetch l c;
               let l = l\<lparr>ADDR8 := ADDR8 l + reg_X (registers c)\<rparr>;
               (l, c) \<leftarrow> OPERAND_read (widen (ADDR8 l)) l c;
               let l = l\<lparr>ADDR16 := widen (ADDR8 l)\<rparr>;
               Some (l, add_cycles 5 c) }
       | isa_6502_addressing_absolute \<Rightarrow>
             do {
               (l, c) \<leftarrow> ADDR16_fetch_lo l c;
               (l, c) \<leftarrow> ADDR16_fetch_hi l c;
               (l, c) \<leftarrow> OPERAND_read (ADDR16 l) l c;
               Some (l, add_cycles 5 c) }
       | isa_6502_addressing_absolute_x_indexed \<Rightarrow>
             do {
               (l, c) \<leftarrow> ADDR16_fetch_lo l c;
               (l, c) \<leftarrow> ADDR16_fetch_hi l c;
               let l = ADDR16_index (reg_X (registers c)) l;
               (l, c) \<leftarrow> OPERAND_read (ADDR16 l) l c;
               Some (l, add_cycles (5 + of_bool (\<not> same_page (ADDR16_pre_index l) (ADDR16 l))) c) }
       | _ \<Rightarrow> Some (l, add_cycles (ucast (local_cycle_count l)) c))"

definition shift65_static :: "shift_op \<Rightarrow> static_body" where
  "shift65_static f at_stage l c =
    (if addressing_mode c = isa_6502_addressing_accumulator
     then Some (isa_6502_instr_stage_end, add_cycles 1 (with_reg (shift_A f) c))
     else do {
       (l, c) \<leftarrow> shift65_fetch_static l c;
       let (v, carry) = f (registers c) (OPERAND l);
       c \<leftarrow> wr (with_reg (shift_status v carry) c) (ADDR16 l) (ucast v);
       Some (isa_6502_instr_stage_end, c) })"

text \<open>The staged accumulator modes of \<^verbatim>\<open>ASL\<close>, \<^verbatim>\<open>ROL\<close> and \<^verbatim>\<open>ROR\<close> are one text: a rotation to the left through
  the carry.\<close>

definition rotate_A :: "isa_locals \<Rightarrow> isa_6502_instr_context
    \<Rightarrow> (isa_6502_instr_stage \<times> isa_locals \<times> isa_6502_instr_context) option" where
  "rotate_A l c = instr_end (l\<lparr>is_penultimate := False,
     OPERAND := fst (rol_op (registers c) (widen (reg_A (registers c))))\<rparr>)
     (with_reg (shift_A rol_op) c)"

definition isa_65C02_ASL :: staged_body where
  "isa_65C02_ASL l c =
    (if cycle_count c = 1 \<and> addressing_mode c = isa_6502_addressing_accumulator
     then rotate_A l c
     else do {
       (at_stage, l, c) \<leftarrow> shift65_cycle l c;
       shift_tail asl_op at_stage l c })"

definition isa_65C02_static_ASL :: static_body where
  "isa_65C02_static_ASL = shift65_static asl_op"

definition isa_65C02_ROL :: staged_body where
  "isa_65C02_ROL l c =
    (if cycle_count c = 1 \<and> addressing_mode c = isa_6502_addressing_accumulator
     then rotate_A l c
     else do {
       (at_stage, l, c) \<leftarrow> shift65_cycle l c;
       shift_tail rol_op at_stage l c })"

definition isa_65C02_static_ROL :: static_body where
  "isa_65C02_static_ROL = shift65_static rol_op"

definition isa_65C02_LSR :: staged_body where
  "isa_65C02_LSR l c =
    (if cycle_count c = 1 \<and> addressing_mode c = isa_6502_addressing_accumulator
     then instr_end (l\<lparr>is_penultimate := False\<rparr>) (with_reg (shift_A lsr_op) c)
     else do {
       (at_stage, l, c) \<leftarrow> shift65_cycle l c;
       shift_tail lsr_op at_stage l c })"

definition isa_65C02_static_LSR :: static_body where
  "isa_65C02_static_LSR = shift65_static lsr_op"

definition isa_65C02_ROR :: staged_body where
  "isa_65C02_ROR l c =
    (if cycle_count c = 1 \<and> addressing_mode c = isa_6502_addressing_accumulator
     then rotate_A l c
     else do {
       (at_stage, l, c) \<leftarrow> shift65_cycle l c;
       shift_tail ror_op at_stage l c })"

definition isa_65C02_static_ROR :: static_body where
  "isa_65C02_static_ROR = shift65_static ror_op"

section \<open>TSB and TRB\<close>

text \<open>The walk of both files; \<open>is_penultimate\<close> is an automatic variable here.  Cycle 4 falls through to
  cycle 5, so it ends in every mode.  \<^verbatim>\<open>TSB\<close> returns the stage it is passed where \<^verbatim>\<open>TRB\<close> returns that the
  next cycle follows.\<close>

definition bits_cycle :: "isa_6502_instr_stage \<Rightarrow> staged_body" where
  "bits_cycle at_stage l c =
    (let l = l\<lparr>is_penultimate := False\<rparr> in
     if cycle_count c = 1 then
       (case addressing_mode c of
          isa_6502_addressing_zeropage \<Rightarrow> do { (l, c) \<leftarrow> ADDR8_fetch l c; Some (at_stage, l, c) }
        | isa_6502_addressing_absolute \<Rightarrow> do { (l, c) \<leftarrow> ADDR16_fetch_lo l c; Some (at_stage, l, c) }
        | _ \<Rightarrow> Some (at_stage, l, c))
     else if cycle_count c = 2 then
       (case addressing_mode c of
          isa_6502_addressing_zeropage \<Rightarrow> do {
            (l, c) \<leftarrow> OPERAND8_read (widen (ADDR8 l)) l c;
            Some (at_stage, l, c) }
        | isa_6502_addressing_absolute \<Rightarrow> do { (l, c) \<leftarrow> ADDR16_fetch_hi l c; Some (at_stage, l, c) }
        | _ \<Rightarrow> Some (at_stage, l, c))
     else if cycle_count c = 3 then
       (case addressing_mode c of
          isa_6502_addressing_zeropage \<Rightarrow>
            Some (at_stage, l\<lparr>ADDR16 := widen (ADDR8 l), is_penultimate := True\<rparr>, c)
        | isa_6502_addressing_absolute \<Rightarrow> do {
            (l, c) \<leftarrow> OPERAND8_read (ADDR16 l) l c;
            Some (at_stage, l, c) }
        | _ \<Rightarrow> Some (at_stage, l, c))
     else if cycle_count c = 4 then
       (case addressing_mode c of
          isa_6502_addressing_absolute \<Rightarrow> instr_end (l\<lparr>is_penultimate := True\<rparr>) c
        | _ \<Rightarrow> instr_end l c)
     else if cycle_count c = 5 then instr_end l c
     else Some (at_stage, l, c))"

definition bits_status :: "u8 \<Rightarrow> registers \<Rightarrow> registers" where
  "bits_status operand r =
    (let SR = reg_SR r AND NOT register_SR_Bit_Z
     in r\<lparr>reg_SR := SR OR (if reg_A r AND operand \<noteq> 0 then 0 else register_SR_Bit_Z)\<rparr>)"

lemma bits_status_frame [simp]:
  "reg_A (bits_status v r) = reg_A r" "reg_X (bits_status v r) = reg_X r"
  "reg_Y (bits_status v r) = reg_Y r" "reg_SP (bits_status v r) = reg_SP r"
  "reg_PC (bits_status v r) = reg_PC r"
  by (simp_all add: bits_status_def Let_def)

definition bits_tail :: "(u8 \<Rightarrow> u8 \<Rightarrow> u8) \<Rightarrow> isa_6502_instr_stage \<Rightarrow> staged_body" where
  "bits_tail f at_stage l c = do {
     let c = (if is_penultimate l then with_reg (bits_status (OPERAND8 l)) c else c);
     if at_stage = isa_6502_instr_stage_end
     then do { c \<leftarrow> wr c (ADDR16 l) (f (OPERAND8 l) (reg_A (registers c))); Some (at_stage, l, c) }
     else Some (at_stage, l, c) }"

definition bits_static :: "(u8 \<Rightarrow> u8 \<Rightarrow> u8) \<Rightarrow> static_body" where
  "bits_static f at_stage l c = do {
     (l, c) \<leftarrow>
       (case addressing_mode c of
         isa_6502_addressing_zeropage \<Rightarrow>
             do {
               (l, c) \<leftarrow> ADDR8_fetch l c;
               (l, c) \<leftarrow> OPERAND8_read (widen (ADDR8 l)) l c;
               let l = l\<lparr>ADDR16 := widen (ADDR8 l)\<rparr>;
               Some (l, add_cycles 4 c) }
       | isa_6502_addressing_absolute \<Rightarrow>
             do {
               (l, c) \<leftarrow> ADDR16_fetch_lo l c;
               (l, c) \<leftarrow> ADDR16_fetch_hi l c;
               (l, c) \<leftarrow> OPERAND8_read (ADDR16 l) l c;
               Some (l, add_cycles 5 c) }
       | _ \<Rightarrow> Some (l, add_cycles (ucast (local_cycle_count l)) c));
     c \<leftarrow> wr (with_reg (bits_status (OPERAND8 l)) c) (ADDR16 l) (f (OPERAND8 l) (reg_A (registers c)));
     Some (at_stage, c) }"

definition set_bits :: "u8 \<Rightarrow> u8 \<Rightarrow> u8" where "set_bits operand A = operand OR A"
definition reset_bits :: "u8 \<Rightarrow> u8 \<Rightarrow> u8" where "reset_bits operand A = operand AND NOT A"

definition isa_65C02_TSB :: "isa_6502_instr_stage \<Rightarrow> staged_body" where
  "isa_65C02_TSB at_stage l c = do {
     (at_stage, l, c) \<leftarrow> bits_cycle at_stage l c;
     bits_tail set_bits at_stage l c }"

definition isa_65C02_static_TSB :: static_body where
  "isa_65C02_static_TSB = bits_static set_bits"

definition isa_65C02_TRB :: staged_body where
  "isa_65C02_TRB l c = do {
     (at_stage, l, c) \<leftarrow> bits_cycle isa_6502_instr_stage_next_cycle l c;
     bits_tail reset_bits at_stage l c }"

definition isa_65C02_static_TRB :: static_body where
  "isa_65C02_static_TRB = bits_static reset_bits"

lemmas rmw65_staged_defs [staged_defs] = isa_65C02_INC_def isa_65C02_DEC_def isa_65C02_ASL_def
  isa_65C02_ROL_def isa_65C02_LSR_def isa_65C02_ROR_def isa_65C02_TSB_def isa_65C02_TRB_def
  shift65_cycle_def rotate_A_def bits_cycle_def bits_tail_def

lemmas rmw65_static_defs [static_defs] = isa_65C02_static_INC_def isa_65C02_static_DEC_def
  isa_65C02_static_ASL_def isa_65C02_static_ROL_def isa_65C02_static_LSR_def
  isa_65C02_static_ROR_def isa_65C02_static_TSB_def isa_65C02_static_TRB_def shift65_static_def
  shift65_fetch_static_def bits_static_def


end
