(* ===== verification/Isa_Flow.thy ===== *)
theory Isa_Flow
  imports Isa_Base
begin

text \<open>
  Control flow, \<^verbatim>\<open>src/isa_6502/{BCC,BCS,BEQ,BMI,BNE,BPL,BVC,BVS,BRK,IRQ,NMI,RESET,JMP,JSR,RTS,RTI}.c\<close>.
  The eight branch files are one text over a status bit and a polarity.  In an expression that
  reads two bytes the operands are taken left to right.
\<close>

section \<open>Branches\<close>

text \<open>\<open>PC + *((int8_t* )&DELTA)\<close>\<close>

definition branch_target :: "u16 \<Rightarrow> u8 \<Rightarrow> u16" where
  "branch_target pc delta = pc + scast delta"

definition DELTA_fetch :: statement where
  "DELTA_fetch l c = do { (v, c) \<leftarrow> fetch c; Some (l\<lparr>DELTA := v\<rparr>, c) }"

definition branch_unless :: "(registers \<Rightarrow> bool) \<Rightarrow> staged_body" where
  "branch_unless skip l c =
    (if skip (registers c) then and_end DELTA_fetch l c
     else if cycle_count c = 1 then and_next DELTA_fetch l c
     else if cycle_count c = 2 then
       (let pc = reg_PC (registers c); l = l\<lparr>ADDR16 := branch_target pc (DELTA l)\<rparr>
        in if same_page (ADDR16 l) pc
           then instr_end l (with_reg (\<lambda>r. r\<lparr>reg_PC := ADDR16 l\<rparr>) c) else next_cycle l c)
     else if cycle_count c = 3 then instr_end l (with_reg (\<lambda>r. r\<lparr>reg_PC := ADDR16 l\<rparr>) c)
     else next_cycle l c)"

text \<open>The static bodies compute the target for its page only and leave the program counter alone.\<close>

definition static_branch_if :: "(registers \<Rightarrow> bool) \<Rightarrow> static_body" where
  "static_branch_if taken at_stage l c = do {
     (l, c) \<leftarrow> DELTA_fetch l c;
     let pc = reg_PC (registers c);
     if taken (registers c)
     then let l = l\<lparr>ADDR16 := branch_target pc (DELTA l)\<rparr>
          in Some (isa_6502_instr_stage_end,
               add_cycles (2 + of_bool (\<not> same_page (ADDR16 l) pc)) c)
     else Some (isa_6502_instr_stage_end, add_cycles 1 c) }"

definition SR_is_set :: "u8 \<Rightarrow> registers \<Rightarrow> bool" where
  "SR_is_set b r \<longleftrightarrow> registers_SR_get_bit r b \<noteq> 0"

definition SR_is_clear :: "u8 \<Rightarrow> registers \<Rightarrow> bool" where
  "SR_is_clear b r \<longleftrightarrow> \<not> SR_is_set b r"

definition isa_6502_BCC :: staged_body where
  "isa_6502_BCC = branch_unless (SR_is_set register_SR_Bit_C)"

definition isa_6502_static_BCC :: static_body where
  "isa_6502_static_BCC = static_branch_if (SR_is_clear register_SR_Bit_C)"

definition isa_6502_BCS :: staged_body where
  "isa_6502_BCS = branch_unless (SR_is_clear register_SR_Bit_C)"

definition isa_6502_static_BCS :: static_body where
  "isa_6502_static_BCS = static_branch_if (SR_is_set register_SR_Bit_C)"

definition isa_6502_BEQ :: staged_body where
  "isa_6502_BEQ = branch_unless (SR_is_clear register_SR_Bit_Z)"

definition isa_6502_static_BEQ :: static_body where
  "isa_6502_static_BEQ = static_branch_if (SR_is_set register_SR_Bit_Z)"

definition isa_6502_BMI :: staged_body where
  "isa_6502_BMI = branch_unless (SR_is_clear register_SR_Bit_N)"

definition isa_6502_static_BMI :: static_body where
  "isa_6502_static_BMI = static_branch_if (SR_is_set register_SR_Bit_N)"

definition isa_6502_BNE :: staged_body where
  "isa_6502_BNE = branch_unless (SR_is_set register_SR_Bit_Z)"

definition isa_6502_static_BNE :: static_body where
  "isa_6502_static_BNE = static_branch_if (SR_is_clear register_SR_Bit_Z)"

definition isa_6502_BPL :: staged_body where
  "isa_6502_BPL = branch_unless (SR_is_set register_SR_Bit_N)"

definition isa_6502_static_BPL :: static_body where
  "isa_6502_static_BPL = static_branch_if (SR_is_clear register_SR_Bit_N)"

definition isa_6502_BVC :: staged_body where
  "isa_6502_BVC = branch_unless (SR_is_set register_SR_Bit_V)"

definition isa_6502_static_BVC :: static_body where
  "isa_6502_static_BVC = static_branch_if (SR_is_clear register_SR_Bit_V)"

definition isa_6502_BVS :: staged_body where
  "isa_6502_BVS = branch_unless (SR_is_clear register_SR_Bit_V)"

definition isa_6502_static_BVS :: static_body where
  "isa_6502_static_BVS = static_branch_if (SR_is_set register_SR_Bit_V)"

section \<open>Interrupts\<close>

text \<open>\<open>PC = read(a) | (read(a + 1) << 8)\<close>\<close>

definition load_vector :: "u16 \<Rightarrow> isa_6502_instr_context \<Rightarrow> isa_6502_instr_context option" where
  "load_vector a c = do {
     (lo, c) \<leftarrow> rd c a;
     (hi, c) \<leftarrow> rd c (a + 1);
     Some (with_reg (\<lambda>r. r\<lparr>reg_PC := widen lo OR push_bit 8 (widen hi)\<rparr>) c) }"

definition push_PC_hi :: "isa_6502_instr_context \<Rightarrow> isa_6502_instr_context option" where
  "push_PC_hi c = push c (hi_byte (reg_PC (registers c)))"

definition push_PC_lo :: "isa_6502_instr_context \<Rightarrow> isa_6502_instr_context option" where
  "push_PC_lo c = push c (lo_byte (reg_PC (registers c)))"

definition set_I :: "isa_6502_instr_context \<Rightarrow> isa_6502_instr_context" where
  "set_I = with_reg (\<lambda>r. registers_SR_set_bit r register_SR_Bit_I 1)"

definition isa_6502_BRK :: staged_body where
  "isa_6502_BRK l c =
    (if cycle_count c = 1 then do {
       (_, c) \<leftarrow> fetch c;
       c \<leftarrow> push_PC_hi c;
       next_cycle l c }
     else if cycle_count c = 2 then do { c \<leftarrow> push_PC_lo c; next_cycle l c }
     else if cycle_count c = 3 then do {
       c \<leftarrow> push c (reg_SR (registers c) OR register_SR_Bit_B);
       next_cycle l c }
     else if cycle_count c = 4 then next_cycle l (set_I c)
     else if cycle_count c = 5 then do {
       (v, c) \<leftarrow> rd c MEMORY_ADDR_NMI_VECTOR;
       next_cycle l (with_reg (\<lambda>r. r\<lparr>reg_PC := widen v\<rparr>) c) }
     else if cycle_count c = 6 then do {
       (v, c) \<leftarrow> rd c (MEMORY_ADDR_NMI_VECTOR + 1);
       instr_end l (with_reg (\<lambda>r. r\<lparr>reg_PC := reg_PC r OR push_bit 8 (widen v)\<rparr>) c) }
     else next_cycle l c)"

definition isa_6502_static_BRK :: static_body where
  "isa_6502_static_BRK at_stage l c = do {
     (_, c) \<leftarrow> fetch c;
     c \<leftarrow> push_PC_hi c;
     c \<leftarrow> push_PC_lo c;
     c \<leftarrow> push c (reg_SR (registers c) OR register_SR_Bit_B);
     c \<leftarrow> load_vector MEMORY_ADDR_NMI_VECTOR (set_I c);
     Some (isa_6502_instr_stage_end, add_cycles 6 c) }"

text \<open>The staged \<^verbatim>\<open>IRQ\<close> looks at the interrupt inhibit bit on every call; cycle 3 sets it.\<close>

definition interrupt_cycle :: "u16 \<Rightarrow> staged_body" where
  "interrupt_cycle vector l c =
    (if cycle_count c = 1 then do { c \<leftarrow> push_PC_hi c; next_cycle l c }
     else if cycle_count c = 2 then do { c \<leftarrow> push_PC_lo c; next_cycle l c }
     else if cycle_count c = 3 then do {
       c \<leftarrow> push c (reg_SR (registers c));
       next_cycle l (set_I c) }
     else if cycle_count c = 4 then do {
       (v, c) \<leftarrow> rd c vector;
       next_cycle (l\<lparr>ADDR16 := widen v\<rparr>) c }
     else if cycle_count c = 5 then do {
       (v, c) \<leftarrow> rd c (vector + 1);
       let l = l\<lparr>ADDR16 := ADDR16 l OR push_bit 8 (widen v)\<rparr>;
       instr_end l (with_reg (\<lambda>r. r\<lparr>reg_PC := ADDR16 l\<rparr>) c) }
     else next_cycle l c)"

definition isa_6502_IRQ :: staged_body where
  "isa_6502_IRQ l c =
    (if SR_is_set register_SR_Bit_I (registers c) then instr_end l c
     else interrupt_cycle MEMORY_ADDR_IRQ_VECTOR l c)"

definition isa_6502_NMI :: staged_body where
  "isa_6502_NMI = interrupt_cycle MEMORY_ADDR_NMI_VECTOR"

definition static_interrupt :: "u16 \<Rightarrow> static_body" where
  "static_interrupt vector at_stage l c = do {
     c \<leftarrow> push_PC_hi c;
     c \<leftarrow> push_PC_lo c;
     c \<leftarrow> push c (reg_SR (registers c));
     c \<leftarrow> load_vector vector (set_I c);
     Some (isa_6502_instr_stage_end, add_cycles 5 c) }"

definition isa_6502_static_IRQ :: static_body where
  "isa_6502_static_IRQ = static_interrupt MEMORY_ADDR_IRQ_VECTOR"

definition isa_6502_static_NMI :: static_body where
  "isa_6502_static_NMI = static_interrupt MEMORY_ADDR_NMI_VECTOR"

definition isa_6502_RESET :: staged_body where
  "isa_6502_RESET l c = do { c \<leftarrow> load_vector MEMORY_ADDR_RES_VECTOR c; instr_end l c }"

definition isa_6502_static_RESET :: static_body where
  "isa_6502_static_RESET at_stage l c = do {
     c \<leftarrow> load_vector MEMORY_ADDR_RES_VECTOR c;
     Some (isa_6502_instr_stage_end, c) }"

section \<open>Jumps and returns\<close>

text \<open>The address of the high byte of an indirect jump: the increment does not carry out of the page
  (the build option that removes this is off).\<close>

definition jmp_high_addr :: "u16 \<Rightarrow> u16" where
  "jmp_high_addr a = (if a AND 0x00FF = 0x00FF then a AND 0xFF00 else a + 1)"

definition isa_6502_JMP :: staged_body where
  "isa_6502_JMP l c =
    (if cycle_count c = 1 then and_next ADDR16_fetch_lo l c
     else if cycle_count c = 2 then do {
       (l, c) \<leftarrow> ADDR16_fetch_hi l c;
       if addressing_mode c = isa_6502_addressing_absolute
       then instr_end l (with_reg (\<lambda>r. r\<lparr>reg_PC := ADDR16 l\<rparr>) c) else next_cycle l c }
     else if cycle_count c = 3 then do {
       (v, c) \<leftarrow> rd c (ADDR16 l);
       next_cycle (l\<lparr>INDIRECT := widen v, ADDR16 := jmp_high_addr (ADDR16 l)\<rparr>) c }
     else if cycle_count c = 4 then do {
       (v, c) \<leftarrow> rd c (ADDR16 l);
       let l = l\<lparr>ADDR16 := push_bit 8 (widen v) OR INDIRECT l\<rparr>;
       instr_end l (with_reg (\<lambda>r. r\<lparr>reg_PC := ADDR16 l\<rparr>) c) }
     else next_cycle l c)"

definition isa_6502_static_JMP :: static_body where
  "isa_6502_static_JMP at_stage l c = do {
     (l, c) \<leftarrow>
       (case addressing_mode c of
          isa_6502_addressing_absolute \<Rightarrow> do {
            (l, c) \<leftarrow> ADDR16_fetch_lo l c;
            (l, c) \<leftarrow> ADDR16_fetch_hi l c;
            Some (l, add_cycles 2 c) }
        | isa_6502_addressing_indirect \<Rightarrow> do {
            (l, c) \<leftarrow> ADDR16_fetch_lo l c;
            (l, c) \<leftarrow> ADDR16_fetch_hi l c;
            (v, c) \<leftarrow> rd c (ADDR16 l);
            let l = l\<lparr>INDIRECT := widen v, ADDR16 := jmp_high_addr (ADDR16 l)\<rparr>;
            (v, c) \<leftarrow> rd c (ADDR16 l);
            let l = l\<lparr>ADDR16 := push_bit 8 (widen v) OR INDIRECT l\<rparr>;
            Some (l, add_cycles 4 c) }
        | _ \<Rightarrow> Some (l, add_cycles (ucast (local_cycle_count l)) c));
     Some (isa_6502_instr_stage_end, with_reg (\<lambda>r. r\<lparr>reg_PC := ADDR16 l\<rparr>) c) }"

definition isa_6502_JSR :: staged_body where
  "isa_6502_JSR l c =
    (if cycle_count c = 1 then and_next ADDR16_fetch_lo l c
     else if cycle_count c = 2 then and_next ADDR16_fetch_hi l c
     else if cycle_count c = 3 then do { c \<leftarrow> push_PC_hi c; next_cycle l c }
     else if cycle_count c = 4 then do { c \<leftarrow> push_PC_lo c; next_cycle l c }
     else if cycle_count c = 5 then instr_end l (with_reg (\<lambda>r. r\<lparr>reg_PC := ADDR16 l\<rparr>) c)
     else next_cycle l c)"

definition isa_6502_static_JSR :: static_body where
  "isa_6502_static_JSR at_stage l c = do {
     (l, c) \<leftarrow> ADDR16_fetch_lo l c;
     (l, c) \<leftarrow> ADDR16_fetch_hi l c;
     c \<leftarrow> push_PC_hi c;
     c \<leftarrow> push_PC_lo c;
     Some (isa_6502_instr_stage_end,
       add_cycles 5 (with_reg (\<lambda>r. r\<lparr>reg_PC := ADDR16 l\<rparr>) c)) }"

definition isa_6502_RTS :: staged_body where
  "isa_6502_RTS l c =
    (if cycle_count c = 1 then do { (v, c) \<leftarrow> pop c; next_cycle (l\<lparr>ADDR16 := widen v\<rparr>) c }
     else if cycle_count c = 2 then next_cycle l c
     else if cycle_count c = 3 then do {
       (v, c) \<leftarrow> pop c;
       next_cycle (l\<lparr>ADDR16 := ADDR16 l OR push_bit 8 (widen v)\<rparr>) c }
     else if cycle_count c = 4 then next_cycle l c
     else if cycle_count c = 5 then instr_end l (with_reg (\<lambda>r. r\<lparr>reg_PC := ADDR16 l\<rparr>) c)
     else next_cycle l c)"

definition isa_6502_static_RTS :: static_body where
  "isa_6502_static_RTS at_stage l c = do {
     (lo, c) \<leftarrow> pop c;
     (hi, c) \<leftarrow> pop c;
     Some (isa_6502_instr_stage_end,
       add_cycles 5 (with_reg (\<lambda>r. r\<lparr>reg_PC := widen lo OR push_bit 8 (widen hi)\<rparr>) c)) }"

definition isa_6502_RTI :: staged_body where
  "isa_6502_RTI l c =
    (if cycle_count c = 1 then do { (v, c) \<leftarrow> pop c; next_cycle (l\<lparr>local_SR := v\<rparr>) c }
     else if cycle_count c = 2 then
       next_cycle (l\<lparr>local_SR := local_SR l AND NOT (register_SR_Bit_B OR register_SR_Bit_IGN)\<rparr>) c
     else if cycle_count c = 3 then next_cycle l (with_reg (\<lambda>r. r\<lparr>reg_SR := local_SR l\<rparr>) c)
     else if cycle_count c = 4 then do { (v, c) \<leftarrow> pop c; next_cycle (l\<lparr>ADDR16 := widen v\<rparr>) c }
     else if cycle_count c = 5 then do {
       (v, c) \<leftarrow> pop c;
       instr_end l (with_reg (\<lambda>r. r\<lparr>reg_PC := ADDR16 l OR push_bit 8 (widen v)\<rparr>) c) }
     else next_cycle l c)"

definition isa_6502_static_RTI :: static_body where
  "isa_6502_static_RTI at_stage l c = do {
     (v, c) \<leftarrow> pop c;
     let c = with_reg (\<lambda>r. r\<lparr>reg_SR := v AND NOT (register_SR_Bit_B OR register_SR_Bit_IGN)\<rparr>) c;
     (lo, c) \<leftarrow> pop c;
     (hi, c) \<leftarrow> pop c;
     Some (isa_6502_instr_stage_end,
       add_cycles 5 (with_reg (\<lambda>r. r\<lparr>reg_PC := widen lo OR push_bit 8 (widen hi)\<rparr>) c)) }"

lemmas flow_shared_defs [ctx_defs] = DELTA_fetch_def load_vector_def push_PC_hi_def push_PC_lo_def set_I_def

lemmas flow_staged_defs [staged_defs] = branch_unless_def interrupt_cycle_def isa_6502_IRQ_def
  isa_6502_NMI_def isa_6502_BRK_def isa_6502_RESET_def isa_6502_JMP_def isa_6502_JSR_def
  isa_6502_RTS_def isa_6502_RTI_def isa_6502_BCC_def isa_6502_BCS_def isa_6502_BEQ_def isa_6502_BMI_def isa_6502_BNE_def isa_6502_BPL_def isa_6502_BVC_def isa_6502_BVS_def

lemmas flow_static_defs [static_defs] = static_branch_if_def static_interrupt_def isa_6502_static_IRQ_def
  isa_6502_static_NMI_def isa_6502_static_BRK_def isa_6502_static_RESET_def isa_6502_static_JMP_def
  isa_6502_static_JSR_def isa_6502_static_RTS_def isa_6502_static_RTI_def isa_6502_static_BCC_def isa_6502_static_BCS_def isa_6502_static_BEQ_def isa_6502_static_BMI_def isa_6502_static_BNE_def isa_6502_static_BPL_def isa_6502_static_BVC_def isa_6502_static_BVS_def

end
