(* ===== verification/Isa_Implied.thy ===== *)
theory Isa_Implied
  imports Isa_Base
begin

text \<open>
  Instructions without a memory operand: the stack (\<^verbatim>\<open>src/isa_6502/{PHA,PHP,PLA,PLP}.c\<close>), the status
  bits (\<^verbatim>\<open>CLC CLD CLI CLV SEC SED SEI\<close>), the transfers (\<^verbatim>\<open>TAX TAY TSX TXA TXS TYA\<close>), the index
  counters (\<^verbatim>\<open>INX INY DEX DEY\<close>) and \<^verbatim>\<open>NOP\<close>.
\<close>

section \<open>Stack\<close>

definition isa_6502_PHA :: staged_body where
  "isa_6502_PHA l c =
    (if cycle_count c = 1 then next_cycle (l\<lparr>local_A := reg_A (registers c)\<rparr>) c
     else if cycle_count c = 2 then do { c \<leftarrow> push c (local_A l); instr_end l c }
     else next_cycle l c)"

definition isa_6502_static_PHA :: static_body where
  "isa_6502_static_PHA at_stage l c = do {
     c \<leftarrow> push c (reg_A (registers c));
     Some (isa_6502_instr_stage_end, add_cycles 2 c) }"

definition isa_6502_PHP :: staged_body where
  "isa_6502_PHP l c =
    (if cycle_count c = 1 then
       next_cycle
         (l\<lparr>local_SR := reg_SR (registers c) OR register_SR_Bit_B OR register_SR_Bit_IGN\<rparr>) c
     else if cycle_count c = 2 then do { c \<leftarrow> push c (local_SR l); instr_end l c }
     else next_cycle l c)"

definition isa_6502_static_PHP :: static_body where
  "isa_6502_static_PHP at_stage l c = do {
     c \<leftarrow> push c (reg_SR (registers c) OR register_SR_Bit_B OR register_SR_Bit_IGN);
     Some (isa_6502_instr_stage_end, add_cycles 2 c) }"

definition isa_6502_PLA :: staged_body where
  "isa_6502_PLA l c =
    (if cycle_count c = 1 then do { (v, c) \<leftarrow> pop c; next_cycle (l\<lparr>local_A := v\<rparr>) c }
     else if cycle_count c = 2 then next_cycle l (with_reg (\<lambda>r. r\<lparr>reg_A := local_A l\<rparr>) c)
     else if cycle_count c = 3 then
       instr_end l (with_reg (\<lambda>r. registers_did_set_A r registers_Carry_ignore) c)
     else next_cycle l c)"

definition isa_6502_static_PLA :: static_body where
  "isa_6502_static_PLA at_stage l c = do {
     (v, c) \<leftarrow> pop c;
     Some (isa_6502_instr_stage_end,
       add_cycles 3
         (with_reg (\<lambda>r. registers_did_set_A (r\<lparr>reg_A := v\<rparr>) registers_Carry_ignore) c)) }"

definition isa_6502_PLP :: staged_body where
  "isa_6502_PLP l c =
    (if cycle_count c = 1 then do { (v, c) \<leftarrow> pop c; next_cycle (l\<lparr>local_SR := v\<rparr>) c }
     else if cycle_count c = 2 then
       next_cycle (l\<lparr>local_SR := local_SR l AND NOT (register_SR_Bit_B OR register_SR_Bit_IGN)\<rparr>) c
     else if cycle_count c = 3 then instr_end l (with_reg (\<lambda>r. r\<lparr>reg_SR := local_SR l\<rparr>) c)
     else next_cycle l c)"

definition isa_6502_static_PLP :: static_body where
  "isa_6502_static_PLP at_stage l c = do {
     (v, c) \<leftarrow> pop c;
     Some (isa_6502_instr_stage_end,
       add_cycles 3
         (with_reg (\<lambda>r. r\<lparr>reg_SR := v AND NOT (register_SR_Bit_B OR register_SR_Bit_IGN)\<rparr>) c)) }"

section \<open>One-cycle instructions\<close>

text \<open>An instruction that changes the registers and ends.  The static bodies count one cycle, except
  \<^verbatim>\<open>SED\<close>.\<close>

definition one_cycle :: "(registers \<Rightarrow> registers) \<Rightarrow> staged_body" where
  "one_cycle f l c = instr_end l (with_reg f c)"

definition static_one_cycle :: "(registers \<Rightarrow> registers) \<Rightarrow> static_body" where
  "static_one_cycle f at_stage l c =
     Some (isa_6502_instr_stage_end, with_reg f (add_cycles 1 c))"

definition isa_6502_NOP :: staged_body where
  "isa_6502_NOP = one_cycle id"

definition isa_6502_static_NOP :: static_body where
  "isa_6502_static_NOP = static_one_cycle id"

definition isa_6502_CLC :: staged_body where
  "isa_6502_CLC = one_cycle (\<lambda>r. registers_SR_set_bit r register_SR_Bit_C 0)"

definition isa_6502_static_CLC :: static_body where
  "isa_6502_static_CLC = static_one_cycle (\<lambda>r. registers_SR_set_bit r register_SR_Bit_C 0)"

definition isa_6502_CLD :: staged_body where
  "isa_6502_CLD = one_cycle (\<lambda>r. registers_SR_set_bit r register_SR_Bit_D 0)"

definition isa_6502_static_CLD :: static_body where
  "isa_6502_static_CLD = static_one_cycle (\<lambda>r. registers_SR_set_bit r register_SR_Bit_D 0)"

definition isa_6502_CLI :: staged_body where
  "isa_6502_CLI = one_cycle (\<lambda>r. registers_SR_set_bit r register_SR_Bit_I 0)"

definition isa_6502_static_CLI :: static_body where
  "isa_6502_static_CLI = static_one_cycle (\<lambda>r. registers_SR_set_bit r register_SR_Bit_I 0)"

definition isa_6502_CLV :: staged_body where
  "isa_6502_CLV = one_cycle (\<lambda>r. registers_SR_set_bit r register_SR_Bit_V 0)"

definition isa_6502_static_CLV :: static_body where
  "isa_6502_static_CLV = static_one_cycle (\<lambda>r. registers_SR_set_bit r register_SR_Bit_V 0)"

definition isa_6502_SEC :: staged_body where
  "isa_6502_SEC = one_cycle (\<lambda>r. registers_SR_set_bit r register_SR_Bit_C 1)"

definition isa_6502_static_SEC :: static_body where
  "isa_6502_static_SEC = static_one_cycle (\<lambda>r. registers_SR_set_bit r register_SR_Bit_C 1)"

definition isa_6502_SED :: staged_body where
  "isa_6502_SED = one_cycle (\<lambda>r. registers_SR_set_bit r register_SR_Bit_D 1)"

definition isa_6502_static_SED :: static_body where
  "isa_6502_static_SED at_stage l c =
     Some (isa_6502_instr_stage_end, with_reg (\<lambda>r. registers_SR_set_bit r register_SR_Bit_D 1) c)"

definition isa_6502_SEI :: staged_body where
  "isa_6502_SEI = one_cycle (\<lambda>r. registers_SR_set_bit r register_SR_Bit_I 1)"

definition isa_6502_static_SEI :: static_body where
  "isa_6502_static_SEI = static_one_cycle (\<lambda>r. registers_SR_set_bit r register_SR_Bit_I 1)"

definition isa_6502_TAX :: staged_body where
  "isa_6502_TAX = one_cycle
     (\<lambda>r. registers_did_set_X (r\<lparr>reg_X := reg_A r\<rparr>) registers_Carry_ignore)"

definition isa_6502_static_TAX :: static_body where
  "isa_6502_static_TAX = static_one_cycle
     (\<lambda>r. registers_did_set_X (r\<lparr>reg_X := reg_A r\<rparr>) registers_Carry_ignore)"

definition isa_6502_TAY :: staged_body where
  "isa_6502_TAY = one_cycle
     (\<lambda>r. registers_did_set_Y (r\<lparr>reg_Y := reg_A r\<rparr>) registers_Carry_ignore)"

definition isa_6502_static_TAY :: static_body where
  "isa_6502_static_TAY = static_one_cycle
     (\<lambda>r. registers_did_set_Y (r\<lparr>reg_Y := reg_A r\<rparr>) registers_Carry_ignore)"

definition isa_6502_TSX :: staged_body where
  "isa_6502_TSX = one_cycle
     (\<lambda>r. registers_did_set_X (r\<lparr>reg_X := reg_SP r\<rparr>) registers_Carry_ignore)"

definition isa_6502_static_TSX :: static_body where
  "isa_6502_static_TSX = static_one_cycle
     (\<lambda>r. registers_did_set_X (r\<lparr>reg_X := reg_SP r\<rparr>) registers_Carry_ignore)"

definition isa_6502_TXA :: staged_body where
  "isa_6502_TXA = one_cycle
     (\<lambda>r. registers_did_set_A (r\<lparr>reg_A := reg_X r\<rparr>) registers_Carry_ignore)"

definition isa_6502_static_TXA :: static_body where
  "isa_6502_static_TXA = static_one_cycle
     (\<lambda>r. registers_did_set_A (r\<lparr>reg_A := reg_X r\<rparr>) registers_Carry_ignore)"

definition isa_6502_TYA :: staged_body where
  "isa_6502_TYA = one_cycle
     (\<lambda>r. registers_did_set_A (r\<lparr>reg_A := reg_Y r\<rparr>) registers_Carry_ignore)"

definition isa_6502_static_TYA :: static_body where
  "isa_6502_static_TYA = static_one_cycle
     (\<lambda>r. registers_did_set_A (r\<lparr>reg_A := reg_Y r\<rparr>) registers_Carry_ignore)"

definition isa_6502_TXS :: staged_body where
  "isa_6502_TXS = one_cycle (\<lambda>r. r\<lparr>reg_SP := reg_X r\<rparr>)"

definition isa_6502_static_TXS :: static_body where
  "isa_6502_static_TXS = static_one_cycle (\<lambda>r. r\<lparr>reg_SP := reg_X r\<rparr>)"

definition isa_6502_INX :: staged_body where
  "isa_6502_INX = one_cycle
     (\<lambda>r. registers_did_set_X (r\<lparr>reg_X := reg_X r + 1\<rparr>) registers_Carry_ignore)"

definition isa_6502_static_INX :: static_body where
  "isa_6502_static_INX = static_one_cycle
     (\<lambda>r. registers_did_set_X (r\<lparr>reg_X := reg_X r + 1\<rparr>) registers_Carry_ignore)"

definition isa_6502_INY :: staged_body where
  "isa_6502_INY = one_cycle
     (\<lambda>r. registers_did_set_Y (r\<lparr>reg_Y := reg_Y r + 1\<rparr>) registers_Carry_ignore)"

definition isa_6502_static_INY :: static_body where
  "isa_6502_static_INY = static_one_cycle
     (\<lambda>r. registers_did_set_Y (r\<lparr>reg_Y := reg_Y r + 1\<rparr>) registers_Carry_ignore)"

definition isa_6502_DEX :: staged_body where
  "isa_6502_DEX = one_cycle
     (\<lambda>r. registers_did_set_X (r\<lparr>reg_X := reg_X r - 1\<rparr>) registers_Carry_ignore)"

definition isa_6502_static_DEX :: static_body where
  "isa_6502_static_DEX = static_one_cycle
     (\<lambda>r. registers_did_set_X (r\<lparr>reg_X := reg_X r - 1\<rparr>) registers_Carry_ignore)"

definition isa_6502_DEY :: staged_body where
  "isa_6502_DEY = one_cycle
     (\<lambda>r. registers_did_set_Y (r\<lparr>reg_Y := reg_Y r - 1\<rparr>) registers_Carry_ignore)"

definition isa_6502_static_DEY :: static_body where
  "isa_6502_static_DEY = static_one_cycle
     (\<lambda>r. registers_did_set_Y (r\<lparr>reg_Y := reg_Y r - 1\<rparr>) registers_Carry_ignore)"

lemmas implied_staged_defs [staged_defs] =
  one_cycle_def isa_6502_PHA_def isa_6502_PHP_def isa_6502_PLA_def isa_6502_PLP_def
  isa_6502_NOP_def isa_6502_CLC_def isa_6502_CLD_def isa_6502_CLI_def isa_6502_CLV_def
  isa_6502_SEC_def isa_6502_SED_def isa_6502_SEI_def isa_6502_TAX_def isa_6502_TAY_def
  isa_6502_TSX_def isa_6502_TXA_def isa_6502_TYA_def isa_6502_TXS_def isa_6502_INX_def
  isa_6502_INY_def isa_6502_DEX_def isa_6502_DEY_def

lemmas implied_static_defs [static_defs] =
  static_one_cycle_def isa_6502_static_PHA_def isa_6502_static_PHP_def isa_6502_static_PLA_def
  isa_6502_static_PLP_def isa_6502_static_NOP_def isa_6502_static_CLC_def
  isa_6502_static_CLD_def isa_6502_static_CLI_def isa_6502_static_CLV_def
  isa_6502_static_SEC_def isa_6502_static_SED_def isa_6502_static_SEI_def
  isa_6502_static_TAX_def isa_6502_static_TAY_def isa_6502_static_TSX_def
  isa_6502_static_TXA_def isa_6502_static_TYA_def isa_6502_static_TXS_def
  isa_6502_static_INX_def isa_6502_static_INY_def isa_6502_static_DEX_def
  isa_6502_static_DEY_def

end
