(* ===== verification/Isa65_Flow.thy ===== *)
theory Isa65_Flow
  imports Isa_Flow Isa_Implied
begin

text \<open>
  Control flow and stack of the 65C02, \<^verbatim>\<open>src/isa_65C02/{BRA,JMP,BRK,IRQ,NMI,RESET,PHX,PHY,PLX,PLY}.c\<close>:
  the unconditional branch, the indirect jumps without the page wrap, the interrupts that clear the
  decimal bit, the index registers on the stack.
\<close>

section \<open>BRA\<close>

text \<open>As the other static branches, the static body leaves the program counter behind the operand.\<close>

definition isa_65C02_BRA :: staged_body where
  "isa_65C02_BRA l c =
    (if cycle_count c = 1 then and_next DELTA_fetch l c
     else if cycle_count c = 2 then
       (let pc = reg_PC (registers c); l = l\<lparr>ADDR16 := branch_target pc (DELTA l)\<rparr>
        in if same_page (ADDR16 l) pc
           then instr_end l (with_reg (\<lambda>r. r\<lparr>reg_PC := ADDR16 l\<rparr>) c) else next_cycle l c)
     else if cycle_count c = 3 then instr_end l (with_reg (\<lambda>r. r\<lparr>reg_PC := ADDR16 l\<rparr>) c)
     else next_cycle l c)"

definition isa_65C02_static_BRA :: static_body where
  "isa_65C02_static_BRA at_stage l c = do {
     (l, c) \<leftarrow> DELTA_fetch l c;
     let pc = reg_PC (registers c);
     let l = l\<lparr>ADDR16 := branch_target pc (DELTA l)\<rparr>;
     Some (isa_6502_instr_stage_end, add_cycles (2 + of_bool (\<not> same_page (ADDR16 l) pc)) c) }"

section \<open>JMP\<close>

text \<open>\<open>INDIRECT = membus_read_addr(ADDR16++)\<close> and \<open>ADDR16 = (membus_read_addr(ADDR16) << 8) | INDIRECT\<close>\<close>

definition INDIRECT_lo :: statement where
  "INDIRECT_lo l c = do {
     (v, c) \<leftarrow> rd c (ADDR16 l);
     Some (l\<lparr>INDIRECT := widen v, ADDR16 := ADDR16 l + 1\<rparr>, c) }"

definition INDIRECT_hi :: statement where
  "INDIRECT_hi l c = do {
     (v, c) \<leftarrow> rd c (ADDR16 l);
     Some (l\<lparr>ADDR16 := push_bit 8 (widen v) OR INDIRECT l\<rparr>, c) }"

definition JMP65_cycle :: staged_body where
  "JMP65_cycle l c =
    (if cycle_count c = 1 then and_next ADDR16_fetch_lo l c
     else if cycle_count c = 2 then
       (if addressing_mode c = isa_6502_addressing_absolute then and_end ADDR16_fetch_hi l c
        else and_next ADDR16_fetch_hi l c)
     else if cycle_count c = 3 then
       (case addressing_mode c of
          isa_6502_addressing_indirect \<Rightarrow> and_next INDIRECT_lo l c
        | isa_6502_addressing_absolute_x_indexed_indirect \<Rightarrow>
            next_cycle (l\<lparr>ADDR16 := ADDR16 l + widen (reg_X (registers c))\<rparr>) c
        | _ \<Rightarrow> next_cycle l c)
     else if cycle_count c = 4 then
       (case addressing_mode c of
          isa_6502_addressing_indirect \<Rightarrow> and_end INDIRECT_hi l c
        | isa_6502_addressing_absolute_x_indexed_indirect \<Rightarrow> and_next INDIRECT_lo l c
        | _ \<Rightarrow> next_cycle l c)
     else if cycle_count c = 5 then
       (case addressing_mode c of
          isa_6502_addressing_absolute_x_indexed_indirect \<Rightarrow> and_end INDIRECT_hi l c
        | _ \<Rightarrow> next_cycle l c)
     else next_cycle l c)"

definition isa_65C02_JMP :: staged_body where
  "isa_65C02_JMP l c = do {
     (at_stage, l, c) \<leftarrow> JMP65_cycle l c;
     if at_stage = isa_6502_instr_stage_end
     then instr_end l (with_reg (\<lambda>r. r\<lparr>reg_PC := ADDR16 l\<rparr>) c) else Some (at_stage, l, c) }"

definition isa_65C02_static_JMP :: static_body where
  "isa_65C02_static_JMP at_stage l c = do {
     (l, c) \<leftarrow>
       (case addressing_mode c of
          isa_6502_addressing_absolute \<Rightarrow> do {
            (l, c) \<leftarrow> ADDR16_fetch_lo l c;
            (l, c) \<leftarrow> ADDR16_fetch_hi l c;
            Some (l, add_cycles 2 c) }
        | isa_6502_addressing_indirect \<Rightarrow> do {
            (l, c) \<leftarrow> ADDR16_fetch_lo l c;
            (l, c) \<leftarrow> ADDR16_fetch_hi l c;
            (l, c) \<leftarrow> INDIRECT_lo l c;
            (l, c) \<leftarrow> INDIRECT_hi l c;
            Some (l, add_cycles 4 c) }
        | isa_6502_addressing_absolute_x_indexed_indirect \<Rightarrow> do {
            (l, c) \<leftarrow> ADDR16_fetch_lo l c;
            (l, c) \<leftarrow> ADDR16_fetch_hi l c;
            let l = l\<lparr>ADDR16 := ADDR16 l + widen (reg_X (registers c))\<rparr>;
            (l, c) \<leftarrow> INDIRECT_lo l c;
            (l, c) \<leftarrow> INDIRECT_hi l c;
            Some (l, add_cycles 5 c) }
        | _ \<Rightarrow> Some (l, add_cycles (ucast (local_cycle_count l)) c));
     Some (isa_6502_instr_stage_end, with_reg (\<lambda>r. r\<lparr>reg_PC := ADDR16 l\<rparr>) c) }"

section \<open>Interrupts\<close>

definition clear_D :: "isa_6502_instr_context \<Rightarrow> isa_6502_instr_context" where
  "clear_D = with_reg (\<lambda>r. registers_SR_set_bit r register_SR_Bit_D 0)"

definition isa_65C02_BRK :: staged_body where
  "isa_65C02_BRK l c =
    (if cycle_count c = 1 then do {
       (_, c) \<leftarrow> fetch c;
       c \<leftarrow> push_PC_hi c;
       next_cycle l c }
     else if cycle_count c = 2 then do { c \<leftarrow> push_PC_lo c; next_cycle l c }
     else if cycle_count c = 3 then do {
       c \<leftarrow> push c (reg_SR (registers c) OR register_SR_Bit_B);
       next_cycle l c }
     else if cycle_count c = 4 then next_cycle l (clear_D (set_I c))
     else if cycle_count c = 5 then do {
       (v, c) \<leftarrow> rd c MEMORY_ADDR_NMI_VECTOR;
       next_cycle l (with_reg (\<lambda>r. r\<lparr>reg_PC := widen v\<rparr>) c) }
     else if cycle_count c = 6 then do {
       (v, c) \<leftarrow> rd c (MEMORY_ADDR_NMI_VECTOR + 1);
       instr_end l (with_reg (\<lambda>r. r\<lparr>reg_PC := reg_PC r OR push_bit 8 (widen v)\<rparr>) c) }
     else next_cycle l c)"

definition isa_65C02_static_BRK :: static_body where
  "isa_65C02_static_BRK at_stage l c = do {
     (_, c) \<leftarrow> fetch c;
     c \<leftarrow> push_PC_hi c;
     c \<leftarrow> push_PC_lo c;
     c \<leftarrow> push c (reg_SR (registers c) OR register_SR_Bit_B);
     c \<leftarrow> load_vector MEMORY_ADDR_NMI_VECTOR (clear_D (set_I c));
     Some (isa_6502_instr_stage_end, add_cycles 6 c) }"

definition interrupt65_cycle :: "u16 \<Rightarrow> staged_body" where
  "interrupt65_cycle vector l c =
    (if cycle_count c = 1 then do { c \<leftarrow> push_PC_hi c; next_cycle l c }
     else if cycle_count c = 2 then do { c \<leftarrow> push_PC_lo c; next_cycle l c }
     else if cycle_count c = 3 then do {
       c \<leftarrow> push c (reg_SR (registers c));
       next_cycle l (clear_D (set_I c)) }
     else if cycle_count c = 4 then do {
       (v, c) \<leftarrow> rd c vector;
       next_cycle (l\<lparr>ADDR16 := widen v\<rparr>) c }
     else if cycle_count c = 5 then do {
       (v, c) \<leftarrow> rd c (vector + 1);
       let l = l\<lparr>ADDR16 := ADDR16 l OR push_bit 8 (widen v)\<rparr>;
       instr_end l (with_reg (\<lambda>r. r\<lparr>reg_PC := ADDR16 l\<rparr>) c) }
     else next_cycle l c)"

definition isa_65C02_IRQ :: staged_body where
  "isa_65C02_IRQ l c =
    (if SR_is_set register_SR_Bit_I (registers c) then instr_end l c
     else interrupt65_cycle MEMORY_ADDR_IRQ_VECTOR l c)"

definition isa_65C02_NMI :: staged_body where
  "isa_65C02_NMI = interrupt65_cycle MEMORY_ADDR_NMI_VECTOR"

definition static_interrupt65 :: "u16 \<Rightarrow> static_body" where
  "static_interrupt65 vector at_stage l c = do {
     c \<leftarrow> push_PC_hi c;
     c \<leftarrow> push_PC_lo c;
     c \<leftarrow> push c (reg_SR (registers c));
     c \<leftarrow> load_vector vector (clear_D (set_I c));
     Some (isa_6502_instr_stage_end, add_cycles 5 c) }"

definition isa_65C02_static_IRQ :: static_body where
  "isa_65C02_static_IRQ = static_interrupt65 MEMORY_ADDR_IRQ_VECTOR"

definition isa_65C02_static_NMI :: static_body where
  "isa_65C02_static_NMI = static_interrupt65 MEMORY_ADDR_NMI_VECTOR"

definition isa_65C02_RESET :: staged_body where
  "isa_65C02_RESET l c = do {
     c \<leftarrow> load_vector MEMORY_ADDR_RES_VECTOR (clear_D c);
     instr_end l c }"

definition isa_65C02_static_RESET :: static_body where
  "isa_65C02_static_RESET at_stage l c = do {
     c \<leftarrow> load_vector MEMORY_ADDR_RES_VECTOR (clear_D c);
     Some (isa_6502_instr_stage_end, c) }"

section \<open>Stack\<close>

definition isa_65C02_PHX :: staged_body where
  "isa_65C02_PHX l c =
    (if cycle_count c = 1 then next_cycle (l\<lparr>local_X := reg_X (registers c)\<rparr>) c
     else if cycle_count c = 2 then do { c \<leftarrow> push c (local_X l); instr_end l c }
     else next_cycle l c)"

definition isa_65C02_static_PHX :: static_body where
  "isa_65C02_static_PHX at_stage l c = do {
     c \<leftarrow> push c (reg_X (registers c));
     Some (isa_6502_instr_stage_end, add_cycles 2 c) }"

definition isa_65C02_PLX :: staged_body where
  "isa_65C02_PLX l c =
    (if cycle_count c = 1 then do { (v, c) \<leftarrow> pop c; next_cycle (l\<lparr>local_X := v\<rparr>) c }
     else if cycle_count c = 2 then next_cycle l (with_reg (\<lambda>r. r\<lparr>reg_X := local_X l\<rparr>) c)
     else if cycle_count c = 3 then
       instr_end l (with_reg (\<lambda>r. registers_did_set_X r registers_Carry_ignore) c)
     else next_cycle l c)"

definition isa_65C02_static_PLX :: static_body where
  "isa_65C02_static_PLX at_stage l c = do {
     (v, c) \<leftarrow> pop c;
     Some (isa_6502_instr_stage_end,
       add_cycles 3
         (with_reg (\<lambda>r. registers_did_set_X (r\<lparr>reg_X := v\<rparr>) registers_Carry_ignore) c)) }"

definition isa_65C02_PHY :: staged_body where
  "isa_65C02_PHY l c =
    (if cycle_count c = 1 then next_cycle (l\<lparr>local_Y := reg_Y (registers c)\<rparr>) c
     else if cycle_count c = 2 then do { c \<leftarrow> push c (local_Y l); instr_end l c }
     else next_cycle l c)"

definition isa_65C02_static_PHY :: static_body where
  "isa_65C02_static_PHY at_stage l c = do {
     c \<leftarrow> push c (reg_Y (registers c));
     Some (isa_6502_instr_stage_end, add_cycles 2 c) }"

definition isa_65C02_PLY :: staged_body where
  "isa_65C02_PLY l c =
    (if cycle_count c = 1 then do { (v, c) \<leftarrow> pop c; next_cycle (l\<lparr>local_Y := v\<rparr>) c }
     else if cycle_count c = 2 then next_cycle l (with_reg (\<lambda>r. r\<lparr>reg_Y := local_Y l\<rparr>) c)
     else if cycle_count c = 3 then
       instr_end l (with_reg (\<lambda>r. registers_did_set_Y r registers_Carry_ignore) c)
     else next_cycle l c)"

definition isa_65C02_static_PLY :: static_body where
  "isa_65C02_static_PLY at_stage l c = do {
     (v, c) \<leftarrow> pop c;
     Some (isa_6502_instr_stage_end,
       add_cycles 3
         (with_reg (\<lambda>r. registers_did_set_Y (r\<lparr>reg_Y := v\<rparr>) registers_Carry_ignore) c)) }"

lemmas flow65_shared_defs [ctx_defs] = INDIRECT_lo_def INDIRECT_hi_def clear_D_def

lemmas flow65_staged_defs [staged_defs] = isa_65C02_BRA_def isa_65C02_JMP_def isa_65C02_BRK_def
  isa_65C02_IRQ_def isa_65C02_NMI_def isa_65C02_RESET_def isa_65C02_PHX_def isa_65C02_PHY_def
  isa_65C02_PLX_def isa_65C02_PLY_def JMP65_cycle_def interrupt65_cycle_def

lemmas flow65_static_defs [static_defs] = isa_65C02_static_BRA_def isa_65C02_static_JMP_def
  isa_65C02_static_BRK_def isa_65C02_static_IRQ_def isa_65C02_static_NMI_def
  isa_65C02_static_RESET_def isa_65C02_static_PHX_def isa_65C02_static_PHY_def
  isa_65C02_static_PLX_def isa_65C02_static_PLY_def static_interrupt65_def


end
