(* ===== verification/Isa65_Ops.thy ===== *)
theory Isa65_Ops
  imports Isa65_Alu Isa65_Load Isa65_Test Isa65_Rmw Isa65_Flow
begin

text \<open>
  The functions of the 65C02 dialect by name.
\<close>

text \<open>The functions that \<^verbatim>\<open>src/isa_65C02/\<close> defines itself.  The other files of the
  directory make their names macros for the functions of \<^verbatim>\<open>src/isa_6502/\<close>.\<close>

datatype (plugins only: code) isa_65C02_op =
    c02_AND | c02_EOR | c02_ORA | c02_ADC | c02_SBC | c02_LDA | c02_STA | c02_STZ | c02_CMP |
    c02_BIT | c02_INC | c02_DEC | c02_ASL | c02_ROL | c02_LSR | c02_ROR | c02_TSB | c02_TRB |
    c02_BRA | c02_JMP | c02_BRK | c02_PHX | c02_PHY | c02_PLX | c02_PLY | c02_IRQ | c02_NMI |
    c02_RESET

text \<open>The executor passes every staged body the stage \<open>next_cycle\<close>.\<close>

primrec staged_65C02_fn :: "isa_65C02_op \<Rightarrow> staged_body" where
  "staged_65C02_fn c02_AND = isa_65C02_AND"
| "staged_65C02_fn c02_EOR = isa_65C02_EOR"
| "staged_65C02_fn c02_ORA = isa_65C02_ORA"
| "staged_65C02_fn c02_ADC = isa_65C02_ADC"
| "staged_65C02_fn c02_SBC = isa_65C02_SBC"
| "staged_65C02_fn c02_LDA = isa_65C02_LDA"
| "staged_65C02_fn c02_STA = isa_65C02_STA"
| "staged_65C02_fn c02_STZ = isa_65C02_STZ"
| "staged_65C02_fn c02_CMP = isa_65C02_CMP"
| "staged_65C02_fn c02_BIT = isa_65C02_BIT"
| "staged_65C02_fn c02_INC = isa_65C02_INC"
| "staged_65C02_fn c02_DEC = isa_65C02_DEC"
| "staged_65C02_fn c02_ASL = isa_65C02_ASL"
| "staged_65C02_fn c02_ROL = isa_65C02_ROL"
| "staged_65C02_fn c02_LSR = isa_65C02_LSR"
| "staged_65C02_fn c02_ROR = isa_65C02_ROR"
| "staged_65C02_fn c02_TSB = isa_65C02_TSB isa_6502_instr_stage_next_cycle"
| "staged_65C02_fn c02_TRB = isa_65C02_TRB"
| "staged_65C02_fn c02_BRA = isa_65C02_BRA"
| "staged_65C02_fn c02_JMP = isa_65C02_JMP"
| "staged_65C02_fn c02_BRK = isa_65C02_BRK"
| "staged_65C02_fn c02_PHX = isa_65C02_PHX"
| "staged_65C02_fn c02_PHY = isa_65C02_PHY"
| "staged_65C02_fn c02_PLX = isa_65C02_PLX"
| "staged_65C02_fn c02_PLY = isa_65C02_PLY"
| "staged_65C02_fn c02_IRQ = isa_65C02_IRQ"
| "staged_65C02_fn c02_NMI = isa_65C02_NMI"
| "staged_65C02_fn c02_RESET = isa_65C02_RESET"

primrec static_65C02_fn :: "isa_65C02_op \<Rightarrow> static_body" where
  "static_65C02_fn c02_AND = isa_65C02_static_AND"
| "static_65C02_fn c02_EOR = isa_65C02_static_EOR"
| "static_65C02_fn c02_ORA = isa_65C02_static_ORA"
| "static_65C02_fn c02_ADC = isa_65C02_static_ADC"
| "static_65C02_fn c02_SBC = isa_65C02_static_SBC"
| "static_65C02_fn c02_LDA = isa_65C02_static_LDA"
| "static_65C02_fn c02_STA = isa_65C02_static_STA"
| "static_65C02_fn c02_STZ = isa_65C02_static_STZ"
| "static_65C02_fn c02_CMP = isa_65C02_static_CMP"
| "static_65C02_fn c02_BIT = isa_65C02_static_BIT"
| "static_65C02_fn c02_INC = isa_65C02_static_INC"
| "static_65C02_fn c02_DEC = isa_65C02_static_DEC"
| "static_65C02_fn c02_ASL = isa_65C02_static_ASL"
| "static_65C02_fn c02_ROL = isa_65C02_static_ROL"
| "static_65C02_fn c02_LSR = isa_65C02_static_LSR"
| "static_65C02_fn c02_ROR = isa_65C02_static_ROR"
| "static_65C02_fn c02_TSB = isa_65C02_static_TSB"
| "static_65C02_fn c02_TRB = isa_65C02_static_TRB"
| "static_65C02_fn c02_BRA = isa_65C02_static_BRA"
| "static_65C02_fn c02_JMP = isa_65C02_static_JMP"
| "static_65C02_fn c02_BRK = isa_65C02_static_BRK"
| "static_65C02_fn c02_PHX = isa_65C02_static_PHX"
| "static_65C02_fn c02_PHY = isa_65C02_static_PHY"
| "static_65C02_fn c02_PLX = isa_65C02_static_PLX"
| "static_65C02_fn c02_PLY = isa_65C02_static_PLY"
| "static_65C02_fn c02_IRQ = isa_65C02_static_IRQ"
| "static_65C02_fn c02_NMI = isa_65C02_static_NMI"
| "static_65C02_fn c02_RESET = isa_65C02_static_RESET"

end
