(* ===== verification/Isa_Table.thy ===== *)
theory Isa_Table
  imports Isa65_Ops
begin

text \<open>
  The dispatch table of the base dialect, \<^verbatim>\<open>__isa_6502_table\<close> in \<^verbatim>\<open>src/isa_6502.c\<close>, entry by entry in
  the order of the source, and its lookup by the bit fields of the opcode.  A pair of function
  pointers \<^verbatim>\<open>{__isa_6502_X, __isa_6502_static_X}\<close> is the constructor \<open>op_X\<close>, one of the 65C02
  dialect a constructor under \<open>op_65C02\<close>; \<open>None\<close> is a pair of null
  pointers.  The fourth block of the table is not initialised in the source, so C fills it with
  zeros: null pointers, empty strings and addressing mode 0, which is the accumulator mode.
\<close>

section \<open>Functions\<close>

datatype (plugins only: code) isa_6502_op =
    op_ADC | op_AND | op_ASL | op_BCC | op_BCS | op_BEQ | op_BIT | op_BMI | op_BNE | op_BPL |
    op_BRK | op_BVC | op_BVS | op_CLC | op_CLD | op_CLI | op_CLV | op_CMP | op_CPX | op_CPY |
    op_DEC | op_DEX | op_DEY | op_EOR | op_INC | op_INX | op_INY | op_JMP | op_JSR | op_LDA |
    op_LDX | op_LDY | op_LSR | op_NOP | op_ORA | op_PHA | op_PHP | op_PLA | op_PLP | op_ROL |
    op_ROR | op_RTI | op_RTS | op_SBC | op_SEC | op_SED | op_SEI | op_STA | op_STX | op_STY |
    op_TAX | op_TAY | op_TSX | op_TXA | op_TXS | op_TYA | op_IRQ | op_NMI | op_RESET |
    op_65C02 isa_65C02_op

primrec staged_fn :: "isa_6502_op \<Rightarrow> staged_body" where
  "staged_fn op_ADC = isa_6502_ADC"
| "staged_fn op_AND = isa_6502_AND"
| "staged_fn op_ASL = isa_6502_ASL"
| "staged_fn op_BCC = isa_6502_BCC"
| "staged_fn op_BCS = isa_6502_BCS"
| "staged_fn op_BEQ = isa_6502_BEQ"
| "staged_fn op_BIT = isa_6502_BIT"
| "staged_fn op_BMI = isa_6502_BMI"
| "staged_fn op_BNE = isa_6502_BNE"
| "staged_fn op_BPL = isa_6502_BPL"
| "staged_fn op_BRK = isa_6502_BRK"
| "staged_fn op_BVC = isa_6502_BVC"
| "staged_fn op_BVS = isa_6502_BVS"
| "staged_fn op_CLC = isa_6502_CLC"
| "staged_fn op_CLD = isa_6502_CLD"
| "staged_fn op_CLI = isa_6502_CLI"
| "staged_fn op_CLV = isa_6502_CLV"
| "staged_fn op_CMP = isa_6502_CMP"
| "staged_fn op_CPX = isa_6502_CPX"
| "staged_fn op_CPY = isa_6502_CPY"
| "staged_fn op_DEC = isa_6502_DEC"
| "staged_fn op_DEX = isa_6502_DEX"
| "staged_fn op_DEY = isa_6502_DEY"
| "staged_fn op_EOR = isa_6502_EOR"
| "staged_fn op_INC = isa_6502_INC"
| "staged_fn op_INX = isa_6502_INX"
| "staged_fn op_INY = isa_6502_INY"
| "staged_fn op_JMP = isa_6502_JMP"
| "staged_fn op_JSR = isa_6502_JSR"
| "staged_fn op_LDA = isa_6502_LDA"
| "staged_fn op_LDX = isa_6502_LDX"
| "staged_fn op_LDY = isa_6502_LDY"
| "staged_fn op_LSR = isa_6502_LSR"
| "staged_fn op_NOP = isa_6502_NOP"
| "staged_fn op_ORA = isa_6502_ORA"
| "staged_fn op_PHA = isa_6502_PHA"
| "staged_fn op_PHP = isa_6502_PHP"
| "staged_fn op_PLA = isa_6502_PLA"
| "staged_fn op_PLP = isa_6502_PLP"
| "staged_fn op_ROL = isa_6502_ROL"
| "staged_fn op_ROR = isa_6502_ROR"
| "staged_fn op_RTI = isa_6502_RTI"
| "staged_fn op_RTS = isa_6502_RTS"
| "staged_fn op_SBC = isa_6502_SBC"
| "staged_fn op_SEC = isa_6502_SEC"
| "staged_fn op_SED = isa_6502_SED"
| "staged_fn op_SEI = isa_6502_SEI"
| "staged_fn op_STA = isa_6502_STA"
| "staged_fn op_STX = isa_6502_STX"
| "staged_fn op_STY = isa_6502_STY"
| "staged_fn op_TAX = isa_6502_TAX"
| "staged_fn op_TAY = isa_6502_TAY"
| "staged_fn op_TSX = isa_6502_TSX"
| "staged_fn op_TXA = isa_6502_TXA"
| "staged_fn op_TXS = isa_6502_TXS"
| "staged_fn op_TYA = isa_6502_TYA"
| "staged_fn op_IRQ = isa_6502_IRQ"
| "staged_fn op_NMI = isa_6502_NMI"
| "staged_fn op_RESET = isa_6502_RESET"
| "staged_fn (op_65C02 f) = staged_65C02_fn f"

primrec static_fn :: "isa_6502_op \<Rightarrow> static_body" where
  "static_fn op_ADC = isa_6502_static_ADC"
| "static_fn op_AND = isa_6502_static_AND"
| "static_fn op_ASL = isa_6502_static_ASL"
| "static_fn op_BCC = isa_6502_static_BCC"
| "static_fn op_BCS = isa_6502_static_BCS"
| "static_fn op_BEQ = isa_6502_static_BEQ"
| "static_fn op_BIT = isa_6502_static_BIT"
| "static_fn op_BMI = isa_6502_static_BMI"
| "static_fn op_BNE = isa_6502_static_BNE"
| "static_fn op_BPL = isa_6502_static_BPL"
| "static_fn op_BRK = isa_6502_static_BRK"
| "static_fn op_BVC = isa_6502_static_BVC"
| "static_fn op_BVS = isa_6502_static_BVS"
| "static_fn op_CLC = isa_6502_static_CLC"
| "static_fn op_CLD = isa_6502_static_CLD"
| "static_fn op_CLI = isa_6502_static_CLI"
| "static_fn op_CLV = isa_6502_static_CLV"
| "static_fn op_CMP = isa_6502_static_CMP"
| "static_fn op_CPX = isa_6502_static_CPX"
| "static_fn op_CPY = isa_6502_static_CPY"
| "static_fn op_DEC = isa_6502_static_DEC"
| "static_fn op_DEX = isa_6502_static_DEX"
| "static_fn op_DEY = isa_6502_static_DEY"
| "static_fn op_EOR = isa_6502_static_EOR"
| "static_fn op_INC = isa_6502_static_INC"
| "static_fn op_INX = isa_6502_static_INX"
| "static_fn op_INY = isa_6502_static_INY"
| "static_fn op_JMP = isa_6502_static_JMP"
| "static_fn op_JSR = isa_6502_static_JSR"
| "static_fn op_LDA = isa_6502_static_LDA"
| "static_fn op_LDX = isa_6502_static_LDX"
| "static_fn op_LDY = isa_6502_static_LDY"
| "static_fn op_LSR = isa_6502_static_LSR"
| "static_fn op_NOP = isa_6502_static_NOP"
| "static_fn op_ORA = isa_6502_static_ORA"
| "static_fn op_PHA = isa_6502_static_PHA"
| "static_fn op_PHP = isa_6502_static_PHP"
| "static_fn op_PLA = isa_6502_static_PLA"
| "static_fn op_PLP = isa_6502_static_PLP"
| "static_fn op_ROL = isa_6502_static_ROL"
| "static_fn op_ROR = isa_6502_static_ROR"
| "static_fn op_RTI = isa_6502_static_RTI"
| "static_fn op_RTS = isa_6502_static_RTS"
| "static_fn op_SBC = isa_6502_static_SBC"
| "static_fn op_SEC = isa_6502_static_SEC"
| "static_fn op_SED = isa_6502_static_SED"
| "static_fn op_SEI = isa_6502_static_SEI"
| "static_fn op_STA = isa_6502_static_STA"
| "static_fn op_STX = isa_6502_static_STX"
| "static_fn op_STY = isa_6502_static_STY"
| "static_fn op_TAX = isa_6502_static_TAX"
| "static_fn op_TAY = isa_6502_static_TAY"
| "static_fn op_TSX = isa_6502_static_TSX"
| "static_fn op_TXA = isa_6502_static_TXA"
| "static_fn op_TXS = isa_6502_static_TXS"
| "static_fn op_TYA = isa_6502_static_TYA"
| "static_fn op_IRQ = isa_6502_static_IRQ"
| "static_fn op_NMI = isa_6502_static_NMI"
| "static_fn op_RESET = isa_6502_static_RESET"
| "static_fn (op_65C02 f) = static_65C02_fn f"

section \<open>Table\<close>

record isa_6502_opcode_dispatch =
  exec_fn :: "isa_6502_op option"
  mnemonic :: string
  description :: string
  dispatch_mode :: isa_6502_addressing

type_synonym isa_6502_opcode_blocks = "isa_6502_opcode_dispatch list list list"

record isa_6502_table =
  table :: isa_6502_opcode_blocks
  table_nmi :: "isa_6502_op option"
  table_irq :: "isa_6502_op option"
  table_reset :: "isa_6502_op option"

definition UNUSED_OPCODE :: isa_6502_opcode_dispatch where
  "UNUSED_OPCODE = \<lparr>exec_fn = None, mnemonic = ''???'', description = ''??? ????'',
     dispatch_mode = isa_6502_addressing_undefined\<rparr>"

definition zero_dispatch :: isa_6502_opcode_dispatch where
  "zero_dispatch = \<lparr>exec_fn = None, mnemonic = [], description = [],
     dispatch_mode = isa_6502_addressing_accumulator\<rparr>"

definition entry :: "isa_6502_op \<Rightarrow> string \<Rightarrow> string \<Rightarrow> isa_6502_addressing \<Rightarrow> isa_6502_opcode_dispatch" where
  "entry f m d a = \<lparr>exec_fn = Some f, mnemonic = m, description = d, dispatch_mode = a\<rparr>"

definition table_block_0 :: "isa_6502_opcode_dispatch list list" where
  "table_block_0 = [
    [entry op_BRK ''BRK'' ''BRK'' isa_6502_addressing_implied,
     UNUSED_OPCODE,
     entry op_PHP ''PHP'' ''PHP'' isa_6502_addressing_implied,
     UNUSED_OPCODE,
     entry op_BPL ''BPL'' ''BPL $XX'' isa_6502_addressing_relative,
     UNUSED_OPCODE,
     entry op_CLC ''CLC'' ''CLC'' isa_6502_addressing_implied,
     UNUSED_OPCODE],
    [entry op_JSR ''JSR'' ''JSR $XXXX'' isa_6502_addressing_absolute,
     entry op_BIT ''BIT'' ''BIT $XX'' isa_6502_addressing_zeropage,
     entry op_PLP ''PLP'' ''PLP'' isa_6502_addressing_implied,
     entry op_BIT ''BIT'' ''BIT $XXXX'' isa_6502_addressing_absolute,
     entry op_BMI ''BMI'' ''BMI $XX'' isa_6502_addressing_relative,
     UNUSED_OPCODE,
     entry op_SEC ''SEC'' ''SEC'' isa_6502_addressing_implied,
     UNUSED_OPCODE],
    [entry op_RTI ''RTI'' ''RTI'' isa_6502_addressing_implied,
     UNUSED_OPCODE,
     entry op_PHA ''PHA'' ''PHA'' isa_6502_addressing_implied,
     entry op_JMP ''JMP'' ''JMP $XXXX'' isa_6502_addressing_absolute,
     entry op_BVC ''BVC'' ''BVC $XX'' isa_6502_addressing_relative,
     UNUSED_OPCODE,
     entry op_CLI ''CLI'' ''CLI'' isa_6502_addressing_implied,
     UNUSED_OPCODE],
    [entry op_RTS ''RTS'' ''RTS'' isa_6502_addressing_implied,
     UNUSED_OPCODE,
     entry op_PLA ''PLA'' ''PLA'' isa_6502_addressing_implied,
     entry op_JMP ''JMP'' ''JMP ($XXXX)'' isa_6502_addressing_indirect,
     entry op_BVS ''BVS'' ''BVS $XX'' isa_6502_addressing_relative,
     UNUSED_OPCODE,
     entry op_SEI ''SEI'' ''SEI'' isa_6502_addressing_implied,
     UNUSED_OPCODE],
    [UNUSED_OPCODE,
     entry op_STY ''STY'' ''STY $XX'' isa_6502_addressing_zeropage,
     entry op_DEY ''DEY'' ''DEY'' isa_6502_addressing_implied,
     entry op_STY ''STY'' ''STY $XXXX'' isa_6502_addressing_absolute,
     entry op_BCC ''BCC'' ''BCC $XX'' isa_6502_addressing_relative,
     entry op_STY ''STY'' ''STY $XX,X'' isa_6502_addressing_zeropage_x_indexed,
     entry op_TYA ''TYA'' ''TYA'' isa_6502_addressing_implied,
     UNUSED_OPCODE],
    [entry op_LDY ''LDY'' ''LDY #$XX'' isa_6502_addressing_immediate,
     entry op_LDY ''LDY'' ''LDY $XX'' isa_6502_addressing_zeropage,
     entry op_TAY ''TAY'' ''TAY'' isa_6502_addressing_implied,
     entry op_LDY ''LDY'' ''LDY $XXXX'' isa_6502_addressing_absolute,
     entry op_BCS ''BCS'' ''BCS $XX'' isa_6502_addressing_relative,
     entry op_LDY ''LDY'' ''LDY $XX,X'' isa_6502_addressing_zeropage_x_indexed,
     entry op_CLV ''CLV'' ''CLV'' isa_6502_addressing_implied,
     entry op_LDY ''LDY'' ''LDY $XXXX,X'' isa_6502_addressing_absolute_x_indexed],
    [entry op_CPY ''CPY'' ''CPY #$XX'' isa_6502_addressing_immediate,
     entry op_CPY ''CPY'' ''CPY $XX'' isa_6502_addressing_zeropage,
     entry op_INY ''INY'' ''INY'' isa_6502_addressing_implied,
     entry op_CPY ''CPY'' ''CPY $XXXX'' isa_6502_addressing_absolute,
     entry op_BNE ''BNE'' ''BNE $XX'' isa_6502_addressing_relative,
     UNUSED_OPCODE,
     entry op_CLD ''CLD'' ''CLD'' isa_6502_addressing_implied,
     UNUSED_OPCODE],
    [entry op_CPX ''CPX'' ''CPX #$XX'' isa_6502_addressing_immediate,
     entry op_CPX ''CPX'' ''CPX $XX'' isa_6502_addressing_zeropage,
     entry op_INX ''INX'' ''INX'' isa_6502_addressing_implied,
     entry op_CPX ''CPX'' ''CPX $XXXX'' isa_6502_addressing_absolute,
     entry op_BEQ ''BEQ'' ''BEQ $XX'' isa_6502_addressing_relative,
     UNUSED_OPCODE,
     entry op_SED ''SED'' ''SED'' isa_6502_addressing_implied,
     UNUSED_OPCODE]]"

definition table_block_1 :: "isa_6502_opcode_dispatch list list" where
  "table_block_1 = [
    [entry op_ORA ''ORA'' ''ORA ($XX,X)'' isa_6502_addressing_x_indexed_indirect,
     entry op_ORA ''ORA'' ''ORA $XX'' isa_6502_addressing_zeropage,
     entry op_ORA ''ORA'' ''ORA #$XX'' isa_6502_addressing_immediate,
     entry op_ORA ''ORA'' ''ORA $XXXX'' isa_6502_addressing_absolute,
     entry op_ORA ''ORA'' ''ORA ($XX),Y'' isa_6502_addressing_indirect_y_indexed,
     entry op_ORA ''ORA'' ''ORA $XX,X'' isa_6502_addressing_zeropage_x_indexed,
     entry op_ORA ''ORA'' ''ORA $XXXX,Y'' isa_6502_addressing_absolute_y_indexed,
     entry op_ORA ''ORA'' ''ORA $XXXX,X'' isa_6502_addressing_absolute_x_indexed],
    [entry op_AND ''AND'' ''AND ($XX,X)'' isa_6502_addressing_x_indexed_indirect,
     entry op_AND ''AND'' ''AND $XX'' isa_6502_addressing_zeropage,
     entry op_AND ''AND'' ''AND #$XX'' isa_6502_addressing_immediate,
     entry op_AND ''AND'' ''AND $XXXX'' isa_6502_addressing_absolute,
     entry op_AND ''AND'' ''AND ($XX),Y'' isa_6502_addressing_indirect_y_indexed,
     entry op_AND ''AND'' ''AND $XX,X'' isa_6502_addressing_zeropage_x_indexed,
     entry op_AND ''AND'' ''AND $XXXX,Y'' isa_6502_addressing_absolute_y_indexed,
     entry op_AND ''AND'' ''AND $XXXX,X'' isa_6502_addressing_absolute_x_indexed],
    [entry op_EOR ''EOR'' ''EOR ($XX,X)'' isa_6502_addressing_x_indexed_indirect,
     entry op_EOR ''EOR'' ''EOR $XX'' isa_6502_addressing_zeropage,
     entry op_EOR ''EOR'' ''EOR #$XX'' isa_6502_addressing_immediate,
     entry op_EOR ''EOR'' ''EOR $XXXX'' isa_6502_addressing_absolute,
     entry op_EOR ''EOR'' ''EOR ($XX),Y'' isa_6502_addressing_indirect_y_indexed,
     entry op_EOR ''EOR'' ''EOR $XX,X'' isa_6502_addressing_zeropage_x_indexed,
     entry op_EOR ''EOR'' ''EOR $XXXX,Y'' isa_6502_addressing_absolute_y_indexed,
     entry op_EOR ''EOR'' ''EOR $XXXX,X'' isa_6502_addressing_absolute_x_indexed],
    [entry op_ADC ''ADC'' ''ADC ($XX,X)'' isa_6502_addressing_x_indexed_indirect,
     entry op_ADC ''ADC'' ''ADC $XX'' isa_6502_addressing_zeropage,
     entry op_ADC ''ADC'' ''ADC #$XX'' isa_6502_addressing_immediate,
     entry op_ADC ''ADC'' ''ADC $XXXX'' isa_6502_addressing_absolute,
     entry op_ADC ''ADC'' ''ADC ($XX),Y'' isa_6502_addressing_indirect_y_indexed,
     entry op_ADC ''ADC'' ''ADC $XX,X'' isa_6502_addressing_zeropage_x_indexed,
     entry op_ADC ''ADC'' ''ADC $XXXX,Y'' isa_6502_addressing_absolute_y_indexed,
     entry op_ADC ''ADC'' ''ADC $XXXX,X'' isa_6502_addressing_absolute_x_indexed],
    [entry op_STA ''STA'' ''STA ($XX,X)'' isa_6502_addressing_x_indexed_indirect,
     entry op_STA ''STA'' ''STA $XX'' isa_6502_addressing_zeropage,
     UNUSED_OPCODE,
     entry op_STA ''STA'' ''STA $XXXX'' isa_6502_addressing_absolute,
     entry op_STA ''STA'' ''STA ($XX),Y'' isa_6502_addressing_indirect_y_indexed,
     entry op_STA ''STA'' ''STA $XX,X'' isa_6502_addressing_zeropage_x_indexed,
     entry op_STA ''STA'' ''STA $XXXX,Y'' isa_6502_addressing_absolute_y_indexed,
     entry op_STA ''STA'' ''STA $XXXX,X'' isa_6502_addressing_absolute_x_indexed],
    [entry op_LDA ''LDA'' ''LDA ($XX,X)'' isa_6502_addressing_x_indexed_indirect,
     entry op_LDA ''LDA'' ''LDA $XX'' isa_6502_addressing_zeropage,
     entry op_LDA ''LDA'' ''LDA #$XX'' isa_6502_addressing_immediate,
     entry op_LDA ''LDA'' ''LDA $XXXX'' isa_6502_addressing_absolute,
     entry op_LDA ''LDA'' ''LDA ($XX),Y'' isa_6502_addressing_indirect_y_indexed,
     entry op_LDA ''LDA'' ''LDA $XX,X'' isa_6502_addressing_zeropage_x_indexed,
     entry op_LDA ''LDA'' ''LDA $XXXX,Y'' isa_6502_addressing_absolute_y_indexed,
     entry op_LDA ''LDA'' ''LDA $XXXX,X'' isa_6502_addressing_absolute_x_indexed],
    [entry op_CMP ''CMP'' ''CMP ($XX,X)'' isa_6502_addressing_x_indexed_indirect,
     entry op_CMP ''CMP'' ''CMP $XX'' isa_6502_addressing_zeropage,
     entry op_CMP ''CMP'' ''CMP #$XX'' isa_6502_addressing_immediate,
     entry op_CMP ''CMP'' ''CMP $XXXX'' isa_6502_addressing_absolute,
     entry op_CMP ''CMP'' ''CMP ($XX),Y'' isa_6502_addressing_indirect_y_indexed,
     entry op_CMP ''CMP'' ''CMP $XX,X'' isa_6502_addressing_zeropage_x_indexed,
     entry op_CMP ''CMP'' ''CMP $XXXX,Y'' isa_6502_addressing_absolute_y_indexed,
     entry op_CMP ''CMP'' ''CMP $XXXX,X'' isa_6502_addressing_absolute_x_indexed],
    [entry op_SBC ''SBC'' ''SBC ($XX,X)'' isa_6502_addressing_x_indexed_indirect,
     entry op_SBC ''SBC'' ''SBC $XX'' isa_6502_addressing_zeropage,
     entry op_SBC ''SBC'' ''SBC #$XX'' isa_6502_addressing_immediate,
     entry op_SBC ''SBC'' ''SBC $XXXX'' isa_6502_addressing_absolute,
     entry op_SBC ''SBC'' ''SBC ($XX),Y'' isa_6502_addressing_indirect_y_indexed,
     entry op_SBC ''SBC'' ''SBC $XX,X'' isa_6502_addressing_zeropage_x_indexed,
     entry op_SBC ''SBC'' ''SBC $XXXX,Y'' isa_6502_addressing_absolute_y_indexed,
     entry op_SBC ''SBC'' ''SBC $XXXX,X'' isa_6502_addressing_absolute_x_indexed]]"

definition table_block_2 :: "isa_6502_opcode_dispatch list list" where
  "table_block_2 = [
    [UNUSED_OPCODE,
     entry op_ASL ''ASL'' ''ASL $XX'' isa_6502_addressing_zeropage,
     entry op_ASL ''ASL'' ''ASL A'' isa_6502_addressing_accumulator,
     entry op_ASL ''ASL'' ''ASL $XXXX'' isa_6502_addressing_absolute,
     UNUSED_OPCODE,
     entry op_ASL ''ASL'' ''ASL $XX,X'' isa_6502_addressing_zeropage_x_indexed,
     UNUSED_OPCODE,
     entry op_ASL ''ASL'' ''ASL $XXXX,X'' isa_6502_addressing_absolute_x_indexed],
    [UNUSED_OPCODE,
     entry op_ROL ''ROL'' ''ROL $XX'' isa_6502_addressing_zeropage,
     entry op_ROL ''ROL'' ''ROL A'' isa_6502_addressing_accumulator,
     entry op_ROL ''ROL'' ''ROL $XXXX'' isa_6502_addressing_absolute,
     UNUSED_OPCODE,
     entry op_ROL ''ROL'' ''ROL $XX,X'' isa_6502_addressing_zeropage_x_indexed,
     UNUSED_OPCODE,
     entry op_ROL ''ROL'' ''ROL $XXXX,X'' isa_6502_addressing_absolute_x_indexed],
    [UNUSED_OPCODE,
     entry op_LSR ''LSR'' ''LSR $XX'' isa_6502_addressing_zeropage,
     entry op_LSR ''LSR'' ''LSR A'' isa_6502_addressing_accumulator,
     entry op_LSR ''LSR'' ''LSR $XXXX'' isa_6502_addressing_absolute,
     UNUSED_OPCODE,
     entry op_LSR ''LSR'' ''LSR $XX,X'' isa_6502_addressing_zeropage_x_indexed,
     UNUSED_OPCODE,
     entry op_LSR ''LSR'' ''LSR $XXXX,X'' isa_6502_addressing_absolute_x_indexed],
    [UNUSED_OPCODE,
     entry op_ROR ''ROR'' ''ROR $XX'' isa_6502_addressing_zeropage,
     entry op_ROR ''ROR'' ''ROR A'' isa_6502_addressing_accumulator,
     entry op_ROR ''ROR'' ''ROR $XXXX'' isa_6502_addressing_absolute,
     UNUSED_OPCODE,
     entry op_ROR ''ROR'' ''ROR $XX,X'' isa_6502_addressing_zeropage_x_indexed,
     UNUSED_OPCODE,
     entry op_ROR ''ROR'' ''ROR $XXXX,X'' isa_6502_addressing_absolute_x_indexed],
    [UNUSED_OPCODE,
     entry op_STX ''STX'' ''STX $XX'' isa_6502_addressing_zeropage,
     entry op_TXA ''TXA'' ''TXA'' isa_6502_addressing_implied,
     entry op_STX ''STX'' ''STX $XXXX'' isa_6502_addressing_absolute,
     UNUSED_OPCODE,
     entry op_STX ''STX'' ''STX $XX,Y'' isa_6502_addressing_zeropage_y_indexed,
     entry op_TXS ''TXS'' ''TXS'' isa_6502_addressing_implied,
     UNUSED_OPCODE],
    [entry op_LDX ''LDX'' ''LDX #$XX'' isa_6502_addressing_immediate,
     entry op_LDX ''LDX'' ''LDX $XX'' isa_6502_addressing_zeropage,
     entry op_TAX ''TAX'' ''TAX'' isa_6502_addressing_implied,
     entry op_LDX ''LDX'' ''LDX $XXXX'' isa_6502_addressing_absolute,
     UNUSED_OPCODE,
     entry op_LDX ''LDX'' ''LDX $XX,Y'' isa_6502_addressing_zeropage_y_indexed,
     entry op_TSX ''TSX'' ''TSX'' isa_6502_addressing_implied,
     entry op_LDX ''LDX'' ''LDX $XXXX,Y'' isa_6502_addressing_absolute_y_indexed],
    [UNUSED_OPCODE,
     entry op_DEC ''DEC'' ''DEC $XX'' isa_6502_addressing_zeropage,
     entry op_DEX ''DEX'' ''DEX'' isa_6502_addressing_implied,
     entry op_DEC ''DEC'' ''DEC $XXXX'' isa_6502_addressing_absolute,
     UNUSED_OPCODE,
     entry op_DEC ''DEC'' ''DEC $XX,X'' isa_6502_addressing_zeropage_x_indexed,
     UNUSED_OPCODE,
     entry op_DEC ''DEC'' ''DEC $XXXX,X'' isa_6502_addressing_absolute_x_indexed],
    [UNUSED_OPCODE,
     entry op_INC ''INC'' ''INC $XX'' isa_6502_addressing_zeropage,
     entry op_NOP ''NOP'' ''NOP'' isa_6502_addressing_implied,
     entry op_INC ''INC'' ''INC $XXXX'' isa_6502_addressing_absolute,
     UNUSED_OPCODE,
     entry op_INC ''INC'' ''INC $XX,X'' isa_6502_addressing_zeropage_x_indexed,
     UNUSED_OPCODE,
     entry op_INC ''INC'' ''INC $XXXX,X'' isa_6502_addressing_absolute_x_indexed]]"

definition isa_6502_base_table :: isa_6502_table where
  "isa_6502_base_table =
    \<lparr>table = [table_block_0, table_block_1, table_block_2,
              replicate 8 (replicate 8 zero_dispatch)],
     table_nmi = Some op_NMI, table_irq = Some op_IRQ, table_reset = Some op_RESET\<rparr>"

text \<open>The bit fields of an opcode byte.\<close>

definition opcode_C :: "u8 \<Rightarrow> nat" where "opcode_C b = unat (b AND 0x03)"
definition opcode_B :: "u8 \<Rightarrow> nat" where "opcode_B b = unat (drop_bit 2 b AND 0x07)"
definition opcode_A :: "u8 \<Rightarrow> nat" where "opcode_A b = unat (drop_bit 5 b)"

definition isa_6502_table_lookup_dispatch :: "isa_6502_table \<Rightarrow> u8 \<Rightarrow> isa_6502_opcode_dispatch" where
  "isa_6502_table_lookup_dispatch isa_table op =
     table isa_table ! opcode_C op ! opcode_A op ! opcode_B op"

lemma opcode_A_bound: "opcode_A b < 8"
proof -
  have "unat b < 256" using unsigned_less [of b] by simp
  then show ?thesis
    by (simp only: opcode_A_def unat_drop_bit_eq) (simp add: drop_bit_eq_div)
qed

lemma opcode_B_bound: "opcode_B b < 8"
  using word_and_le1 [of "drop_bit 2 b" 7] by (simp add: opcode_B_def word_le_nat_alt)

text \<open>The block that is not initialised.\<close>

lemma lookup_block_3:
  "b AND 0x03 = 0x03 \<Longrightarrow> isa_6502_table_lookup_dispatch isa_6502_base_table b = zero_dispatch"
  using opcode_A_bound [of b] opcode_B_bound [of b]
  by (simp add: isa_6502_table_lookup_dispatch_def isa_6502_base_table_def opcode_C_def)

end
