(* ===== verification/Isa_Disasm.thy ===== *)
theory Isa_Disasm
  imports Inline_Disasm Isa_Table
begin

text \<open>
  The disassembly functions of the base instructions, \<^verbatim>\<open>ISA_6502_DISASM(X)\<close> in \<^verbatim>\<open>src/isa_6502/X.c\<close>.
\<close>

definition isa_6502_disasm_ADC :: disasm_body where
  "isa_6502_disasm_ADC mode =
    (let args = [Of_var Operand1, Of_var Operand2, Of_var Operand3, Of_A, Of_X, Of_Y, Of_var Value] in
     case mode of
       isa_6502_addressing_immediate \<Rightarrow>
         Some ([Rcache Value],
           ''ADC #$%7$02hhX {A + $%7$02hhX = $%4$02hhX}'', args)
     | isa_6502_addressing_zeropage \<Rightarrow>
         Some ([Rcache Value, Rcache Operand1],
           ''ADC $%1$02hhX {A + $%7$02hhX = $%4$02hhX}'', args)
     | isa_6502_addressing_zeropage_x_indexed \<Rightarrow>
         Some ([Rcache Value, Rcache Operand1],
           ''ADC $%1$02hhX,X {A + $%7$02hhX = $%4$02hhX}'', args)
     | isa_6502_addressing_absolute \<Rightarrow>
         Some ([Rcache Value, Rcache Operand1, Rcache Operand2],
           ''ADC $%1$02hhX%2$02hhX {A + $%7$02hhX = $%4$02hhX}'', args)
     | isa_6502_addressing_absolute_x_indexed \<Rightarrow>
         Some ([Rcache Value, Rcache Operand1, Rcache Operand2],
           ''ADC $%1$02hhX%2$02hhX,X[$%5$02hhX] {A + $%7$02hhX = $%4$02hhX}'', args)
     | isa_6502_addressing_absolute_y_indexed \<Rightarrow>
         Some ([Rcache Value, Rcache Operand1, Rcache Operand2],
           ''ADC $%1$02hhX%2$02hhX,Y[$%6$02hhX] {A + $%7$02hhX = $%4$02hhX}'', args)
     | isa_6502_addressing_x_indexed_indirect \<Rightarrow>
         Some ([Rcache Value, Rcache Operand1, Rcache Operand2, Rcache Operand3],
           ''ADC ($%3$02hhX=$%1$02hhX%2$02hhX,X[$%5$02hhX]) {A + $%7$02hhX = $%4$02hhX}'', args)
     | isa_6502_addressing_indirect_y_indexed \<Rightarrow>
         Some ([Rcache Value, Rcache Operand1, Rcache Operand2, Rcache Operand3],
           ''ADC ($%3$02hhX[$%1$02hhX%2$02hhX]),Y[$%6$02hhX] {A + $%7$02hhX = $%4$02hhX}'', args)
     | _ \<Rightarrow> None)"

definition isa_6502_disasm_AND :: disasm_body where
  "isa_6502_disasm_AND mode =
    (let args = [Of_var Operand1, Of_var Operand2, Of_var Operand3, Of_A, Of_X, Of_Y, Of_var Value] in
     case mode of
       isa_6502_addressing_immediate \<Rightarrow>
         Some ([Rcache Value],
           ''AND #$%7$02hhX {A & $%7$02hhX = $%4$02hhX}'', args)
     | isa_6502_addressing_zeropage \<Rightarrow>
         Some ([Rcache Value, Rcache Operand1],
           ''AND $%1$02hhX {A & $%7$02hhX = $%4$02hhX}'', args)
     | isa_6502_addressing_zeropage_x_indexed \<Rightarrow>
         Some ([Rcache Value, Rcache Operand1],
           ''AND $%1$02hhX,X {A & $%7$02hhX = $%4$02hhX}'', args)
     | isa_6502_addressing_absolute \<Rightarrow>
         Some ([Rcache Value, Rcache Operand1, Rcache Operand2],
           ''AND $%1$02hhX%2$02hhX {A & $%7$02hhX = $%4$02hhX}'', args)
     | isa_6502_addressing_absolute_x_indexed \<Rightarrow>
         Some ([Rcache Value, Rcache Operand1, Rcache Operand2],
           ''AND $%1$02hhX%2$02hhX,X[$%5$02hhX] {A & $%7$02hhX = $%4$02hhX}'', args)
     | isa_6502_addressing_absolute_y_indexed \<Rightarrow>
         Some ([Rcache Value, Rcache Operand1, Rcache Operand2],
           ''AND $%1$02hhX%2$02hhX,Y[$%6$02hhX] {A & $%7$02hhX = $%4$02hhX}'', args)
     | isa_6502_addressing_x_indexed_indirect \<Rightarrow>
         Some ([Rcache Value, Rcache Operand1, Rcache Operand2, Rcache Operand3],
           ''AND ($%3$02hhX=$%1$02hhX%2$02hhX,X[$%5$02hhX]) {A & $%7$02hhX = $%4$02hhX}'', args)
     | isa_6502_addressing_indirect_y_indexed \<Rightarrow>
         Some ([Rcache Value, Rcache Operand1, Rcache Operand2, Rcache Operand3],
           ''AND ($%3$02hhX[$%1$02hhX%3$02hhX]),Y[$%6$02hhX] {A & $%7$02hhX = $%4$02hhX}'', args)
     | _ \<Rightarrow> None)"

definition isa_6502_disasm_ASL :: disasm_body where
  "isa_6502_disasm_ASL mode =
    (let args = [Of_var Operand1, Of_var Operand2, Of_A, Of_X, Of_var Value1, Of_var Value2] in
     case mode of
       isa_6502_addressing_accumulator \<Rightarrow>
         Some ([],
           ''ASL A {A << 1 = $%3$02hhX}'', args)
     | isa_6502_addressing_zeropage \<Rightarrow>
         Some ([Rcache Value1, Wcache Value2, Rcache Operand1],
           ''ASL $%1$02hhX {$%5$02hhX << 1 = $%6$02hhX}'', args)
     | isa_6502_addressing_zeropage_x_indexed \<Rightarrow>
         Some ([Rcache Value1, Wcache Value2, Rcache Operand1],
           ''ASL $%1$02hhX,X[$%4$02hhX] {$%5$02hhX << 1 = $%6$02hhX}'', args)
     | isa_6502_addressing_absolute \<Rightarrow>
         Some ([Rcache Value1, Wcache Value2, Rcache Operand1, Rcache Operand2],
           ''ASL $%1$02hhX%2$02hhX {$%5$02hhX << 1 = $%6$02hhX}'', args)
     | isa_6502_addressing_absolute_x_indexed \<Rightarrow>
         Some ([Rcache Value1, Wcache Value2, Rcache Operand1, Rcache Operand2],
           ''ASL $%1$02hhX%2$02hhX,X[$%4$02hhX] {$%5$02hhX << 1 = $%6$02hhX}'', args)
     | _ \<Rightarrow> None)"

definition isa_6502_disasm_BCC :: disasm_body where
  "isa_6502_disasm_BCC mode =
     Some ([Rcache Operand], ''BCC *%+hhd'', [Of_signed Operand])"

definition isa_6502_disasm_BCS :: disasm_body where
  "isa_6502_disasm_BCS mode =
     Some ([Rcache Operand], ''BCS *%+hhd'', [Of_signed Operand])"

definition isa_6502_disasm_BEQ :: disasm_body where
  "isa_6502_disasm_BEQ mode =
     Some ([Rcache Operand], ''BEQ *%+hhd'', [Of_signed Operand])"

definition isa_6502_disasm_BIT :: disasm_body where
  "isa_6502_disasm_BIT mode =
    (case mode of
       isa_6502_addressing_zeropage \<Rightarrow>
         Some ([Rcache Value, Rcache Operand1],
           ''BIT $%02hhX {$%02hhX TEST $%02hhX => %hhu%hhu----%hhu-}'', [Of_var Operand1, Of_A, Of_var Value, Of_flag register_SR_Bit_N, Of_flag register_SR_Bit_V, Of_flag register_SR_Bit_Z])
     | isa_6502_addressing_absolute \<Rightarrow>
         Some ([Rcache Value, Rcache Operand1, Rcache Operand2],
           ''BIT $%02hhX%02hhX {$%02hhX TEST $%02hhX => %hhu%hhu----%hhu-}'', [Of_var Operand1, Of_var Operand2, Of_A, Of_var Value, Of_flag register_SR_Bit_N, Of_flag register_SR_Bit_V, Of_flag register_SR_Bit_Z])
     | _ \<Rightarrow> Some ([], [], []))"

definition isa_6502_disasm_BMI :: disasm_body where
  "isa_6502_disasm_BMI mode =
     Some ([Rcache Operand], ''BMI *%+hhd'', [Of_signed Operand])"

definition isa_6502_disasm_BNE :: disasm_body where
  "isa_6502_disasm_BNE mode =
     Some ([Rcache Operand], ''BNE *%+hhd'', [Of_signed Operand])"

definition isa_6502_disasm_BPL :: disasm_body where
  "isa_6502_disasm_BPL mode =
     Some ([Rcache Operand], ''BPL *%+hhd'', [Of_signed Operand])"

definition isa_6502_disasm_BRK :: disasm_body where
  "isa_6502_disasm_BRK mode =
     Some ([Rcache Value], ''BRK (=> $%04hX, MARKER=$%02hhX)'', [Of_PC, Of_var Value])"

definition isa_6502_disasm_BVC :: disasm_body where
  "isa_6502_disasm_BVC mode =
     Some ([Rcache Operand], ''BVC *%+hhd'', [Of_signed Operand])"

definition isa_6502_disasm_BVS :: disasm_body where
  "isa_6502_disasm_BVS mode =
     Some ([Rcache Operand], ''BVS *%+hhd'', [Of_signed Operand])"

definition isa_6502_disasm_CLC :: disasm_body where
  "isa_6502_disasm_CLC mode =
     Some ([], ''CLC'', [])"

definition isa_6502_disasm_CLD :: disasm_body where
  "isa_6502_disasm_CLD mode =
     Some ([], ''CLD'', [])"

definition isa_6502_disasm_CLI :: disasm_body where
  "isa_6502_disasm_CLI mode =
     Some ([], ''CLI'', [])"

definition isa_6502_disasm_CLV :: disasm_body where
  "isa_6502_disasm_CLV mode =
     Some ([], ''CLV'', [])"

definition isa_6502_disasm_CMP :: disasm_body where
  "isa_6502_disasm_CMP mode =
    (let args = [Of_var Operand1, Of_var Operand2, Of_var Operand3, Of_A, Of_X, Of_Y, Of_var Value] in
     case mode of
       isa_6502_addressing_immediate \<Rightarrow>
         Some ([Rcache Value],
           ''CMP #$%7$02hhX {$%7$02hhX == $%4$02hhX}'', args)
     | isa_6502_addressing_zeropage \<Rightarrow>
         Some ([Rcache Value, Rcache Operand1],
           ''CMP $%1$02hhX {$%7$02hhX == $%4$02hhX}'', args)
     | isa_6502_addressing_zeropage_x_indexed \<Rightarrow>
         Some ([Rcache Value, Rcache Operand1],
           ''CMP $%1$02hhX,X[$%5$02hhX] {$%7$02hhX == $%4$02hhX}'', args)
     | isa_6502_addressing_absolute \<Rightarrow>
         Some ([Rcache Value, Rcache Operand1, Rcache Operand2],
           ''CMP $%1$02hhX%2$02hhX {$%7$02hhX == $%4$02hhX}'', args)
     | isa_6502_addressing_absolute_x_indexed \<Rightarrow>
         Some ([Rcache Value, Rcache Operand1, Rcache Operand2],
           ''CMP $%1$02hhX%2$02hhX,X[$%5$02hhX] {$%7$02hhX == $%4$02hhX}'', args)
     | isa_6502_addressing_absolute_y_indexed \<Rightarrow>
         Some ([Rcache Value, Rcache Operand1, Rcache Operand2],
           ''CMP $%1$02hhX%2$02hhX,Y[$%6$02hhX] {$%7$02hhX == $%4$02hhX}'', args)
     | isa_6502_addressing_x_indexed_indirect \<Rightarrow>
         Some ([Rcache Value, Rcache Operand1, Rcache Operand2, Rcache Operand3],
           ''CMP ($%3$02hhX=$%1$02hhX%2$02hhX,X[$%5$02hhX]) {$%7$02hhX == $%4$02hhX}'', args)
     | isa_6502_addressing_indirect_y_indexed \<Rightarrow>
         Some ([Rcache Value, Rcache Operand1, Rcache Operand2, Rcache Operand3],
           ''CMP ($%3$02hhX[$%1$02hhX%2$02hhX]),Y[$%6$02hhX] {$%7$02hhX == $%4$02hhX}'', args)
     | _ \<Rightarrow> None)"

definition isa_6502_disasm_CPX :: disasm_body where
  "isa_6502_disasm_CPX mode =
    (let args = [Of_var Operand1, Of_var Operand2, Of_X, Of_var Value] in
     case mode of
       isa_6502_addressing_immediate \<Rightarrow>
         Some ([Rcache Value],
           ''CPX #$%4$02hhX {$%4$02hhX == $%3$02hhX}'', args)
     | isa_6502_addressing_zeropage \<Rightarrow>
         Some ([Rcache Value, Rcache Operand1],
           ''CPX $%1$02hhX {$%4$02hhX == $%3$02hhX}'', args)
     | isa_6502_addressing_absolute \<Rightarrow>
         Some ([Rcache Value, Rcache Operand1, Rcache Operand2],
           ''CPX $%1$02hhX%2$02hhX {$%4$02hhX == $%3$02hhX}'', args)
     | _ \<Rightarrow> None)"

definition isa_6502_disasm_CPY :: disasm_body where
  "isa_6502_disasm_CPY mode =
    (let args = [Of_var Operand1, Of_var Operand2, Of_Y, Of_var Value] in
     case mode of
       isa_6502_addressing_immediate \<Rightarrow>
         Some ([Rcache Value],
           ''CPY #$%4$02hhX {$%4$02hhX == $%3$02hhX}'', args)
     | isa_6502_addressing_zeropage \<Rightarrow>
         Some ([Rcache Value, Rcache Operand1],
           ''CPY $%1$02hhX {$%4$02hhX == $%3$02hhX}'', args)
     | isa_6502_addressing_absolute \<Rightarrow>
         Some ([Rcache Value, Rcache Operand1, Rcache Operand2],
           ''CPY $%1$02hhX%2$02hhX {$%4$02hhX == $%3$02hhX}'', args)
     | _ \<Rightarrow> None)"

definition isa_6502_disasm_DEC :: disasm_body where
  "isa_6502_disasm_DEC mode =
    (let args = [Of_var Operand1, Of_var Operand2, Of_A, Of_X, Of_var Value1, Of_var Value2] in
     case mode of
       isa_6502_addressing_zeropage \<Rightarrow>
         Some ([Rcache Value1, Wcache Value2, Rcache Operand1],
           ''DEC $%1$02hhX {$%5$02hhX - 1 = $%6$02hhX}'', args)
     | isa_6502_addressing_zeropage_x_indexed \<Rightarrow>
         Some ([Rcache Value1, Wcache Value2, Rcache Operand1],
           ''DEC $%1$02hhX,X[$%4$02hhX] {$%5$02hhX - 1 = $%6$02hhX}'', args)
     | isa_6502_addressing_absolute \<Rightarrow>
         Some ([Rcache Value1, Wcache Value2, Rcache Operand1, Rcache Operand2],
           ''DEC $%1$02hhX%2$02hhX {$%5$02hhX - 1 = $%6$02hhX}'', args)
     | isa_6502_addressing_absolute_x_indexed \<Rightarrow>
         Some ([Rcache Value1, Wcache Value2, Rcache Operand1, Rcache Operand2],
           ''DEC $%1$02hhX%2$02hhX,X[$%4$02hhX] {$%5$02hhX - 1 = $%6$02hhX}'', args)
     | _ \<Rightarrow> None)"

definition isa_6502_disasm_DEX :: disasm_body where
  "isa_6502_disasm_DEX mode =
     Some ([], ''DEX {X - 1 = $%02hhX}'', [Of_X])"

definition isa_6502_disasm_DEY :: disasm_body where
  "isa_6502_disasm_DEY mode =
     Some ([], ''DEY {Y - 1 = $%02hhX}'', [Of_Y])"

definition isa_6502_disasm_EOR :: disasm_body where
  "isa_6502_disasm_EOR mode =
    (let args = [Of_var Operand1, Of_var Operand2, Of_var Operand3, Of_A, Of_X, Of_Y, Of_var Value] in
     case mode of
       isa_6502_addressing_immediate \<Rightarrow>
         Some ([Rcache Value],
           ''EOR #$%7$02hhX {A ^ $%7$02hhX = $%4$02hhX}'', args)
     | isa_6502_addressing_zeropage \<Rightarrow>
         Some ([Rcache Value, Rcache Operand1],
           ''EOR $%1$02hhX {A ^ $%7$02hhX = $%4$02hhX}'', args)
     | isa_6502_addressing_zeropage_x_indexed \<Rightarrow>
         Some ([Rcache Value, Rcache Operand1],
           ''EOR $%1$02hhX,X {A ^ $%7$02hhX = $%4$02hhX}'', args)
     | isa_6502_addressing_absolute \<Rightarrow>
         Some ([Rcache Value, Rcache Operand1, Rcache Operand2],
           ''EOR $%1$02hhX%2$02hhX {A ^ $%7$02hhX = $%4$02hhX}'', args)
     | isa_6502_addressing_absolute_x_indexed \<Rightarrow>
         Some ([Rcache Value, Rcache Operand1, Rcache Operand2],
           ''EOR $%1$02hhX%2$02hhX,X[$%5$02hhX] {A ^ $%7$02hhX = $%4$02hhX}'', args)
     | isa_6502_addressing_absolute_y_indexed \<Rightarrow>
         Some ([Rcache Value, Rcache Operand1, Rcache Operand2],
           ''EOR $%1$02hhX%2$02hhX,Y[$%6$02hhX] {A ^ $%7$02hhX = $%4$02hhX}'', args)
     | isa_6502_addressing_x_indexed_indirect \<Rightarrow>
         Some ([Rcache Value, Rcache Operand1, Rcache Operand2, Rcache Operand3],
           ''EOR ($%3$02hhX=$%1$02hhX%2$02hhX,X[$%5$02hhX]) {A ^ $%7$02hhX = $%4$02hhX}'', args)
     | isa_6502_addressing_indirect_y_indexed \<Rightarrow>
         Some ([Rcache Value, Rcache Operand1, Rcache Operand2, Rcache Operand3],
           ''EOR ($%3$02hhX[$%1$02hhX%3$02hhX]),Y[$%6$02hhX] {A ^ $%7$02hhX = $%4$02hhX}'', args)
     | _ \<Rightarrow> None)"

definition isa_6502_disasm_INC :: disasm_body where
  "isa_6502_disasm_INC mode =
    (let args = [Of_var Operand1, Of_var Operand2, Of_A, Of_X, Of_var Value1, Of_var Value2] in
     case mode of
       isa_6502_addressing_zeropage \<Rightarrow>
         Some ([Rcache Value1, Wcache Value2, Rcache Operand1],
           ''INC $%1$02hhX {$%5$02hhX + 1 = $%6$02hhX}'', args)
     | isa_6502_addressing_zeropage_x_indexed \<Rightarrow>
         Some ([Rcache Value1, Wcache Value2, Rcache Operand1],
           ''INC $%1$02hhX,X[$%4$02hhX] {$%5$02hhX + 1 = $%6$02hhX}'', args)
     | isa_6502_addressing_absolute \<Rightarrow>
         Some ([Rcache Value1, Wcache Value2, Rcache Operand1, Rcache Operand2],
           ''INC $%1$02hhX%2$02hhX {$%5$02hhX + 1 = $%6$02hhX}'', args)
     | isa_6502_addressing_absolute_x_indexed \<Rightarrow>
         Some ([Rcache Value1, Wcache Value2, Rcache Operand1, Rcache Operand2],
           ''INC $%1$02hhX%2$02hhX,X[$%4$02hhX] {$%5$02hhX + 1 = $%6$02hhX}'', args)
     | _ \<Rightarrow> None)"

definition isa_6502_disasm_INX :: disasm_body where
  "isa_6502_disasm_INX mode =
     Some ([], ''INX {X + 1 = $%02hhX}'', [Of_X])"

definition isa_6502_disasm_INY :: disasm_body where
  "isa_6502_disasm_INY mode =
     Some ([], ''INY {Y + 1 = $%02hhX}'', [Of_Y])"

definition isa_6502_disasm_IRQ :: disasm_body where
  "isa_6502_disasm_IRQ mode =
     Some ([], ''IRQ'', [])"

definition isa_6502_disasm_JMP :: disasm_body where
  "isa_6502_disasm_JMP mode =
    (let args = [Of_var Operand1, Of_var Operand2, Of_var Operand3, Of_var Operand4] in
     case mode of
       isa_6502_addressing_absolute \<Rightarrow>
         Some ([Rcache Operand1, Rcache Operand2],
           ''JMP $%1$02hhX%2$02hhX'', args)
     | isa_6502_addressing_indirect \<Rightarrow>
         Some ([Rcache Operand1, Rcache Operand2, Rcache Operand3, Rcache Operand4],
           ''JMP ($%3$02hhX%4$02hhX[$%1$02hhX%2$02hhX])'', args)
     | _ \<Rightarrow> None)"

definition isa_6502_disasm_JSR :: disasm_body where
  "isa_6502_disasm_JSR mode =
    (let args = [Of_var Operand1, Of_var Operand2, Of_var Operand3, Of_var Operand4] in
     case mode of
       isa_6502_addressing_absolute \<Rightarrow>
         Some ([Rcache Operand1, Rcache Operand2],
           ''JSR $%1$02hhX%2$02hhX'', args)
     | _ \<Rightarrow> None)"

definition isa_6502_disasm_LDA :: disasm_body where
  "isa_6502_disasm_LDA mode =
    (let args = [Of_var Operand1, Of_var Operand2, Of_var Operand3, Of_X, Of_Y, Of_var Value] in
     case mode of
       isa_6502_addressing_immediate \<Rightarrow>
         Some ([Rcache Value],
           ''LDA #$%6$02hhX {A = $%6$02hhX}'', args)
     | isa_6502_addressing_zeropage \<Rightarrow>
         Some ([Rcache Value, Rcache Operand1],
           ''LDA $%1$02hhX {A = $%6$02hhX}'', args)
     | isa_6502_addressing_zeropage_x_indexed \<Rightarrow>
         Some ([Rcache Value, Rcache Operand1],
           ''LDA $%1$02hhX,X {A = $%6$02hhX}'', args)
     | isa_6502_addressing_absolute \<Rightarrow>
         Some ([Rcache Value, Rcache Operand1, Rcache Operand2],
           ''LDA $%1$02hhX%2$02hhX {A = $%6$02hhX}'', args)
     | isa_6502_addressing_absolute_x_indexed \<Rightarrow>
         Some ([Rcache Value, Rcache Operand1, Rcache Operand2],
           ''LDA $%1$02hhX%2$02hhX,X[$%4$02hhX] {A = $%6$02hhX}'', args)
     | isa_6502_addressing_absolute_y_indexed \<Rightarrow>
         Some ([Rcache Value, Rcache Operand1, Rcache Operand2],
           ''LDA $%1$02hhX%2$02hhX,Y[$%5$02hhX] {A = $%6$02hhX}'', args)
     | isa_6502_addressing_x_indexed_indirect \<Rightarrow>
         Some ([Rcache Value, Rcache Operand1, Rcache Operand2, Rcache Operand3],
           ''LDA ($%3$02hhX=$%1$02hhX%2$02hhX,X[$%4$02hhX]) {A = $%6$02hhX}'', args)
     | isa_6502_addressing_indirect_y_indexed \<Rightarrow>
         Some ([Rcache Value, Rcache Operand1, Rcache Operand2, Rcache Operand3],
           ''LDA ($%3$02hhX[$%1$02hhX%2$02hhX]),Y[$%5$02hhX] {A = $%6$02hhX}'', args)
     | _ \<Rightarrow> None)"

definition isa_6502_disasm_LDX :: disasm_body where
  "isa_6502_disasm_LDX mode =
    (let args = [Of_var Operand1, Of_var Operand2, Of_Y, Of_var Value] in
     case mode of
       isa_6502_addressing_immediate \<Rightarrow>
         Some ([Rcache Value],
           ''LDX #$%4$02hhX {X = $%4$02hhX}'', args)
     | isa_6502_addressing_zeropage \<Rightarrow>
         Some ([Rcache Value, Rcache Operand1],
           ''LDX $%1$02hhX {X = $%4$02hhX}'', args)
     | isa_6502_addressing_zeropage_y_indexed \<Rightarrow>
         Some ([Rcache Value, Rcache Operand1],
           ''LDX $%1$02hhX,Y[$%3$02hhX] {X = $%4$02hhX}'', args)
     | isa_6502_addressing_absolute \<Rightarrow>
         Some ([Rcache Value, Rcache Operand1, Rcache Operand2],
           ''LDX $%1$02hhX%2$02hhX {X = $%4$02hhX}'', args)
     | isa_6502_addressing_absolute_y_indexed \<Rightarrow>
         Some ([Rcache Value, Rcache Operand1, Rcache Operand2],
           ''LDX $%1$02hhX%2$02hhX,Y[$%3$02hhX] {X = $%4$02hhX}'', args)
     | _ \<Rightarrow> None)"

definition isa_6502_disasm_LDY :: disasm_body where
  "isa_6502_disasm_LDY mode =
    (let args = [Of_var Operand1, Of_var Operand2, Of_X, Of_var Value] in
     case mode of
       isa_6502_addressing_immediate \<Rightarrow>
         Some ([Rcache Value],
           ''LDY #$%4$02hhX {Y = $%4$02hhX}'', args)
     | isa_6502_addressing_zeropage \<Rightarrow>
         Some ([Rcache Value, Rcache Operand1],
           ''LDY $%1$02hhX {Y = $%4$02hhX}'', args)
     | isa_6502_addressing_zeropage_y_indexed \<Rightarrow>
         Some ([Rcache Value, Rcache Operand1],
           ''LDY $%1$02hhX,X[$%3$02hhX] {Y = $%4$02hhX}'', args)
     | isa_6502_addressing_absolute \<Rightarrow>
         Some ([Rcache Value, Rcache Operand1, Rcache Operand2],
           ''LDY $%1$02hhX%2$02hhX {Y = $%4$02hhX}'', args)
     | isa_6502_addressing_absolute_y_indexed \<Rightarrow>
         Some ([Rcache Value, Rcache Operand1, Rcache Operand2],
           ''LDY $%1$02hhX%2$02hhX,X[$%3$02hhX] {Y = $%4$02hhX}'', args)
     | _ \<Rightarrow> None)"

definition isa_6502_disasm_LSR :: disasm_body where
  "isa_6502_disasm_LSR mode =
    (let args = [Of_var Operand1, Of_var Operand2, Of_A, Of_X, Of_var Value1, Of_var Value2] in
     case mode of
       isa_6502_addressing_accumulator \<Rightarrow>
         Some ([],
           ''LSR A {A >> 1 = $%3$02hhX}'', args)
     | isa_6502_addressing_zeropage \<Rightarrow>
         Some ([Rcache Value1, Wcache Value2, Rcache Operand1],
           ''LSR $%1$02hhX {$%5$02hhX >> 1 = $%6$02hhX}'', args)
     | isa_6502_addressing_zeropage_x_indexed \<Rightarrow>
         Some ([Rcache Value1, Wcache Value2, Rcache Operand1],
           ''LSR $%1$02hhX,X[$%4$02hhX] {$%5$02hhX >> 1 = $%6$02hhX}'', args)
     | isa_6502_addressing_absolute \<Rightarrow>
         Some ([Rcache Value1, Wcache Value2, Rcache Operand1, Rcache Operand2],
           ''LSR $%1$02hhX%2$02hhX {$%5$02hhX >> 1 = $%6$02hhX}'', args)
     | isa_6502_addressing_absolute_x_indexed \<Rightarrow>
         Some ([Rcache Value1, Wcache Value2, Rcache Operand1, Rcache Operand2],
           ''LSR $%1$02hhX%2$02hhX,X[$%4$02hhX] {$%5$02hhX >> 1 = $%6$02hhX}'', args)
     | _ \<Rightarrow> None)"

definition isa_6502_disasm_NMI :: disasm_body where
  "isa_6502_disasm_NMI mode =
     Some ([], ''NMI'', [])"

definition isa_6502_disasm_NOP :: disasm_body where
  "isa_6502_disasm_NOP mode =
     Some ([], ''NOP'', [])"

definition isa_6502_disasm_ORA :: disasm_body where
  "isa_6502_disasm_ORA mode =
    (let args = [Of_var Operand1, Of_var Operand2, Of_var Operand3, Of_A, Of_X, Of_Y, Of_var Value] in
     case mode of
       isa_6502_addressing_immediate \<Rightarrow>
         Some ([Rcache Value],
           ''ORA #$%7$02hhX {A | $%7$02hhX = $%4$02hhX}'', args)
     | isa_6502_addressing_zeropage \<Rightarrow>
         Some ([Rcache Value, Rcache Operand1],
           ''ORA $%1$02hhX {A | $%7$02hhX = $%4$02hhX}'', args)
     | isa_6502_addressing_zeropage_x_indexed \<Rightarrow>
         Some ([Rcache Value, Rcache Operand1],
           ''ORA $%1$02hhX,X {A | $%7$02hhX = $%4$02hhX}'', args)
     | isa_6502_addressing_absolute \<Rightarrow>
         Some ([Rcache Value, Rcache Operand1, Rcache Operand2],
           ''ORA $%1$02hhX%2$02hhX {A | $%7$02hhX = $%4$02hhX}'', args)
     | isa_6502_addressing_absolute_x_indexed \<Rightarrow>
         Some ([Rcache Value, Rcache Operand1, Rcache Operand2],
           ''ORA $%1$02hhX%2$02hhX,X[$%5$02hhX] {A | $%7$02hhX = $%4$02hhX}'', args)
     | isa_6502_addressing_absolute_y_indexed \<Rightarrow>
         Some ([Rcache Value, Rcache Operand1, Rcache Operand2],
           ''ORA $%1$02hhX%2$02hhX,Y[$%6$02hhX] {A | $%7$02hhX = $%4$02hhX}'', args)
     | isa_6502_addressing_x_indexed_indirect \<Rightarrow>
         Some ([Rcache Value, Rcache Operand1, Rcache Operand2, Rcache Operand3],
           ''ORA ($%3$02hhX=$%1$02hhX%2$02hhX,X[$%5$02hhX]) {A | $%7$02hhX = $%4$02hhX}'', args)
     | isa_6502_addressing_indirect_y_indexed \<Rightarrow>
         Some ([Rcache Value, Rcache Operand1, Rcache Operand2, Rcache Operand3],
           ''ORA ($%3$02hhX[$%1$02hhX%3$02hhX]),Y[$%6$02hhX] {A | $%7$02hhX = $%4$02hhX}'', args)
     | _ \<Rightarrow> None)"

definition isa_6502_disasm_PHA :: disasm_body where
  "isa_6502_disasm_PHA mode =
     Some ([], ''PHA'', [])"

definition isa_6502_disasm_PHP :: disasm_body where
  "isa_6502_disasm_PHP mode =
     Some ([], ''PHP'', [])"

definition isa_6502_disasm_PLA :: disasm_body where
  "isa_6502_disasm_PLA mode =
     Some ([], ''PLA'', [])"

definition isa_6502_disasm_PLP :: disasm_body where
  "isa_6502_disasm_PLP mode =
     Some ([], ''PLP'', [])"

definition isa_6502_disasm_RESET :: disasm_body where
  "isa_6502_disasm_RESET mode =
     Some ([], ''RESET'', [])"

definition isa_6502_disasm_ROL :: disasm_body where
  "isa_6502_disasm_ROL mode =
    (let args = [Of_var Operand1, Of_var Operand2, Of_A, Of_X, Of_var Value1, Of_var Value2] in
     case mode of
       isa_6502_addressing_accumulator \<Rightarrow>
         Some ([],
           ''ROL A {(A << 1) | CARRY = $%3$02hhX}'', args)
     | isa_6502_addressing_zeropage \<Rightarrow>
         Some ([Rcache Value1, Wcache Value2, Rcache Operand1],
           ''ROL $%1$02hhX {($%5$02hhX << 1) | CARRY = $%6$02hhX}'', args)
     | isa_6502_addressing_zeropage_x_indexed \<Rightarrow>
         Some ([Rcache Value1, Wcache Value2, Rcache Operand1],
           ''ROL $%1$02hhX,X[$%4$02hhX] {($%5$02hhX << 1) | CARRY = $%6$02hhX}'', args)
     | isa_6502_addressing_absolute \<Rightarrow>
         Some ([Rcache Value1, Wcache Value2, Rcache Operand1, Rcache Operand2],
           ''ROL $%1$02hhX%2$02hhX {($%5$02hhX << 1) | CARRY = $%6$02hhX}'', args)
     | isa_6502_addressing_absolute_x_indexed \<Rightarrow>
         Some ([Rcache Value1, Wcache Value2, Rcache Operand1, Rcache Operand2],
           ''ROL $%1$02hhX%2$02hhX,X[$%4$02hhX] {($%5$02hhX << 1) | CARRY = $%6$02hhX}'', args)
     | _ \<Rightarrow> None)"

definition isa_6502_disasm_ROR :: disasm_body where
  "isa_6502_disasm_ROR mode =
    (let args = [Of_var Operand1, Of_var Operand2, Of_A, Of_X, Of_var Value1, Of_var Value2] in
     case mode of
       isa_6502_addressing_accumulator \<Rightarrow>
         Some ([],
           ''ROR A {(A >> 1) | (CARRY << 7) = $%3$02hhX}'', args)
     | isa_6502_addressing_zeropage \<Rightarrow>
         Some ([Rcache Value1, Wcache Value2, Rcache Operand1],
           ''ROR $%1$02hhX {($%5$02hhX >> 1) | (CARRY << 7) = $%6$02hhX}'', args)
     | isa_6502_addressing_zeropage_x_indexed \<Rightarrow>
         Some ([Rcache Value1, Wcache Value2, Rcache Operand1],
           ''ROR $%1$02hhX,X[$%4$02hhX] {($%5$02hhX >> 1) | (CARRY << 7) = $%6$02hhX}'', args)
     | isa_6502_addressing_absolute \<Rightarrow>
         Some ([Rcache Value1, Wcache Value2, Rcache Operand1, Rcache Operand2],
           ''ROR $%1$02hhX%2$02hhX {($%5$02hhX >> 1) | (CARRY << 7) = $%6$02hhX}'', args)
     | isa_6502_addressing_absolute_x_indexed \<Rightarrow>
         Some ([Rcache Value1, Wcache Value2, Rcache Operand1, Rcache Operand2],
           ''ROR $%1$02hhX%2$02hhX,X[$%4$02hhX] {($%5$02hhX >> 1) | (CARRY << 7) = $%6$02hhX}'', args)
     | _ \<Rightarrow> None)"

definition isa_6502_disasm_RTI :: disasm_body where
  "isa_6502_disasm_RTI mode =
     Some ([], ''RTI [$%04hX]'', [Of_PC])"

definition isa_6502_disasm_RTS :: disasm_body where
  "isa_6502_disasm_RTS mode =
     Some ([], ''RTS [$%04hX]'', [Of_PC])"

definition isa_6502_disasm_SBC :: disasm_body where
  "isa_6502_disasm_SBC mode =
    (let args = [Of_var Operand1, Of_var Operand2, Of_var Operand3, Of_A, Of_X, Of_Y, Of_var Value] in
     case mode of
       isa_6502_addressing_immediate \<Rightarrow>
         Some ([Rcache Value],
           ''SBC #$%7$02hhX {A - $%7$02hhX = $%4$02hhX}'', args)
     | isa_6502_addressing_zeropage \<Rightarrow>
         Some ([Rcache Value, Rcache Operand1],
           ''SBC $%1$02hhX {A - $%7$02hhX = $%4$02hhX}'', args)
     | isa_6502_addressing_zeropage_x_indexed \<Rightarrow>
         Some ([Rcache Value, Rcache Operand1],
           ''SBC $%1$02hhX,X {A - $%7$02hhX = $%4$02hhX}'', args)
     | isa_6502_addressing_absolute \<Rightarrow>
         Some ([Rcache Value, Rcache Operand1, Rcache Operand2],
           ''SBC $%1$02hhX%2$02hhX {A - $%7$02hhX = $%4$02hhX}'', args)
     | isa_6502_addressing_absolute_x_indexed \<Rightarrow>
         Some ([Rcache Value, Rcache Operand1, Rcache Operand2],
           ''SBC $%1$02hhX%2$02hhX,X[$%5$02hhX] {A - $%7$02hhX = $%4$02hhX}'', args)
     | isa_6502_addressing_absolute_y_indexed \<Rightarrow>
         Some ([Rcache Value, Rcache Operand1, Rcache Operand2],
           ''SBC $%1$02hhX%2$02hhX,Y[$%6$02hhX] {A - $%7$02hhX = $%4$02hhX}'', args)
     | isa_6502_addressing_x_indexed_indirect \<Rightarrow>
         Some ([Rcache Value, Rcache Operand1, Rcache Operand2, Rcache Operand3],
           ''SBC ($%3$02hhX=$%1$02hhX%2$02hhX,X[$%5$02hhX]) {A - $%7$02hhX = $%4$02hhX}'', args)
     | isa_6502_addressing_indirect_y_indexed \<Rightarrow>
         Some ([Rcache Value, Rcache Operand1, Rcache Operand2, Rcache Operand3],
           ''SBC ($%3$02hhX[$%1$02hhX%2$02hhX]),Y[$%6$02hhX] {A - $%7$02hhX = $%4$02hhX}'', args)
     | _ \<Rightarrow> None)"

definition isa_6502_disasm_SEC :: disasm_body where
  "isa_6502_disasm_SEC mode =
     Some ([], ''SEC'', [])"

definition isa_6502_disasm_SED :: disasm_body where
  "isa_6502_disasm_SED mode =
     Some ([], ''SED'', [])"

definition isa_6502_disasm_SEI :: disasm_body where
  "isa_6502_disasm_SEI mode =
     Some ([], ''SEI'', [])"

definition isa_6502_disasm_STA :: disasm_body where
  "isa_6502_disasm_STA mode =
    (let args = [Of_var Operand1, Of_var Operand2, Of_var Operand3, Of_X, Of_Y, Of_var Value] in
     case mode of
       isa_6502_addressing_zeropage \<Rightarrow>
         Some ([Wcache Value, Rcache Operand1],
           ''STA $%1$02hhX {<= $%6$02hhX}'', args)
     | isa_6502_addressing_zeropage_x_indexed \<Rightarrow>
         Some ([Wcache Value, Rcache Operand1],
           ''STA $%1$02hhX,X {<= $%6$02hhX}'', args)
     | isa_6502_addressing_absolute \<Rightarrow>
         Some ([Wcache Value, Rcache Operand1, Rcache Operand2],
           ''STA $%1$02hhX%2$02hhX {<= $%6$02hhX}'', args)
     | isa_6502_addressing_absolute_x_indexed \<Rightarrow>
         Some ([Wcache Value, Rcache Operand1, Rcache Operand2],
           ''STA $%1$02hhX%2$02hhX,X[$%4$02hhX] {<= $%6$02hhX}'', args)
     | isa_6502_addressing_absolute_y_indexed \<Rightarrow>
         Some ([Wcache Value, Rcache Operand1, Rcache Operand2],
           ''STA $%1$02hhX%2$02hhX,Y[$%5$02hhX] {<= $%6$02hhX}'', args)
     | isa_6502_addressing_x_indexed_indirect \<Rightarrow>
         Some ([Wcache Value, Rcache Operand1, Rcache Operand2, Rcache Operand3],
           ''STA ($%3$02hhX=$%1$02hhX%2$02hhX,X[$%4$02hhX]) {<= $%6$02hhX}'', args)
     | isa_6502_addressing_indirect_y_indexed \<Rightarrow>
         Some ([Wcache Value, Rcache Operand1, Rcache Operand2, Rcache Operand3],
           ''STA ($%3$02hhX[$%1$02hhX%2$02hhX]),Y[$%5$02hhX] {<= $%6$02hhX}'', args)
     | _ \<Rightarrow> None)"

definition isa_6502_disasm_STX :: disasm_body where
  "isa_6502_disasm_STX mode =
    (let args = [Of_var Operand1, Of_var Operand2, Of_X, Of_X] in
     case mode of
       isa_6502_addressing_zeropage \<Rightarrow>
         Some ([Rcache Operand1],
           ''STX $%1$02hhX {<= X=$%4$02hhX}'', args)
     | isa_6502_addressing_zeropage_y_indexed \<Rightarrow>
         Some ([Rcache Operand1],
           ''STX $%1$02hhX,Y[$%3$02hhX] {<= X=$%4$02hhX}'', args)
     | isa_6502_addressing_absolute \<Rightarrow>
         Some ([Rcache Operand1, Rcache Operand2],
           ''STX $%1$02hhX%2$02hhX {<= X=$%4$02hhX}'', args)
     | _ \<Rightarrow> None)"

definition isa_6502_disasm_STY :: disasm_body where
  "isa_6502_disasm_STY mode =
    (let args = [Of_var Operand1, Of_var Operand2, Of_X, Of_Y] in
     case mode of
       isa_6502_addressing_zeropage \<Rightarrow>
         Some ([Rcache Operand1],
           ''STY $%1$02hhX {<= Y=$%4$02hhX}'', args)
     | isa_6502_addressing_zeropage_x_indexed \<Rightarrow>
         Some ([Rcache Operand1],
           ''STY $%1$02hhX,X[$%3$02hhX] {<= Y=$%4$02hhX}'', args)
     | isa_6502_addressing_absolute \<Rightarrow>
         Some ([Rcache Operand1, Rcache Operand2],
           ''STY $%1$02hhX%2$02hhX {<= Y=$%4$02hhX}'', args)
     | _ \<Rightarrow> None)"

definition isa_6502_disasm_TAX :: disasm_body where
  "isa_6502_disasm_TAX mode =
     Some ([], ''TAX'', [])"

definition isa_6502_disasm_TAY :: disasm_body where
  "isa_6502_disasm_TAY mode =
     Some ([], ''TAY'', [])"

definition isa_6502_disasm_TSX :: disasm_body where
  "isa_6502_disasm_TSX mode =
     Some ([], ''TSX'', [])"

definition isa_6502_disasm_TXA :: disasm_body where
  "isa_6502_disasm_TXA mode =
     Some ([], ''TXA'', [])"

definition isa_6502_disasm_TXS :: disasm_body where
  "isa_6502_disasm_TXS mode =
     Some ([], ''TXS'', [])"

definition isa_6502_disasm_TYA :: disasm_body where
  "isa_6502_disasm_TYA mode =
     Some ([], ''TYA'', [])"

end
