(* ===== verification/Isa65_Table.thy ===== *)
theory Isa65_Table
  imports Isa_Table
begin

text \<open>
  The dispatch table of the 65C02, \<^verbatim>\<open>__isa_65C02_table\<close> in \<^verbatim>\<open>src/isa_6502.c\<close>, entry by entry, and the choice
  of a dialect.  Where the function of an entry is a macro for one of the base dialect, the entry names
  that function.
\<close>

definition table65_block_0 :: "isa_6502_opcode_dispatch list list" where
  "table65_block_0 = [
    [entry (op_65C02 c02_BRK) ''BRK'' ''BRK'' isa_6502_addressing_implied,
     entry (op_65C02 c02_TSB) ''TSB'' ''TSB $XX'' isa_6502_addressing_zeropage,
     entry op_PHP ''PHP'' ''PHP'' isa_6502_addressing_implied,
     entry (op_65C02 c02_TSB) ''TSB'' ''TSB $XXXX'' isa_6502_addressing_absolute,
     entry op_BPL ''BPL'' ''BPL $XX'' isa_6502_addressing_relative,
     entry (op_65C02 c02_TRB) ''TRB'' ''TRB $XX'' isa_6502_addressing_zeropage,
     entry op_CLC ''CLC'' ''CLC'' isa_6502_addressing_implied,
     entry (op_65C02 c02_TRB) ''TRB'' ''TRB $XXXX'' isa_6502_addressing_absolute],
    [entry op_JSR ''JSR'' ''JSR $XXXX'' isa_6502_addressing_absolute,
     entry (op_65C02 c02_BIT) ''BIT'' ''BIT $XX'' isa_6502_addressing_zeropage,
     entry op_PLP ''PLP'' ''PLP'' isa_6502_addressing_implied,
     entry (op_65C02 c02_BIT) ''BIT'' ''BIT $XXXX'' isa_6502_addressing_absolute,
     entry op_BMI ''BMI'' ''BMI $XX'' isa_6502_addressing_relative,
     entry (op_65C02 c02_BIT) ''BIT'' ''BIT $XX,X'' isa_6502_addressing_zeropage_x_indexed,
     entry op_SEC ''SEC'' ''SEC'' isa_6502_addressing_implied,
     entry (op_65C02 c02_BIT) ''BIT'' ''BIT $XXXX,X'' isa_6502_addressing_absolute_x_indexed],
    [entry op_RTI ''RTI'' ''RTI'' isa_6502_addressing_implied,
     UNUSED_OPCODE,
     entry op_PHA ''PHA'' ''PHA'' isa_6502_addressing_implied,
     entry (op_65C02 c02_JMP) ''JMP'' ''JMP $XXXX'' isa_6502_addressing_absolute,
     entry op_BVC ''BVC'' ''BVC $XX'' isa_6502_addressing_relative,
     UNUSED_OPCODE,
     entry op_CLI ''CLI'' ''CLI'' isa_6502_addressing_implied,
     UNUSED_OPCODE],
    [entry op_RTS ''RTS'' ''RTS'' isa_6502_addressing_implied,
     entry (op_65C02 c02_STZ) ''STZ'' ''STZ $XX'' isa_6502_addressing_zeropage,
     entry op_PLA ''PLA'' ''PLA'' isa_6502_addressing_implied,
     entry (op_65C02 c02_JMP) ''JMP'' ''JMP ($XXXX)'' isa_6502_addressing_indirect,
     entry op_BVS ''BVS'' ''BVS $XX'' isa_6502_addressing_relative,
     entry (op_65C02 c02_STZ) ''STZ'' ''STZ $XX,X'' isa_6502_addressing_zeropage_x_indexed,
     entry op_SEI ''SEI'' ''SEI'' isa_6502_addressing_implied,
     entry (op_65C02 c02_JMP) ''JMP'' ''JMP ($XXXX,X)'' isa_6502_addressing_absolute_x_indexed_indirect],
    [entry (op_65C02 c02_BRA) ''BRA'' ''BRA $XX'' isa_6502_addressing_relative,
     entry op_STY ''STY'' ''STY $XX'' isa_6502_addressing_zeropage,
     entry op_DEY ''DEY'' ''DEY'' isa_6502_addressing_implied,
     entry op_STY ''STY'' ''STY $XXXX'' isa_6502_addressing_absolute,
     entry op_BCC ''BCC'' ''BCC $XX'' isa_6502_addressing_relative,
     entry op_STY ''STY'' ''STY $XX,X'' isa_6502_addressing_zeropage_x_indexed,
     entry op_TYA ''TYA'' ''TYA'' isa_6502_addressing_implied,
     entry (op_65C02 c02_STZ) ''STZ'' ''STZ $XXXX'' isa_6502_addressing_absolute],
    [entry op_LDY ''LDY'' ''LDY #$XX'' isa_6502_addressing_immediate,
     entry op_LDY ''LDY'' ''LDY $XX'' isa_6502_addressing_zeropage,
     entry op_TAY ''TAY'' ''TAY'' isa_6502_addressing_implied,
     entry op_LDY ''LDY'' ''LDY $XXXX'' isa_6502_addressing_absolute,
     entry op_BCS ''BCS'' ''BCS $XX'' isa_6502_addressing_relative,
     entry op_LDY ''LDY'' ''LDY $XX,X'' isa_6502_addressing_zeropage_x_indexed,
     entry op_CLV ''CLV'' ''CLV'' isa_6502_addressing_implied,
     entry op_LDY ''LDY'' ''LDY $XXXX,X'' isa_6502_addressing_absolute_x_indexed],
    [entry op_CPY ''CPY'' ''CPY #$XX'' isa_6502_addressing_immediate,
     entry op_CPY ''CPY'' ''CPY $XX'' isa_6502_addressing_zeropage,
     entry op_INY ''INY'' ''INY'' isa_6502_addressing_implied,
     entry op_CPY ''CPY'' ''CPY $XXXX'' isa_6502_addressing_absolute,
     entry op_BNE ''BNE'' ''BNE $XX'' isa_6502_addressing_relative,
     UNUSED_OPCODE,
     entry op_CLD ''CLD'' ''CLD'' isa_6502_addressing_implied,
     UNUSED_OPCODE],
    [entry op_CPX ''CPX'' ''CPX #$XX'' isa_6502_addressing_immediate,
     entry op_CPX ''CPX'' ''CPX $XX'' isa_6502_addressing_zeropage,
     entry op_INX ''INX'' ''INX'' isa_6502_addressing_implied,
     entry op_CPX ''CPX'' ''CPX $XXXX'' isa_6502_addressing_absolute,
     entry op_BEQ ''BEQ'' ''BEQ $XX'' isa_6502_addressing_relative,
     UNUSED_OPCODE,
     entry op_SED ''SED'' ''SED'' isa_6502_addressing_implied,
     UNUSED_OPCODE]]"

definition table65_block_1 :: "isa_6502_opcode_dispatch list list" where
  "table65_block_1 = [
    [entry (op_65C02 c02_ORA) ''ORA'' ''ORA ($XX,X)'' isa_6502_addressing_x_indexed_indirect,
     entry (op_65C02 c02_ORA) ''ORA'' ''ORA $XX'' isa_6502_addressing_zeropage,
     entry (op_65C02 c02_ORA) ''ORA'' ''ORA #$XX'' isa_6502_addressing_immediate,
     entry (op_65C02 c02_ORA) ''ORA'' ''ORA $XXXX'' isa_6502_addressing_absolute,
     entry (op_65C02 c02_ORA) ''ORA'' ''ORA ($XX),Y'' isa_6502_addressing_indirect_y_indexed,
     entry (op_65C02 c02_ORA) ''ORA'' ''ORA $XX,X'' isa_6502_addressing_zeropage_x_indexed,
     entry (op_65C02 c02_ORA) ''ORA'' ''ORA $XXXX,Y'' isa_6502_addressing_absolute_y_indexed,
     entry (op_65C02 c02_ORA) ''ORA'' ''ORA $XXXX,X'' isa_6502_addressing_absolute_x_indexed],
    [entry (op_65C02 c02_AND) ''AND'' ''AND ($XX,X)'' isa_6502_addressing_x_indexed_indirect,
     entry (op_65C02 c02_AND) ''AND'' ''AND $XX'' isa_6502_addressing_zeropage,
     entry (op_65C02 c02_AND) ''AND'' ''AND #$XX'' isa_6502_addressing_immediate,
     entry (op_65C02 c02_AND) ''AND'' ''AND $XXXX'' isa_6502_addressing_absolute,
     entry (op_65C02 c02_AND) ''AND'' ''AND ($XX),Y'' isa_6502_addressing_indirect_y_indexed,
     entry (op_65C02 c02_AND) ''AND'' ''AND $XX,X'' isa_6502_addressing_zeropage_x_indexed,
     entry (op_65C02 c02_AND) ''AND'' ''AND $XXXX,Y'' isa_6502_addressing_absolute_y_indexed,
     entry (op_65C02 c02_AND) ''AND'' ''AND $XXXX,X'' isa_6502_addressing_absolute_x_indexed],
    [entry (op_65C02 c02_EOR) ''EOR'' ''EOR ($XX,X)'' isa_6502_addressing_x_indexed_indirect,
     entry (op_65C02 c02_EOR) ''EOR'' ''EOR $XX'' isa_6502_addressing_zeropage,
     entry (op_65C02 c02_EOR) ''EOR'' ''EOR #$XX'' isa_6502_addressing_immediate,
     entry (op_65C02 c02_EOR) ''EOR'' ''EOR $XXXX'' isa_6502_addressing_absolute,
     entry (op_65C02 c02_EOR) ''EOR'' ''EOR ($XX),Y'' isa_6502_addressing_indirect_y_indexed,
     entry (op_65C02 c02_EOR) ''EOR'' ''EOR $XX,X'' isa_6502_addressing_zeropage_x_indexed,
     entry (op_65C02 c02_EOR) ''EOR'' ''EOR $XXXX,Y'' isa_6502_addressing_absolute_y_indexed,
     entry (op_65C02 c02_EOR) ''EOR'' ''EOR $XXXX,X'' isa_6502_addressing_absolute_x_indexed],
    [entry (op_65C02 c02_ADC) ''ADC'' ''ADC ($XX,X)'' isa_6502_addressing_x_indexed_indirect,
     entry (op_65C02 c02_ADC) ''ADC'' ''ADC $XX'' isa_6502_addressing_zeropage,
     entry (op_65C02 c02_ADC) ''ADC'' ''ADC #$XX'' isa_6502_addressing_immediate,
     entry (op_65C02 c02_ADC) ''ADC'' ''ADC $XXXX'' isa_6502_addressing_absolute,
     entry (op_65C02 c02_ADC) ''ADC'' ''ADC ($XX),Y'' isa_6502_addressing_indirect_y_indexed,
     entry (op_65C02 c02_ADC) ''ADC'' ''ADC $XX,X'' isa_6502_addressing_zeropage_x_indexed,
     entry (op_65C02 c02_ADC) ''ADC'' ''ADC $XXXX,Y'' isa_6502_addressing_absolute_y_indexed,
     entry (op_65C02 c02_ADC) ''ADC'' ''ADC $XXXX,X'' isa_6502_addressing_absolute_x_indexed],
    [entry (op_65C02 c02_STA) ''STA'' ''STA ($XX,X)'' isa_6502_addressing_x_indexed_indirect,
     entry (op_65C02 c02_STA) ''STA'' ''STA $XX'' isa_6502_addressing_zeropage,
     entry (op_65C02 c02_BIT) ''BIT'' ''BIT #$XX'' isa_6502_addressing_immediate,
     entry (op_65C02 c02_STA) ''STA'' ''STA $XXXX'' isa_6502_addressing_absolute,
     entry (op_65C02 c02_STA) ''STA'' ''STA ($XX),Y'' isa_6502_addressing_indirect_y_indexed,
     entry (op_65C02 c02_STA) ''STA'' ''STA $XX,X'' isa_6502_addressing_zeropage_x_indexed,
     entry (op_65C02 c02_STA) ''STA'' ''STA $XXXX,Y'' isa_6502_addressing_absolute_y_indexed,
     entry (op_65C02 c02_STA) ''STA'' ''STA $XXXX,X'' isa_6502_addressing_absolute_x_indexed],
    [entry (op_65C02 c02_LDA) ''LDA'' ''LDA ($XX,X)'' isa_6502_addressing_x_indexed_indirect,
     entry (op_65C02 c02_LDA) ''LDA'' ''LDA $XX'' isa_6502_addressing_zeropage,
     entry (op_65C02 c02_LDA) ''LDA'' ''LDA #$XX'' isa_6502_addressing_immediate,
     entry (op_65C02 c02_LDA) ''LDA'' ''LDA $XXXX'' isa_6502_addressing_absolute,
     entry (op_65C02 c02_LDA) ''LDA'' ''LDA ($XX),Y'' isa_6502_addressing_indirect_y_indexed,
     entry (op_65C02 c02_LDA) ''LDA'' ''LDA $XX,X'' isa_6502_addressing_zeropage_x_indexed,
     entry (op_65C02 c02_LDA) ''LDA'' ''LDA $XXXX,Y'' isa_6502_addressing_absolute_y_indexed,
     entry (op_65C02 c02_LDA) ''LDA'' ''LDA $XXXX,X'' isa_6502_addressing_absolute_x_indexed],
    [entry (op_65C02 c02_CMP) ''CMP'' ''CMP ($XX,X)'' isa_6502_addressing_x_indexed_indirect,
     entry (op_65C02 c02_CMP) ''CMP'' ''CMP $XX'' isa_6502_addressing_zeropage,
     entry (op_65C02 c02_CMP) ''CMP'' ''CMP #$XX'' isa_6502_addressing_immediate,
     entry (op_65C02 c02_CMP) ''CMP'' ''CMP $XXXX'' isa_6502_addressing_absolute,
     entry (op_65C02 c02_CMP) ''CMP'' ''CMP ($XX),Y'' isa_6502_addressing_indirect_y_indexed,
     entry (op_65C02 c02_CMP) ''CMP'' ''CMP $XX,X'' isa_6502_addressing_zeropage_x_indexed,
     entry (op_65C02 c02_CMP) ''CMP'' ''CMP $XXXX,Y'' isa_6502_addressing_absolute_y_indexed,
     entry (op_65C02 c02_CMP) ''CMP'' ''CMP $XXXX,X'' isa_6502_addressing_absolute_x_indexed],
    [entry (op_65C02 c02_SBC) ''SBC'' ''SBC ($XX,X)'' isa_6502_addressing_x_indexed_indirect,
     entry (op_65C02 c02_SBC) ''SBC'' ''SBC $XX'' isa_6502_addressing_zeropage,
     entry (op_65C02 c02_SBC) ''SBC'' ''SBC #$XX'' isa_6502_addressing_immediate,
     entry (op_65C02 c02_SBC) ''SBC'' ''SBC $XXXX'' isa_6502_addressing_absolute,
     entry (op_65C02 c02_SBC) ''SBC'' ''SBC ($XX),Y'' isa_6502_addressing_indirect_y_indexed,
     entry (op_65C02 c02_SBC) ''SBC'' ''SBC $XX,X'' isa_6502_addressing_zeropage_x_indexed,
     entry (op_65C02 c02_SBC) ''SBC'' ''SBC $XXXX,Y'' isa_6502_addressing_absolute_y_indexed,
     entry (op_65C02 c02_SBC) ''SBC'' ''SBC $XXXX,X'' isa_6502_addressing_absolute_x_indexed]]"

definition table65_block_2 :: "isa_6502_opcode_dispatch list list" where
  "table65_block_2 = [
    [UNUSED_OPCODE,
     entry (op_65C02 c02_ASL) ''ASL'' ''ASL $XX'' isa_6502_addressing_zeropage,
     entry (op_65C02 c02_ASL) ''ASL'' ''ASL A'' isa_6502_addressing_accumulator,
     entry (op_65C02 c02_ASL) ''ASL'' ''ASL $XXXX'' isa_6502_addressing_absolute,
     entry (op_65C02 c02_ORA) ''ORA'' ''ORA ($XX)'' isa_6502_addressing_zeropage_indirect,
     entry (op_65C02 c02_ASL) ''ASL'' ''ASL $XX,X'' isa_6502_addressing_zeropage_x_indexed,
     entry (op_65C02 c02_INC) ''INC'' ''INC A'' isa_6502_addressing_accumulator,
     entry (op_65C02 c02_ASL) ''ASL'' ''ASL $XXXX,X'' isa_6502_addressing_absolute_x_indexed],
    [UNUSED_OPCODE,
     entry (op_65C02 c02_ROL) ''ROL'' ''ROL $XX'' isa_6502_addressing_zeropage,
     entry (op_65C02 c02_ROL) ''ROL'' ''ROL A'' isa_6502_addressing_accumulator,
     entry (op_65C02 c02_ROL) ''ROL'' ''ROL $XXXX'' isa_6502_addressing_absolute,
     entry (op_65C02 c02_AND) ''AND'' ''AND ($XX)'' isa_6502_addressing_zeropage_indirect,
     entry (op_65C02 c02_ROL) ''ROL'' ''ROL $XX,X'' isa_6502_addressing_zeropage_x_indexed,
     entry (op_65C02 c02_DEC) ''DEC'' ''DEC A'' isa_6502_addressing_accumulator,
     entry (op_65C02 c02_ROL) ''ROL'' ''ROL $XXXX,X'' isa_6502_addressing_absolute_x_indexed],
    [UNUSED_OPCODE,
     entry (op_65C02 c02_LSR) ''LSR'' ''LSR $XX'' isa_6502_addressing_zeropage,
     entry (op_65C02 c02_LSR) ''LSR'' ''LSR A'' isa_6502_addressing_accumulator,
     entry (op_65C02 c02_LSR) ''LSR'' ''LSR $XXXX'' isa_6502_addressing_absolute,
     entry (op_65C02 c02_EOR) ''EOR'' ''EOR ($XX)'' isa_6502_addressing_zeropage_indirect,
     entry (op_65C02 c02_LSR) ''LSR'' ''LSR $XX,X'' isa_6502_addressing_zeropage_x_indexed,
     entry (op_65C02 c02_PHY) ''PHY'' ''PHY'' isa_6502_addressing_implied,
     entry (op_65C02 c02_LSR) ''LSR'' ''LSR $XXXX,X'' isa_6502_addressing_absolute_x_indexed],
    [UNUSED_OPCODE,
     entry (op_65C02 c02_ROR) ''ROR'' ''ROR $XX'' isa_6502_addressing_zeropage,
     entry (op_65C02 c02_ROR) ''ROR'' ''ROR A'' isa_6502_addressing_accumulator,
     entry (op_65C02 c02_ROR) ''ROR'' ''ROR $XXXX'' isa_6502_addressing_absolute,
     entry (op_65C02 c02_ADC) ''ADC'' ''ADC ($XX)'' isa_6502_addressing_zeropage_indirect,
     entry (op_65C02 c02_ROR) ''ROR'' ''ROR $XX,X'' isa_6502_addressing_zeropage_x_indexed,
     entry (op_65C02 c02_PLY) ''PLY'' ''PLY'' isa_6502_addressing_implied,
     entry (op_65C02 c02_ROR) ''ROR'' ''ROR $XXXX,X'' isa_6502_addressing_absolute_x_indexed],
    [UNUSED_OPCODE,
     entry op_STX ''STX'' ''STX $XX'' isa_6502_addressing_zeropage,
     entry op_TXA ''TXA'' ''TXA'' isa_6502_addressing_implied,
     entry op_STX ''STX'' ''STX $XXXX'' isa_6502_addressing_absolute,
     entry (op_65C02 c02_STA) ''STA'' ''STA ($XX)'' isa_6502_addressing_zeropage_indirect,
     entry op_STX ''STX'' ''STX $XX,Y'' isa_6502_addressing_zeropage_y_indexed,
     entry op_TXS ''TXS'' ''TXS'' isa_6502_addressing_implied,
     entry (op_65C02 c02_STZ) ''STZ'' ''STZ $XXXX,X'' isa_6502_addressing_absolute_x_indexed],
    [entry op_LDX ''LDX'' ''LDX #$XX'' isa_6502_addressing_immediate,
     entry op_LDX ''LDX'' ''LDX $XX'' isa_6502_addressing_zeropage,
     entry op_TAX ''TAX'' ''TAX'' isa_6502_addressing_implied,
     entry op_LDX ''LDX'' ''LDX $XXXX'' isa_6502_addressing_absolute,
     entry (op_65C02 c02_LDA) ''LDA'' ''LDA ($XX)'' isa_6502_addressing_zeropage_indirect,
     entry op_LDX ''LDX'' ''LDX $XX,Y'' isa_6502_addressing_zeropage_y_indexed,
     entry op_TSX ''TSX'' ''TSX'' isa_6502_addressing_implied,
     entry op_LDX ''LDX'' ''LDX $XXXX,Y'' isa_6502_addressing_absolute_y_indexed],
    [UNUSED_OPCODE,
     entry (op_65C02 c02_DEC) ''DEC'' ''DEC $XX'' isa_6502_addressing_zeropage,
     entry op_DEX ''DEX'' ''DEX'' isa_6502_addressing_implied,
     entry (op_65C02 c02_DEC) ''DEC'' ''DEC $XXXX'' isa_6502_addressing_absolute,
     entry (op_65C02 c02_CMP) ''CMP'' ''CMP ($XX)'' isa_6502_addressing_zeropage_indirect,
     entry (op_65C02 c02_DEC) ''DEC'' ''DEC $XX,X'' isa_6502_addressing_zeropage_x_indexed,
     entry (op_65C02 c02_PHX) ''PHX'' ''PHX'' isa_6502_addressing_implied,
     entry (op_65C02 c02_DEC) ''DEC'' ''DEC $XXXX,X'' isa_6502_addressing_absolute_x_indexed],
    [UNUSED_OPCODE,
     entry (op_65C02 c02_INC) ''INC'' ''INC $XX'' isa_6502_addressing_zeropage,
     entry op_NOP ''NOP'' ''NOP'' isa_6502_addressing_implied,
     entry (op_65C02 c02_INC) ''INC'' ''INC $XXXX'' isa_6502_addressing_absolute,
     entry (op_65C02 c02_SBC) ''SBC'' ''SBC ($XX)'' isa_6502_addressing_zeropage_indirect,
     entry (op_65C02 c02_INC) ''INC'' ''INC $XX,X'' isa_6502_addressing_zeropage_x_indexed,
     entry (op_65C02 c02_PLX) ''PLX'' ''PLX'' isa_6502_addressing_implied,
     entry (op_65C02 c02_INC) ''INC'' ''INC $XXXX,X'' isa_6502_addressing_absolute_x_indexed]]"

definition isa_65C02_table :: isa_6502_table where
  "isa_65C02_table =
    \<lparr>table = [table65_block_0, table65_block_1, table65_block_2,
              replicate 8 (replicate 8 zero_dispatch)],
     table_nmi = Some (op_65C02 c02_NMI), table_irq = Some (op_65C02 c02_IRQ),
     table_reset = Some (op_65C02 c02_RESET)\<rparr>"

text \<open>The dialects: a known one copies its table over the target, an unknown one gives null.\<close>

datatype isa_6502_dialect = isa_6502_dialect_base | isa_6502_dialect_65C02 | other_dialect int

definition isa_6502_table_init ::
    "isa_6502_table option \<Rightarrow> isa_6502_dialect \<Rightarrow> isa_6502_table option" where
  "isa_6502_table_init isa_table use_dialect =
    (case use_dialect of
       isa_6502_dialect_base \<Rightarrow> Some isa_6502_base_table
     | isa_6502_dialect_65C02 \<Rightarrow> Some isa_65C02_table
     | other_dialect _ \<Rightarrow> None)"

text \<open>Its fourth block is not initialised either.\<close>

lemma lookup65_block_3:
  "b AND 0x03 = 0x03 \<Longrightarrow> isa_6502_table_lookup_dispatch isa_65C02_table b = zero_dispatch"
  using opcode_A_bound [of b] opcode_B_bound [of b]
  by (simp add: isa_6502_table_lookup_dispatch_def isa_65C02_table_def opcode_C_def)

end
