(* ===== verification/Isa65_Disasm.thy ===== *)
theory Isa65_Disasm
  imports Isa_Disasm Isa65_Table
begin

text \<open>
  The disassembly functions of the 65C02, \<^verbatim>\<open>ISA_65C02_DISASM(X)\<close> in \<^verbatim>\<open>src/isa_65C02/X.c\<close>, and those of
  the entries of the dispatch tables.
\<close>

definition isa_65C02_disasm_ADC :: disasm_body where
  "isa_65C02_disasm_ADC mode =
    (let args = [Of_var Operand1, Of_var Operand2, Of_var Operand3, Of_A, Of_X, Of_Y, Of_var Value] in
     case mode of
       isa_6502_addressing_immediate \<Rightarrow>
         Some ([Rcache Value],
           ''ADC #$%7$02hhX {A + $%7$02hhX = $%4$02hhX}'', args)
     | isa_6502_addressing_zeropage \<Rightarrow>
         Some ([Rcache Value, Rcache Operand1],
           ''ADC $%1$02hhX {A + $%7$02hhX = $%4$02hhX}'', args)
     | isa_6502_addressing_zeropage_x_indexed \<Rightarrow>
         Some ([Rcache Value, Rcache Operand1],
           ''ADC $%1$02hhX,X[$%5$02hhX] {A + $%7$02hhX = $%4$02hhX}'', args)
     | isa_6502_addressing_zeropage_indirect \<Rightarrow>
         Some ([Rcache Value, Rcache Operand1],
           ''ADC ($%3$02hhX=$%1$02hhX%2$02hhX) {A + $%7$02hhX = $%4$02hhX}'', args)
     | isa_6502_addressing_absolute \<Rightarrow>
         Some ([Rcache Value, Rcache Operand1, Rcache Operand2],
           ''ADC $%1$02hhX%2$02hhX {A + $%7$02hhX = $%4$02hhX}'', args)
     | isa_6502_addressing_absolute_x_indexed \<Rightarrow>
         Some ([Rcache Value, Rcache Operand1, Rcache Operand2],
           ''ADC $%1$02hhX%2$02hhX,X[$%5$02hhX] {A + $%7$02hhX = $%4$02hhX}'', args)
     | isa_6502_addressing_absolute_y_indexed \<Rightarrow>
         Some ([Rcache Value, Rcache Operand1, Rcache Operand2],
           ''ADC $%1$02hhX%2$02hhX,Y[$%6$02hhX] {A + $%7$02hhX = $%4$02hhX}'', args)
     | isa_6502_addressing_x_indexed_indirect \<Rightarrow>
         Some ([Rcache Value, Rcache Operand1, Rcache Operand2, Rcache Operand3],
           ''ADC ($%3$02hhX=$%1$02hhX%2$02hhX,X[$%5$02hhX]) {A + $%7$02hhX = $%4$02hhX}'', args)
     | isa_6502_addressing_indirect_y_indexed \<Rightarrow>
         Some ([Rcache Value, Rcache Operand1, Rcache Operand2, Rcache Operand3],
           ''ADC ($%3$02hhX[$%1$02hhX%2$02hhX]),Y[$%6$02hhX] {A + $%7$02hhX = $%4$02hhX}'', args)
     | _ \<Rightarrow> None)"

definition isa_65C02_disasm_AND :: disasm_body where
  "isa_65C02_disasm_AND mode =
    (let args = [Of_var Operand1, Of_var Operand2, Of_var Operand3, Of_A, Of_X, Of_Y, Of_var Value] in
     case mode of
       isa_6502_addressing_immediate \<Rightarrow>
         Some ([Rcache Value],
           ''AND #$%7$02hhX {A & $%7$02hhX = $%4$02hhX}'', args)
     | isa_6502_addressing_zeropage \<Rightarrow>
         Some ([Rcache Value, Rcache Operand1],
           ''AND $%1$02hhX {A & $%7$02hhX = $%4$02hhX}'', args)
     | isa_6502_addressing_zeropage_x_indexed \<Rightarrow>
         Some ([Rcache Value, Rcache Operand1],
           ''AND $%1$02hhX,X[$%5$02hhX] {A & $%7$02hhX = $%4$02hhX}'', args)
     | isa_6502_addressing_zeropage_indirect \<Rightarrow>
         Some ([Rcache Value, Rcache Operand1],
           ''AND ($%3$02hhX=$%1$02hhX%2$02hhX) {A & $%7$02hhX = $%4$02hhX}'', args)
     | isa_6502_addressing_absolute \<Rightarrow>
         Some ([Rcache Value, Rcache Operand1, Rcache Operand2],
           ''AND $%1$02hhX%2$02hhX {A & $%7$02hhX = $%4$02hhX}'', args)
     | isa_6502_addressing_absolute_x_indexed \<Rightarrow>
         Some ([Rcache Value, Rcache Operand1, Rcache Operand2],
           ''AND $%1$02hhX%2$02hhX,X[$%5$02hhX] {A & $%7$02hhX = $%4$02hhX}'', args)
     | isa_6502_addressing_absolute_y_indexed \<Rightarrow>
         Some ([Rcache Value, Rcache Operand1, Rcache Operand2],
           ''AND $%1$02hhX%2$02hhX,Y[$%6$02hhX] {A & $%7$02hhX = $%4$02hhX}'', args)
     | isa_6502_addressing_x_indexed_indirect \<Rightarrow>
         Some ([Rcache Value, Rcache Operand1, Rcache Operand2, Rcache Operand3],
           ''AND ($%3$02hhX=$%1$02hhX%2$02hhX,X[$%5$02hhX]) {A & $%7$02hhX = $%4$02hhX}'', args)
     | isa_6502_addressing_indirect_y_indexed \<Rightarrow>
         Some ([Rcache Value, Rcache Operand1, Rcache Operand2, Rcache Operand3],
           ''AND ($%3$02hhX[$%1$02hhX%3$02hhX]),Y[$%6$02hhX] {A & $%7$02hhX = $%4$02hhX}'', args)
     | _ \<Rightarrow> None)"

definition isa_65C02_disasm_ASL :: disasm_body where
  "isa_65C02_disasm_ASL mode =
    (let args = [Of_var Operand1, Of_var Operand2, Of_A, Of_X, Of_var Value1, Of_var Value2] in
     case mode of
       isa_6502_addressing_accumulator \<Rightarrow>
         Some ([],
           ''ASL A {A << 1 = $%3$02hhX}'', args)
     | isa_6502_addressing_zeropage \<Rightarrow>
         Some ([Rcache Value1, Wcache Value2, Rcache Operand1],
           ''ASL $%1$02hhX {$%5$02hhX << 1 = $%6$02hhX}'', args)
     | isa_6502_addressing_zeropage_x_indexed \<Rightarrow>
         Some ([Rcache Value1, Wcache Value2, Rcache Operand1],
           ''ASL $%1$02hhX,X[$%4$02hhX] {$%5$02hhX << 1 = $%6$02hhX}'', args)
     | isa_6502_addressing_absolute \<Rightarrow>
         Some ([Rcache Value1, Wcache Value2, Rcache Operand1, Rcache Operand2],
           ''ASL $%1$02hhX%2$02hhX {$%5$02hhX << 1 = $%6$02hhX}'', args)
     | isa_6502_addressing_absolute_x_indexed \<Rightarrow>
         Some ([Rcache Value1, Wcache Value2, Rcache Operand1, Rcache Operand2],
           ''ASL $%1$02hhX%2$02hhX,X[$%4$02hhX] {$%5$02hhX << 1 = $%6$02hhX}'', args)
     | _ \<Rightarrow> None)"

definition isa_65C02_disasm_BIT :: disasm_body where
  "isa_65C02_disasm_BIT mode =
    (case mode of
       isa_6502_addressing_immediate \<Rightarrow>
         Some ([Rcache Value],
           ''BIT #$%02hhX {$%02hhX TEST $%02hhX => %hhu%hhu----%hhu-}'', [Of_var Value, Of_A, Of_var Value, Of_flag register_SR_Bit_N, Of_flag register_SR_Bit_V, Of_flag register_SR_Bit_Z])
     | isa_6502_addressing_zeropage \<Rightarrow>
         Some ([Rcache Value, Rcache Operand1],
           ''BIT $%02hhX {$%02hhX TEST $%02hhX => %hhu%hhu----%hhu-}'', [Of_var Operand1, Of_A, Of_var Value, Of_flag register_SR_Bit_N, Of_flag register_SR_Bit_V, Of_flag register_SR_Bit_Z])
     | isa_6502_addressing_zeropage_x_indexed \<Rightarrow>
         Some ([Rcache Value, Rcache Operand1],
           ''BIT $%02hhX,X[$%02hhX] {$%02hhX TEST $%02hhX => %hhu%hhu----%hhu-}'', [Of_var Operand1, Of_X, Of_A, Of_var Value, Of_flag register_SR_Bit_N, Of_flag register_SR_Bit_V, Of_flag register_SR_Bit_Z])
     | isa_6502_addressing_absolute \<Rightarrow>
         Some ([Rcache Value, Rcache Operand1, Rcache Operand2],
           ''BIT $%02hhX%02hhX {$%02hhX TEST $%02hhX => %hhu%hhu----%hhu-}'', [Of_var Operand1, Of_var Operand2, Of_A, Of_var Value, Of_flag register_SR_Bit_N, Of_flag register_SR_Bit_V, Of_flag register_SR_Bit_Z])
     | isa_6502_addressing_absolute_x_indexed \<Rightarrow>
         Some ([Rcache Value, Rcache Operand1, Rcache Operand2],
           ''BIT $%02hhX%02hhX,X[$%02hhX] {$%02hhX TEST $%02hhX => %hhu%hhu----%hhu-}'', [Of_var Operand1, Of_var Operand2, Of_X, Of_A, Of_var Value, Of_flag register_SR_Bit_N, Of_flag register_SR_Bit_V, Of_flag register_SR_Bit_Z])
     | _ \<Rightarrow> Some ([], [], []))"

definition isa_65C02_disasm_BRA :: disasm_body where
  "isa_65C02_disasm_BRA mode =
     Some ([Rcache Operand], ''BRA *%+hhd'', [Of_signed Operand])"

definition isa_65C02_disasm_BRK :: disasm_body where
  "isa_65C02_disasm_BRK mode =
     Some ([Rcache Value], ''BRK (=> $%04hX, MARKER=$%02hhX)'', [Of_PC, Of_var Value])"

definition isa_65C02_disasm_CMP :: disasm_body where
  "isa_65C02_disasm_CMP mode =
    (let args = [Of_var Operand1, Of_var Operand2, Of_var Operand3, Of_A, Of_X, Of_Y, Of_var Value] in
     case mode of
       isa_6502_addressing_immediate \<Rightarrow>
         Some ([Rcache Value],
           ''CMP #$%7$02hhX {$%7$02hhX == $%4$02hhX}'', args)
     | isa_6502_addressing_zeropage \<Rightarrow>
         Some ([Rcache Value, Rcache Operand1],
           ''CMP $%1$02hhX {$%7$02hhX == $%4$02hhX}'', args)
     | isa_6502_addressing_zeropage_x_indexed \<Rightarrow>
         Some ([Rcache Value, Rcache Operand1],
           ''CMP $%1$02hhX,X[$%5$02hhX] {$%7$02hhX == $%4$02hhX}'', args)
     | isa_6502_addressing_zeropage_indirect \<Rightarrow>
         Some ([Rcache Value, Rcache Operand1],
           ''CMP ($%3$02hhX=$%1$02hhX%2$02hhX) {$%7$02hhX == $%4$02hhX}'', args)
     | isa_6502_addressing_absolute \<Rightarrow>
         Some ([Rcache Value, Rcache Operand1, Rcache Operand2],
           ''CMP $%1$02hhX%2$02hhX {$%7$02hhX == $%4$02hhX}'', args)
     | isa_6502_addressing_absolute_x_indexed \<Rightarrow>
         Some ([Rcache Value, Rcache Operand1, Rcache Operand2],
           ''CMP $%1$02hhX%2$02hhX,X[$%5$02hhX] {$%7$02hhX == $%4$02hhX}'', args)
     | isa_6502_addressing_absolute_y_indexed \<Rightarrow>
         Some ([Rcache Value, Rcache Operand1, Rcache Operand2],
           ''CMP $%1$02hhX%2$02hhX,Y[$%6$02hhX] {$%7$02hhX == $%4$02hhX}'', args)
     | isa_6502_addressing_x_indexed_indirect \<Rightarrow>
         Some ([Rcache Value, Rcache Operand1, Rcache Operand2, Rcache Operand3],
           ''CMP ($%3$02hhX=$%1$02hhX%2$02hhX,X[$%5$02hhX]) {$%7$02hhX == $%4$02hhX}'', args)
     | isa_6502_addressing_indirect_y_indexed \<Rightarrow>
         Some ([Rcache Value, Rcache Operand1, Rcache Operand2, Rcache Operand3],
           ''CMP ($%3$02hhX[$%1$02hhX%2$02hhX]),Y[$%6$02hhX] {$%7$02hhX == $%4$02hhX}'', args)
     | _ \<Rightarrow> None)"

definition isa_65C02_disasm_DEC :: disasm_body where
  "isa_65C02_disasm_DEC mode =
    (let args = [Of_var Operand1, Of_var Operand2, Of_A, Of_X, Of_var Value1, Of_var Value2] in
     case mode of
       isa_6502_addressing_accumulator \<Rightarrow>
         Some ([],
           ''DEC A {A - 1 = $%3$02hhX}'', args)
     | isa_6502_addressing_zeropage \<Rightarrow>
         Some ([Rcache Value1, Wcache Value2, Rcache Operand1],
           ''DEC $%1$02hhX {$%5$02hhX - 1 = $%6$02hhX}'', args)
     | isa_6502_addressing_zeropage_x_indexed \<Rightarrow>
         Some ([Rcache Value1, Wcache Value2, Rcache Operand1],
           ''DEC $%1$02hhX,X[$%4$02hhX] {$%5$02hhX - 1 = $%6$02hhX}'', args)
     | isa_6502_addressing_absolute \<Rightarrow>
         Some ([Rcache Value1, Wcache Value2, Rcache Operand1, Rcache Operand2],
           ''DEC $%1$02hhX%2$02hhX {$%5$02hhX - 1 = $%6$02hhX}'', args)
     | isa_6502_addressing_absolute_x_indexed \<Rightarrow>
         Some ([Rcache Value1, Wcache Value2, Rcache Operand1, Rcache Operand2],
           ''DEC $%1$02hhX%2$02hhX,X[$%4$02hhX] {$%5$02hhX - 1 = $%6$02hhX}'', args)
     | _ \<Rightarrow> None)"

definition isa_65C02_disasm_EOR :: disasm_body where
  "isa_65C02_disasm_EOR mode =
    (let args = [Of_var Operand1, Of_var Operand2, Of_var Operand3, Of_A, Of_X, Of_Y, Of_var Value] in
     case mode of
       isa_6502_addressing_immediate \<Rightarrow>
         Some ([Rcache Value],
           ''EOR #$%7$02hhX {A ^ $%7$02hhX = $%4$02hhX}'', args)
     | isa_6502_addressing_zeropage \<Rightarrow>
         Some ([Rcache Value, Rcache Operand1],
           ''EOR $%1$02hhX {A ^ $%7$02hhX = $%4$02hhX}'', args)
     | isa_6502_addressing_zeropage_x_indexed \<Rightarrow>
         Some ([Rcache Value, Rcache Operand1],
           ''EOR $%1$02hhX,X[$%5$02hhX] {A ^ $%7$02hhX = $%4$02hhX}'', args)
     | isa_6502_addressing_zeropage_indirect \<Rightarrow>
         Some ([Rcache Value, Rcache Operand1],
           ''EOR ($%3$02hhX=$%1$02hhX%2$02hhX) {A ^ $%7$02hhX = $%4$02hhX}'', args)
     | isa_6502_addressing_absolute \<Rightarrow>
         Some ([Rcache Value, Rcache Operand1, Rcache Operand2],
           ''EOR $%1$02hhX%2$02hhX {A ^ $%7$02hhX = $%4$02hhX}'', args)
     | isa_6502_addressing_absolute_x_indexed \<Rightarrow>
         Some ([Rcache Value, Rcache Operand1, Rcache Operand2],
           ''EOR $%1$02hhX%2$02hhX,X[$%5$02hhX] {A ^ $%7$02hhX = $%4$02hhX}'', args)
     | isa_6502_addressing_absolute_y_indexed \<Rightarrow>
         Some ([Rcache Value, Rcache Operand1, Rcache Operand2],
           ''EOR $%1$02hhX%2$02hhX,Y[$%6$02hhX] {A ^ $%7$02hhX = $%4$02hhX}'', args)
     | isa_6502_addressing_x_indexed_indirect \<Rightarrow>
         Some ([Rcache Value, Rcache Operand1, Rcache Operand2, Rcache Operand3],
           ''EOR ($%3$02hhX=$%1$02hhX%2$02hhX,X[$%5$02hhX]) {A ^ $%7$02hhX = $%4$02hhX}'', args)
     | isa_6502_addressing_indirect_y_indexed \<Rightarrow>
         Some ([Rcache Value, Rcache Operand1, Rcache Operand2, Rcache Operand3],
           ''EOR ($%3$02hhX[$%1$02hhX%3$02hhX]),Y[$%6$02hhX] {A ^ $%7$02hhX = $%4$02hhX}'', args)
     | _ \<Rightarrow> None)"

definition isa_65C02_disasm_INC :: disasm_body where
  "isa_65C02_disasm_INC mode =
    (let args = [Of_var Operand1, Of_var Operand2, Of_A, Of_X, Of_var Value1, Of_var Value2] in
     case mode of
       isa_6502_addressing_accumulator \<Rightarrow>
         Some ([],
           ''INC A {A + 1 = $%3$02hhX}'', args)
     | isa_6502_addressing_zeropage \<Rightarrow>
         Some ([Rcache Value1, Wcache Value2, Rcache Operand1],
           ''INC $%1$02hhX {$%5$02hhX + 1 = $%6$02hhX}'', args)
     | isa_6502_addressing_zeropage_x_indexed \<Rightarrow>
         Some ([Rcache Value1, Wcache Value2, Rcache Operand1],
           ''INC $%1$02hhX,X[$%4$02hhX] {$%5$02hhX + 1 = $%6$02hhX}'', args)
     | isa_6502_addressing_absolute \<Rightarrow>
         Some ([Rcache Value1, Wcache Value2, Rcache Operand1, Rcache Operand2],
           ''INC $%1$02hhX%2$02hhX {$%5$02hhX + 1 = $%6$02hhX}'', args)
     | isa_6502_addressing_absolute_x_indexed \<Rightarrow>
         Some ([Rcache Value1, Wcache Value2, Rcache Operand1, Rcache Operand2],
           ''INC $%1$02hhX%2$02hhX,X[$%4$02hhX] {$%5$02hhX + 1 = $%6$02hhX}'', args)
     | _ \<Rightarrow> None)"

definition isa_65C02_disasm_IRQ :: disasm_body where
  "isa_65C02_disasm_IRQ mode =
     Some ([], ''IRQ'', [])"

definition isa_65C02_disasm_JMP :: disasm_body where
  "isa_65C02_disasm_JMP mode =
    (let args = [Of_var Operand1, Of_var Operand2, Of_var Operand3, Of_var Operand4, Of_X] in
     case mode of
       isa_6502_addressing_absolute \<Rightarrow>
         Some ([Rcache Operand1, Rcache Operand2],
           ''JMP $%1$02hhX%2$02hhX'', args)
     | isa_6502_addressing_indirect \<Rightarrow>
         Some ([Rcache Operand1, Rcache Operand2, Rcache Operand3, Rcache Operand4],
           ''JMP ($%3$02hhX%4$02hhX)[$%1$02hhX%2$02hhX]'', args)
     | isa_6502_addressing_absolute_x_indexed_indirect \<Rightarrow>
         Some ([Rcache Operand1, Rcache Operand2, Rcache Operand3, Rcache Operand4],
           ''JMP ($%3$02hhX%4$02hhX,X[$%5$02hhX])[$%1$02hhX%2$02hhX]'', args)
     | _ \<Rightarrow> None)"

definition isa_65C02_disasm_LDA :: disasm_body where
  "isa_65C02_disasm_LDA mode =
    (let args = [Of_var Operand1, Of_var Operand2, Of_var Operand3, Of_X, Of_Y, Of_var Value] in
     case mode of
       isa_6502_addressing_immediate \<Rightarrow>
         Some ([Rcache Value],
           ''LDA #$%6$02hhX {A = $%6$02hhX}'', args)
     | isa_6502_addressing_zeropage \<Rightarrow>
         Some ([Rcache Value, Rcache Operand1],
           ''LDA $%1$02hhX {A = $%6$02hhX}'', args)
     | isa_6502_addressing_zeropage_x_indexed \<Rightarrow>
         Some ([Rcache Value, Rcache Operand1],
           ''LDA $%1$02hhX,X[$%4$02hhX] {A = $%6$02hhX}'', args)
     | isa_6502_addressing_zeropage_indirect \<Rightarrow>
         Some ([Rcache Value, Rcache Operand1],
           ''LDA ($%3$02hhX=$%1$02hhX%2$02hhX) {A = $%6$02hhX}'', args)
     | isa_6502_addressing_absolute \<Rightarrow>
         Some ([Rcache Value, Rcache Operand1, Rcache Operand2],
           ''LDA $%1$02hhX%2$02hhX {A = $%6$02hhX}'', args)
     | isa_6502_addressing_absolute_x_indexed \<Rightarrow>
         Some ([Rcache Value, Rcache Operand1, Rcache Operand2],
           ''LDA $%1$02hhX%2$02hhX,X[$%4$02hhX] {A = $%6$02hhX}'', args)
     | isa_6502_addressing_absolute_y_indexed \<Rightarrow>
         Some ([Rcache Value, Rcache Operand1, Rcache Operand2],
           ''LDA $%1$02hhX%2$02hhX,Y[$%5$02hhX] {A = $%6$02hhX}'', args)
     | isa_6502_addressing_x_indexed_indirect \<Rightarrow>
         Some ([Rcache Value, Rcache Operand1, Rcache Operand2, Rcache Operand3],
           ''LDA ($%3$02hhX=$%1$02hhX%2$02hhX,X[$%4$02hhX]) {A = $%6$02hhX}'', args)
     | isa_6502_addressing_indirect_y_indexed \<Rightarrow>
         Some ([Rcache Value, Rcache Operand1, Rcache Operand2, Rcache Operand3],
           ''LDA ($%3$02hhX[$%1$02hhX%2$02hhX]),Y[$%5$02hhX] {A = $%6$02hhX}'', args)
     | _ \<Rightarrow> None)"

definition isa_65C02_disasm_LSR :: disasm_body where
  "isa_65C02_disasm_LSR mode =
    (let args = [Of_var Operand1, Of_var Operand2, Of_A, Of_X, Of_var Value1, Of_var Value2] in
     case mode of
       isa_6502_addressing_accumulator \<Rightarrow>
         Some ([],
           ''LSR A {A >> 1 = $%3$02hhX}'', args)
     | isa_6502_addressing_zeropage \<Rightarrow>
         Some ([Rcache Value1, Wcache Value2, Rcache Operand1],
           ''LSR $%1$02hhX {$%5$02hhX >> 1 = $%6$02hhX}'', args)
     | isa_6502_addressing_zeropage_x_indexed \<Rightarrow>
         Some ([Rcache Value1, Wcache Value2, Rcache Operand1],
           ''LSR $%1$02hhX,X[$%4$02hhX] {$%5$02hhX >> 1 = $%6$02hhX}'', args)
     | isa_6502_addressing_absolute \<Rightarrow>
         Some ([Rcache Value1, Wcache Value2, Rcache Operand1, Rcache Operand2],
           ''LSR $%1$02hhX%2$02hhX {$%5$02hhX >> 1 = $%6$02hhX}'', args)
     | isa_6502_addressing_absolute_x_indexed \<Rightarrow>
         Some ([Rcache Value1, Wcache Value2, Rcache Operand1, Rcache Operand2],
           ''LSR $%1$02hhX%2$02hhX,X[$%4$02hhX] {$%5$02hhX >> 1 = $%6$02hhX}'', args)
     | _ \<Rightarrow> None)"

definition isa_65C02_disasm_NMI :: disasm_body where
  "isa_65C02_disasm_NMI mode =
     Some ([], ''NMI'', [])"

definition isa_65C02_disasm_ORA :: disasm_body where
  "isa_65C02_disasm_ORA mode =
    (let args = [Of_var Operand1, Of_var Operand2, Of_var Operand3, Of_A, Of_X, Of_Y, Of_var Value] in
     case mode of
       isa_6502_addressing_immediate \<Rightarrow>
         Some ([Rcache Value],
           ''ORA #$%7$02hhX {A | $%7$02hhX = $%4$02hhX}'', args)
     | isa_6502_addressing_zeropage \<Rightarrow>
         Some ([Rcache Value, Rcache Operand1],
           ''ORA $%1$02hhX {A | $%7$02hhX = $%4$02hhX}'', args)
     | isa_6502_addressing_zeropage_x_indexed \<Rightarrow>
         Some ([Rcache Value, Rcache Operand1],
           ''ORA $%1$02hhX,X[$%5$02hhX] {A | $%7$02hhX = $%4$02hhX}'', args)
     | isa_6502_addressing_zeropage_indirect \<Rightarrow>
         Some ([Rcache Value, Rcache Operand1],
           ''ORA ($%3$02hhX=$%1$02hhX%2$02hhX) {A | $%7$02hhX = $%4$02hhX}'', args)
     | isa_6502_addressing_absolute \<Rightarrow>
         Some ([Rcache Value, Rcache Operand1, Rcache Operand2],
           ''ORA $%1$02hhX%2$02hhX {A | $%7$02hhX = $%4$02hhX}'', args)
     | isa_6502_addressing_absolute_x_indexed \<Rightarrow>
         Some ([Rcache Value, Rcache Operand1, Rcache Operand2],
           ''ORA $%1$02hhX%2$02hhX,X[$%5$02hhX] {A | $%7$02hhX = $%4$02hhX}'', args)
     | isa_6502_addressing_absolute_y_indexed \<Rightarrow>
         Some ([Rcache Value, Rcache Operand1, Rcache Operand2],
           ''ORA $%1$02hhX%2$02hhX,Y[$%6$02hhX] {A | $%7$02hhX = $%4$02hhX}'', args)
     | isa_6502_addressing_x_indexed_indirect \<Rightarrow>
         Some ([Rcache Value, Rcache Operand1, Rcache Operand2, Rcache Operand3],
           ''ORA ($%3$02hhX=$%1$02hhX%2$02hhX,X[$%5$02hhX]) {A | $%7$02hhX = $%4$02hhX}'', args)
     | isa_6502_addressing_indirect_y_indexed \<Rightarrow>
         Some ([Rcache Value, Rcache Operand1, Rcache Operand2, Rcache Operand3],
           ''ORA ($%3$02hhX[$%1$02hhX%3$02hhX]),Y[$%6$02hhX] {A | $%7$02hhX = $%4$02hhX}'', args)
     | _ \<Rightarrow> None)"

definition isa_65C02_disasm_PHX :: disasm_body where
  "isa_65C02_disasm_PHX mode =
     Some ([], ''PHX'', [])"

definition isa_65C02_disasm_PHY :: disasm_body where
  "isa_65C02_disasm_PHY mode =
     Some ([], ''PHY'', [])"

definition isa_65C02_disasm_PLX :: disasm_body where
  "isa_65C02_disasm_PLX mode =
     Some ([], ''PLX'', [])"

definition isa_65C02_disasm_PLY :: disasm_body where
  "isa_65C02_disasm_PLY mode =
     Some ([], ''PLY'', [])"

definition isa_65C02_disasm_RESET :: disasm_body where
  "isa_65C02_disasm_RESET mode =
     Some ([], ''RESET'', [])"

definition isa_65C02_disasm_ROL :: disasm_body where
  "isa_65C02_disasm_ROL mode =
    (let args = [Of_var Operand1, Of_var Operand2, Of_A, Of_X, Of_var Value1, Of_var Value2] in
     case mode of
       isa_6502_addressing_accumulator \<Rightarrow>
         Some ([],
           ''ROL A {(A << 1) | CARRY = $%3$02hhX}'', args)
     | isa_6502_addressing_zeropage \<Rightarrow>
         Some ([Rcache Value1, Wcache Value2, Rcache Operand1],
           ''ROL $%1$02hhX {($%5$02hhX << 1) | CARRY = $%6$02hhX}'', args)
     | isa_6502_addressing_zeropage_x_indexed \<Rightarrow>
         Some ([Rcache Value1, Wcache Value2, Rcache Operand1],
           ''ROL $%1$02hhX,X[$%4$02hhX] {($%5$02hhX << 1) | CARRY = $%6$02hhX}'', args)
     | isa_6502_addressing_absolute \<Rightarrow>
         Some ([Rcache Value1, Wcache Value2, Rcache Operand1, Rcache Operand2],
           ''ROL $%1$02hhX%2$02hhX {($%5$02hhX << 1) | CARRY = $%6$02hhX}'', args)
     | isa_6502_addressing_absolute_x_indexed \<Rightarrow>
         Some ([Rcache Value1, Wcache Value2, Rcache Operand1, Rcache Operand2],
           ''ROL $%1$02hhX%2$02hhX,X[$%4$02hhX] {($%5$02hhX << 1) | CARRY = $%6$02hhX}'', args)
     | _ \<Rightarrow> None)"

definition isa_65C02_disasm_ROR :: disasm_body where
  "isa_65C02_disasm_ROR mode =
    (let args = [Of_var Operand1, Of_var Operand2, Of_A, Of_X, Of_var Value1, Of_var Value2] in
     case mode of
       isa_6502_addressing_accumulator \<Rightarrow>
         Some ([],
           ''ROR A {(A >> 1) | (CARRY << 7) = $%3$02hhX}'', args)
     | isa_6502_addressing_zeropage \<Rightarrow>
         Some ([Rcache Value1, Wcache Value2, Rcache Operand1],
           ''ROR $%1$02hhX {($%5$02hhX >> 1) | (CARRY << 7) = $%6$02hhX}'', args)
     | isa_6502_addressing_zeropage_x_indexed \<Rightarrow>
         Some ([Rcache Value1, Wcache Value2, Rcache Operand1],
           ''ROR $%1$02hhX,X[$%4$02hhX] {($%5$02hhX >> 1) | (CARRY << 7) = $%6$02hhX}'', args)
     | isa_6502_addressing_absolute \<Rightarrow>
         Some ([Rcache Value1, Wcache Value2, Rcache Operand1, Rcache Operand2],
           ''ROR $%1$02hhX%2$02hhX {($%5$02hhX >> 1) | (CARRY << 7) = $%6$02hhX}'', args)
     | isa_6502_addressing_absolute_x_indexed \<Rightarrow>
         Some ([Rcache Value1, Wcache Value2, Rcache Operand1, Rcache Operand2],
           ''ROR $%1$02hhX%2$02hhX,X[$%4$02hhX] {($%5$02hhX >> 1) | (CARRY << 7) = $%6$02hhX}'', args)
     | _ \<Rightarrow> None)"

definition isa_65C02_disasm_SBC :: disasm_body where
  "isa_65C02_disasm_SBC mode =
    (let args = [Of_var Operand1, Of_var Operand2, Of_var Operand3, Of_A, Of_X, Of_Y, Of_var Value] in
     case mode of
       isa_6502_addressing_immediate \<Rightarrow>
         Some ([Rcache Value],
           ''SBC #$%7$02hhX {A - $%7$02hhX = $%4$02hhX}'', args)
     | isa_6502_addressing_zeropage \<Rightarrow>
         Some ([Rcache Value, Rcache Operand1],
           ''SBC $%1$02hhX {A - $%7$02hhX = $%4$02hhX}'', args)
     | isa_6502_addressing_zeropage_x_indexed \<Rightarrow>
         Some ([Rcache Value, Rcache Operand1],
           ''SBC $%1$02hhX,X[$%5$02hhX] {A - $%7$02hhX = $%4$02hhX}'', args)
     | isa_6502_addressing_zeropage_indirect \<Rightarrow>
         Some ([Rcache Value, Rcache Operand1],
           ''SBC ($%3$02hhX=$%1$02hhX%2$02hhX) {A - $%7$02hhX = $%4$02hhX}'', args)
     | isa_6502_addressing_absolute \<Rightarrow>
         Some ([Rcache Value, Rcache Operand1, Rcache Operand2],
           ''SBC $%1$02hhX%2$02hhX {A - $%7$02hhX = $%4$02hhX}'', args)
     | isa_6502_addressing_absolute_x_indexed \<Rightarrow>
         Some ([Rcache Value, Rcache Operand1, Rcache Operand2],
           ''SBC $%1$02hhX%2$02hhX,X[$%5$02hhX] {A - $%7$02hhX = $%4$02hhX}'', args)
     | isa_6502_addressing_absolute_y_indexed \<Rightarrow>
         Some ([Rcache Value, Rcache Operand1, Rcache Operand2],
           ''SBC $%1$02hhX%2$02hhX,Y[$%6$02hhX] {A - $%7$02hhX = $%4$02hhX}'', args)
     | isa_6502_addressing_x_indexed_indirect \<Rightarrow>
         Some ([Rcache Value, Rcache Operand1, Rcache Operand2, Rcache Operand3],
           ''SBC ($%3$02hhX=$%1$02hhX%2$02hhX,X[$%5$02hhX]) {A - $%7$02hhX = $%4$02hhX}'', args)
     | isa_6502_addressing_indirect_y_indexed \<Rightarrow>
         Some ([Rcache Value, Rcache Operand1, Rcache Operand2, Rcache Operand3],
           ''SBC ($%3$02hhX[$%1$02hhX%2$02hhX]),Y[$%6$02hhX] {A - $%7$02hhX = $%4$02hhX}'', args)
     | _ \<Rightarrow> None)"

definition isa_65C02_disasm_STA :: disasm_body where
  "isa_65C02_disasm_STA mode =
    (let args = [Of_var Operand1, Of_var Operand2, Of_var Operand3, Of_X, Of_Y, Of_var Value] in
     case mode of
       isa_6502_addressing_zeropage \<Rightarrow>
         Some ([Wcache Value, Rcache Operand1],
           ''STA $%1$02hhX {<= $%6$02hhX}'', args)
     | isa_6502_addressing_zeropage_x_indexed \<Rightarrow>
         Some ([Wcache Value, Rcache Operand1],
           ''STA $%1$02hhX,X[$%4$02hhX] {<= $%6$02hhX}'', args)
     | isa_6502_addressing_zeropage_indirect \<Rightarrow>
         Some ([Rcache Value, Rcache Operand1],
           ''STA ($%3$02hhX=$%1$02hhX%2$02hhX) {<= $%6$02hhX}'', args)
     | isa_6502_addressing_absolute \<Rightarrow>
         Some ([Wcache Value, Rcache Operand1, Rcache Operand2],
           ''STA $%1$02hhX%2$02hhX {<= $%6$02hhX}'', args)
     | isa_6502_addressing_absolute_x_indexed \<Rightarrow>
         Some ([Wcache Value, Rcache Operand1, Rcache Operand2],
           ''STA $%1$02hhX%2$02hhX,X[$%4$02hhX] {<= $%6$02hhX}'', args)
     | isa_6502_addressing_absolute_y_indexed \<Rightarrow>
         Some ([Wcache Value, Rcache Operand1, Rcache Operand2],
           ''STA $%1$02hhX%2$02hhX,Y[$%5$02hhX] {<= $%6$02hhX}'', args)
     | isa_6502_addressing_x_indexed_indirect \<Rightarrow>
         Some ([Wcache Value, Rcache Operand1, Rcache Operand2, Rcache Operand3],
           ''STA ($%3$02hhX=$%1$02hhX%2$02hhX,X[$%4$02hhX]) {<= $%6$02hhX}'', args)
     | isa_6502_addressing_indirect_y_indexed \<Rightarrow>
         Some ([Wcache Value, Rcache Operand1, Rcache Operand2, Rcache Operand3],
           ''STA ($%3$02hhX[$%1$02hhX%2$02hhX]),Y[$%5$02hhX] {<= $%6$02hhX}'', args)
     | _ \<Rightarrow> None)"

definition isa_65C02_disasm_STZ :: disasm_body where
  "isa_65C02_disasm_STZ mode =
    (let args = [Of_var Operand1, Of_var Operand2, Of_var Operand3, Of_X, Of_Y, Of_var Value] in
     case mode of
       isa_6502_addressing_zeropage \<Rightarrow>
         Some ([Wcache Value, Rcache Operand1],
           ''STZ $%1$02hhX {<= $%6$02hhX}'', args)
     | isa_6502_addressing_zeropage_x_indexed \<Rightarrow>
         Some ([Wcache Value, Rcache Operand1],
           ''STZ $%1$02hhX,X[$%4$02hhX] {<= $%6$02hhX}'', args)
     | isa_6502_addressing_absolute \<Rightarrow>
         Some ([Wcache Value, Rcache Operand1, Rcache Operand2],
           ''STZ $%1$02hhX%2$02hhX {<= $%6$02hhX}'', args)
     | isa_6502_addressing_absolute_x_indexed \<Rightarrow>
         Some ([Wcache Value, Rcache Operand1, Rcache Operand2],
           ''STZ $%1$02hhX%2$02hhX,X[$%4$02hhX] {<= $%6$02hhX}'', args)
     | _ \<Rightarrow> None)"

definition isa_65C02_disasm_TRB :: disasm_body where
  "isa_65C02_disasm_TRB mode =
    (case mode of
       isa_6502_addressing_zeropage \<Rightarrow>
         Some ([Wcache Result, Rcache Value, Rcache Operand1],
           ''TRB $%02hhX {~$%02hhX AND $%02hhX => $%02hhX ------%hhu-}'', [Of_var Operand1, Of_A, Of_var Value, Of_var Result, Of_flag register_SR_Bit_Z])
     | isa_6502_addressing_absolute \<Rightarrow>
         Some ([Wcache Result, Rcache Value, Rcache Operand1, Rcache Operand2],
           ''TRB $%02hhX%02hhX {~$%02hhX AND $%02hhX => $%02hhX ------%hhu-}'', [Of_var Operand1, Of_var Operand2, Of_A, Of_var Value, Of_var Result, Of_flag register_SR_Bit_Z])
     | _ \<Rightarrow> Some ([], [], []))"

definition isa_65C02_disasm_TSB :: disasm_body where
  "isa_65C02_disasm_TSB mode =
    (case mode of
       isa_6502_addressing_zeropage \<Rightarrow>
         Some ([Wcache Result, Rcache Value, Rcache Operand1],
           ''TSB $%02hhX {$%02hhX OR $%02hhX => $%02hhX ------%hhu-}'', [Of_var Operand1, Of_A, Of_var Value, Of_var Result, Of_flag register_SR_Bit_Z])
     | isa_6502_addressing_absolute \<Rightarrow>
         Some ([Wcache Result, Rcache Value, Rcache Operand1, Rcache Operand2],
           ''TSB $%02hhX%02hhX {$%02hhX OR $%02hhX => $%02hhX ------%hhu-}'', [Of_var Operand1, Of_var Operand2, Of_A, Of_var Value, Of_var Result, Of_flag register_SR_Bit_Z])
     | _ \<Rightarrow> Some ([], [], []))"

section \<open>The entries\<close>

primrec disasm_65C02_fn :: "isa_65C02_op \<Rightarrow> disasm_body" where
  "disasm_65C02_fn c02_ADC = isa_65C02_disasm_ADC"
| "disasm_65C02_fn c02_AND = isa_65C02_disasm_AND"
| "disasm_65C02_fn c02_ASL = isa_65C02_disasm_ASL"
| "disasm_65C02_fn c02_BIT = isa_65C02_disasm_BIT"
| "disasm_65C02_fn c02_BRA = isa_65C02_disasm_BRA"
| "disasm_65C02_fn c02_BRK = isa_65C02_disasm_BRK"
| "disasm_65C02_fn c02_CMP = isa_65C02_disasm_CMP"
| "disasm_65C02_fn c02_DEC = isa_65C02_disasm_DEC"
| "disasm_65C02_fn c02_EOR = isa_65C02_disasm_EOR"
| "disasm_65C02_fn c02_INC = isa_65C02_disasm_INC"
| "disasm_65C02_fn c02_IRQ = isa_65C02_disasm_IRQ"
| "disasm_65C02_fn c02_JMP = isa_65C02_disasm_JMP"
| "disasm_65C02_fn c02_LDA = isa_65C02_disasm_LDA"
| "disasm_65C02_fn c02_LSR = isa_65C02_disasm_LSR"
| "disasm_65C02_fn c02_NMI = isa_65C02_disasm_NMI"
| "disasm_65C02_fn c02_ORA = isa_65C02_disasm_ORA"
| "disasm_65C02_fn c02_PHX = isa_65C02_disasm_PHX"
| "disasm_65C02_fn c02_PHY = isa_65C02_disasm_PHY"
| "disasm_65C02_fn c02_PLX = isa_65C02_disasm_PLX"
| "disasm_65C02_fn c02_PLY = isa_65C02_disasm_PLY"
| "disasm_65C02_fn c02_RESET = isa_65C02_disasm_RESET"
| "disasm_65C02_fn c02_ROL = isa_65C02_disasm_ROL"
| "disasm_65C02_fn c02_ROR = isa_65C02_disasm_ROR"
| "disasm_65C02_fn c02_SBC = isa_65C02_disasm_SBC"
| "disasm_65C02_fn c02_STA = isa_65C02_disasm_STA"
| "disasm_65C02_fn c02_STZ = isa_65C02_disasm_STZ"
| "disasm_65C02_fn c02_TRB = isa_65C02_disasm_TRB"
| "disasm_65C02_fn c02_TSB = isa_65C02_disasm_TSB"

text \<open>The field \<^verbatim>\<open>inline_disasm_fn\<close> of an entry has the name of its other functions.\<close>

primrec disasm_fn :: "isa_6502_op \<Rightarrow> disasm_body" where
  "disasm_fn op_ADC = isa_6502_disasm_ADC"
| "disasm_fn op_AND = isa_6502_disasm_AND"
| "disasm_fn op_ASL = isa_6502_disasm_ASL"
| "disasm_fn op_BCC = isa_6502_disasm_BCC"
| "disasm_fn op_BCS = isa_6502_disasm_BCS"
| "disasm_fn op_BEQ = isa_6502_disasm_BEQ"
| "disasm_fn op_BIT = isa_6502_disasm_BIT"
| "disasm_fn op_BMI = isa_6502_disasm_BMI"
| "disasm_fn op_BNE = isa_6502_disasm_BNE"
| "disasm_fn op_BPL = isa_6502_disasm_BPL"
| "disasm_fn op_BRK = isa_6502_disasm_BRK"
| "disasm_fn op_BVC = isa_6502_disasm_BVC"
| "disasm_fn op_BVS = isa_6502_disasm_BVS"
| "disasm_fn op_CLC = isa_6502_disasm_CLC"
| "disasm_fn op_CLD = isa_6502_disasm_CLD"
| "disasm_fn op_CLI = isa_6502_disasm_CLI"
| "disasm_fn op_CLV = isa_6502_disasm_CLV"
| "disasm_fn op_CMP = isa_6502_disasm_CMP"
| "disasm_fn op_CPX = isa_6502_disasm_CPX"
| "disasm_fn op_CPY = isa_6502_disasm_CPY"
| "disasm_fn op_DEC = isa_6502_disasm_DEC"
| "disasm_fn op_DEX = isa_6502_disasm_DEX"
| "disasm_fn op_DEY = isa_6502_disasm_DEY"
| "disasm_fn op_EOR = isa_6502_disasm_EOR"
| "disasm_fn op_INC = isa_6502_disasm_INC"
| "disasm_fn op_INX = isa_6502_disasm_INX"
| "disasm_fn op_INY = isa_6502_disasm_INY"
| "disasm_fn op_IRQ = isa_6502_disasm_IRQ"
| "disasm_fn op_JMP = isa_6502_disasm_JMP"
| "disasm_fn op_JSR = isa_6502_disasm_JSR"
| "disasm_fn op_LDA = isa_6502_disasm_LDA"
| "disasm_fn op_LDX = isa_6502_disasm_LDX"
| "disasm_fn op_LDY = isa_6502_disasm_LDY"
| "disasm_fn op_LSR = isa_6502_disasm_LSR"
| "disasm_fn op_NMI = isa_6502_disasm_NMI"
| "disasm_fn op_NOP = isa_6502_disasm_NOP"
| "disasm_fn op_ORA = isa_6502_disasm_ORA"
| "disasm_fn op_PHA = isa_6502_disasm_PHA"
| "disasm_fn op_PHP = isa_6502_disasm_PHP"
| "disasm_fn op_PLA = isa_6502_disasm_PLA"
| "disasm_fn op_PLP = isa_6502_disasm_PLP"
| "disasm_fn op_RESET = isa_6502_disasm_RESET"
| "disasm_fn op_ROL = isa_6502_disasm_ROL"
| "disasm_fn op_ROR = isa_6502_disasm_ROR"
| "disasm_fn op_RTI = isa_6502_disasm_RTI"
| "disasm_fn op_RTS = isa_6502_disasm_RTS"
| "disasm_fn op_SBC = isa_6502_disasm_SBC"
| "disasm_fn op_SEC = isa_6502_disasm_SEC"
| "disasm_fn op_SED = isa_6502_disasm_SED"
| "disasm_fn op_SEI = isa_6502_disasm_SEI"
| "disasm_fn op_STA = isa_6502_disasm_STA"
| "disasm_fn op_STX = isa_6502_disasm_STX"
| "disasm_fn op_STY = isa_6502_disasm_STY"
| "disasm_fn op_TAX = isa_6502_disasm_TAX"
| "disasm_fn op_TAY = isa_6502_disasm_TAY"
| "disasm_fn op_TSX = isa_6502_disasm_TSX"
| "disasm_fn op_TXA = isa_6502_disasm_TXA"
| "disasm_fn op_TXS = isa_6502_disasm_TXS"
| "disasm_fn op_TYA = isa_6502_disasm_TYA"
| "disasm_fn (op_65C02 f) = disasm_65C02_fn f"

end
