(* ===== verification/Bus_Laws.thy ===== *)
theory Bus_Laws
  imports Membus
begin

text \<open>
  What the bus promises: on a well-formed bus every access returns and keeps the bus well formed;
  the module that serves an address is the first one, in the order of tiers and of registration,
  whose range includes it; the bus built on one 64k module is a byte store.
\<close>

section \<open>What a callback may answer\<close>

lemma module_read_answer':
  "module_read h m a p = Some r \<Longrightarrow>
    fst r \<noteq> membus_module_op_result_observed \<and>
    (fst r = membus_module_op_result_not_accepted \<longrightarrow> snd r = p)"
proof (erule module_read.raw_induct [rotated])
  fix rd h m a p and r :: "membus_module_op_result \<times> u8 option"
  assume IH: "\<And>h m a p r. rd h m a p = Some r \<Longrightarrow> fst r \<noteq> membus_module_op_result_observed \<and>
      (fst r = membus_module_op_result_not_accepted \<longrightarrow> snd r = p)"
    and eq: "do {
       md \<leftarrow> deref h m;
       case module_impl md of
         Byte_impl flags_and_byte \<Rightarrow> membus_module_byte_read_addr flags_and_byte p
       | Word_impl flags_and_word \<Rightarrow> membus_module_word_read_addr md flags_and_word a p
       | Std64k_impl BYTES \<Rightarrow> membus_module_std64k_read_addr BYTES a p
       | Paged_impl mode pages \<Rightarrow> membus_module_paged_read_addr md mode pages a p
       | Mirror_impl orig \<Rightarrow> do { other \<leftarrow> deref h orig; rd h orig (mirror_addr md other a) p } }
      = Some r"
  then obtain md where md: "deref h m = Some md" by (auto simp: bind_eq_Some_conv)
  show "fst r \<noteq> membus_module_op_result_observed \<and>
      (fst r = membus_module_op_result_not_accepted \<longrightarrow> snd r = p)"
    using eq md
    by (cases r; cases "module_impl md")
      (auto simp: bind_eq_Some_conv membus_module_byte_read_addr_def
        membus_module_word_read_addr_def membus_module_std64k_read_addr_def
        membus_module_paged_read_addr_def Let_def dest!: IH split: if_split_asm)
qed

lemma module_read_answer:
  "module_read h m a p = Some (rc, p') \<Longrightarrow>
    rc \<noteq> membus_module_op_result_observed \<and>
    (rc = membus_module_op_result_not_accepted \<longrightarrow> p' = p)"
  using module_read_answer' [of h m a p "(rc, p')"] by simp

lemma module_write_answer':
  "module_write h m a v = Some r \<Longrightarrow> fst r \<noteq> membus_module_op_result_observed"
proof (erule module_write.raw_induct [rotated])
  fix wr h m a v and r :: "membus_module_op_result \<times> module_heap"
  assume IH: "\<And>h m a v r. wr h m a v = Some r \<Longrightarrow> fst r \<noteq> membus_module_op_result_observed"
    and eq: "do {
       md \<leftarrow> deref h m;
       case module_impl md of
         Byte_impl flags_and_byte \<Rightarrow>
           (let (rc, fb) = membus_module_byte_write_addr flags_and_byte v
            in Some (rc, set_impl h m (Byte_impl fb)))
       | Word_impl flags_and_word \<Rightarrow> do {
           (rc, fw) \<leftarrow> membus_module_word_write_addr md flags_and_word a v;
           Some (rc, set_impl h m (Word_impl fw)) }
       | Std64k_impl BYTES \<Rightarrow>
           (let (rc, ram) = membus_module_std64k_write_addr BYTES a v
            in Some (rc, set_impl h m (Std64k_impl ram)))
       | Paged_impl mode pages \<Rightarrow> do {
           (rc, ps) \<leftarrow> membus_module_paged_write_addr md mode pages a v;
           Some (rc, set_impl h m (Paged_impl mode ps)) }
       | Mirror_impl orig \<Rightarrow> do { other \<leftarrow> deref h orig; wr h orig (mirror_addr md other a) v } }
      = Some r"
  then obtain md where md: "deref h m = Some md" by (auto simp: bind_eq_Some_conv)
  show "fst r \<noteq> membus_module_op_result_observed"
    using eq md
    by (cases r; cases "module_impl md")
      (auto simp: bind_eq_Some_conv membus_module_byte_write_addr_def
        membus_module_word_write_addr_def membus_module_std64k_write_addr_def
        membus_module_paged_write_addr_def Let_def dest!: IH split: if_split_asm)
qed

lemma module_write_answer:
  "module_write h m a v = Some (rc, h') \<Longrightarrow> rc \<noteq> membus_module_op_result_observed"
  using module_write_answer' [of h m a v "(rc, h')"] by simp

section \<open>The module that owns an address\<close>

definition module_includes :: "module_heap \<Rightarrow> module_ref \<Rightarrow> u16 \<Rightarrow> bool" where
  "module_includes h m a = (case deref h m of None \<Rightarrow> False
     | Some md \<Rightarrow> memory_addr_range_does_include (addr_range md) a)"

definition bus_modules :: "(int \<times> module_ref list) list \<Rightarrow> module_ref list" where
  "bus_modules ts = concat (List.map snd ts)"

definition bus_owner :: "membus \<Rightarrow> u16 \<Rightarrow> module_ref option" where
  "bus_owner b a = List.find (\<lambda>m. module_includes (bus_heap b) m a) (bus_modules (tiers b))"

lemma bus_modules_Cons: "bus_modules ((t, ms) # ts) = ms @ bus_modules ts"
  by (simp add: bus_modules_def)

lemma find_append:
  "List.find P (xs @ ys) = (case List.find P xs of None \<Rightarrow> List.find P ys | Some x \<Rightarrow> Some x)"
  by (induction xs) auto

text \<open>In an ordered chain nothing after a module that starts above the address includes it.\<close>

lemma chain_above:
  assumes "chain_ok h (m # ms)" "deref h m = Some md" "\<not> addr_lo (addr_range md) \<le> a"
  shows "List.find (\<lambda>m. module_includes h m a) (m # ms) = None"
proof -
  have "\<not> module_includes h n a" if n: "n \<in> set (m # ms)" for n
  proof -
    have "module_lo h m \<le> module_lo h n" using assms(1) n by (auto simp: chain_ok_def)
    then have "\<not> module_lo h n \<le> a" using assms(2,3) by (auto simp: module_lo_def)
    then show ?thesis
      by (auto simp: module_includes_def module_lo_def memory_addr_range_does_include_def
          split: option.splits)
  qed
  then show ?thesis by (auto simp: find_None_iff)
qed

definition owner_read :: "module_heap \<Rightarrow> u16 \<Rightarrow> module_ref option \<Rightarrow> u8 \<Rightarrow> (bool \<times> bool \<times> u8) option" where
  "owner_read h a own v = (case own of None \<Rightarrow> Some (True, False, v)
     | Some m \<Rightarrow> do {
         (rc, p) \<leftarrow> module_read h m a (Some v);
         v \<leftarrow> p;
         Some (rc \<noteq> membus_module_op_result_not_accepted, rc = membus_module_op_result_accepted, v) })"

definition owner_write :: "u16 \<Rightarrow> u8 \<Rightarrow> module_ref option \<Rightarrow> module_heap
    \<Rightarrow> (bool \<times> bool \<times> module_heap) option" where
  "owner_write a v own h = (case own of None \<Rightarrow> Some (True, False, h)
     | Some m \<Rightarrow> do {
         (rc, h) \<leftarrow> module_write h m a v;
         Some (rc \<noteq> membus_module_op_result_not_accepted, rc = membus_module_op_result_accepted, h) })"

lemma walk_done:
  "read_modules h a ms (s, s, v) = Some (s, s, v)"
  "read_tiers h a ts (s, s, v) = Some (s, s, v)"
  "write_modules a w ms (s, s, h) = Some (s, s, h)"
  "write_tiers a w ts (s, s, h) = Some (s, s, h)"
  by (cases ms; cases ts; auto split: prod.splits)+

lemma result_flags:
  "rc \<noteq> membus_module_op_result_observed \<Longrightarrow>
    (rc \<noteq> membus_module_op_result_not_accepted) = (rc = membus_module_op_result_accepted)"
  by (cases rc) auto

lemma read_modules_owner:
  "chain_ok h ms \<Longrightarrow> read_modules h a ms (True, False, v) =
     owner_read h a (List.find (\<lambda>m. module_includes h m a) ms) v"
proof (induction ms)
  case (Cons m ms)
  then obtain md where md: "deref h m = Some md" and ms: "chain_ok h ms"
    using chain_ok_Cons by blast
  show ?case
  proof (cases "addr_lo (addr_range md) \<le> a")
    case lo: True
    show ?thesis
    proof (cases "memory_addr_range_does_include (addr_range md) a")
      case True
      then have "module_includes h m a" by (simp add: module_includes_def md)
      moreover have "(rc \<noteq> membus_module_op_result_not_accepted) = (rc = membus_module_op_result_accepted)"
        if "module_read h m a (Some v) = Some (rc, p)" for rc p
        using module_read_answer [OF that] result_flags by blast
      ultimately show ?thesis using lo md True
        by (cases "module_read h m a (Some v)") (auto simp: owner_read_def walk_done)
    next
      case False
      then show ?thesis using Cons.IH [OF ms] lo md by (simp add: module_includes_def)
    qed
  next
    case False
    then show ?thesis using chain_above [OF Cons.prems md] md by (simp add: owner_read_def)
  qed
qed (simp add: owner_read_def)

lemma read_tiers_owner:
  "tiers_ok h ts \<Longrightarrow> read_tiers h a ts (True, False, v) =
     owner_read h a (List.find (\<lambda>m. module_includes h m a) (bus_modules ts)) v"
proof (induction ts)
  case (Cons tms ts)
  obtain t ms where tms: "tms = (t, ms)" by (cases tms)
  then have ok: "tiers_ok h ts" "chain_ok h ms" using Cons.prems tiers_ok_Cons by auto
  show ?case
  proof (cases "List.find (\<lambda>m. module_includes h m a) ms")
    case None
    then show ?thesis using Cons.IH [OF ok(1)]
      by (simp add: tms read_modules_owner [OF ok(2)] owner_read_def bus_modules_Cons find_append)
  next
    case (Some m)
    have "(rc \<noteq> membus_module_op_result_not_accepted) = (rc = membus_module_op_result_accepted)"
      if "module_read h m a (Some v) = Some (rc, p)" for rc p
      using module_read_answer [OF that] result_flags by blast
    then show ?thesis using Some
      by (cases "module_read h m a (Some v)")
        (auto simp: tms read_modules_owner [OF ok(2)] owner_read_def bus_modules_Cons find_append
          walk_done split: option.splits)
  qed
qed (simp add: owner_read_def bus_modules_def)

lemma write_modules_owner:
  "chain_ok h ms \<Longrightarrow> write_modules a v ms (True, False, h) =
     owner_write a v (List.find (\<lambda>m. module_includes h m a) ms) h"
proof (induction ms)
  case (Cons m ms)
  then obtain md where md: "deref h m = Some md" and ms: "chain_ok h ms"
    using chain_ok_Cons by blast
  show ?case
  proof (cases "addr_lo (addr_range md) \<le> a")
    case lo: True
    show ?thesis
    proof (cases "memory_addr_range_does_include (addr_range md) a")
      case True
      then have "module_includes h m a" by (simp add: module_includes_def md)
      moreover have "(rc \<noteq> membus_module_op_result_not_accepted) = (rc = membus_module_op_result_accepted)"
        if "module_write h m a v = Some (rc, h')" for rc h'
        using module_write_answer [OF that] result_flags by blast
      ultimately show ?thesis using lo md True
        by (cases "module_write h m a v") (auto simp: owner_write_def walk_done)
    next
      case False
      then show ?thesis using Cons.IH [OF ms] lo md by (simp add: module_includes_def)
    qed
  next
    case False
    then show ?thesis using chain_above [OF Cons.prems md] md by (simp add: owner_write_def)
  qed
qed (simp add: owner_write_def)

lemma write_tiers_owner:
  "tiers_ok h ts \<Longrightarrow> write_tiers a v ts (True, False, h) =
     owner_write a v (List.find (\<lambda>m. module_includes h m a) (bus_modules ts)) h"
proof (induction ts)
  case (Cons tms ts)
  obtain t ms where tms: "tms = (t, ms)" by (cases tms)
  then have ok: "tiers_ok h ts" "chain_ok h ms" using Cons.prems tiers_ok_Cons by auto
  show ?case
  proof (cases "List.find (\<lambda>m. module_includes h m a) ms")
    case None
    then show ?thesis using Cons.IH [OF ok(1)]
      by (simp add: tms write_modules_owner [OF ok(2)] owner_write_def bus_modules_Cons find_append)
  next
    case (Some m)
    have "(rc \<noteq> membus_module_op_result_not_accepted) = (rc = membus_module_op_result_accepted)"
      if "module_write h m a v = Some (rc, h')" for rc h'
      using module_write_answer [OF that] result_flags by blast
    then show ?thesis using Some
      by (cases "module_write h m a v")
        (auto simp: tms write_modules_owner [OF ok(2)] owner_write_def bus_modules_Cons find_append
          walk_done split: option.splits)
  qed
qed (simp add: owner_write_def bus_modules_def)

section \<open>Accesses on a well-formed bus return\<close>

lemma find_includes:
  "List.find (\<lambda>m. module_includes h m a) ms = Some m \<Longrightarrow>
    \<exists>md. deref h m = Some md \<and> a \<in> offset_in (addr_range md)"
  by (auto simp: find_Some_iff module_includes_def included_offset split: option.splits)

lemma post_op_reads_total:
  "\<lbrakk>heap_ok h; chain_ok h ms\<rbrakk> \<Longrightarrow> post_op_reads h a v ms = Some ()"
proof (induction ms)
  case (Cons m ms)
  then obtain md where md: "deref h m = Some md" and ms: "chain_ok h ms"
    using chain_ok_Cons by blast
  have "\<exists>r. module_read h m a (Some v) = Some r" if "memory_addr_range_does_include (addr_range md) a"
    using module_read_total [OF Cons.prems(1) md included_offset [OF that]] by blast
  then show ?case using Cons.IH [OF Cons.prems(1) ms] md by auto
qed simp

lemma chain_writes_total:
  "\<lbrakk>heap_ok h; chain_ok h ms\<rbrakk> \<Longrightarrow>
    \<exists>h'. chain_writes a v ms h = Some h' \<and> heap_ok h' \<and> same_shape h h'"
proof (induction ms arbitrary: h)
  case (Cons m ms)
  then obtain md where md: "deref h m = Some md" and ms: "chain_ok h ms"
    using chain_ok_Cons by blast
  show ?case
  proof (cases "addr_lo (addr_range md) \<le> a \<and> memory_addr_range_does_include (addr_range md) a")
    case True
    then obtain rc h1 where h1: "module_write h m a v = Some (rc, h1)" "heap_ok h1" "same_shape h h1"
      using module_write_total [OF Cons.prems(1) md included_offset] by blast
    then have "chain_ok h1 ms" using ms same_shape_chain by blast
    from Cons.IH [OF h1(2) this] show ?thesis
      using True md h1 same_shape_trans by fastforce
  next
    case False
    then show ?thesis using Cons.IH [OF Cons.prems(1) ms] Cons.prems md by auto
  qed
qed simp

text \<open>The byte a read returns and whether anyone answered.\<close>

definition bus_answer :: "membus \<Rightarrow> u16 \<Rightarrow> bool \<times> u8" where
  "bus_answer b a =
    (case Option.bind (bus_owner b a) (\<lambda>m. module_read (bus_heap b) m a (Some 0)) of
       Some (membus_module_op_result_accepted, Some v) \<Rightarrow> (True, v)
     | _ \<Rightarrow> (case read_vector b a of Some v \<Rightarrow> (True, v) | None \<Rightarrow> (False, 0)))"

lemma read_addr_answer:
  assumes "bus_ok b"
  shows "membus_read_addr b a =
    Some (snd (bus_answer b a),
      if fst (bus_answer b a) \<and> \<not> cache_disable b
      then membus_rcache_push b (snd (bus_answer b a)) else b)"
proof -
  let ?h = "bus_heap b"
  have ok: "heap_ok ?h" "tiers_ok ?h (tiers b)" "pre_op b = None"
      "\<And>ms. post_op b = Some ms \<Longrightarrow> chain_ok ?h ms"
    using assms by (auto simp: bus_ok_def)
  have post: "(case post_op b of None \<Rightarrow> Some () | Some ms \<Rightarrow> post_op_reads ?h a v ms) = Some ()" for v
    using post_op_reads_total [OF ok(1)] ok(4) by (cases "post_op b") auto
  have walk: "read_tiers ?h a (tiers b) (True, False, 0) = owner_read ?h a (bus_owner b a) 0"
    unfolding bus_owner_def by (rule read_tiers_owner [OF ok(2)])
  show ?thesis
  proof (cases "bus_owner b a")
    case None
    then show ?thesis
      by (auto simp: membus_read_addr_def ok(3) walk owner_read_def post bus_answer_def
          split: option.splits)
  next
    case (Some m)
    then obtain md where "deref ?h m = Some md" "a \<in> offset_in (addr_range md)"
      unfolding bus_owner_def using find_includes by blast
    then obtain rc v where rd: "module_read ?h m a (Some 0) = Some (rc, Some v)"
      using module_read_total [OF ok(1)] by blast
    note ans = module_read_answer [OF rd]
    then show ?thesis using Some rd
      by (cases rc) (auto simp: membus_read_addr_def ok(3) walk owner_read_def post bus_answer_def
          split: option.splits)
  qed
qed

lemma rcache_push_ok [simp]:
  "bus_ok (membus_rcache_push b v) = bus_ok b" "bus_ok (membus_wcache_push b v) = bus_ok b"
  by (simp_all add: bus_ok_def membus_rcache_push_def membus_wcache_push_def)

lemma read_addr_ok:
  assumes "bus_ok b"
  shows "\<exists>v b'. membus_read_addr b a = Some (v, b') \<and> bus_ok b' \<and> bus_heap b' = bus_heap b"
  using assms by (auto simp: read_addr_answer [OF assms]) (simp_all add: membus_rcache_push_def)

lemma bus_ok_heap:
  assumes "bus_ok b" "heap_ok h" "same_shape (bus_heap b) h"
  shows "bus_ok (b\<lparr>bus_heap := h\<rparr>)"
  using assms by (auto simp: bus_ok_def same_shape_tiers [OF assms(3)] same_shape_chain [OF assms(3)]
      split: option.splits)

lemma write_vector_ok:
  assumes "write_vector b a v = Some b'"
  shows "bus_ok b' = bus_ok b" "bus_heap b' = bus_heap b" "post_op b' = post_op b"
    "tiers b' = tiers b" "pre_op b' = pre_op b"
  using assms by (auto simp: write_vector_def bus_ok_def split: if_splits)

lemma write_addr_steps:
  assumes "pre_op b = None"
    and "write_tiers a v (tiers b) (True, False, bus_heap b) = Some (l, w, h1)"
    and "(f, b2) = (if w then (True, b\<lparr>bus_heap := h1\<rparr>)
       else case write_vector (b\<lparr>bus_heap := h1\<rparr>) a v of None \<Rightarrow> (False, b\<lparr>bus_heap := h1\<rparr>)
         | Some b \<Rightarrow> (True, b))"
    and "(case post_op b2 of None \<Rightarrow> Some (bus_heap b2)
       | Some ms \<Rightarrow> chain_writes a v ms (bus_heap b2)) = Some h2"
  shows "membus_write_addr b a v =
    Some (if f \<and> \<not> cache_disable b2 then membus_wcache_push (b2\<lparr>bus_heap := h2\<rparr>) v
          else b2\<lparr>bus_heap := h2\<rparr>)"
  unfolding membus_write_addr_def assms(1) option.case Option.bind.simps assms(2) prod.case Let_def
    assms(3) [symmetric] assms(4)
  by simp

text \<open>A write reaches the owner of the address, or the vectors when the owner does not accept it.\<close>

lemma write_addr_ok:
  assumes ok: "bus_ok b"
  shows "\<exists>b'. membus_write_addr b a v = Some b' \<and> bus_ok b' \<and> same_shape (bus_heap b) (bus_heap b')
      \<and> tiers b' = tiers b"
proof -
  let ?h = "bus_heap b"
  have h: "heap_ok ?h" "tiers_ok ?h (tiers b)" "pre_op b = None"
    using ok by (auto simp: bus_ok_def)
  have walk: "write_tiers a v (tiers b) (True, False, ?h) = owner_write a v (bus_owner b a) ?h"
    unfolding bus_owner_def by (rule write_tiers_owner [OF h(2)])
  have "\<exists>l w h1. owner_write a v (bus_owner b a) ?h = Some (l, w, h1) \<and> heap_ok h1 \<and> same_shape ?h h1"
  proof (cases "bus_owner b a")
    case None
    then have "owner_write a v (bus_owner b a) ?h = Some (True, False, ?h)"
      by (simp add: owner_write_def)
    with h(1) show ?thesis
      by (intro exI [of _ True] exI [of _ False] exI [of _ ?h]) simp
  next
    case (Some m)
    then obtain md where "deref ?h m = Some md" "a \<in> offset_in (addr_range md)"
      unfolding bus_owner_def using find_includes by blast
    then obtain rc h1 where "module_write ?h m a v = Some (rc, h1)" "heap_ok h1" "same_shape ?h h1"
      using module_write_total [OF h(1)] by blast
    then show ?thesis using Some by (simp add: owner_write_def)
  qed
  then obtain l w h1 where w: "write_tiers a v (tiers b) (True, False, ?h) = Some (l, w, h1)"
      "heap_ok h1" "same_shape ?h h1"
    unfolding walk by blast
  define b1 where "b1 = b\<lparr>bus_heap := h1\<rparr>"
  define st where "st = (if w then (True, b1)
     else case write_vector b1 a v of None \<Rightarrow> (False, b1) | Some b \<Rightarrow> (True, b))"
  have b1: "bus_ok b1" unfolding b1_def by (rule bus_ok_heap [OF ok w(2,3)])
  have st: "bus_ok (snd st)" "bus_heap (snd st) = h1" "tiers (snd st) = tiers b"
  proof -
    have same: "bus_heap b1 = h1" "tiers b1 = tiers b" by (simp_all add: b1_def)
    consider "st = (True, b1)" | "st = (False, b1)"
      | b2 where "write_vector b1 a v = Some b2" "st = (True, b2)"
      unfolding st_def by (cases w; cases "write_vector b1 a v") auto
    then have "bus_ok (snd st) \<and> bus_heap (snd st) = h1 \<and> tiers (snd st) = tiers b"
    proof cases
      case 3
      then show ?thesis by (simp only: write_vector_ok [OF 3(1)] snd_conv b1 same simp_thms)
    qed (simp_all add: b1 same)
    then show "bus_ok (snd st)" "bus_heap (snd st) = h1" "tiers (snd st) = tiers b" by auto
  qed
  have "\<exists>h2. (case post_op (snd st) of None \<Rightarrow> Some h1 | Some ms \<Rightarrow> chain_writes a v ms h1)
      = Some h2 \<and> heap_ok h2 \<and> same_shape h1 h2"
  proof (cases "post_op (snd st)")
    case None
    then show ?thesis using w(2) by simp
  next
    case (Some ms)
    then have "chain_ok h1 ms" using st(1,2) by (auto simp: bus_ok_def)
    then show ?thesis using chain_writes_total [OF w(2)] Some by simp
  qed
  then obtain h2 where h2: "(case post_op (snd st) of None \<Rightarrow> Some h1
      | Some ms \<Rightarrow> chain_writes a v ms h1) = Some h2" "heap_ok h2" "same_shape h1 h2"
    by blast
  have eq: "membus_write_addr b a v =
      Some (if fst st \<and> \<not> cache_disable (snd st)
            then membus_wcache_push ((snd st)\<lparr>bus_heap := h2\<rparr>) v else (snd st)\<lparr>bus_heap := h2\<rparr>)"
  proof (rule write_addr_steps [OF h(3) w(1)])
    show "(fst st, snd st) = (if w then (True, b\<lparr>bus_heap := h1\<rparr>)
       else case write_vector (b\<lparr>bus_heap := h1\<rparr>) a v of None \<Rightarrow> (False, b\<lparr>bus_heap := h1\<rparr>)
         | Some b \<Rightarrow> (True, b))"
      unfolding prod.collapse st_def b1_def by (rule refl)
  qed (simp only: h2(1) st(2))
  have "bus_ok ((snd st)\<lparr>bus_heap := h2\<rparr>)"
    by (rule bus_ok_heap) (use st h2 in auto)
  then show ?thesis unfolding eq using st(3) same_shape_trans [OF w(3) h2(3)]
    by (auto simp: membus_wcache_push_def bus_ok_def)
qed

end
