(* ===== verification/Bus_Ram.thy ===== *)
theory Bus_Ram
  imports Bus_Laws
begin

text \<open>
  The bus the programs of the repository start from: one 64k module in one tier.  The range of
  that module ends at \<open>0xFFFE\<close>; the last address is the high byte of the bus's IRQ vector, and the
  bus still is a byte store on all 65536 addresses.  Registration keeps a bus well formed.
\<close>

section \<open>The bus of one 64k module\<close>

definition std64k_range :: memory_addr_range where
  "std64k_range = \<lparr>addr_lo = 0, addr_len = 0xFFFF\<rparr>"

definition ram_bus :: "module_ref \<Rightarrow> membus \<Rightarrow> bool" where
  "ram_bus m b \<longleftrightarrow> std64k_at m (bus_heap b)
     \<and> map_option addr_range (deref (bus_heap b) m) = Some std64k_range
     \<and> pre_op b = None \<and> post_op b = None \<and> (\<exists>t. tiers b = [(t, [m])])"

definition bus_view :: "module_ref \<Rightarrow> membus \<Rightarrow> u16 \<Rightarrow> u8" where
  "bus_view m b a = (if a = 0xFFFF then hi_byte (irq_vector b) else module_view m (bus_heap b) a)"

lemma std64k_includes: "memory_addr_range_does_include std64k_range a \<longleftrightarrow> a \<noteq> 0xFFFF"
proof -
  have "uint a < 65535 \<longleftrightarrow> a \<noteq> 0xFFFF"
  proof -
    have "uint a < 65536" using uint_lt2p [of a] by simp
    moreover have "a = 0xFFFF \<longleftrightarrow> uint a = 65535" by (simp add: word_uint_eq_iff)
    ultimately show ?thesis by linarith
  qed
  then show ?thesis by (simp add: memory_addr_range_does_include_def std64k_range_def)
qed

lemma ram_busE:
  assumes "ram_bus m b"
  obtains md ram t where "deref (bus_heap b) m = Some md" "module_impl md = Std64k_impl ram"
    "addr_range md = std64k_range" "pre_op b = None" "post_op b = None" "tiers b = [(t, [m])]"
  using assms by (auto simp: ram_bus_def elim: std64k_atE)

lemma read_vector_top: "read_vector b 0xFFFF = Some (hi_byte (irq_vector b))"
  by (simp add: read_vector_def vector_addr_defs)

lemma write_vector_top:
  "write_vector b 0xFFFF v = Some (b\<lparr>irq_vector := (irq_vector b AND 0x00FF) OR push_bit 8 (widen v)\<rparr>)"
  by (simp add: write_vector_def vector_addr_defs)

lemma hi_byte_set: "hi_byte ((w AND 0x00FF) OR push_bit 8 (widen v)) = v"
  unfolding hi_byte_def low_mask high_mask
  by (rule bit_word_eqI) (auto simp: bit_simps dest: bit_imp_le_length)

lemma addr_lo_std64k [simp]: "addr_lo std64k_range = 0"
  by (simp add: std64k_range_def)

text \<open>The exact result of an access.\<close>

lemma ram_bus_read:
  assumes "ram_bus m b"
  shows "membus_read_addr b a = Some (bus_view m b a,
    if cache_disable b then b else membus_rcache_push b (bus_view m b a))"
proof -
  obtain md ram t where md: "deref (bus_heap b) m = Some md" "module_impl md = Std64k_impl ram"
    "addr_range md = std64k_range" "pre_op b = None" "post_op b = None" "tiers b = [(t, [m])]"
    using assms by (rule ram_busE)
  show ?thesis using md
    by (simp add: membus_read_addr_def std64k_includes bus_view_def read_vector_top
        module_read_kind(3) [OF md(1,2)] membus_module_std64k_read_addr_def module_view_def)
qed

definition ram_store :: "module_ref \<Rightarrow> membus \<Rightarrow> u16 \<Rightarrow> u8 \<Rightarrow> membus" where
  "ram_store m b a v =
    (if a = 0xFFFF then b\<lparr>irq_vector := (irq_vector b AND 0x00FF) OR push_bit 8 (widen v)\<rparr>
     else b\<lparr>bus_heap := set_impl (bus_heap b) m (Std64k_impl ((module_view m (bus_heap b))(a := v)))\<rparr>)"

lemma ram_bus_write:
  assumes "ram_bus m b"
  shows "membus_write_addr b a v =
    Some (let b = ram_store m b a v in if cache_disable b then b else membus_wcache_push b v)"
proof -
  obtain md ram t where md: "deref (bus_heap b) m = Some md" "module_impl md = Std64k_impl ram"
    "addr_range md = std64k_range" "pre_op b = None" "post_op b = None" "tiers b = [(t, [m])]"
    using assms by (rule ram_busE)
  have v: "module_view m (bus_heap b) = ram"
    using md by (simp add: module_view_def fun_eq_iff)
  show ?thesis using md
    by (auto simp: membus_write_addr_def std64k_includes write_vector_top ram_store_def v
        module_write_kind(3) [OF md(1,2)] Let_def)
qed

lemma ram_store_ok:
  assumes "ram_bus m b"
  shows "ram_bus m (ram_store m b a v)" "bus_view m (ram_store m b a v) = (bus_view m b)(a := v)"
proof -
  obtain md ram t where md: "deref (bus_heap b) m = Some md" "module_impl md = Std64k_impl ram"
    "addr_range md = std64k_range" "pre_op b = None" "post_op b = None" "tiers b = [(t, [m])]"
    using assms by (rule ram_busE)
  have v: "module_view m (bus_heap b) = ram"
    using md by (simp add: module_view_def fun_eq_iff)
  show "ram_bus m (ram_store m b a v)"
    using md by (auto simp: ram_bus_def ram_store_def std64k_at_def deref_set_impl)
  show "bus_view m (ram_store m b a v) = (bus_view m b)(a := v)"
    using md by (auto simp: bus_view_def ram_store_def fun_eq_iff hi_byte_set module_view_def
        deref_set_impl)
qed

lemma ram_bus_push [simp]:
  "ram_bus m (membus_rcache_push b v) = ram_bus m b" "ram_bus m (membus_wcache_push b v) = ram_bus m b"
  "bus_view m (membus_rcache_push b v) = bus_view m b" "bus_view m (membus_wcache_push b v) = bus_view m b"
  by (simp_all add: ram_bus_def membus_rcache_push_def membus_wcache_push_def bus_view_def fun_eq_iff)

lemma ram_bus_cache [simp]:
  "ram_bus m (membus_set_cache_disable b d) = ram_bus m b"
  "bus_view m (membus_set_cache_disable b d) = bus_view m b"
  by (simp_all add: ram_bus_def membus_set_cache_disable_def bus_view_def fun_eq_iff)

interpretation ram_store: byte_store "ram_bus m" UNIV membus_read_addr membus_write_addr "bus_view m"
  for m
proof
  fix b a
  assume ok: "ram_bus m b"
  show "\<exists>s'. membus_read_addr b a = Some (bus_view m b a, s') \<and> ram_bus m s' \<and> bus_view m s' = bus_view m b"
    using ok by (simp add: ram_bus_read)
  show "\<exists>s'. membus_write_addr b a v = Some s' \<and> ram_bus m s' \<and> bus_view m s' = (bus_view m b)(a := v)"
    for v using ram_store_ok [OF ok] by (simp add: ram_bus_write [OF ok] Let_def)
qed

text \<open>The same as rewrite rules for one module: what is left of the bus after an access.\<close>

definition bus_got :: "module_ref \<Rightarrow> u16 \<Rightarrow> membus \<Rightarrow> membus" where
  "bus_got m a b = (if cache_disable b then b else membus_rcache_push b (bus_view m b a))"

definition bus_put :: "module_ref \<Rightarrow> u16 \<Rightarrow> u8 \<Rightarrow> membus \<Rightarrow> membus" where
  "bus_put m a v b =
    (let b = ram_store m b a v in if cache_disable b then b else membus_wcache_push b v)"

lemma ram_read: "ram_bus m b \<Longrightarrow> membus_read_addr b a = Some (bus_view m b a, bus_got m a b)"
  by (simp add: ram_bus_read bus_got_def)

lemma ram_write: "ram_bus m b \<Longrightarrow> membus_write_addr b a v = Some (bus_put m a v b)"
  by (simp add: ram_bus_write bus_put_def)

lemma bus_after [simp]:
  "ram_bus m (bus_got m a b) = ram_bus m b"
  "bus_view m (bus_got m a b) = bus_view m b"
  "ram_bus m b \<Longrightarrow> ram_bus m (bus_put m a v b)"
  "ram_bus m b \<Longrightarrow> bus_view m (bus_put m a v b) = (bus_view m b)(a := v)"
  by (simp_all add: bus_got_def bus_put_def Let_def ram_store_ok)

text \<open>Allocation and registration build such a bus.\<close>

definition default_bus :: "membus \<Rightarrow> (u16 \<Rightarrow> u8) \<Rightarrow> int \<Rightarrow> membus option" where
  "default_bus junk ram tier =
    (let b = membus_alloc junk;
         (h, m) = membus_module_std64k_alloc (bus_heap b) ram
     in map_option snd (membus_register_module (b\<lparr>bus_heap := h\<rparr>) tier m))"

lemma default_bus_ram:
  assumes "tier \<noteq> MEMBUS_TIER_PRE_OP" "tier \<noteq> MEMBUS_TIER_POST_OP"
  shows "\<exists>b. default_bus junk ram tier = Some b \<and> ram_bus (length (bus_heap junk)) b
    \<and> (\<forall>a. a \<noteq> 0xFFFF \<longrightarrow> bus_view (length (bus_heap junk)) b a = ram a)
    \<and> bus_view (length (bus_heap junk)) b 0xFFFF = 0xCA"
  using assms
  by (auto simp: default_bus_def membus_alloc_def membus_module_std64k_alloc_def module_malloc_def
      membus_register_module_def membus_module_retain_def Let_def ram_bus_def std64k_at_def
      bus_view_def module_view_def std64k_range_def hi_byte_def)

section \<open>Registration keeps the bus well formed\<close>

lemma retain_deref:
  assumes "membus_module_retain h m = Some h'"
  shows "map_option addr_range (deref h k) = map_option addr_range (deref h' k)"
    and "map_option module_impl (deref h k) = map_option module_impl (deref h' k)"
  using assms
  by (auto simp: membus_module_retain_def bind_eq_Some_conv deref_def nth_list_update split: if_splits)

lemma retain_heap_ok:
  assumes r: "membus_module_retain h m = Some h'" and ok: "heap_ok h"
  shows "heap_ok h'"
  unfolding heap_ok_def
proof (intro allI impI)
  fix k md' assume k: "deref h' k = Some md'"
  then obtain md where md: "deref h k = Some md" "addr_range md' = addr_range md"
      "module_impl md' = module_impl md"
    using retain_deref [OF r, of k] by (cases "deref h k") auto
  have other: "\<exists>o'. deref h' i = Some o' \<and> addr_range o' = addr_range x" if "deref h i = Some x" for i x
    using that retain_deref(1) [OF r, of i] by (cases "deref h' i") auto
  have "module_ok h k md" using ok md by (auto simp: heap_ok_def)
  then show "module_ok h' k md'"
    using md other by (fastforce simp: module_ok_def split: membus_module_impl.splits)
qed

lemma retain_chain_ok:
  assumes r: "membus_module_retain h m = Some h'"
  shows "chain_ok h' ms = chain_ok h ms"
proof -
  have n: "deref h k = None \<longleftrightarrow> deref h' k = None" for k
    using retain_deref(1) [OF r, of k] by (cases "deref h k"; cases "deref h' k") auto
  have "module_lo h k = module_lo h' k" for k
    using retain_deref(1) [OF r, of k]
    by (cases "deref h k"; cases "deref h' k") (auto simp: module_lo_def)
  then show ?thesis using n by (simp add: chain_ok_def)
qed

lemma insert_module_ok:
  assumes "chain_ok h ms" "deref h new \<noteq> None"
  shows "\<exists>ms'. insert_module h new ms = Some ms' \<and> chain_ok h ms' \<and> set ms' = insert new (set ms)
    \<and> length ms' = Suc (length ms)"
  using assms(1)
proof (induction ms)
  case Nil
  then show ?case using assms(2) by (simp add: chain_ok_def)
next
  case (Cons m ms)
  then obtain md where md: "deref h m = Some md" and ms: "chain_ok h ms"
    using chain_ok_Cons by blast
  obtain nd where nd: "deref h new = Some nd" using assms(2) by auto
  from Cons.IH [OF ms] obtain ms' where ms': "insert_module h new ms = Some ms'" "chain_ok h ms'"
      "set ms' = insert new (set ms)" "length ms' = Suc (length ms)"
    by blast
  show ?case
  proof (cases "addr_lo (addr_range md) < addr_lo (addr_range nd)")
    case True
    then have "chain_ok h (m # ms')"
      using ms' Cons.prems md nd by (auto simp: chain_ok_def module_lo_def)
    then show ?thesis using True ms' md nd by auto
  next
    case False
    then have "chain_ok h (new # m # ms)"
      using Cons.prems md nd by (auto simp: chain_ok_def module_lo_def)
    then show ?thesis using False md nd by auto
  qed
qed

lemma insert_in_tiers_ok:
  assumes "tiers_ok h ts" "deref h new \<noteq> None"
  shows "\<exists>ts'. insert_in_tiers h tier new r ts = Some ts' \<and> tiers_ok h ts'
    \<and> fst ` set ts' \<subseteq> insert tier (fst ` set ts)"
  using assms(1)
proof (induction ts arbitrary: r)
  case Nil
  then show ?case using assms(2) by (auto simp: tiers_ok_def chain_ok_def)
next
  case (Cons tms ts)
  obtain t ms where tms: "tms = (t, ms)" by (cases tms)
  have ok: "tiers_ok h ts" "chain_ok h ms" using Cons.prems tiers_ok_Cons tms by auto
  have later: "\<forall>x \<in> fst ` set ts. t < x" using Cons.prems by (auto simp: tiers_ok_def tms)
  consider "t < tier" | "t = tier" | "tier < t" by linarith
  then show ?case
  proof cases
    case 1
    obtain ts' where ts': "insert_in_tiers h tier new False ts = Some ts'" "tiers_ok h ts'"
        "fst ` set ts' \<subseteq> insert tier (fst ` set ts)"
      using Cons.IH [OF ok(1)] by blast
    have "\<forall>x \<in> fst ` set ts'. t < x" using ts'(3) later 1 by blast
    then have "tiers_ok h ((t, ms) # ts')" using ts'(2) ok(2) by (auto simp: tiers_ok_def)
    then show ?thesis using 1 ts' by (auto simp: tms)
  next
    case 2
    obtain ms' where "insert_module h new ms = Some ms'" "chain_ok h ms'"
      using insert_module_ok [OF ok(2) assms(2)] by blast
    then show ?thesis using 2 Cons.prems by (auto simp: tms tiers_ok_def)
  next
    case 3
    have "chain_ok h [new]" using assms(2) by (simp add: chain_ok_def)
    then show ?thesis using 3 Cons.prems later by (auto simp: tms tiers_ok_def)
  qed
qed

lemma register_module_ok:
  assumes "bus_ok b" "deref (bus_heap b) m \<noteq> None" "tier \<noteq> MEMBUS_TIER_PRE_OP"
  shows "\<exists>b'. membus_register_module b tier m = Some (True, b') \<and> bus_ok b'"
proof -
  obtain h where r: "membus_module_retain (bus_heap b) m = Some h"
    using assms(2) by (auto simp: membus_module_retain_def)
  have h: "heap_ok h" "tiers_ok h (tiers b)" "\<And>ms. post_op b = Some ms \<Longrightarrow> chain_ok h ms"
    "pre_op b = None"
    using assms(1) retain_heap_ok [OF r] retain_chain_ok [OF r]
    by (auto simp: bus_ok_def tiers_ok_def)
  have m: "deref h m \<noteq> None"
    using assms(2) retain_deref(1) [OF r, of m] by (cases "deref h m") auto
  show ?thesis
  proof (cases "tier = MEMBUS_TIER_POST_OP")
    case True
    have "chain_ok h (case post_op b of None \<Rightarrow> [] | Some ms \<Rightarrow> ms)"
      using h(3) by (auto simp: chain_ok_def split: option.splits)
    then show ?thesis using insert_module_ok [OF _ m] True h r assms(3)
      by (fastforce simp: membus_register_module_def bus_ok_def MEMBUS_TIER_PRE_OP_def
          MEMBUS_TIER_POST_OP_def)
  next
    case False
    then show ?thesis using insert_in_tiers_ok [OF h(2) m, of tier True] h r assms(3)
      by (fastforce simp: membus_register_module_def bus_ok_def)
  qed
qed

text \<open>A tier below the first one takes the place of the whole list.\<close>

lemma register_below_first:
  assumes "deref (bus_heap b) m \<noteq> None" "tiers b = (t, ms) # ts" "tier < t"
    "tier \<noteq> MEMBUS_TIER_PRE_OP" "tier \<noteq> MEMBUS_TIER_POST_OP"
  shows "\<exists>b'. membus_register_module b tier m = Some (True, b') \<and> tiers b' = [(tier, [m])]"
  using assms by (auto simp: membus_register_module_def membus_module_retain_def)

end
