(* ===== verification/Executor.thy ===== *)
theory Executor
  imports Isa65_Disasm Bus_Ram
begin

text \<open>
  The executor, \<^verbatim>\<open>src/executor.h\<close> and \<^verbatim>\<open>src/executor.c\<close>, in the default build: with locks and
  with the disassembly of what was executed.  The eight launch functions of the source are one text each for the staged and
  the static bodies, with or without callbacks and with or without locks; here a parameter \<open>cb\<close>
  says for which stages a callback is made and a parameter \<open>locking\<close> whether the lock is used.

  Where a launch function drops the lock and takes it again, other threads run: the machine holds
  the list of the requests they make in each such window.  A callback only looks at the executor;
  what it is told, except the text of a disassembly, is appended to a trace.  The callbacks of a DMA transfer keep no state of their
  own.  Taking a lock that is held has no result, nor has a call through a null pointer.
\<close>

section \<open>State\<close>

definition executor_flags_is_bundle :: u32 where "executor_flags_is_bundle = 1"
definition executor_flags_nmi_is_set :: u32 where "executor_flags_nmi_is_set = 2"
definition executor_flags_irq_is_set :: u32 where "executor_flags_irq_is_set = 4"
definition executor_flags_dma_is_set :: u32 where "executor_flags_dma_is_set = 8"
definition executor_flags_exec_stop :: u32 where "executor_flags_exec_stop = 16"

lemmas flag_defs = executor_flags_is_bundle_def executor_flags_nmi_is_set_def
  executor_flags_irq_is_set_def executor_flags_dma_is_set_def executor_flags_exec_stop_def

text \<open>A provider answers with the byte it stored, or \<open>None\<close> for \<open>false\<close>.\<close>

record executor =
  ex_flags :: u32
  ex_registers :: registers
  ex_memory :: membus
  ex_isa :: isa_6502_table
  dma_range :: memory_addr_range
  dma_provider :: "(u16 \<Rightarrow> u8 option) option"
  dma_consumer :: "(u16 \<Rightarrow> u8 \<Rightarrow> bool) option"
  state_locked :: bool

text \<open>What another thread asks for.\<close>

datatype executor_request =
    request_irq
  | request_nmi
  | request_exec_stop
  | request_dma_copyin memory_addr_range "u16 \<Rightarrow> u8 option"
  | request_dma_copyout memory_addr_range "u16 \<Rightarrow> u8 \<Rightarrow> bool"
  | request_hard_reset

text \<open>The executor together with the local variables of a launch function (the instruction
  context holds pointers to the registers and memory of the executor), the C statics of the staged
  bodies and the environment: the indeterminate values of variables that are not initialised, the
  windows still to come, and what callbacks and DMA consumer were told.\<close>

record machine = executor +
  instr_opcode :: u8
  instr_mode :: isa_6502_addressing
  instr_cycles :: u64
  total_cycles :: u64
  next_stage :: isa_6502_instr_stage
  saved_stage :: isa_6502_instr_stage
  is_in_dma :: bool
  is_dma_started :: bool
  is_dma_copyout :: bool
  saved_membus_cache_state :: bool
  dma_addr_hi :: u32
  dma_byte_index :: u16
  dma_next_byte :: u8
  statics :: "isa_6502_op \<Rightarrow> isa_locals"
  indet_locals :: "u64 \<Rightarrow> isa_locals"
  indet_stage :: "u64 \<Rightarrow> isa_6502_instr_stage"
  windows :: "executor_request list list"
  trace :: "(isa_6502_instr_stage \<times> u8 \<times> isa_6502_addressing \<times> u64) list"
  consumed :: "(u16 \<times> u8) list"

type_synonym stage_callback = "isa_6502_instr_stage \<Rightarrow> bool"

abbreviation no_callback :: stage_callback where "no_callback \<equiv> \<lambda>_. False"

definition has_flag :: "u32 \<Rightarrow> 'a executor_scheme \<Rightarrow> bool" where
  "has_flag f s \<longleftrightarrow> ex_flags s AND f \<noteq> 0"

definition set_flag :: "u32 \<Rightarrow> 'a executor_scheme \<Rightarrow> 'a executor_scheme" where
  "set_flag f s = s\<lparr>ex_flags := ex_flags s OR f\<rparr>"

definition clear_flags :: "u32 \<Rightarrow> 'a executor_scheme \<Rightarrow> 'a executor_scheme" where
  "clear_flags f s = s\<lparr>ex_flags := ex_flags s AND NOT f\<rparr>"

definition internal_flags :: u32 where
  "internal_flags = executor_flags_nmi_is_set OR executor_flags_irq_is_set
     OR executor_flags_dma_is_set OR executor_flags_exec_stop"

section \<open>The lock and the operations under it\<close>

definition take_lock :: "'a executor_scheme \<Rightarrow> 'a executor_scheme option" where
  "take_lock s = (if state_locked s then None else Some (s\<lparr>state_locked := True\<rparr>))"

definition drop_lock :: "'a executor_scheme \<Rightarrow> 'a executor_scheme" where
  "drop_lock s = s\<lparr>state_locked := False\<rparr>"

definition locked :: "('a executor_scheme \<Rightarrow> 'a executor_scheme) \<Rightarrow> 'a executor_scheme \<Rightarrow> 'a executor_scheme option" where
  "locked f s = map_option (drop_lock \<circ> f) (take_lock s)"

definition executor_hard_reset :: "'a executor_scheme \<Rightarrow> 'a executor_scheme option" where
  "executor_hard_reset =
     locked (\<lambda>s. clear_flags internal_flags (s\<lparr>ex_registers := registers_reset (ex_registers s)\<rparr>))"

definition executor_set_irq :: "'a executor_scheme \<Rightarrow> 'a executor_scheme option" where
  "executor_set_irq = locked (set_flag executor_flags_irq_is_set)"

definition executor_set_nmi :: "'a executor_scheme \<Rightarrow> 'a executor_scheme option" where
  "executor_set_nmi = locked (set_flag executor_flags_nmi_is_set)"

definition executor_set_exec_stop :: "'a executor_scheme \<Rightarrow> 'a executor_scheme option" where
  "executor_set_exec_stop = locked (set_flag executor_flags_exec_stop)"

definition executor_set_dma_copyin ::
    "memory_addr_range \<Rightarrow> (u16 \<Rightarrow> u8 option) \<Rightarrow> 'a executor_scheme \<Rightarrow> 'a executor_scheme option" where
  "executor_set_dma_copyin r provider = locked (\<lambda>s.
     if has_flag executor_flags_dma_is_set s then s
     else (set_flag executor_flags_dma_is_set s)
       \<lparr>dma_range := r, dma_provider := Some provider, dma_consumer := None\<rparr>)"

definition executor_set_dma_copyout ::
    "memory_addr_range \<Rightarrow> (u16 \<Rightarrow> u8 \<Rightarrow> bool) \<Rightarrow> 'a executor_scheme \<Rightarrow> 'a executor_scheme option" where
  "executor_set_dma_copyout r consumer = locked (\<lambda>s.
     if has_flag executor_flags_dma_is_set s then s
     else (set_flag executor_flags_dma_is_set s)
       \<lparr>dma_range := r, dma_provider := None, dma_consumer := Some consumer\<rparr>)"

fun apply_request :: "executor_request \<Rightarrow> 'a executor_scheme \<Rightarrow> 'a executor_scheme option" where
  "apply_request request_irq s = executor_set_irq s"
| "apply_request request_nmi s = executor_set_nmi s"
| "apply_request request_exec_stop s = executor_set_exec_stop s"
| "apply_request (request_dma_copyin r provider) s = executor_set_dma_copyin r provider s"
| "apply_request (request_dma_copyout r consumer) s = executor_set_dma_copyout r consumer s"
| "apply_request request_hard_reset s = executor_hard_reset s"

fun apply_requests :: "executor_request list \<Rightarrow> 'a executor_scheme \<Rightarrow> 'a executor_scheme option" where
  "apply_requests [] s = Some s"
| "apply_requests (q # qs) s = do { s \<leftarrow> apply_request q s; apply_requests qs s }"

lemmas request_defs = locked_def take_lock_def drop_lock_def executor_hard_reset_def
  executor_set_irq_def executor_set_nmi_def executor_set_exec_stop_def
  executor_set_dma_copyin_def executor_set_dma_copyout_def

text \<open>\<open>pthread_mutex_unlock\<close> and \<open>pthread_mutex_lock\<close> in a row: the other threads' turn.\<close>

definition window :: "bool \<Rightarrow> machine \<Rightarrow> machine option" where
  "window locking s =
    (if \<not> locking then Some s
     else case windows s of
       [] \<Rightarrow> take_lock (drop_lock s)
     | w # ws \<Rightarrow> do { s \<leftarrow> apply_requests w (drop_lock (s\<lparr>windows := ws\<rparr>)); take_lock s })"

section \<open>Allocation\<close>

text \<open>The parameter \<open>junk\<close> holds what \<open>malloc\<close> returned for the fields that are not set.\<close>

definition executor_alloc_with_components ::
    "executor \<Rightarrow> registers \<Rightarrow> membus \<Rightarrow> isa_6502_table \<Rightarrow> executor" where
  "executor_alloc_with_components junk the_registers the_memory the_isa =
     junk\<lparr>ex_flags := 0, ex_registers := the_registers, ex_memory := the_memory,
       ex_isa := the_isa, state_locked := False\<rparr>"

definition executor_alloc_with_default_components ::
    "executor \<Rightarrow> (u16 \<Rightarrow> u8) \<Rightarrow> executor option" where
  "executor_alloc_with_default_components junk ram = do {
     b \<leftarrow> default_bus (ex_memory junk) ram 0;
     Some (junk\<lparr>ex_flags := executor_flags_is_bundle, ex_registers := registers_init (Some (ex_registers junk)) (ex_registers junk),
       ex_memory := b, ex_isa := isa_6502_base_table, state_locked := False\<rparr>) }"

text \<open>What is left on the heap of bus modules.\<close>

definition executor_free :: "'a executor_scheme \<Rightarrow> module_heap option" where
  "executor_free s = do {
     s \<leftarrow> take_lock s;
     if ex_flags s AND executor_flags_is_bundle \<noteq> executor_flags_is_bundle
     then membus_free (ex_memory s) else Some (bus_heap (ex_memory s)) }"

section \<open>The steps of a launch function\<close>

definition emit ::
    "stage_callback \<Rightarrow> isa_6502_instr_stage \<Rightarrow> u8 \<Rightarrow> isa_6502_addressing \<Rightarrow> u64 \<Rightarrow> machine \<Rightarrow> machine" where
  "emit cb at_stage op mode n s =
    (if cb at_stage then s\<lparr>trace := trace s @ [(at_stage, op, mode, n)]\<rparr> else s)"

text \<open>The arguments of the callbacks before decoding, and those after it.\<close>

definition emit_plain :: "stage_callback \<Rightarrow> isa_6502_instr_stage \<Rightarrow> u64 \<Rightarrow> machine \<Rightarrow> machine" where
  "emit_plain cb at_stage n = emit cb at_stage 0 isa_6502_addressing_undefined n"

definition emit_instr :: "stage_callback \<Rightarrow> isa_6502_instr_stage \<Rightarrow> isa_6502_addressing \<Rightarrow> machine \<Rightarrow> machine" where
  "emit_instr cb at_stage mode s = emit cb at_stage (instr_opcode s) mode (instr_cycles s) s"

lemma emit_trace:
  "emit cb at_stage op mode n s =
     s\<lparr>trace := trace s @ (if cb at_stage then [(at_stage, op, mode, n)] else [])\<rparr>"
  by (simp add: emit_def)

lemmas emit_defs = emit_trace emit_plain_def emit_instr_def

lemma no_callback_emit [simp]:
  "emit_plain no_callback at_stage n s = s" "emit_instr no_callback at_stage mode s = s"
  by (simp_all add: emit_plain_def emit_instr_def emit_def)

definition instr_context_of :: "machine \<Rightarrow> isa_6502_instr_context" where
  "instr_context_of s =
     \<lparr>opcode = instr_opcode s, addressing_mode = instr_mode s, cycle_count = instr_cycles s,
      memory = ex_memory s, registers = ex_registers s\<rparr>"

definition with_instr_context :: "isa_6502_instr_context \<Rightarrow> machine \<Rightarrow> machine" where
  "with_instr_context c s =
     s\<lparr>instr_opcode := opcode c, instr_mode := addressing_mode c, instr_cycles := cycle_count c,
       ex_memory := memory c, ex_registers := registers c\<rparr>"

text \<open>\<open>instr_context.cycle_count++, total_cycles++\<close>\<close>

definition count_cycle :: "machine \<Rightarrow> machine" where
  "count_cycle s = s\<lparr>instr_cycles := instr_cycles s + 1, total_cycles := total_cycles s + 1\<rparr>"

text \<open>One call of a staged body, and the call of a static one.\<close>

definition call_staged :: "isa_6502_op \<Rightarrow> machine \<Rightarrow> machine option" where
  "call_staged f s = do {
     (at_stage, l, c) \<leftarrow> staged_fn f (statics s f) (instr_context_of s);
     Some (count_cycle ((with_instr_context c s)
       \<lparr>statics := (statics s)(f := l), next_stage := at_stage\<rparr>)) }"

definition call_static :: "isa_6502_op \<Rightarrow> machine \<Rightarrow> machine option" where
  "call_static f s = do {
     (at_stage, c) \<leftarrow> static_fn f isa_6502_instr_stage_next_cycle (indet_locals s (total_cycles s))
       (instr_context_of s);
     let s = with_instr_context c s;
     Some (s\<lparr>total_cycles := total_cycles s + instr_cycles s\<rparr>) }"

text \<open>The head of the loop: fetch and decode.  The flag is false where the loop is left.\<close>

definition fetch_instr :: "stage_callback \<Rightarrow> machine \<Rightarrow> machine option" where
  "fetch_instr cb s = (
     let s = s\<lparr>instr_opcode := 0, instr_cycles := 0,
               next_stage := indet_stage s (total_cycles s),
               saved_stage := indet_stage s (total_cycles s)\<rparr>;
         s = emit_plain cb isa_6502_instr_stage_pre_fetch_opcode 0 s in
     do {
       (v, m) \<leftarrow> membus_read_addr (ex_memory s) (reg_PC (ex_registers s));
       let s = s\<lparr>instr_opcode := v, ex_memory := m,
                 ex_registers := (ex_registers s)\<lparr>reg_PC := reg_PC (ex_registers s) + 1\<rparr>\<rparr>;
       Some (emit_instr cb isa_6502_instr_stage_post_fetch_opcode isa_6502_addressing_undefined
         (count_cycle s)) })"

definition decode_instr :: "stage_callback \<Rightarrow> machine \<Rightarrow> bool \<times> isa_6502_opcode_dispatch \<times> machine" where
  "decode_instr cb s = (
     let s = emit_instr cb isa_6502_instr_stage_pre_decode_opcode isa_6502_addressing_undefined s;
         d = isa_6502_table_lookup_dispatch (ex_isa s) (instr_opcode s);
         s = emit_instr cb isa_6502_instr_stage_post_decode_opcode (dispatch_mode d) s in
     if dispatch_mode d = isa_6502_addressing_undefined
     then (False, d, emit_instr cb isa_6502_instr_stage_illegal_instruction (dispatch_mode d) s)
     else (True, d, s\<lparr>instr_mode := dispatch_mode d\<rparr>))"

section \<open>Direct memory access\<close>

definition enter_dma :: "stage_callback \<Rightarrow> machine \<Rightarrow> machine" where
  "enter_dma cb s = emit_plain cb isa_6502_instr_stage_exec_dma (total_cycles s)
     (s\<lparr>is_in_dma := True,
        is_dma_started := total_cycles s mod 2 = 0,
        is_dma_copyout := dma_consumer s \<noteq> None,
        dma_byte_index := 0,
        dma_addr_hi := ucast (memory_addr_range_get_end (dma_range s)),
        saved_stage := next_stage s,
        next_stage := isa_6502_instr_stage_exec_dma,
        saved_membus_cache_state := membus_get_cache_disable (ex_memory s),
        ex_memory := membus_set_cache_disable (ex_memory s) True\<rparr>)"

definition leave_dma :: "machine \<Rightarrow> machine" where
  "leave_dma s = clear_flags executor_flags_dma_is_set
     (s\<lparr>is_dma_started := False, is_in_dma := False, next_stage := saved_stage s,
        ex_memory := membus_set_cache_disable (ex_memory s) (saved_membus_cache_state s)\<rparr>)"

definition dma_advance :: "machine \<Rightarrow> machine" where
  "dma_advance s = s\<lparr>dma_range := (dma_range s)\<lparr>addr_lo := addr_lo (dma_range s) + 1\<rparr>\<rparr>"

definition dma_write :: "machine \<Rightarrow> machine option" where
  "dma_write s = do {
     s \<leftarrow> (if is_dma_copyout s then do {
              consumer \<leftarrow> dma_consumer s;
              let i = dma_byte_index s;
              let b = dma_next_byte s;
              let s = s\<lparr>dma_byte_index := i + 1, consumed := consumed s @ [(i, b)]\<rparr>;
              Some (if consumer i b then s else leave_dma s) }
            else do {
              m \<leftarrow> membus_write_addr (ex_memory s) (addr_lo (dma_range s)) (dma_next_byte s);
              Some (dma_advance (s\<lparr>ex_memory := m\<rparr>)) });
     Some (if dma_addr_hi s \<le> ucast (addr_lo (dma_range s)) then leave_dma s else s) }"

definition dma_read :: "machine \<Rightarrow> machine option" where
  "dma_read s =
    (if is_dma_copyout s then do {
       (v, m) \<leftarrow> membus_read_addr (ex_memory s) (addr_lo (dma_range s));
       Some (dma_advance (s\<lparr>ex_memory := m, dma_next_byte := v\<rparr>)) }
     else do {
       provider \<leftarrow> dma_provider s;
       let i = dma_byte_index s;
       let s = s\<lparr>dma_byte_index := i + 1\<rparr>;
       Some (case provider i of Some b \<Rightarrow> s\<lparr>dma_next_byte := b\<rparr> | None \<Rightarrow> leave_dma s) })"

definition dma_cycle :: "machine \<Rightarrow> machine option" where
  "dma_cycle s =
    (if is_dma_started s then do {
       s \<leftarrow> (if total_cycles s mod 2 \<noteq> 0 then dma_write s else dma_read s);
       Some (s\<lparr>total_cycles := total_cycles s + 1\<rparr>) }
     else let s = s\<lparr>total_cycles := total_cycles s + 1\<rparr> in
       Some (s\<lparr>is_dma_started := total_cycles s mod 2 = 0\<rparr>))"

lemmas dma_defs = enter_dma_def leave_dma_def dma_advance_def dma_write_def dma_read_def dma_cycle_def

section \<open>Executing one instruction\<close>

text \<open>One turn of the loop over the cycles of a staged instruction, and that loop.\<close>

definition staged_turn :: "stage_callback \<Rightarrow> bool \<Rightarrow> isa_6502_opcode_dispatch \<Rightarrow> machine \<Rightarrow> machine option" where
  "staged_turn cb locking d s = do {
     s \<leftarrow> (if is_in_dma s then Some s
           else do {
             s \<leftarrow> window locking s;
             if has_flag executor_flags_dma_is_set s then Some (enter_dma cb s)
             else do {
               f \<leftarrow> exec_fn d;
               s \<leftarrow> call_staged f (emit_instr cb isa_6502_instr_stage_pre_next_cycle (dispatch_mode d) s);
               Some (emit_instr cb isa_6502_instr_stage_next_cycle (dispatch_mode d) s) } });
     if is_in_dma s then dma_cycle s else Some s }"

partial_function (option) staged_turns ::
    "stage_callback \<Rightarrow> bool \<Rightarrow> isa_6502_opcode_dispatch \<Rightarrow> machine \<Rightarrow> machine option" where
  "staged_turns cb locking d s = do {
     s \<leftarrow> staged_turn cb locking d s;
     if next_stage s = isa_6502_instr_stage_end then Some s else staged_turns cb locking d s }"

text \<open>The static launch functions test for a transfer once per instruction.\<close>

definition static_turn :: "stage_callback \<Rightarrow> bool \<Rightarrow> isa_6502_opcode_dispatch \<Rightarrow> machine \<Rightarrow> machine option" where
  "static_turn cb locking d s = do {
     s \<leftarrow> (if is_in_dma s then Some s
           else do {
             s \<leftarrow> window locking s;
             if has_flag executor_flags_dma_is_set s then Some (enter_dma cb s)
             else do {
               f \<leftarrow> exec_fn d;
               s \<leftarrow> call_static f (emit_instr cb isa_6502_instr_stage_pre_next_cycle (dispatch_mode d) s);
               Some (emit_instr cb isa_6502_instr_stage_next_cycle (dispatch_mode d) s) } });
     if is_in_dma s then dma_cycle s else Some s }"

section \<open>Interrupts\<close>

partial_function (option) service_turns :: "isa_6502_op \<Rightarrow> machine \<Rightarrow> machine option" where
  "service_turns f s = do {
     s \<leftarrow> call_staged f s;
     if next_stage s = isa_6502_instr_stage_end then Some s else service_turns f s }"

definition service :: "isa_6502_op option \<Rightarrow> machine \<Rightarrow> machine option" where
  "service handler s =
    (case handler of None \<Rightarrow> Some s
     | Some f \<Rightarrow> service_turns f (s\<lparr>instr_cycles := 1, instr_opcode := 0\<rparr>))"

definition service_irq :: "stage_callback \<Rightarrow> machine \<Rightarrow> machine option" where
  "service_irq cb s =
    (if has_flag executor_flags_irq_is_set s \<and> registers_SR_get_bit (ex_registers s) register_SR_Bit_I = 0
     then do {
       s \<leftarrow> service (table_irq (ex_isa s)) (emit_plain cb isa_6502_instr_stage_enter_irq (total_cycles s) s);
       Some (emit_plain cb isa_6502_instr_stage_exec_irq (total_cycles s) s) }
     else Some s)"

definition service_nmi :: "stage_callback \<Rightarrow> machine \<Rightarrow> machine option" where
  "service_nmi cb s =
    (if has_flag executor_flags_nmi_is_set s
     then do {
       s \<leftarrow> service (table_nmi (ex_isa s)) (emit_plain cb isa_6502_instr_stage_enter_nmi (total_cycles s) s);
       Some (emit_plain cb isa_6502_instr_stage_exec_nmi (total_cycles s) s) }
     else Some s)"

definition service_interrupts :: "stage_callback \<Rightarrow> bool \<Rightarrow> machine \<Rightarrow> machine option" where
  "service_interrupts cb locking s = do {
     s \<leftarrow> window locking s;
     s \<leftarrow> service_irq cb s;
     s \<leftarrow> service_nmi cb s;
     Some (clear_flags (executor_flags_irq_is_set OR executor_flags_nmi_is_set) s) }"

section \<open>Disassembly\<close>

text \<open>After an instruction its disassembly function is called if the callback asks for the text.  What the text
  shows of variables that are not set is indeterminate, but nothing else depends on them.  A function that
  has no format for the mode prints by a null pointer, which has no result.\<close>

definition disasm_instr :: "stage_callback \<Rightarrow> isa_6502_opcode_dispatch \<Rightarrow> machine \<Rightarrow> machine option" where
  "disasm_instr cb d s =
    (if cb isa_6502_instr_stage_disasm then
       (case exec_fn d of
          None \<Rightarrow> Some s
        | Some f \<Rightarrow> do {
            (shown, c) \<leftarrow> run_disasm (disasm_fn f) (\<lambda>_. 0) (instr_context_of s);
            Some (emit_instr cb isa_6502_instr_stage_disasm (dispatch_mode d) (s\<lparr>ex_memory := memory c\<rparr>)) })
     else Some s)"

lemma no_callback_disasm [simp]: "disasm_instr no_callback d s = Some s"
  by (simp add: disasm_instr_def)

section \<open>The launch functions\<close>

text \<open>One turn of the outer loop, with the execution of the instruction as a parameter; the flag is
  false where an illegal instruction leaves the loop.\<close>

definition instruction_step ::
    "stage_callback \<Rightarrow> bool \<Rightarrow> (isa_6502_opcode_dispatch \<Rightarrow> machine \<Rightarrow> machine option)
      \<Rightarrow> machine \<Rightarrow> (bool \<times> machine) option" where
  "instruction_step cb locking execute s = do {
     s \<leftarrow> fetch_instr cb s;
     case decode_instr cb s of
       (False, d, s) \<Rightarrow> Some (False, s)
     | (True, d, s) \<Rightarrow> do {
         s \<leftarrow> execute d s;
         s \<leftarrow> disasm_instr cb d s;
         s \<leftarrow> service_interrupts cb locking (emit_instr cb isa_6502_instr_stage_end (dispatch_mode d) s);
         Some (True, s) } }"

partial_function (option) run_loop ::
    "(machine \<Rightarrow> (bool \<times> machine) option) \<Rightarrow> u32 \<Rightarrow> machine \<Rightarrow> machine option" where
  "run_loop step PC_end s =
    (if \<not> has_flag executor_flags_exec_stop s \<and> ucast (reg_PC (ex_registers s)) < PC_end
     then do {
       (go_on, s) \<leftarrow> step s;
       if go_on then run_loop step PC_end s else Some s }
     else Some s)"

text \<open>What a launch function does before its loop and after it.  None of them gives the lock back.\<close>

definition launch_begin :: "stage_callback \<Rightarrow> bool \<Rightarrow> u16 \<Rightarrow> machine \<Rightarrow> machine option" where
  "launch_begin cb locking PC s = do {
     s \<leftarrow> (if locking then take_lock s else Some s);
     let s = clear_flags internal_flags (s\<lparr>total_cycles := 0, is_in_dma := False\<rparr>);
     let s = emit_plain cb isa_6502_instr_stage_pre_load_PC 0 s;
     let s = s\<lparr>ex_registers := (ex_registers s)\<lparr>reg_PC := PC\<rparr>\<rparr>;
     Some (emit_plain cb isa_6502_instr_stage_post_load_PC 0 s) }"

definition launch_end :: "stage_callback \<Rightarrow> machine \<Rightarrow> u64 \<times> machine" where
  "launch_end cb s =
    (let s = emit_plain cb isa_6502_instr_stage_execution_complete (total_cycles s) s;
         s = clear_flags executor_flags_exec_stop s
     in (total_cycles s, s))"

definition PC_end_of :: "memory_addr_range \<Rightarrow> u32" where
  "PC_end_of r = ucast (addr_lo r) + ucast (addr_len r)"

definition launch ::
    "stage_callback \<Rightarrow> bool \<Rightarrow> (isa_6502_opcode_dispatch \<Rightarrow> machine \<Rightarrow> machine option)
      \<Rightarrow> memory_addr_range \<Rightarrow> u16 \<Rightarrow> machine \<Rightarrow> (u64 \<times> machine) option" where
  "launch cb locking execute addr_rng PC s = do {
     s \<leftarrow> launch_begin cb locking PC s;
     s \<leftarrow> run_loop (instruction_step cb locking execute) (PC_end_of addr_rng) s;
     Some (launch_end cb s) }"

definition executor_launch_staged_verbose ::
    "stage_callback \<Rightarrow> memory_addr_range \<Rightarrow> u16 \<Rightarrow> machine \<Rightarrow> (u64 \<times> machine) option" where
  "executor_launch_staged_verbose cb = launch cb True (staged_turns cb True)"

definition executor_launch_staged ::
    "memory_addr_range \<Rightarrow> u16 \<Rightarrow> machine \<Rightarrow> (u64 \<times> machine) option" where
  "executor_launch_staged = launch no_callback True (staged_turns no_callback True)"

definition executor_launch_static_verbose ::
    "stage_callback \<Rightarrow> memory_addr_range \<Rightarrow> u16 \<Rightarrow> machine \<Rightarrow> (u64 \<times> machine) option" where
  "executor_launch_static_verbose cb = launch cb True (static_turn cb True)"

definition executor_launch_static ::
    "memory_addr_range \<Rightarrow> u16 \<Rightarrow> machine \<Rightarrow> (u64 \<times> machine) option" where
  "executor_launch_static = launch no_callback True (static_turn no_callback True)"

definition executor_launch_staged_verbose_nolock ::
    "stage_callback \<Rightarrow> memory_addr_range \<Rightarrow> u16 \<Rightarrow> machine \<Rightarrow> (u64 \<times> machine) option" where
  "executor_launch_staged_verbose_nolock cb = launch cb False (staged_turns cb False)"

definition executor_launch_staged_nolock ::
    "memory_addr_range \<Rightarrow> u16 \<Rightarrow> machine \<Rightarrow> (u64 \<times> machine) option" where
  "executor_launch_staged_nolock = launch no_callback False (staged_turns no_callback False)"

definition executor_launch_static_verbose_nolock ::
    "stage_callback \<Rightarrow> memory_addr_range \<Rightarrow> u16 \<Rightarrow> machine \<Rightarrow> (u64 \<times> machine) option" where
  "executor_launch_static_verbose_nolock cb = launch cb False (static_turn cb False)"

definition executor_launch_static_nolock ::
    "memory_addr_range \<Rightarrow> u16 \<Rightarrow> machine \<Rightarrow> (u64 \<times> machine) option" where
  "executor_launch_static_nolock = launch no_callback False (static_turn no_callback False)"

lemmas launch_variants = executor_launch_staged_verbose_def executor_launch_staged_def
  executor_launch_static_verbose_def executor_launch_static_def
  executor_launch_staged_verbose_nolock_def executor_launch_staged_nolock_def
  executor_launch_static_verbose_nolock_def executor_launch_static_nolock_def

section \<open>Launching\<close>

definition exec_mode_staged :: u32 where "exec_mode_staged = 0"
definition exec_mode_static :: u32 where "exec_mode_static = 1"
definition exec_mode_mask :: u32 where "exec_mode_mask = 0x000F"
definition exec_mode_no_locking :: u32 where "exec_mode_no_locking = push_bit 30 1"
definition exec_mode_verbose :: u32 where "exec_mode_verbose = push_bit 31 1"

lemmas exec_mode_defs = exec_mode_staged_def exec_mode_static_def exec_mode_mask_def
  exec_mode_no_locking_def exec_mode_verbose_def

text \<open>The choice both launch operations make; a mode that is neither staged nor static runs
  nothing.\<close>

definition launch_in_mode ::
    "u32 \<Rightarrow> stage_callback \<Rightarrow> memory_addr_range \<Rightarrow> u16 \<Rightarrow> machine \<Rightarrow> (u64 \<times> machine) option" where
  "launch_in_mode exec_mode cb addr_rng PC s =
    (let is_verbose = exec_mode AND exec_mode_verbose \<noteq> 0;
         is_locked = exec_mode AND exec_mode_no_locking = 0;
         selected = exec_mode AND exec_mode_mask in
     if is_locked then
       if selected = exec_mode_staged then
         (if is_verbose then executor_launch_staged_verbose cb addr_rng PC s
          else executor_launch_staged addr_rng PC s)
       else if selected = exec_mode_static then
         (if is_verbose then executor_launch_static_verbose cb addr_rng PC s
          else executor_launch_static addr_rng PC s)
       else Some (0, s)
     else
       if selected = exec_mode_staged then
         (if is_verbose then executor_launch_staged_verbose_nolock cb addr_rng PC s
          else executor_launch_staged_nolock addr_rng PC s)
       else if selected = exec_mode_static then
         (if is_verbose then executor_launch_static_verbose_nolock cb addr_rng PC s
          else executor_launch_static_nolock addr_rng PC s)
       else Some (0, s))"

definition executor_launch ::
    "u32 \<Rightarrow> stage_callback \<Rightarrow> u16 \<Rightarrow> machine \<Rightarrow> (u64 \<times> machine) option" where
  "executor_launch exec_mode cb PC s =
     launch_in_mode exec_mode cb (memory_addr_range_with_lo_and_len 0x0000 0xFFFF) PC s"

definition executor_launch_in_address_range ::
    "u32 \<Rightarrow> stage_callback \<Rightarrow> memory_addr_range \<Rightarrow> u16 \<Rightarrow> machine \<Rightarrow> (u64 \<times> machine) option" where
  "executor_launch_in_address_range exec_mode cb addr_rng PC s =
    (if memory_addr_range_does_include addr_rng PC
     then launch_in_mode exec_mode cb addr_rng PC s else Some (0, s))"

definition executor_soft_reset ::
    "u32 \<Rightarrow> stage_callback \<Rightarrow> machine \<Rightarrow> (u64 \<times> machine) option" where
  "executor_soft_reset exec_mode cb s = do {
     (lo, m) \<leftarrow> membus_read_addr (ex_memory s) MEMORY_ADDR_RES_VECTOR;
     (hi, m) \<leftarrow> membus_read_addr m (MEMORY_ADDR_RES_VECTOR + 1);
     executor_launch_in_address_range exec_mode cb (memory_addr_range_with_lo_and_len 0x0000 0xFFFF)
       (widen lo OR push_bit 8 (widen hi)) (s\<lparr>ex_memory := m\<rparr>) }"

end
