(* ===== verification/Isa_Agree.thy ===== *)
theory Isa_Agree
  imports Isa_Table
begin

text \<open>
  Where the two bodies of an instruction agree: called with the opcode already fetched
  (\<open>cycle_count = 1\<close>), the staged body run to its end and the static body run once leave the same
  registers, memory and cycle count.  The locale states the contract for a pair of bodies, a set of
  contexts and the value \<open>junk_ok\<close> the static body's uninitialised variables may have; the
  interpretations are the pairs of the source that keep it.
\<close>

locale agreeing_bodies =
  fixes staged :: staged_body
    and static :: static_body
    and domain :: "isa_6502_instr_context \<Rightarrow> bool"
    and junk_ok :: "isa_locals \<Rightarrow> bool"
  assumes agree: "\<lbrakk>domain c; cycle_count c = 1; junk_ok l'\<rbrakk>
    \<Longrightarrow> staged_outcome 8 staged l c = static_outcome static l' c"
begin

text \<open>The run of the staged body has ended wherever memory answers.\<close>

lemma staged_ends:
  assumes "domain c" "cycle_count c = 1" "junk_ok l'"
    "run_cycles 8 staged l c = Some (at_stage, l1, c1)"
  shows "at_stage = isa_6502_instr_stage_end"
    "\<exists>st. static isa_6502_instr_stage_next_cycle l' c = Some (st, c1)"
proof -
  have "static_outcome static l' c = Some (at_stage, c1)"
    using assms(4) agree [OF assms(1-3), of l] by (simp add: staged_outcome_def)
  then show "at_stage = isa_6502_instr_stage_end"
    "\<exists>st. static isa_6502_instr_stage_next_cycle l' c = Some (st, c1)"
    by (auto simp: static_outcome_def)
qed

end

lemmas agree_defs = staged_outcome_def static_outcome_def staged_defs static_defs ctx_defs
  Let_def split_beta map_option_bind_prod

section \<open>Where the bodies of the source agree\<close>

text \<open>The contexts in which the two bodies of a function agree.  Left out are the modes one of the
  two bodies does not implement or implements differently, taken branches, \<open>SED\<close> (whose static
  body counts no cycle) and \<open>IRQ\<close>.\<close>

definition load_modes :: "isa_6502_addressing set" where
  "load_modes = {isa_6502_addressing_immediate, isa_6502_addressing_zeropage,
     isa_6502_addressing_zeropage_x_indexed, isa_6502_addressing_absolute,
     isa_6502_addressing_absolute_x_indexed, isa_6502_addressing_absolute_y_indexed}"

definition step_modes :: "isa_6502_addressing set" where
  "step_modes = {isa_6502_addressing_zeropage, isa_6502_addressing_zeropage_x_indexed,
     isa_6502_addressing_absolute, isa_6502_addressing_absolute_x_indexed}"

primrec agree65_modes :: "isa_65C02_op \<Rightarrow> isa_6502_addressing set" where
  "agree65_modes c02_AND = insert isa_6502_addressing_zeropage_indirect operand_modes"
| "agree65_modes c02_EOR = insert isa_6502_addressing_zeropage_indirect operand_modes"
| "agree65_modes c02_ORA = insert isa_6502_addressing_zeropage_indirect operand_modes"
| "agree65_modes c02_ADC = operand_modes"
| "agree65_modes c02_SBC = operand_modes"
| "agree65_modes c02_LDA = load_modes"
| "agree65_modes c02_STA =
     insert isa_6502_addressing_zeropage_indirect (load_modes - {isa_6502_addressing_immediate})"
| "agree65_modes c02_STZ = {isa_6502_addressing_zeropage_x_indexed, isa_6502_addressing_absolute,
     isa_6502_addressing_absolute_x_indexed}"
| "agree65_modes c02_CMP = {isa_6502_addressing_immediate, isa_6502_addressing_absolute_x_indexed,
     isa_6502_addressing_absolute_y_indexed}"
| "agree65_modes c02_BIT = {isa_6502_addressing_immediate, isa_6502_addressing_zeropage,
     isa_6502_addressing_zeropage_x_indexed, isa_6502_addressing_absolute}"
| "agree65_modes c02_INC = insert isa_6502_addressing_accumulator step_modes"
| "agree65_modes c02_DEC = insert isa_6502_addressing_accumulator step_modes"
| "agree65_modes c02_LSR = {isa_6502_addressing_accumulator}"
| "agree65_modes c02_ROL = {isa_6502_addressing_accumulator}"
| "agree65_modes c02_ASL = {}"
| "agree65_modes c02_ROR = {}"
| "agree65_modes c02_TSB = {isa_6502_addressing_zeropage}"
| "agree65_modes c02_TRB = {isa_6502_addressing_zeropage}"
| "agree65_modes c02_BRA = {}"
| "agree65_modes c02_JMP = {isa_6502_addressing_absolute, isa_6502_addressing_indirect,
     isa_6502_addressing_absolute_x_indexed_indirect}"
| "agree65_modes c02_IRQ = {}"
| "agree65_modes c02_RESET = {}"
| "agree65_modes c02_BRK = UNIV"
| "agree65_modes c02_PHX = UNIV"
| "agree65_modes c02_PHY = UNIV"
| "agree65_modes c02_PLX = UNIV"
| "agree65_modes c02_PLY = UNIV"
| "agree65_modes c02_NMI = UNIV"

primrec agree_modes :: "isa_6502_op \<Rightarrow> isa_6502_addressing set" where
  "agree_modes op_ADC = operand_modes"
| "agree_modes op_SBC = operand_modes"
| "agree_modes op_AND = operand_modes"
| "agree_modes op_EOR = operand_modes"
| "agree_modes op_ORA = operand_modes"
| "agree_modes op_LDA = load_modes"
| "agree_modes op_LDX = {isa_6502_addressing_immediate, isa_6502_addressing_zeropage}"
| "agree_modes op_LDY = {isa_6502_addressing_immediate, isa_6502_addressing_zeropage}"
| "agree_modes op_STA = load_modes - {isa_6502_addressing_immediate}"
| "agree_modes op_STX = {isa_6502_addressing_zeropage, isa_6502_addressing_zeropage_y_indexed,
     isa_6502_addressing_absolute}"
| "agree_modes op_STY = {isa_6502_addressing_zeropage, isa_6502_addressing_zeropage_x_indexed,
     isa_6502_addressing_absolute}"
| "agree_modes op_CMP = {isa_6502_addressing_immediate, isa_6502_addressing_absolute_x_indexed,
     isa_6502_addressing_absolute_y_indexed}"
| "agree_modes op_CPX = {isa_6502_addressing_immediate, isa_6502_addressing_zeropage,
     isa_6502_addressing_absolute}"
| "agree_modes op_CPY = {isa_6502_addressing_immediate, isa_6502_addressing_zeropage,
     isa_6502_addressing_absolute}"
| "agree_modes op_BIT = {isa_6502_addressing_zeropage, isa_6502_addressing_absolute}"
| "agree_modes op_INC = step_modes"
| "agree_modes op_DEC = step_modes"
| "agree_modes op_ASL = {isa_6502_addressing_accumulator}"
| "agree_modes op_LSR = {isa_6502_addressing_accumulator}"
| "agree_modes op_ROL = {isa_6502_addressing_accumulator}"
| "agree_modes op_ROR = {isa_6502_addressing_accumulator}"
| "agree_modes op_JMP = {isa_6502_addressing_absolute, isa_6502_addressing_indirect}"
| "agree_modes op_SED = {}"
| "agree_modes op_IRQ = {}"
| "agree_modes op_RESET = {}"
| "agree_modes (op_65C02 f) = agree65_modes f"
| "agree_modes op_BCC = UNIV"
| "agree_modes op_BCS = UNIV"
| "agree_modes op_BEQ = UNIV"
| "agree_modes op_BMI = UNIV"
| "agree_modes op_BNE = UNIV"
| "agree_modes op_BPL = UNIV"
| "agree_modes op_BRK = UNIV"
| "agree_modes op_BVC = UNIV"
| "agree_modes op_BVS = UNIV"
| "agree_modes op_CLC = UNIV"
| "agree_modes op_CLD = UNIV"
| "agree_modes op_CLI = UNIV"
| "agree_modes op_CLV = UNIV"
| "agree_modes op_DEX = UNIV"
| "agree_modes op_DEY = UNIV"
| "agree_modes op_INX = UNIV"
| "agree_modes op_INY = UNIV"
| "agree_modes op_JSR = UNIV"
| "agree_modes op_NOP = UNIV"
| "agree_modes op_PHA = UNIV"
| "agree_modes op_PHP = UNIV"
| "agree_modes op_PLA = UNIV"
| "agree_modes op_PLP = UNIV"
| "agree_modes op_RTI = UNIV"
| "agree_modes op_RTS = UNIV"
| "agree_modes op_SEC = UNIV"
| "agree_modes op_SEI = UNIV"
| "agree_modes op_TAX = UNIV"
| "agree_modes op_TAY = UNIV"
| "agree_modes op_TSX = UNIV"
| "agree_modes op_TXA = UNIV"
| "agree_modes op_TXS = UNIV"
| "agree_modes op_TYA = UNIV"
| "agree_modes op_NMI = UNIV"

text \<open>The registers for which the bodies agree: a branch must not be taken.\<close>

definition agree_registers :: "isa_6502_op \<Rightarrow> registers \<Rightarrow> bool" where
  [simp]: "agree_registers f r \<longleftrightarrow>
     (f = op_BCC \<longrightarrow> SR_is_set register_SR_Bit_C r) \<and> (f = op_BCS \<longrightarrow> SR_is_clear register_SR_Bit_C r)
   \<and> (f = op_BNE \<longrightarrow> SR_is_set register_SR_Bit_Z r) \<and> (f = op_BEQ \<longrightarrow> SR_is_clear register_SR_Bit_Z r)
   \<and> (f = op_BPL \<longrightarrow> SR_is_set register_SR_Bit_N r) \<and> (f = op_BMI \<longrightarrow> SR_is_clear register_SR_Bit_N r)
   \<and> (f = op_BVC \<longrightarrow> SR_is_set register_SR_Bit_V r) \<and> (f = op_BVS \<longrightarrow> SR_is_clear register_SR_Bit_V r)"

text \<open>\<open>ADC\<close> and \<open>SBC\<close> start their static bodies with flag bits that nothing has set.\<close>

definition agree_locals :: "isa_6502_op \<Rightarrow> isa_locals \<Rightarrow> bool" where
  [simp]: "agree_locals f l \<longleftrightarrow>
     (f \<in> {op_ADC, op_SBC, op_65C02 c02_ADC, op_65C02 c02_SBC} \<longrightarrow> local_flag_bits l = 0)"

lemma agree_locals_zero: "local_flag_bits l = 0 \<Longrightarrow> agree_locals f l"
  by simp

definition agrees_in :: "isa_6502_op \<Rightarrow> isa_6502_instr_context \<Rightarrow> bool" where
  "agrees_in f c \<longleftrightarrow> addressing_mode c \<in> agree_modes f
     \<and> agree_registers f (isa_6502_instr_context.registers c)"

lemmas agree_simps = agrees_in_def load_modes_def step_modes_def operand_modes_def
  decimal_mode_def SR_is_clear_def
  SR_is_set_def registers_SR_get_bit_def

text \<open>Both bodies of every function, evaluated in a context that agrees.\<close>

lemma agree65_operand:
  assumes "addressing_mode c \<in> agree65_modes f" "cycle_count c = 1" "agree_locals (op_65C02 f) l'"
    "f \<in> {c02_AND, c02_EOR, c02_ORA, c02_ADC, c02_SBC}"
  shows "staged_outcome 8 (staged_65C02_fn f) l c = static_outcome (static_65C02_fn f) l' c"
  using assms unfolding operand_modes_def
  by (cases c; cases "isa_6502_instr_context.registers c")
    (elim insertE emptyE; auto simp: agree_simps agree_defs intro!: bind_pair_cong)

lemma agree65_other:
  assumes "addressing_mode c \<in> agree65_modes f" "cycle_count c = 1"
    "f \<notin> {c02_AND, c02_EOR, c02_ORA, c02_ADC, c02_SBC}"
  shows "staged_outcome 8 (staged_65C02_fn f) l c = static_outcome (static_65C02_fn f) l' c"
  using assms
  by (cases f; cases c; cases "isa_6502_instr_context.registers c")
    (auto simp: agree_simps agree_defs intro!: bind_pair_cong)

interpretation isa_bodies:
  agreeing_bodies "staged_fn f" "static_fn f" "agrees_in f" "agree_locals f" for f
proof
  fix c l' l
  assume a: "agrees_in f c" "cycle_count c = 1" "agree_locals f l'"
  show "staged_outcome 8 (staged_fn f) l c = static_outcome (static_fn f) l' c"
  proof (cases "f \<in> range op_65C02")
    case True
    then obtain g where "f = op_65C02 g" by blast
    then show ?thesis
      using a agree65_operand [of c g l' l] agree65_other [of c g l l']
      by (auto simp: agrees_in_def)
  next
    case False
    then show ?thesis using a
      by (cases f; cases c; cases "isa_6502_instr_context.registers c")
        (auto simp: agree_simps agree_defs intro!: bind_pair_cong)
  qed
qed

end
