(* ===== verification/Isa_Frame.thy ===== *)
theory Isa_Frame
  imports Isa_Table Bus_Ram
begin

text \<open>
  The bodies of the instructions touch memory only through the bus and otherwise change registers.
  The locale states what their context promises them: a bus access answers (when \<open>strict\<close>) and keeps
  a property \<open>Q\<close> of the context, as does a change of registers.  Then so does every body.  The
  interpretations: the well-formed bus, the bus of one 64k module, the decoded instruction.
\<close>

definition memory_ops :: "isa_6502_op set" where
  "memory_ops = {op_LDA, op_LDX, op_LDY, op_STA, op_STX, op_STY, op_CMP, op_CPX, op_CPY, op_BIT,
     op_INC, op_DEC}"

definition operand_ops :: "isa_6502_op set" where
  "operand_ops = {op_ADC, op_SBC, op_AND, op_EOR, op_ORA}"

definition shift_ops :: "isa_6502_op set" where
  "shift_ops = {op_ASL, op_LSR, op_ROL, op_ROR}"

definition operand65_ops :: "isa_65C02_op set" where
  "operand65_ops = {c02_AND, c02_EOR, c02_ORA, c02_ADC, c02_SBC}"

definition memory65_ops :: "isa_65C02_op set" where
  "memory65_ops = {c02_LDA, c02_STA, c02_STZ, c02_CMP, c02_BIT}"

definition modify65_ops :: "isa_65C02_op set" where
  "modify65_ops = {c02_INC, c02_DEC, c02_ASL, c02_ROL, c02_LSR, c02_ROR, c02_TSB, c02_TRB}"

locale context_contract =
  fixes Q :: "isa_6502_instr_context \<Rightarrow> bool" and strict :: bool
  assumes read_law: "Q c \<Longrightarrow>
      (case membus_read_addr (memory c) a of None \<Rightarrow> \<not> strict | Some (v, m) \<Rightarrow> Q (c\<lparr>memory := m\<rparr>))"
    and write_law: "Q c \<Longrightarrow>
      (case membus_write_addr (memory c) a v of None \<Rightarrow> \<not> strict | Some m \<Rightarrow> Q (c\<lparr>memory := m\<rparr>))"
    and register_law: "Q c \<Longrightarrow> Q (c\<lparr>registers := r\<rparr>)"
begin

definition keeps :: "('a \<Rightarrow> isa_6502_instr_context) \<Rightarrow> 'a option \<Rightarrow> bool" where
  "keeps p m \<longleftrightarrow> (case m of None \<Rightarrow> \<not> strict | Some x \<Rightarrow> Q (p x))"

lemma keeps_Some [simp]: "keeps p (Some x) = Q (p x)"
  by (simp add: keeps_def)

lemma keeps_bind:
  "\<lbrakk>keeps p m; \<And>x. Q (p x) \<Longrightarrow> keeps q (f x)\<rbrakk> \<Longrightarrow> keeps q (Option.bind m f)"
  unfolding keeps_def by (cases m) simp_all

lemma registers_kept: "Q c \<Longrightarrow> Q (with_reg f c)" "Q c \<Longrightarrow> Q (set_I c)"
  by (simp_all add: with_reg_def set_I_def register_law)

lemma keeps_rd: "Q c \<Longrightarrow> keeps snd (rd c a)"
  using read_law [of c a] by (auto simp: rd_def keeps_def split: option.splits)

lemma keeps_wr: "Q c \<Longrightarrow> keeps id (wr c a v)"
  using write_law [of c a v] by (auto simp: wr_def keeps_def split: option.splits)

lemma keeps_fetch: "Q c \<Longrightarrow> keeps snd (fetch c)"
  by (auto simp: fetch_def Let_def intro!: keeps_rd registers_kept)

lemma keeps_pop:
  assumes "Q c"
  shows "keeps snd (pop c)"
proof -
  let ?r = "(registers c)\<lparr>reg_SP := reg_SP (registers c) + 1\<rparr>"
  have "pop c = rd (c\<lparr>registers := ?r\<rparr>) (0x0100 + (widen (reg_SP ?r) AND 0x00FF))"
    by (simp add: pop_def isa_6502_pop_def rd_def Let_def split_beta')
  then show ?thesis using keeps_rd [OF register_law [OF assms]] by simp
qed

lemma keeps_push:
  assumes "Q c"
  shows "keeps id (push c v)"
proof -
  have "Q (c\<lparr>registers := r, memory := m\<rparr>)" if "Q (c\<lparr>memory := m\<rparr>)" for r m
    using register_law [OF that, of r] by (cases c) simp
  then show ?thesis
    using write_law [OF assms, of "0x0100 + (widen (reg_SP (registers c)) AND 0x00FF)" v]
    by (auto simp: push_def isa_6502_push_def Let_def keeps_def split: bind_splits option.splits)
qed

lemmas bind_access = keeps_bind [OF keeps_rd] keeps_bind [OF keeps_wr] keeps_bind [OF keeps_fetch]
  keeps_bind [OF keeps_pop] keeps_bind [OF keeps_push]

lemma keeps_statements:
  assumes "Q c"
  shows "keeps snd (ADDR8_fetch l c)" "keeps snd (ADDR16_fetch_lo l c)" "keeps snd (ADDR16_fetch_hi l c)"
    "keeps snd (ADDR16_zeropage_lo l c)" "keeps snd (ADDR16_zeropage_hi l c)"
    "keeps snd (OPERAND_read a l c)" "keeps snd (OPERAND_fetch l c)"
    "keeps snd (OPERAND8_read a l c)" "keeps snd (OPERAND8_fetch l c)" "keeps snd (DELTA_fetch l c)"
    "keeps snd (ADDR16_zeropage_unshifted l c)" "keeps snd (ADDR16_zeropage_or l c)"
    "keeps id (push_PC_hi c)" "keeps id (push_PC_lo c)" "keeps id (load_vector a c)"
  using assms
  by (auto simp: statement_defs flow_shared_defs ADDR16_zeropage_unshifted_def ADDR16_zeropage_or_def
      intro!: bind_access keeps_push registers_kept)

lemmas bind_statement = keeps_statements [THEN keeps_bind]

text \<open>The four shifts run through a walk and a tail.\<close>

lemma keeps_shift_cycle: "Q c \<Longrightarrow> keeps (snd \<circ> snd) (shift_cycle l c)"
  by (auto simp: shift_cycle_def Let_def and_next_def and_end_def split: isa_6502_addressing.splits
      intro!: bind_statement)

lemma keeps_shift_tail: "Q c \<Longrightarrow> keeps (snd \<circ> snd) (shift_tail g st l c)"
  by (auto simp: shift_tail_def split: prod.splits intro!: bind_access registers_kept)

lemma staged_keeps_shift:
  assumes "Q c" "f \<in> shift_ops"
  shows "keeps (snd \<circ> snd) (staged_fn f l c)"
  using assms unfolding shift_ops_def
  by (auto simp: isa_6502_ASL_def isa_6502_LSR_def isa_6502_ROL_def isa_6502_ROR_def
      intro!: keeps_bind [OF keeps_shift_cycle] keeps_shift_tail registers_kept)

text \<open>Every staged body keeps the promise, whatever its local variables hold.\<close>

lemmas split_body = Let_def and_next_def and_end_def
lemmas body_rules = bind_access bind_statement registers_kept

lemma keeps_operand_cycle:
  assumes "Q c"
  shows "keeps (snd \<circ> snd) (operand_cycle l c)" "keeps (snd \<circ> snd) (operand65_cycle l c)"
  using assms
  by (auto simp: operand_cycle_def operand65_cycle_def split_body split: isa_6502_addressing.splits
      intro!: bind_statement)

lemma staged_keeps_operand:
  assumes "Q c" "f \<in> operand_ops"
  shows "keeps (snd \<circ> snd) (staged_fn f l c)"
  using assms unfolding operand_ops_def
  by (auto simp: isa_6502_ADC_def isa_6502_SBC_def isa_6502_AND_def isa_6502_EOR_def isa_6502_ORA_def
      Let_def intro!: keeps_bind [OF keeps_operand_cycle(1)] registers_kept)

lemma staged_keeps_memory:
  assumes "Q c" "f \<in> memory_ops"
  shows "keeps (snd \<circ> snd) (staged_fn f l c)"
  using assms unfolding memory_ops_def
  by (elim insertE emptyE; simp add: load_staged_defs test_staged_defs rmw_staged_defs split_body;
      auto simp: split_body split: isa_6502_addressing.splits intro!: body_rules)

lemma staged_keeps_other:
  assumes "Q c" "f \<notin> memory_ops \<union> operand_ops \<union> shift_ops \<union> range op_65C02"
  shows "keeps (snd \<circ> snd) (staged_fn f l c)"
  using assms unfolding memory_ops_def operand_ops_def shift_ops_def
  by (cases f; simp add: staged_defs split_body; auto intro!: body_rules
      split: isa_6502_addressing.splits)

text \<open>The functions of the 65C02.\<close>

lemma staged_keeps_operand65:
  assumes "Q c" "f \<in> {c02_AND, c02_EOR, c02_ORA}"
  shows "keeps (snd \<circ> snd) (staged_65C02_fn f l c)"
  using assms
  by (auto simp: isa_65C02_AND_def isa_65C02_EOR_def isa_65C02_ORA_def
      intro!: keeps_bind [OF keeps_operand_cycle(2)] registers_kept)

lemma staged_keeps_memory65:
  assumes "Q c" "f \<in> memory65_ops"
  shows "keeps (snd \<circ> snd) (staged_65C02_fn f l c)"
  using assms unfolding memory65_ops_def
  by (elim insertE emptyE; simp add: load65_staged_defs test65_staged_defs split_body;
      auto simp: split_body split: isa_6502_addressing.splits intro!: body_rules)

lemma keeps_adder_steps:
  assumes "Q c"
  shows "keeps (snd \<circ> snd) (OPERAND_unless_BCD a l c)" "keeps (snd \<circ> snd) (OPERAND_in_page l c)"
    "keeps (snd \<circ> snd) (OPERAND_if_unset l c)"
  using assms
  by (auto simp: OPERAND_unless_BCD_def OPERAND_in_page_def OPERAND_if_unset_def Let_def
      intro!: bind_statement)

lemma keeps_adder65_cycle: "Q c \<Longrightarrow> keeps (snd \<circ> snd) (adder65_cycle l c)"
  by (auto simp: adder65_cycle_def split_body split: isa_6502_addressing.splits
      intro!: bind_statement keeps_adder_steps)

lemma staged_keeps_adder65:
  assumes "Q c" "f \<in> {c02_ADC, c02_SBC}"
  shows "keeps (snd \<circ> snd) (staged_65C02_fn f l c)"
  using assms
  by (auto simp: isa_65C02_ADC_def isa_65C02_SBC_def intro!: keeps_bind [OF keeps_adder65_cycle]
      registers_kept)

lemma keeps_shift65_cycle: "Q c \<Longrightarrow> keeps (snd \<circ> snd) (shift65_cycle l c)"
  by (auto simp: shift65_cycle_def split_body split: isa_6502_addressing.splits intro!: bind_statement)

lemma keeps_bits_cycle: "Q c \<Longrightarrow> keeps (snd \<circ> snd) (bits_cycle st l c)"
  by (auto simp: bits_cycle_def split_body split: isa_6502_addressing.splits intro!: bind_statement)

lemma keeps_bits_tail: "Q c \<Longrightarrow> keeps (snd \<circ> snd) (bits_tail g st l c)"
  by (auto simp: bits_tail_def Let_def intro!: bind_access registers_kept)

lemma staged_keeps_modify65:
  assumes "Q c" "f \<in> modify65_ops"
  shows "keeps (snd \<circ> snd) (staged_65C02_fn f l c)"
proof -
  have "keeps (snd \<circ> snd) (isa_6502_INC l c)" "keeps (snd \<circ> snd) (isa_6502_DEC l c)"
    using staged_keeps_memory [OF assms(1), of op_INC] staged_keeps_memory [OF assms(1), of op_DEC]
    by (simp_all add: memory_ops_def)
  then show ?thesis
    using assms unfolding modify65_ops_def
    by (auto simp: isa_65C02_INC_def isa_65C02_DEC_def isa_65C02_ASL_def isa_65C02_ROL_def
        isa_65C02_LSR_def isa_65C02_ROR_def isa_65C02_TSB_def isa_65C02_TRB_def rotate_A_def
        intro!: keeps_bind [OF keeps_shift65_cycle] keeps_bind [OF keeps_bits_cycle] keeps_shift_tail
          keeps_bits_tail registers_kept)
qed

lemma keeps_indirect:
  assumes "Q c"
  shows "keeps snd (INDIRECT_lo l c)" "keeps snd (INDIRECT_hi l c)" "Q (clear_D c)"
  using assms by (auto simp: flow65_shared_defs intro!: bind_access registers_kept)

lemmas bind_indirect = keeps_indirect(1,2) [THEN keeps_bind] keeps_indirect(3)

lemma staged_keeps_flow65:
  assumes "Q c" "f \<notin> operand65_ops \<union> memory65_ops \<union> modify65_ops"
  shows "keeps (snd \<circ> snd) (staged_65C02_fn f l c)"
  using assms unfolding operand65_ops_def memory65_ops_def modify65_ops_def
  by (cases f; simp add: flow65_staged_defs split_body;
      auto simp: split_body intro!: body_rules bind_indirect split: isa_6502_addressing.splits)

lemma staged_keeps_65C02: "Q c \<Longrightarrow> keeps (snd \<circ> snd) (staged_65C02_fn f l c)"
  using staged_keeps_operand65 [of c f l] staged_keeps_adder65 [of c f l] staged_keeps_memory65 [of c f l]
    staged_keeps_modify65 [of c f l] staged_keeps_flow65 [of c f l]
  by (auto simp: operand65_ops_def)

lemma staged_keeps:
  assumes "Q c"
  shows "keeps (snd \<circ> snd) (staged_fn f l c)"
proof (cases "f \<in> range op_65C02")
  case True
  then show ?thesis using staged_keeps_65C02 [OF assms] by auto
next
  case False
  then show ?thesis
    using staged_keeps_memory [OF assms] staged_keeps_operand [OF assms] staged_keeps_shift [OF assms] staged_keeps_other [OF assms]
    by blast
qed

end

text \<open>A static body also counts cycles.\<close>

locale counted_contract = context_contract +
  assumes cycles_law: "Q c \<Longrightarrow> Q (c\<lparr>cycle_count := n\<rparr>)"
begin

lemma cycles_kept: "Q c \<Longrightarrow> Q (add_cycles n c)"
  by (simp add: add_cycles_def cycles_law)

lemmas static_rules = body_rules cycles_kept

lemma keeps_shift_fetch: "Q c \<Longrightarrow> keeps snd (shift_fetch_static l c)"
  by (auto simp: shift_fetch_static_def Let_def split: isa_6502_addressing.splits
      intro!: static_rules)

lemma static_keeps_shift:
  assumes "Q c" "f \<in> shift_ops"
  shows "keeps snd (static_fn f st l c)"
  using assms unfolding shift_ops_def
  by (auto simp: isa_6502_static_ASL_def isa_6502_static_LSR_def isa_6502_static_ROL_def
      isa_6502_static_ROR_def shift_static_def Let_def split: prod.splits
      intro!: keeps_bind [OF keeps_shift_fetch] static_rules)

lemma keeps_operand_fetch:
  assumes "Q c"
  shows "keeps snd (operand_static l c)" "keeps snd (operand65_static l c)"
  using assms
  by (auto simp: operand_static_def operand65_static_def Let_def split: isa_6502_addressing.splits
      intro!: static_rules)

lemma static_keeps_operand:
  assumes "Q c" "f \<in> operand_ops"
  shows "keeps snd (static_fn f st l c)"
  using assms unfolding operand_ops_def
  by (auto simp: isa_6502_static_ADC_def isa_6502_static_SBC_def isa_6502_static_AND_def
      isa_6502_static_EOR_def isa_6502_static_ORA_def Let_def
      intro!: keeps_bind [OF keeps_operand_fetch(1)] static_rules)

lemma static_keeps_memory:
  assumes "Q c" "f \<in> memory_ops"
  shows "keeps snd (static_fn f st l c)"
  using assms unfolding memory_ops_def
  by (elim insertE emptyE; simp add: load_static_defs test_static_defs rmw_static_defs Let_def;
      auto simp: Let_def split: isa_6502_addressing.splits intro!: static_rules)

lemma static_keeps_other:
  assumes "Q c" "f \<notin> memory_ops \<union> operand_ops \<union> shift_ops \<union> range op_65C02"
  shows "keeps snd (static_fn f st l c)"
  using assms unfolding memory_ops_def operand_ops_def shift_ops_def
  by (cases f; simp add: static_defs Let_def; auto intro!: static_rules
      split: isa_6502_addressing.splits)

lemma static_keeps_operand65:
  assumes "Q c" "f \<in> operand65_ops"
  shows "keeps snd (static_65C02_fn f st l c)"
  using assms unfolding operand65_ops_def
  by (auto simp: isa_65C02_static_ADC_def isa_65C02_static_SBC_def isa_65C02_static_AND_def
      isa_65C02_static_EOR_def isa_65C02_static_ORA_def Let_def
      intro!: keeps_bind [OF keeps_operand_fetch(2)] static_rules)

lemma static_keeps_memory65:
  assumes "Q c" "f \<in> memory65_ops"
  shows "keeps snd (static_65C02_fn f st l c)"
  using assms unfolding memory65_ops_def
  by (elim insertE emptyE; simp add: load65_static_defs test65_static_defs Let_def;
      auto simp: Let_def split: isa_6502_addressing.splits intro!: static_rules)

lemma keeps_shift65_fetch: "Q c \<Longrightarrow> keeps snd (shift65_fetch_static l c)"
  by (auto simp: shift65_fetch_static_def Let_def split: isa_6502_addressing.splits
      intro!: static_rules)

lemma keeps_bits_static: "Q c \<Longrightarrow> keeps snd (bits_static g st l c)"
  by (auto simp: bits_static_def Let_def split: isa_6502_addressing.splits intro!: static_rules)

lemma static_keeps_modify65:
  assumes "Q c" "f \<in> modify65_ops"
  shows "keeps snd (static_65C02_fn f st l c)"
proof -
  have "keeps snd (isa_6502_static_INC st l c)" "keeps snd (isa_6502_static_DEC st l c)"
    using static_keeps_memory [OF assms(1), of op_INC] static_keeps_memory [OF assms(1), of op_DEC]
    by (simp_all add: memory_ops_def)
  then show ?thesis
    using assms unfolding modify65_ops_def
    by (auto simp: isa_65C02_static_INC_def isa_65C02_static_DEC_def isa_65C02_static_ASL_def
        isa_65C02_static_ROL_def isa_65C02_static_LSR_def isa_65C02_static_ROR_def
        isa_65C02_static_TSB_def isa_65C02_static_TRB_def shift65_static_def Let_def
        split: prod.splits intro!: keeps_bind [OF keeps_shift65_fetch] keeps_bits_static static_rules)
qed

lemma static_keeps_flow65:
  assumes "Q c" "f \<notin> operand65_ops \<union> memory65_ops \<union> modify65_ops"
  shows "keeps snd (static_65C02_fn f st l c)"
  using assms unfolding operand65_ops_def memory65_ops_def modify65_ops_def
  by (cases f; simp add: flow65_static_defs Let_def;
      auto intro!: static_rules bind_indirect split: isa_6502_addressing.splits)

lemma static_keeps_65C02: "Q c \<Longrightarrow> keeps snd (static_65C02_fn f st l c)"
  by (metis UnE static_keeps_operand65 static_keeps_memory65 static_keeps_modify65
      static_keeps_flow65)

lemma static_keeps:
  assumes "Q c"
  shows "keeps snd (static_fn f st l c)"
proof (cases "f \<in> range op_65C02")
  case True
  then show ?thesis using static_keeps_65C02 [OF assms] by auto
next
  case False
  then show ?thesis
    using static_keeps_memory [OF assms] static_keeps_operand [OF assms] static_keeps_shift [OF assms] static_keeps_other [OF assms]
    by blast
qed

end

interpretation ok_bus: counted_contract "\<lambda>c. bus_ok (memory c)" True
proof
  fix c a v
  assume ok: "bus_ok (memory c)"
  show "case membus_read_addr (memory c) a of None \<Rightarrow> \<not> True
      | Some (v, m) \<Rightarrow> bus_ok (memory (c\<lparr>memory := m\<rparr>))"
    using read_addr_ok [OF ok, of a] by auto
  show "case membus_write_addr (memory c) a v of None \<Rightarrow> \<not> True
      | Some m \<Rightarrow> bus_ok (memory (c\<lparr>memory := m\<rparr>))"
    using write_addr_ok [OF ok, of a v] by auto
qed simp_all

interpretation ram: counted_contract "\<lambda>c. ram_bus m (memory c)" True for m
  by unfold_locales (auto simp: ram_bus_read ram_bus_write Let_def ram_store_ok)

text \<open>A staged body does not count: only its caller advances the cycle counter.\<close>

interpretation fixed: context_contract
  "\<lambda>c. opcode c = op \<and> addressing_mode c = mode \<and> cycle_count c = n" False for op mode n
  by unfold_locales (auto split: option.splits)

end
