(* ===== verification/Executor_Laws.thy ===== *)
theory Executor_Laws
  imports Executor Isa_Agree Isa_Frame
begin

text \<open>
  Laws of the executor: induction over its three loops, invariants of a launch as a locale, the
  run of an instruction that nothing interrupts, and the simulation of the staged launch functions
  by the static ones.
\<close>

section \<open>Induction over the loops\<close>

lemma staged_turns_inv:
  assumes "staged_turns cb locking d s = Some t" "P s"
    and "\<And>s s'. \<lbrakk>staged_turn cb locking d s = Some s'; P s\<rbrakk> \<Longrightarrow> P s'"
  shows "P t \<and> next_stage t = isa_6502_instr_stage_end"
  using assms
proof (induct rule: staged_turns.raw_induct [rotated, consumes 1, case_names step])
  case (step turns cb locking d s t)
  obtain s' where s': "staged_turn cb locking d s = Some s'"
    "if next_stage s' = isa_6502_instr_stage_end then s' = t else turns cb locking d s' = Some t"
    using step.hyps(2) by (auto simp: bind_eq_Some_conv split: if_splits)
  then have "P s'" using step.prems by blast
  then show ?case using s'(2) step.hyps(1) step.prems(2) by (metis (no_types, lifting))
qed

lemma service_turns_inv:
  assumes "service_turns f s = Some t" "P s"
    and "\<And>s s'. \<lbrakk>call_staged f s = Some s'; P s\<rbrakk> \<Longrightarrow> P s'"
  shows "P t \<and> next_stage t = isa_6502_instr_stage_end"
  using assms
proof (induct rule: service_turns.raw_induct [rotated, consumes 1, case_names step])
  case (step turns f s t)
  obtain s' where s': "call_staged f s = Some s'"
    "if next_stage s' = isa_6502_instr_stage_end then s' = t else turns f s' = Some t"
    using step.hyps(2) by (auto simp: bind_eq_Some_conv split: if_splits)
  then have "P s'" using step.prems by blast
  then show ?case using s'(2) step.hyps(1) step.prems(2) by (metis (no_types, lifting))
qed

text \<open>A loop that returns has run the turns of a step relation.\<close>

inductive loop_runs :: "(machine \<Rightarrow> (bool \<times> machine) option) \<Rightarrow> u32 \<Rightarrow> nat \<Rightarrow> machine \<Rightarrow> machine \<Rightarrow> bool"
  for step PC_end where
  left: "has_flag executor_flags_exec_stop s \<or> PC_end \<le> ucast (reg_PC (ex_registers s))
    \<Longrightarrow> loop_runs step PC_end 0 s s"
| broken: "\<lbrakk>\<not> has_flag executor_flags_exec_stop s; ucast (reg_PC (ex_registers s)) < PC_end;
    step s = Some (False, t)\<rbrakk> \<Longrightarrow> loop_runs step PC_end 0 s t"
| turn: "\<lbrakk>\<not> has_flag executor_flags_exec_stop s; ucast (reg_PC (ex_registers s)) < PC_end;
    step s = Some (True, s'); loop_runs step PC_end k s' t\<rbrakk> \<Longrightarrow> loop_runs step PC_end (Suc k) s t"

lemma loop_runs_run_loop: "loop_runs step PC_end k s t \<Longrightarrow> run_loop step PC_end s = Some t"
  by (induction rule: loop_runs.induct) (subst run_loop.simps; auto)+

lemma run_loop_loop_runs:
  assumes "run_loop step PC_end s = Some t"
  shows "\<exists>k. loop_runs step PC_end k s t"
  using assms
proof (induct rule: run_loop.raw_induct [rotated, consumes 1, case_names step])
  case (step loop st PC_end s t)
  show ?case
  proof (cases "\<not> has_flag executor_flags_exec_stop s \<and> ucast (reg_PC (ex_registers s)) < PC_end")
    case True
    then obtain b s' where s': "st s = Some (b, s')" "if b then loop st PC_end s' = Some t else s' = t"
      using step.hyps(2) by (auto simp: bind_eq_Some_conv split: if_splits)
    then show ?thesis
      using True step.hyps(1) by (metis (full_types) loop_runs.broken loop_runs.turn)
  next
    case False
    then have "s = t" using step.hyps(2) by auto
    then show ?thesis using False by (auto simp: not_less intro: loop_runs.left)
  qed
qed

lemma loop_runs_inv:
  assumes "loop_runs step PC_end k s t" "P s"
    and "\<And>s b s'. \<lbrakk>step s = Some (b, s'); P s\<rbrakk> \<Longrightarrow> P s'"
  shows "P t"
  using assms by (induction rule: loop_runs.induct) blast+

section \<open>What a launch keeps\<close>

text \<open>A property of machines that every building block of a launch keeps is kept by the launch.  The
  blocks: a change of local variables and callbacks, of registers, flags and DMA fields, a call of a
  body, a bus access, a window.\<close>

definition same_executor :: "machine \<Rightarrow> machine \<Rightarrow> bool" where
  "same_executor s t \<longleftrightarrow> executor.truncate s = executor.truncate t"

lemma request_memory:
  "apply_requests qs s = Some t \<Longrightarrow> ex_memory t = ex_memory s \<and> ex_isa t = ex_isa s"
proof (induction qs arbitrary: s)
  case (Cons q qs)
  then show ?case
    by (cases q) (fastforce simp: request_defs bind_eq_Some_conv clear_flags_def set_flag_def
        split: if_splits)+
qed simp

lemma window_memory:
  "window locking s = Some t \<Longrightarrow> ex_memory t = ex_memory s \<and> ex_isa t = ex_isa s
     \<and> (locking \<longrightarrow> state_locked t)"
  by (auto simp: window_def take_lock_def drop_lock_def bind_eq_Some_conv
      split: if_splits list.splits dest!: request_memory)

lemma window_locked:
  "\<lbrakk>window locking s = Some t; state_locked s\<rbrakk> \<Longrightarrow> state_locked t"
  using window_memory [of locking s t] by (cases locking) (auto simp: window_def)

lemma instruction_stepE:
  assumes "instruction_step cb locking execute s = Some (b, t)"
  obtains (illegal) u d where "\<not> b" "fetch_instr cb s = Some u" "decode_instr cb u = (False, d, t)"
  | (executed) u d v w x where "b" "fetch_instr cb s = Some u" "decode_instr cb u = (True, d, v)"
      "execute d v = Some w" "disasm_instr cb d w = Some x"
      "service_interrupts cb locking (emit_instr cb isa_6502_instr_stage_end (dispatch_mode d) x) = Some t"
proof -
  obtain u where u: "fetch_instr cb s = Some u"
    using assms by (auto simp: instruction_step_def bind_eq_Some_conv)
  obtain go d v where d: "decode_instr cb u = (go, d, v)" by (cases "decode_instr cb u")
  show thesis
    using assms u d illegal executed
    by (cases go) (auto simp: instruction_step_def bind_eq_Some_conv)
qed

text \<open>The eight launch functions behind the mode word.\<close>

definition mode_locking :: "u32 \<Rightarrow> bool" where
  "mode_locking exec_mode \<longleftrightarrow> exec_mode AND exec_mode_no_locking = 0"

definition mode_callback :: "u32 \<Rightarrow> stage_callback \<Rightarrow> stage_callback" where
  "mode_callback exec_mode cb = (if exec_mode AND exec_mode_verbose \<noteq> 0 then cb else no_callback)"

lemma launch_in_mode_eq:
  "launch_in_mode exec_mode cb r PC s =
    (let lk = mode_locking exec_mode; cb = mode_callback exec_mode cb;
         selected = exec_mode AND exec_mode_mask
     in if selected = exec_mode_staged then launch cb lk (staged_turns cb lk) r PC s
        else if selected = exec_mode_static then launch cb lk (static_turn cb lk) r PC s
        else Some (0, s))"
  by (simp add: launch_in_mode_def launch_variants Let_def mode_locking_def mode_callback_def)

lemma launch_begin_frame:
  assumes "launch_begin cb locking PC s = Some u"
  shows "ex_memory u = ex_memory s" "ex_isa u = ex_isa s" "locking \<Longrightarrow> state_locked u"
    "state_locked u = (locking \<or> state_locked s)" "windows u = windows s"
    "ex_flags u = ex_flags s AND NOT internal_flags" "is_in_dma u = False"
    "ex_registers u = (ex_registers s)\<lparr>reg_PC := PC\<rparr>" "total_cycles u = 0"
    "\<not> locking \<or> \<not> state_locked s" "statics u = statics s" "dma_range u = dma_range s"
  using assms
  by (auto simp: launch_begin_def Let_def bind_eq_Some_conv take_lock_def clear_flags_def emit_defs
      split: if_splits)

lemma launch_begins: "\<not> locking \<or> \<not> state_locked s \<Longrightarrow> \<exists>u. launch_begin cb locking PC s = Some u"
  by (cases locking) (simp_all add: launch_begin_def take_lock_def Let_def)

text \<open>Nothing that takes the lock gets past a lock that is held.\<close>

lemma locked_out:
  assumes "state_locked t"
  shows "apply_request q t = None" "executor_free t = None" "take_lock t = None"
    "launch_begin cb True PC t = None" "launch cb True execute r PC t = None"
proof -
  show "apply_request q t = None" using assms by (cases q) (simp_all add: request_defs)
  show "executor_free t = None" "take_lock t = None" "launch_begin cb True PC t = None"
    "launch cb True execute r PC t = None"
    using assms by (simp_all add: executor_free_def take_lock_def launch_begin_def launch_def)
qed

text \<open>A launch whose first opcode is illegal, and one whose range is empty.\<close>

lemma launch_illegal:
  assumes "launch_begin cb locking PC s = Some u" "ucast PC < PC_end_of r"
    "fetch_instr cb u = Some v" "decode_instr cb v = (False, d, w)"
  shows "launch cb locking execute r PC s = Some (launch_end cb w)"
proof -
  have "\<not> has_flag executor_flags_exec_stop u" "reg_PC (ex_registers u) = PC"
    using launch_begin_frame [OF assms(1)]
    by (simp_all add: has_flag_def internal_flags_def flag_defs and.assoc)
  then have "run_loop (instruction_step cb locking execute) (PC_end_of r) u = Some w"
    using assms(2-4) by (subst run_loop.simps) (simp add: instruction_step_def)
  then show ?thesis using assms(1) by (simp add: launch_def)
qed

lemma launch_outside:
  assumes "launch_begin cb locking PC s = Some u" "PC_end_of r \<le> ucast PC"
  shows "launch cb locking execute r PC s = Some (launch_end cb u)"
proof -
  have "run_loop (instruction_step cb locking execute) (PC_end_of r) u = Some u"
    using assms(2) launch_begin_frame(8) [OF assms(1)] by (subst run_loop.simps) auto
  then show ?thesis using assms(1) by (simp add: launch_def)
qed

locale machine_invariant =
  fixes I :: "machine \<Rightarrow> bool"
  assumes locals_law: "\<lbrakk>I s; ex_memory t = ex_memory s; ex_isa t = ex_isa s;
        state_locked t = state_locked s\<rbrakk> \<Longrightarrow> I t"
    and window_law: "\<lbrakk>window locking s = Some t; I s\<rbrakk> \<Longrightarrow> I t"
    and read_law: "\<lbrakk>membus_read_addr (ex_memory s) a = Some (v, m); I s\<rbrakk> \<Longrightarrow> I (s\<lparr>ex_memory := m\<rparr>)"
    and write_law: "\<lbrakk>membus_write_addr (ex_memory s) a v = Some m; I s\<rbrakk> \<Longrightarrow> I (s\<lparr>ex_memory := m\<rparr>)"
    and ring_law: "I s \<Longrightarrow> I (s\<lparr>ex_memory := (ex_memory s)\<lparr>rcache_idx := i, wcache_idx := j\<rparr>\<rparr>)"
    and cache_law: "I s \<Longrightarrow> I (s\<lparr>ex_memory := membus_set_cache_disable (ex_memory s) b\<rparr>)"
    and staged_law: "\<lbrakk>call_staged f s = Some t; I s\<rbrakk> \<Longrightarrow> I t"
    and static_law: "\<lbrakk>call_static f s = Some t; I s\<rbrakk> \<Longrightarrow> I t"
begin

lemma keeps_emit [simp]:
  "I (emit cb st op md n s) = I s" "I (emit_plain cb st n s) = I s" "I (emit_instr cb st md s) = I s"
  by (auto simp: emit_defs elim: locals_law)

lemma keeps_clear [simp]: "I (clear_flags w s) = I s"
  by (auto simp: clear_flags_def elim: locals_law)

lemma keeps_fetch:
  assumes "fetch_instr cb s = Some t" "I s"
  shows "I t"
proof -
  obtain v m where m: "membus_read_addr (ex_memory s) (reg_PC (ex_registers s)) = Some (v, m)"
    and t: "ex_memory t = m" "ex_isa t = ex_isa s" "state_locked t = state_locked s"
    using assms(1)
    by (auto simp: fetch_instr_def Let_def bind_eq_Some_conv emit_defs count_cycle_def)
  show "I t"
    by (rule locals_law [OF read_law [OF m assms(2)]]) (simp_all add: t)
qed

lemma keeps_decode: "\<lbrakk>decode_instr cb s = (b, d, t); I s\<rbrakk> \<Longrightarrow> I t"
  by (auto simp: decode_instr_def Let_def split: if_splits elim: locals_law)
    (erule locals_law; simp add: emit_defs)+

lemma keeps_enter_dma: "I s \<Longrightarrow> I (enter_dma cb s)"
  unfolding enter_dma_def keeps_emit
  by (rule locals_law [OF cache_law [of s True]]) simp_all

lemma keeps_leave_dma: "I s \<Longrightarrow> I (leave_dma s)"
  unfolding leave_dma_def keeps_clear
  by (rule locals_law [OF cache_law [of s "saved_membus_cache_state s"]]) simp_all

lemma keeps_dma_write:
  assumes "dma_write s = Some t" "I s"
  shows "I t"
proof -
  have "I (if dma_addr_hi u \<le> ucast (addr_lo (dma_range u)) then leave_dma u else u)" if "I u" for u
    using that keeps_leave_dma by simp
  moreover have "I (s\<lparr>dma_byte_index := i, consumed := c\<rparr>)" for i c
    using assms(2) by (rule locals_law) simp_all
  moreover have "I (dma_advance (s\<lparr>ex_memory := m\<rparr>))"
    if "membus_write_addr (ex_memory s) a v = Some m" for a v m
    by (rule locals_law [OF write_law [OF that assms(2)]]) (simp_all add: dma_advance_def)
  ultimately show ?thesis
    using assms(1) keeps_leave_dma
    by (auto simp: dma_write_def Let_def bind_eq_Some_conv simp del: if_bool_eq_disj split: if_split_asm)
qed

lemma keeps_dma_read:
  assumes "dma_read s = Some t" "I s"
  shows "I t"
proof -
  have "I (dma_advance (s\<lparr>ex_memory := m, dma_next_byte := v\<rparr>))"
    if "membus_read_addr (ex_memory s) a = Some (v, m)" for a v m
    by (rule locals_law [OF read_law [OF that assms(2)]]) (simp_all add: dma_advance_def)
  moreover have "I (s\<lparr>dma_byte_index := i\<rparr>)" "I (s\<lparr>dma_byte_index := i, dma_next_byte := b\<rparr>)" for i b
    by (rule locals_law [OF assms(2)]; simp)+
  ultimately show ?thesis
    using assms(1) keeps_leave_dma
    by (auto simp: dma_read_def Let_def bind_eq_Some_conv split: if_splits option.splits)
qed

lemma keeps_dma_cycle:
  assumes "dma_cycle s = Some t" "I s"
  shows "I t"
proof -
  have "I (u\<lparr>total_cycles := n\<rparr>)" "I (u\<lparr>total_cycles := n, is_dma_started := b\<rparr>)" if "I u" for u n b
    by (rule locals_law [OF that]; simp)+
  then show ?thesis
    using assms keeps_dma_write keeps_dma_read
    by (auto simp: dma_cycle_def Let_def bind_eq_Some_conv split: if_splits)
qed

lemma keeps_turn:
  assumes "staged_turn cb locking d s = Some t \<or> static_turn cb locking d s = Some t" "I s"
  shows "I t"
  using assms(1)
proof
  assume "staged_turn cb locking d s = Some t"
  then show ?thesis
    using assms(2) window_law staged_law keeps_enter_dma keeps_dma_cycle
    by (auto simp: staged_turn_def bind_eq_Some_conv split: if_split_asm)
next
  assume "static_turn cb locking d s = Some t"
  then show ?thesis
    using assms(2) window_law static_law keeps_enter_dma keeps_dma_cycle
    by (auto simp: static_turn_def bind_eq_Some_conv split: if_split_asm)
qed

lemma keeps_staged_turns: "\<lbrakk>staged_turns cb locking d s = Some t; I s\<rbrakk> \<Longrightarrow> I t"
  using staged_turns_inv [of cb locking d s t I] keeps_turn by blast

lemma keeps_service:
  assumes "service h s = Some t" "I s"
  shows "I t"
proof (cases h)
  case (Some f)
  have "I (s\<lparr>instr_cycles := 1, instr_opcode := 0\<rparr>)"
    by (rule locals_law [OF assms(2)]) simp_all
  then show ?thesis
    using assms(1) service_turns_inv [of f _ t I] staged_law by (auto simp: Some service_def)
qed (use assms in \<open>simp add: service_def\<close>)

lemma keeps_interrupts:
  assumes "service_interrupts cb locking s = Some t" "I s"
  shows "I t"
proof -
  have irq: "I u'" if "service_irq cb u = Some u'" "I u" for u u'
    using that keeps_service by (auto simp: service_irq_def bind_eq_Some_conv split: if_splits)
  have nmi: "I u'" if "service_nmi cb u = Some u'" "I u" for u u'
    using that keeps_service by (auto simp: service_nmi_def bind_eq_Some_conv split: if_splits)
  show ?thesis
    using assms irq nmi window_law by (auto simp: service_interrupts_def bind_eq_Some_conv)
qed

lemma keeps_disasm:
  assumes "disasm_instr cb d s = Some t" "I s"
  shows "I t"
proof -
  have "I (s\<lparr>ex_memory := memory c\<rparr>)" if "run_disasm body vars (instr_context_of s) = Some (shown, c)" for body vars shown c
    using run_disasm_bus [OF that] ring_law [OF assms(2)] by (auto simp: instr_context_of_def)
  then show ?thesis
    using assms by (auto simp: disasm_instr_def bind_eq_Some_conv split: if_splits option.splits)
qed

lemma keeps_instruction_step:
  assumes "instruction_step cb locking execute s = Some (b, t)" "I s"
    and "\<And>d s t. \<lbrakk>execute d s = Some t; I s\<rbrakk> \<Longrightarrow> I t"
  shows "I t"
  using assms(1)
proof (cases rule: instruction_stepE)
  case (illegal u d)
  then show ?thesis using keeps_fetch keeps_decode assms(2) by blast
next
  case (executed u d v w x)
  then have "I x" using keeps_fetch keeps_decode keeps_disasm assms(2,3) by blast
  then show ?thesis using keeps_interrupts [OF executed(6)] by simp
qed

lemma keeps_launch_from:
  assumes "launch cb locking execute r PC s = Some (n, t)"
    and "\<And>u. launch_begin cb locking PC s = Some u \<Longrightarrow> I u"
    and "\<And>d s t. \<lbrakk>execute d s = Some t; I s\<rbrakk> \<Longrightarrow> I t"
  shows "I t"
proof -
  obtain u v where u: "launch_begin cb locking PC s = Some u"
    "run_loop (instruction_step cb locking execute) (PC_end_of r) u = Some v"
    "launch_end cb v = (n, t)"
    using assms(1) by (auto simp: launch_def bind_eq_Some_conv)
  obtain k where "loop_runs (instruction_step cb locking execute) (PC_end_of r) k u v"
    using run_loop_loop_runs [OF u(2)] by blast
  then have "I v"
    by (rule loop_runs_inv [where P = I])
      (use assms(2) [OF u(1)] keeps_instruction_step assms(3) in blast)+
  then show ?thesis using u(3) by (auto simp: launch_end_def Let_def)
qed

lemma keeps_launch_in_mode:
  assumes "launch_in_mode exec_mode cb r PC s = Some (n, t)"
    and "exec_mode AND exec_mode_mask \<in> {exec_mode_staged, exec_mode_static}"
    and "\<And>cb u. launch_begin cb (mode_locking exec_mode) PC s = Some u \<Longrightarrow> I u"
  shows "I t"
  using assms(1,2) keeps_staged_turns keeps_turn [OF disjI2] keeps_launch_from assms(3)
  by (auto simp: launch_in_mode_eq Let_def split: if_splits)

end

section \<open>Invariants of the model\<close>

lemma call_frame:
  "call_staged f s = Some t \<Longrightarrow> ex_isa t = ex_isa s \<and> state_locked t = state_locked s"
  "call_static f s = Some t \<Longrightarrow> ex_isa t = ex_isa s \<and> state_locked t = state_locked s"
  by (auto simp: call_staged_def call_static_def bind_eq_Some_conv Let_def count_cycle_def
      with_instr_context_def)

interpretation lock_held: machine_invariant "state_locked :: machine \<Rightarrow> bool"
  by unfold_locales (auto dest: window_locked call_frame)

interpretation isa_fixed: machine_invariant "\<lambda>s. ex_isa s = isa_table" for isa_table
  by unfold_locales (auto dest: window_memory call_frame)

text \<open>A well-formed bus stays well formed.\<close>

lemma call_bus_ok:
  "\<lbrakk>call_staged f s = Some t; bus_ok (ex_memory s)\<rbrakk> \<Longrightarrow> bus_ok (ex_memory t)"
  "\<lbrakk>call_static f s = Some t; bus_ok (ex_memory s)\<rbrakk> \<Longrightarrow> bus_ok (ex_memory t)"
  using ok_bus.staged_keeps [of "instr_context_of s" f "statics s f"]
    ok_bus.static_keeps [of "instr_context_of s" f isa_6502_instr_stage_next_cycle
      "indet_locals s (total_cycles s)"]
  by (auto simp: call_staged_def call_static_def bind_eq_Some_conv Let_def count_cycle_def
      with_instr_context_def ok_bus.keeps_def instr_context_of_def)

interpretation bus_kept: machine_invariant "\<lambda>s. bus_ok (ex_memory s)"
proof
  fix s :: machine and a v m
  assume ok: "bus_ok (ex_memory s)"
  show "membus_read_addr (ex_memory s) a = Some (v, m) \<Longrightarrow> bus_ok (ex_memory (s\<lparr>ex_memory := m\<rparr>))"
    and "membus_write_addr (ex_memory s) a v = Some m \<Longrightarrow> bus_ok (ex_memory (s\<lparr>ex_memory := m\<rparr>))"
    using read_addr_ok [OF ok, of a] write_addr_ok [OF ok, of a v] by auto
  show "bus_ok (ex_memory (s\<lparr>ex_memory := (ex_memory s)\<lparr>rcache_idx := i, wcache_idx := j\<rparr>\<rparr>))" for i j
    using ok by (simp add: bus_ok_def)
  show "bus_ok (ex_memory (s\<lparr>ex_memory := membus_set_cache_disable (ex_memory s) b\<rparr>))" for b
    using ok by (simp add: bus_ok_def membus_set_cache_disable_def)
qed (use call_bus_ok in \<open>auto dest: window_memory\<close>)

end
