(* ===== verification/Executor_Sim.thy ===== *)
theory Executor_Sim
  imports Executor_Laws
begin

text \<open>
  The simulation of the staged launch functions by the static ones.  Between instructions the two
  machines agree on everything another thread or the caller can see, the fields of \<^verbatim>\<open>executor_t\<close>;
  the cycle totals drift apart by one with each instruction.
\<close>

section \<open>A machine nobody interrupts\<close>

definition quiet :: "bool \<Rightarrow> machine \<Rightarrow> bool" where
  "quiet locking s \<longleftrightarrow> \<not> is_in_dma s \<and> windows s = [] \<and> (locking \<longrightarrow> state_locked s)
     \<and> ex_flags s AND internal_flags = 0"

lemma and_not_unchanged: "x AND m = 0 \<Longrightarrow> x AND NOT m = x" for x m :: "'a::len word"
proof -
  have "x AND NOT m = x XOR (x AND m)" by (rule bit_word_eqI) (auto simp: bit_simps)
  then show "x AND m = 0 \<Longrightarrow> x AND NOT m = x" by simp
qed

lemma quiet_flags:
  assumes "ex_flags s AND internal_flags = 0"
  shows "\<not> has_flag executor_flags_nmi_is_set s" "\<not> has_flag executor_flags_irq_is_set s"
    "\<not> has_flag executor_flags_dma_is_set s" "\<not> has_flag executor_flags_exec_stop s"
    "ex_flags s AND NOT executor_flags_irq_is_set AND NOT executor_flags_nmi_is_set = ex_flags s"
proof -
  have sub: "ex_flags s AND f = 0" if "f AND internal_flags = f" for f
  proof -
    have "ex_flags s AND f = (ex_flags s AND internal_flags) AND f"
      using that by (metis and.assoc and.commute)
    then show ?thesis using assms by simp
  qed
  show "\<not> has_flag executor_flags_nmi_is_set s" "\<not> has_flag executor_flags_irq_is_set s"
    "\<not> has_flag executor_flags_dma_is_set s" "\<not> has_flag executor_flags_exec_stop s"
    by (simp_all add: has_flag_def sub internal_flags_def flag_defs)
  have "ex_flags s AND (executor_flags_irq_is_set OR executor_flags_nmi_is_set) = 0"
    by (rule sub) (simp add: internal_flags_def flag_defs)
  from and_not_unchanged [OF this]
  show "ex_flags s AND NOT executor_flags_irq_is_set AND NOT executor_flags_nmi_is_set = ex_flags s"
    by (simp add: and.assoc)
qed

lemma quiet_window: "quiet locking s \<Longrightarrow> window locking s = Some s"
  by (auto simp: quiet_def window_def take_lock_def drop_lock_def)

lemma quiet_interrupts:
  "quiet locking s \<Longrightarrow> service_interrupts no_callback locking s = Some s"
  by (simp add: service_interrupts_def quiet_window service_irq_def service_nmi_def clear_flags_def)
    (simp add: quiet_def quiet_flags)

section \<open>The cycles of one instruction\<close>

lemma quiet_staged_turn:
  assumes "quiet locking s" "exec_fn d = Some f"
  shows "staged_turn no_callback locking d s = call_staged f s"
  using assms call_staged_def
  by (auto simp: staged_turn_def quiet_window quiet_def quiet_flags call_staged_def count_cycle_def
      with_instr_context_def split: bind_splits)

definition after_run :: "isa_6502_op \<Rightarrow> isa_locals \<Rightarrow> isa_6502_instr_context \<Rightarrow> machine \<Rightarrow> machine" where
  "after_run f l c s = (with_instr_context c s)
     \<lparr>statics := (statics s)(f := l), next_stage := isa_6502_instr_stage_end,
      total_cycles := total_cycles s + (cycle_count c - instr_cycles s)\<rparr>"

lemma after_run_idle:
  "next_stage s = isa_6502_instr_stage_end \<Longrightarrow> after_run f (statics s f) (instr_context_of s) s = s"
  by (cases s) (simp add: after_run_def with_instr_context_def instr_context_of_def)

text \<open>The machine after one call of a staged body: the context that the next call sees.\<close>

lemma call_staged_step:
  assumes "staged_fn f (statics s f) (instr_context_of s) = Some (st, l, c)"
  defines "t \<equiv> count_cycle ((with_instr_context c s)\<lparr>statics := (statics s)(f := l), next_stage := st\<rparr>)"
  shows "call_staged f s = Some t" "statics t f = l" "instr_context_of t = add_cycles 1 c"
    "next_stage t = st" "quiet locking t = quiet locking s"
    "after_run f l' c' t = after_run f l' c' s"
proof -
  have "cycle_count c = instr_cycles s"
    using fixed.staged_keeps [of "instr_context_of s" "opcode (instr_context_of s)" _ _ f "statics s f"]
    by (simp add: assms(1) fixed.keeps_def) (simp add: instr_context_of_def)
  moreover show "call_staged f s = Some t"
    by (simp add: call_staged_def assms(1) t_def)
  ultimately show "statics t f = l" "instr_context_of t = add_cycles 1 c"
    "next_stage t = st" "quiet locking t = quiet locking s" "after_run f l' c' t = after_run f l' c' s"
    unfolding t_def
    by (simp_all add: count_cycle_def instr_context_of_def
        with_instr_context_def add_cycles_def quiet_def after_run_def)
qed

lemma uninterrupted_turns:
  assumes "quiet locking s" "exec_fn d = Some f"
    "run_cycles n (staged_fn f) (statics s f) (instr_context_of s) = Some (isa_6502_instr_stage_end, l, c)"
  shows "staged_turns no_callback locking d s = Some (after_run f l c s)"
  using assms
proof (induction n arbitrary: s)
  case (Suc n)
  obtain st l1 c1 where b: "staged_fn f (statics s f) (instr_context_of s) = Some (st, l1, c1)"
    using Suc.prems(3) by (auto simp: bind_eq_Some_conv)
  define t where
    "t = count_cycle ((with_instr_context c1 s)\<lparr>statics := (statics s)(f := l1), next_stage := st\<rparr>)"
  note step = call_staged_step [OF b, folded t_def]
  have turn: "staged_turn no_callback locking d s = Some t"
    using step(1) quiet_staged_turn [OF Suc.prems(1,2)] by simp
  show ?case
  proof (cases "st = isa_6502_instr_stage_end")
    case True
    then have "l = l1" "c = add_cycles 1 c1" using Suc.prems(3) b by (auto simp: Let_def)
    moreover have "after_run f l1 (add_cycles 1 c1) t = t"
      using after_run_idle [of t f] step(2-4) True by simp
    ultimately show ?thesis
      using turn step(4,6) True by (subst staged_turns.simps) simp
  next
    case False
    have "staged_turns no_callback locking d t = Some (after_run f l c t)"
      using Suc.prems step b False by (intro Suc.IH) (auto simp: Let_def)
    then show ?thesis
      using turn step(4,6) False by (subst staged_turns.simps) simp
  qed
qed simp

text \<open>Where memory fails within the run there is no result.\<close>

lemma failed_turns:
  assumes "quiet locking s" "exec_fn d = Some f"
    "run_cycles n (staged_fn f) (statics s f) (instr_context_of s) = None"
  shows "staged_turns no_callback locking d s = None"
  using assms
proof (induction n arbitrary: s)
  case (Suc n)
  show ?case
  proof (cases "staged_fn f (statics s f) (instr_context_of s)")
    case None
    then show ?thesis
      using Suc.prems(1,2) by (subst staged_turns.simps) (simp add: quiet_staged_turn call_staged_def)
  next
    case (Some r)
    then obtain st l1 c1 where b: "staged_fn f (statics s f) (instr_context_of s) = Some (st, l1, c1)"
      by (cases r) auto
    note step = call_staged_step [OF b]
    show ?thesis
      using Suc.prems step b Suc.IH
      by (subst staged_turns.simps) (auto simp: quiet_staged_turn Let_def split: if_splits)
  qed
qed simp

section \<open>Two machines in step\<close>

definition in_step :: "bool \<Rightarrow> nat \<Rightarrow> machine \<Rightarrow> machine \<Rightarrow> bool" where
  "in_step locking k s t \<longleftrightarrow> quiet locking s \<and> quiet locking t
     \<and> executor.truncate s = executor.truncate t \<and> total_cycles t = total_cycles s + of_nat k
     \<and> (\<forall>n. local_flag_bits (indet_locals t n) = 0)"

text \<open>The instruction a machine is about to execute is legal and its two bodies agree on it, or it is
  illegal and stops both executors.\<close>

definition agreeing_instr :: "machine \<Rightarrow> bool" where
  "agreeing_instr s \<longleftrightarrow>
    (case fetch_instr no_callback s of None \<Rightarrow> False
     | Some s \<Rightarrow>
        (case decode_instr no_callback s of (legal, d, s) \<Rightarrow>
          legal \<longrightarrow> (case exec_fn d of None \<Rightarrow> False | Some f \<Rightarrow> agrees_in f (instr_context_of s))))"

lemma truncate_fields:
  "executor.truncate s = executor.truncate t \<longleftrightarrow>
     ex_flags s = ex_flags t \<and> ex_registers s = ex_registers t \<and> ex_memory s = ex_memory t
     \<and> ex_isa s = ex_isa t \<and> dma_range s = dma_range t \<and> dma_provider s = dma_provider t
     \<and> dma_consumer s = dma_consumer t \<and> state_locked s = state_locked t"
  by (auto simp: executor.defs)

text \<open>After fetching and decoding both have the same instruction.\<close>

lemma in_step_decode:
  assumes "in_step locking k s t" "fetch_instr no_callback s = Some u" "decode_instr no_callback u = (b, d, v)"
  shows "\<exists>u' v'. fetch_instr no_callback t = Some u' \<and> decode_instr no_callback u' = (b, d, v')
    \<and> in_step locking k v v' \<and> (b \<longrightarrow> instr_context_of v' = instr_context_of v \<and> instr_cycles v = 1)"
proof -
  obtain x m where r: "membus_read_addr (ex_memory s) (reg_PC (ex_registers s)) = Some (x, m)"
    using assms(2) by (auto simp: fetch_instr_def Let_def bind_eq_Some_conv)
  have same: "ex_memory t = ex_memory s" "ex_registers t = ex_registers s" "ex_isa t = ex_isa s"
    using assms(1) by (simp_all add: in_step_def truncate_fields)
  show ?thesis
    using assms r
    by (auto simp: fetch_instr_def decode_instr_def Let_def same count_cycle_def in_step_def
        truncate_fields instr_context_of_def quiet_def split: if_splits)
qed

lemma in_step_execute:
  assumes "in_step locking k s t" "instr_context_of t = instr_context_of s" "instr_cycles s = 1"
    "exec_fn d = Some f" "agrees_in f (instr_context_of s)"
    "staged_turns no_callback locking d s = Some s'"
  shows "\<exists>t'. static_turn no_callback locking d t = Some t' \<and> in_step locking (Suc k) s' t'"
proof -
  have q: "quiet locking s" "quiet locking t" using assms(1) by (simp_all add: in_step_def)
  have j: "agree_locals f (indet_locals t (total_cycles t))"
    using assms(1) by (simp add: in_step_def agree_locals_zero)
  have one: "cycle_count (instr_context_of s) = 1" using assms(3) by (simp add: instr_context_of_def)
  obtain st l c where run: "run_cycles 8 (staged_fn f) (statics s f) (instr_context_of s) = Some (st, l, c)"
    using failed_turns [OF q(1) assms(4), of 8] assms(6)
    by (cases "run_cycles 8 (staged_fn f) (statics s f) (instr_context_of s)")
      (auto simp del: run_cycles_numeral)
  obtain st' where e: "st = isa_6502_instr_stage_end"
    and static: "static_fn f isa_6502_instr_stage_next_cycle (indet_locals t (total_cycles t))
      (instr_context_of t) = Some (st', c)"
    using isa_bodies.staged_ends [OF assms(5) one j run] assms(2) by auto
  have s': "s' = after_run f l c s"
    using uninterrupted_turns [OF q(1) assms(4), of 8] run e assms(6)
    by (simp del: run_cycles_numeral)
  define t' where "t' = (with_instr_context c t)\<lparr>total_cycles := total_cycles t + cycle_count c\<rparr>"
  have "static_turn no_callback locking d t = Some t'"
    using q(2) by (simp add: static_turn_def quiet_window assms(4) call_static_def static Let_def t'_def)
      (simp add: quiet_def quiet_flags with_instr_context_def)
  moreover have "in_step locking (Suc k) s' t'"
    using assms(1,3)
    by (simp add: in_step_def s' t'_def quiet_def truncate_fields after_run_def with_instr_context_def)
  ultimately show ?thesis by blast
qed

lemma in_step_instruction:
  assumes "in_step locking k s t" "agreeing_instr s"
    "instruction_step no_callback locking (staged_turns no_callback locking) s = Some (b, s')"
  shows "\<exists>t'. instruction_step no_callback locking (static_turn no_callback locking) t = Some (b, t')
    \<and> in_step locking (if b then Suc k else k) s' t'"
  using assms(3)
proof (cases rule: instruction_stepE)
  case (illegal u d)
  then show ?thesis
    using in_step_decode [OF assms(1)] by (fastforce simp: instruction_step_def)
next
  case (executed u d v w x)
  obtain f where f: "exec_fn d = Some f" "agrees_in f (instr_context_of v)"
    using assms(2) executed by (auto simp: agreeing_instr_def split: option.splits)
  obtain u' v' where v': "fetch_instr no_callback t = Some u'" "decode_instr no_callback u' = (True, d, v')"
    "in_step locking k v v'" "instr_context_of v' = instr_context_of v" "instr_cycles v = 1"
    using in_step_decode [OF assms(1) executed(2,3)] by auto
  obtain w' where w': "static_turn no_callback locking d v' = Some w'" "in_step locking (Suc k) w w'"
    using in_step_execute [OF v'(3,4,5) f executed(4)] by auto
  then have "quiet locking w" "quiet locking w'" by (simp_all add: in_step_def)
  then show ?thesis
    using executed v' w' by (auto simp: instruction_step_def quiet_interrupts)
qed

text \<open>The staged step, stuck where the next instruction is not an agreeing one.\<close>

definition agreeing_only :: "(machine \<Rightarrow> (bool \<times> machine) option) \<Rightarrow> machine \<Rightarrow> (bool \<times> machine) option" where
  "agreeing_only step s = (if agreeing_instr s then step s else None)"

abbreviation agreeing_step :: "bool \<Rightarrow> machine \<Rightarrow> (bool \<times> machine) option" where
  "agreeing_step locking \<equiv>
     agreeing_only (instruction_step no_callback locking (staged_turns no_callback locking))"

lemma agreeing_runs:
  assumes "loop_runs (agreeing_step locking) e n s s'" "in_step locking k s t"
  shows "loop_runs (instruction_step no_callback locking (staged_turns no_callback locking)) e n s s'
    \<and> (\<exists>t'. loop_runs (instruction_step no_callback locking (static_turn no_callback locking)) e n t t'
        \<and> in_step locking (k + n) s' t')"
  using assms
proof (induction arbitrary: k t rule: loop_runs.induct)
  case (left s)
  then have "ex_flags t = ex_flags s" "ex_registers t = ex_registers s"
    by (simp_all add: in_step_def truncate_fields)
  then show ?case
    using left by (auto intro!: loop_runs.left exI [of _ t] simp: has_flag_def)
next
  case (broken s s')
  then have same: "ex_flags t = ex_flags s" "ex_registers t = ex_registers s" "agreeing_instr s"
    and step: "instruction_step no_callback locking (staged_turns no_callback locking) s = Some (False, s')"
    by (simp_all add: in_step_def truncate_fields agreeing_only_def split: if_splits)
  obtain t1 where t1: "instruction_step no_callback locking (static_turn no_callback locking) t = Some (False, t1)"
    "in_step locking k s' t1"
    using in_step_instruction [OF broken.prems same(3) step] by auto
  have "loop_runs (instruction_step no_callback locking (static_turn no_callback locking)) e 0 t t1"
    using broken.hyps(1,2) same t1(1) by (intro loop_runs.broken) (simp_all add: has_flag_def)
  then show ?case
    using broken.hyps(1,2) step t1(2) by (auto intro: loop_runs.broken)
next
  case (turn s s1 n s')
  then have same: "ex_flags t = ex_flags s" "ex_registers t = ex_registers s" "agreeing_instr s"
    and step: "instruction_step no_callback locking (staged_turns no_callback locking) s = Some (True, s1)"
    by (simp_all add: in_step_def truncate_fields agreeing_only_def split: if_splits)
  obtain t1 where t1: "instruction_step no_callback locking (static_turn no_callback locking) t = Some (True, t1)"
    "in_step locking (Suc k) s1 t1"
    using in_step_instruction [OF turn.prems same(3) step] by auto
  obtain t' where t': "loop_runs (instruction_step no_callback locking (static_turn no_callback locking)) e n t1 t'"
    "in_step locking (Suc k + n) s' t'"
    using turn.IH [OF t1(2)] by auto
  have "loop_runs (instruction_step no_callback locking (static_turn no_callback locking)) e (Suc n) t t'"
    using turn.hyps(1,2) same t1(1) t'(1) by (intro loop_runs.turn) (simp_all add: has_flag_def)
  then show ?case
    using turn.IH [OF t1(2)] turn.hyps(1,2) step t'(2) by (auto intro: loop_runs.turn)
qed

text \<open>The launch functions.  A run of the staged one through agreeing instructions only.\<close>

lemma launch_begin_quiet:
  assumes "launch_begin no_callback locking PC s = Some u" "windows s = []"
    "\<forall>n. local_flag_bits (indet_locals s n) = 0"
  shows "in_step locking 0 u u"
  using assms
  by (auto simp: launch_begin_def Let_def bind_eq_Some_conv take_lock_def clear_flags_def
      in_step_def quiet_def and.assoc split: if_splits)

lemma launch_simulation:
  assumes "launch_begin no_callback locking PC s = Some u"
    "loop_runs (agreeing_step locking) (PC_end_of r) n u v"
    "windows s = []" "\<forall>n. local_flag_bits (indet_locals s n) = 0"
  shows "\<exists>s' t'. launch no_callback locking (staged_turns no_callback locking) r PC s = Some (total_cycles v, s')
    \<and> launch no_callback locking (static_turn no_callback locking) r PC s = Some (total_cycles v + of_nat n, t')
    \<and> executor.truncate s' = executor.truncate t' \<and> ex_registers s' = ex_registers v"
proof -
  obtain v' where "run_loop (instruction_step no_callback locking (staged_turns no_callback locking)) (PC_end_of r) u = Some v"
    "run_loop (instruction_step no_callback locking (static_turn no_callback locking)) (PC_end_of r) u = Some v'"
    "in_step locking n v v'"
    using agreeing_runs [OF assms(2) launch_begin_quiet [OF assms(1,3,4)]]
    by (auto dest!: loop_runs_run_loop)
  then show ?thesis
    using assms(1)
    by (simp add: launch_def launch_end_def Let_def clear_flags_def in_step_def truncate_fields)
qed

end
