(* ===== verification/Sample_Machine.thy ===== *)
theory Sample_Machine
  imports Executor_Sim
begin

text \<open>
  Concrete states the witnesses of the properties are evaluated on: a bus with one 64k module of
  given contents and its rings switched off, an instruction context and a machine on it.
\<close>

definition sample_bus :: "(u16 \<Rightarrow> u8) \<Rightarrow> membus" where
  "sample_bus ram =
     \<lparr>pre_op = None, tiers = [(0, [0])], post_op = None, nmi_vector = 0x0FF0, res_vector = 0xF00F,
      irq_vector = 0xCAFE, cache_disable = True, rcache_idx = 0, wcache_idx = 0,
      rcache = replicate 8 0, wcache = replicate 8 0,
      bus_heap = [Some \<lparr>ref_count = 1, addr_range = std64k_range, module_impl = Std64k_impl ram\<rparr>]\<rparr>"

lemma sample_bus_ram: "ram_bus 0 (sample_bus ram)"
  by (simp add: ram_bus_def sample_bus_def std64k_at_def deref_def)

lemma sample_bus_ok: "bus_ok (sample_bus ram)"
  by (simp add: bus_ok_def sample_bus_def heap_ok_def tiers_ok_def chain_ok_def deref_def module_ok_def
      std64k_range_def)

lemma sample_view: "bus_view 0 (sample_bus ram) a = (if a = 0xFFFF then 0xCA else ram a)"
  by (simp add: bus_view_def sample_bus_def module_view_def deref_def hi_byte_def)

lemma sample_read [simp]:
  "membus_read_addr (sample_bus ram) a = Some (if a = 0xFFFF then 0xCA else ram a, sample_bus ram)"
  using ram_bus_read [OF sample_bus_ram, of ram a] by (simp add: sample_view) (simp add: sample_bus_def)

lemma sample_write [simp]:
  assumes "a \<noteq> 0xFFFF"
  shows "membus_write_addr (sample_bus ram) a v = Some (sample_bus (ram(a := v)))"
proof -
  have "ram_store 0 (sample_bus ram) a v = sample_bus (ram(a := v))"
    using assms by (auto simp: ram_store_def sample_bus_def set_impl_def deref_def module_view_def fun_eq_iff)
  then show ?thesis
    by (simp add: ram_bus_write [OF sample_bus_ram]) (simp add: sample_bus_def)
qed

text \<open>Memory holding a program at address 0 and zeros above it.\<close>

definition program :: "u8 list \<Rightarrow> u16 \<Rightarrow> u8" where
  "program bs a = (if unat a < length bs then bs ! unat a else 0)"

definition sample_registers :: registers where
  "sample_registers = \<lparr>reg_A = 0, reg_X = 0, reg_Y = 0, reg_SP = 0xFF, reg_PC = 0, reg_SR = 0\<rparr>"

definition sample_locals :: isa_locals where
  "sample_locals = \<lparr>ADDR16 = 0, ADDR16_pre_index = 0, INDIRECT = 0, ADDR8 = 0, DELTA = 0, OPERAND = 0,
     OPERAND8 = 0, is_BCD = False, is_OPERAND_SET = False, is_penultimate = False, local_A = 0,
     local_X = 0, local_Y = 0, local_SR = 0, local_cycle_count = 0, local_flag_bits = 0\<rparr>"

text \<open>The context in which a body is first called: the opcode fetched, the PC behind it.\<close>

definition sample_context :: "(u16 \<Rightarrow> u8) \<Rightarrow> isa_6502_addressing \<Rightarrow> registers \<Rightarrow> isa_6502_instr_context" where
  "sample_context ram md r =
     \<lparr>opcode = 0, addressing_mode = md, cycle_count = 1, memory = sample_bus ram, registers = r\<rparr>"

definition sample_machine :: "(u16 \<Rightarrow> u8) \<Rightarrow> executor_request list list \<Rightarrow> machine" where
  "sample_machine ram ws =
     \<lparr>ex_flags = 1, ex_registers = sample_registers, ex_memory = sample_bus ram,
      ex_isa = isa_6502_base_table, dma_range = memory_addr_range_undef, dma_provider = None,
      dma_consumer = None, state_locked = False,
      instr_opcode = 0, instr_mode = isa_6502_addressing_undefined, instr_cycles = 0, total_cycles = 0,
      next_stage = isa_6502_instr_stage_end, saved_stage = isa_6502_instr_stage_end, is_in_dma = False,
      is_dma_started = False, is_dma_copyout = False, saved_membus_cache_state = False,
      dma_addr_hi = 0, dma_byte_index = 0, dma_next_byte = 0, statics = (\<lambda>_. sample_locals),
      indet_locals = (\<lambda>_. sample_locals), indet_stage = (\<lambda>_. isa_6502_instr_stage_next_cycle),
      windows = ws, trace = [], consumed = []\<rparr>"

lemma sample_fields [simp]:
  "windows (sample_machine ram ws) = ws" "state_locked (sample_machine ram ws) = False"
  "ex_memory (sample_machine ram ws) = sample_bus ram"
  "ex_isa (sample_machine ram ws) = isa_6502_base_table"
  "indet_locals (sample_machine ram ws) k = sample_locals" "local_flag_bits sample_locals = 0"
  by (simp_all add: sample_machine_def sample_locals_def)

lemmas sample_defs = sample_registers_def sample_locals_def sample_context_def sample_machine_def

text \<open>Entries of the base table the samples use.\<close>

lemma lookup_NOP: "isa_6502_table_lookup_dispatch isa_6502_base_table 0xEA
    = entry op_NOP ''NOP'' ''NOP'' isa_6502_addressing_implied"
  by (simp add: isa_6502_table_lookup_dispatch_def isa_6502_base_table_def opcode_A_def opcode_B_def
      opcode_C_def table_block_2_def)

lemma lookup_illegal: "isa_6502_table_lookup_dispatch isa_6502_base_table 0x02 = UNUSED_OPCODE"
  by (simp add: isa_6502_table_lookup_dispatch_def isa_6502_base_table_def opcode_A_def opcode_B_def
      opcode_C_def table_block_2_def)

section \<open>Evaluation of a machine\<close>

lemmas exec_eval = instruction_step_def fetch_instr_def decode_instr_def Let_def count_cycle_def
  staged_turn_def static_turn_def window_def take_lock_def drop_lock_def has_flag_def flag_defs
  call_staged_def call_static_def instr_context_of_def with_instr_context_def
  service_interrupts_def service_irq_def service_nmi_def clear_flags_def internal_flags_def
  sample_registers_def sample_locals_def sample_machine_def program_def launch_begin_def
  lookup_NOP lookup_illegal entry_def UNUSED_OPCODE_def

abbreviation whole_range :: memory_addr_range where
  "whole_range \<equiv> memory_addr_range_with_lo_and_len 0x0000 0xFFFF"

lemma PC_end_whole [simp]: "PC_end_of whole_range = 0xFFFF"
  by (simp add: PC_end_of_def memory_addr_range_with_lo_and_len_def)

text \<open>The launch of the sample machine and the run of a program of one \<open>NOP\<close>.\<close>

lemma sample_begin:
  "launch_begin no_callback locking PC (sample_machine ram ws) =
     Some ((sample_machine ram ws)\<lparr>state_locked := locking,
             ex_registers := sample_registers\<lparr>reg_PC := PC\<rparr>\<rparr>)"
  by (simp add: exec_eval)

lemma sample_run:
  "\<exists>v. loop_runs (agreeing_step True) 0xFFFF (Suc 0)
     ((sample_machine (program [0xEA, 0x02]) [])\<lparr>state_locked := True,
        ex_registers := sample_registers\<lparr>reg_PC := 0\<rparr>\<rparr>) v"
  apply (rule exI, rule loop_runs.turn)
     apply (simp add: exec_eval)
    apply (simp add: exec_eval)
   apply (simp add: exec_eval agreeing_only_def agreeing_instr_def agrees_in_def)
   apply (subst staged_turns.simps, simp add: exec_eval isa_6502_NOP_def one_cycle_def with_reg_def)
  apply (rule loop_runs.broken)
    apply (simp_all add: exec_eval agreeing_only_def agreeing_instr_def)
  done

lemma sample_halts:
  "\<exists>t. launch no_callback locking execute whole_range 0 (sample_machine (program [0x02]) ws) = Some (1, t)"
proof -
  let ?u = "(sample_machine (program [0x02]) ws)
    \<lparr>state_locked := locking, ex_registers := sample_registers\<lparr>reg_PC := 0\<rparr>\<rparr>"
  obtain v d w where "fetch_instr no_callback ?u = Some v"
    "decode_instr no_callback v = (False, d, w)" "total_cycles w = 1"
    by (simp add: exec_eval)
  then show ?thesis
    using launch_illegal [OF sample_begin, of 0 whole_range locking "program [0x02]" ws v d w execute]
    by (auto simp: launch_end_def Let_def clear_flags_def)
qed

end
