(* ===== verification/Isa_Ref.thy ===== *)
theory Isa_Ref
  imports Isa_Table
begin

text \<open>
  What the instructions of a 6502 and of a 65C02 do, written down once per function and independently of the code:
  registers and a memory of 65536 bytes, effective addresses, operands, results as numbers, clock
  cycles.  This is the contract the bodies of the source are compared with; it has no counterpart
  in the source.
\<close>

type_synonym cpu = "registers \<times> (u16 \<Rightarrow> u8)"

section \<open>Flags\<close>

definition flag :: "nat \<Rightarrow> bool \<Rightarrow> registers \<Rightarrow> registers" where
  "flag n b r = r\<lparr>reg_SR := (if b then set_bit n (reg_SR r) else unset_bit n (reg_SR r))\<rparr>"

definition has_bit :: "nat \<Rightarrow> registers \<Rightarrow> bool" where
  "has_bit n r = bit (reg_SR r) n"

definition flag_NZ :: "u8 \<Rightarrow> registers \<Rightarrow> registers" where
  "flag_NZ v r = flag 7 (sint v < 0) (flag 1 (v = 0) r)"

section \<open>Addresses and operands\<close>

definition word_at :: "(u16 \<Rightarrow> u8) \<Rightarrow> u16 \<Rightarrow> u16" where
  "word_at mem a = join_bytes (mem a) (mem (a + 1))"

text \<open>A pointer in page 0 wraps within the page; the pointer of an indirect jump wraps within its
  page.\<close>

definition zeropage_word :: "(u16 \<Rightarrow> u8) \<Rightarrow> u8 \<Rightarrow> u16" where
  "zeropage_word mem z = join_bytes (mem (widen z)) (mem (widen (z + 1)))"

definition paged_word :: "(u16 \<Rightarrow> u8) \<Rightarrow> u16 \<Rightarrow> u16" where
  "paged_word mem a = join_bytes (mem a) (mem (join_bytes (lo_byte a + 1) (hi_byte a)))"

text \<open>The address before and after indexing, from the operand bytes at the program counter.\<close>

fun base_address :: "isa_6502_addressing \<Rightarrow> cpu \<Rightarrow> u16" where
  "base_address isa_6502_addressing_absolute (r, mem) = word_at mem (reg_PC r)"
| "base_address isa_6502_addressing_absolute_x_indexed (r, mem) = word_at mem (reg_PC r)"
| "base_address isa_6502_addressing_absolute_y_indexed (r, mem) = word_at mem (reg_PC r)"
| "base_address isa_6502_addressing_indirect (r, mem) = paged_word mem (word_at mem (reg_PC r))"
| "base_address isa_6502_addressing_x_indexed_indirect (r, mem) =
     zeropage_word mem (mem (reg_PC r) + reg_X r)"
| "base_address isa_6502_addressing_indirect_y_indexed (r, mem) = zeropage_word mem (mem (reg_PC r))"
| "base_address isa_6502_addressing_zeropage (r, mem) = widen (mem (reg_PC r))"
| "base_address isa_6502_addressing_zeropage_x_indexed (r, mem) = widen (mem (reg_PC r) + reg_X r)"
| "base_address isa_6502_addressing_zeropage_y_indexed (r, mem) = widen (mem (reg_PC r) + reg_Y r)"
| "base_address isa_6502_addressing_zeropage_indirect (r, mem) = zeropage_word mem (mem (reg_PC r))"
| "base_address isa_6502_addressing_absolute_x_indexed_indirect (r, mem) =
     word_at mem (word_at mem (reg_PC r) + widen (reg_X r))"
| "base_address isa_6502_addressing_relative (r, mem) = reg_PC r + 1 + scast (mem (reg_PC r))"
| "base_address _ (r, mem) = reg_PC r"

fun effective_address :: "isa_6502_addressing \<Rightarrow> cpu \<Rightarrow> u16" where
  "effective_address isa_6502_addressing_absolute_x_indexed s =
     base_address isa_6502_addressing_absolute_x_indexed s + widen (reg_X (fst s))"
| "effective_address isa_6502_addressing_absolute_y_indexed s =
     base_address isa_6502_addressing_absolute_y_indexed s + widen (reg_Y (fst s))"
| "effective_address isa_6502_addressing_indirect_y_indexed s =
     base_address isa_6502_addressing_indirect_y_indexed s + widen (reg_Y (fst s))"
| "effective_address md s = base_address md s"

definition operand_at :: "isa_6502_addressing \<Rightarrow> cpu \<Rightarrow> u8" where
  "operand_at md s = (if md = isa_6502_addressing_accumulator then reg_A (fst s)
     else snd s (effective_address md s))"

definition skip_operand :: "isa_6502_addressing \<Rightarrow> registers \<Rightarrow> registers" where
  "skip_operand md r = (case isa_6502_addressing_operand_counts md of
     None \<Rightarrow> r | Some n \<Rightarrow> r\<lparr>reg_PC := reg_PC r + of_nat n\<rparr>)"

section \<open>Results\<close>

definition ref_add :: "u8 \<Rightarrow> registers \<Rightarrow> registers" where
  "ref_add v r =
    (let n = unat (reg_A r) + unat v + of_bool (has_bit 0 r);
         i = sint (reg_A r) + sint v + of_bool (has_bit 0 r)
     in flag_NZ (of_nat n) (flag 6 (i < - 128 \<or> 127 < i)
          (flag 0 (256 \<le> n) (r\<lparr>reg_A := of_nat n\<rparr>))))"

definition ref_subtract :: "u8 \<Rightarrow> registers \<Rightarrow> registers" where
  "ref_subtract v r =
    (let n = int (unat (reg_A r)) - int (unat v) - of_bool (\<not> has_bit 0 r);
         i = sint (reg_A r) - sint v - of_bool (\<not> has_bit 0 r)
     in flag_NZ (of_int n) (flag 6 (i < - 128 \<or> 127 < i)
          (flag 0 (0 \<le> n) (r\<lparr>reg_A := of_int n\<rparr>))))"

definition ref_compare :: "u8 \<Rightarrow> u8 \<Rightarrow> registers \<Rightarrow> registers" where
  "ref_compare x v r = flag 0 (unat v \<le> unat x) (flag_NZ (x - v) r)"

definition set_A :: "u8 \<Rightarrow> registers \<Rightarrow> registers" where
  "set_A v r = flag_NZ v (r\<lparr>reg_A := v\<rparr>)"

definition set_X :: "u8 \<Rightarrow> registers \<Rightarrow> registers" where
  "set_X v r = flag_NZ v (r\<lparr>reg_X := v\<rparr>)"

definition set_Y :: "u8 \<Rightarrow> registers \<Rightarrow> registers" where
  "set_Y v r = flag_NZ v (r\<lparr>reg_Y := v\<rparr>)"

definition ref_bit :: "u8 \<Rightarrow> registers \<Rightarrow> registers" where
  "ref_bit v r = flag 7 (bit v 7) (flag 6 (bit v 6) (flag 1 (reg_A r AND v = 0) r))"

definition ref_modify :: "isa_6502_addressing \<Rightarrow> (u8 \<Rightarrow> u8) \<Rightarrow> (u8 \<Rightarrow> registers \<Rightarrow> registers) \<Rightarrow> cpu \<Rightarrow> cpu" where
  "ref_modify md f g s =
    (let v = operand_at md s; r = g v (flag_NZ (f v) (skip_operand md (fst s)))
     in if md = isa_6502_addressing_accumulator then (r\<lparr>reg_A := f v\<rparr>, snd s)
        else (r, (snd s)(effective_address md s := f v)))"

definition ref_branch :: "bool \<Rightarrow> cpu \<Rightarrow> cpu" where
  "ref_branch taken s =
    (if taken then ((fst s)\<lparr>reg_PC := base_address isa_6502_addressing_relative s\<rparr>, snd s)
     else (skip_operand isa_6502_addressing_relative (fst s), snd s))"

section \<open>Stack\<close>

definition stack_address :: "u8 \<Rightarrow> u16" where
  "stack_address sp = join_bytes sp 1"

fun ref_push :: "u8 \<Rightarrow> cpu \<Rightarrow> cpu" where
  "ref_push v (r, mem) = (r\<lparr>reg_SP := reg_SP r - 1\<rparr>, mem(stack_address (reg_SP r) := v))"

definition ref_drop :: "nat \<Rightarrow> registers \<Rightarrow> registers" where
  "ref_drop n r = r\<lparr>reg_SP := reg_SP r + of_nat n\<rparr>"

text \<open>The \<open>n\<close>-th byte from the top of the stack, counted from 1.\<close>

definition stacked :: "nat \<Rightarrow> cpu \<Rightarrow> u8" where
  "stacked n s = snd s (stack_address (reg_SP (fst s) + of_nat n))"

definition ref_push_word :: "u16 \<Rightarrow> cpu \<Rightarrow> cpu" where
  "ref_push_word w s = ref_push (lo_byte w) (ref_push (hi_byte w) s)"

section \<open>One instruction\<close>

text \<open>The program counter is behind the opcode.  Without the decimal flag; \<open>IRQ\<close>, \<open>NMI\<close> and \<open>RESET\<close>
  are not instructions of a program.\<close>

definition on_registers :: "isa_6502_addressing \<Rightarrow> (u8 \<Rightarrow> registers \<Rightarrow> registers) \<Rightarrow> cpu \<Rightarrow> cpu" where
  "on_registers md f s = (f (operand_at md s) (skip_operand md (fst s)), snd s)"

definition ref_store :: "isa_6502_addressing \<Rightarrow> u8 \<Rightarrow> cpu \<Rightarrow> cpu" where
  "ref_store md v s = (skip_operand md (fst s), (snd s)(effective_address md s := v))"

definition ref_bits :: "isa_6502_addressing \<Rightarrow> (u8 \<Rightarrow> u8 \<Rightarrow> u8) \<Rightarrow> cpu \<Rightarrow> cpu" where
  "ref_bits md f s =
    (let v = operand_at md s; A = reg_A (fst s)
     in (flag 1 (A AND v = 0) (skip_operand md (fst s)), (snd s)(effective_address md s := f v A)))"

text \<open>The instructions that the 65C02 adds to the 6502 or changes.  The pointer of its indirect jump
  does not wrap.\<close>

primrec ref65_step :: "isa_65C02_op \<Rightarrow> isa_6502_addressing \<Rightarrow> cpu \<Rightarrow> cpu" where
  "ref65_step c02_ADC md s = on_registers md ref_add s"
| "ref65_step c02_SBC md s = on_registers md ref_subtract s"
| "ref65_step c02_AND md s = on_registers md (\<lambda>v r. set_A (reg_A r AND v) r) s"
| "ref65_step c02_EOR md s = on_registers md (\<lambda>v r. set_A (reg_A r XOR v) r) s"
| "ref65_step c02_ORA md s = on_registers md (\<lambda>v r. set_A (reg_A r OR v) r) s"
| "ref65_step c02_LDA md s = on_registers md set_A s"
| "ref65_step c02_CMP md s = on_registers md (\<lambda>v r. ref_compare (reg_A r) v r) s"
| "ref65_step c02_BIT md s = on_registers md
     (if md = isa_6502_addressing_immediate then \<lambda>v r. flag 1 (reg_A r AND v = 0) r else ref_bit) s"
| "ref65_step c02_STA md s = ref_store md (reg_A (fst s)) s"
| "ref65_step c02_STZ md s = ref_store md 0 s"
| "ref65_step c02_INC md s = ref_modify md (\<lambda>v. v + 1) (\<lambda>v r. r) s"
| "ref65_step c02_DEC md s = ref_modify md (\<lambda>v. v - 1) (\<lambda>v r. r) s"
| "ref65_step c02_ASL md s = ref_modify md (\<lambda>v. push_bit 1 v) (\<lambda>v. flag 0 (bit v 7)) s"
| "ref65_step c02_LSR md s = ref_modify md (\<lambda>v. drop_bit 1 v) (\<lambda>v. flag 0 (bit v 0)) s"
| "ref65_step c02_ROL md s =
     ref_modify md (\<lambda>v. push_bit 1 v OR of_bool (has_bit 0 (fst s))) (\<lambda>v. flag 0 (bit v 7)) s"
| "ref65_step c02_ROR md s =
     ref_modify md (\<lambda>v. drop_bit 1 v OR push_bit 7 (of_bool (has_bit 0 (fst s))))
       (\<lambda>v. flag 0 (bit v 0)) s"
| "ref65_step c02_TSB md s = ref_bits md (\<lambda>v A. v OR A) s"
| "ref65_step c02_TRB md s = ref_bits md (\<lambda>v A. v AND NOT A) s"
| "ref65_step c02_BRA md s = ref_branch True s"
| "ref65_step c02_JMP md s =
     ((fst s)\<lparr>reg_PC := (if md = isa_6502_addressing_indirect
        then word_at (snd s) (word_at (snd s) (reg_PC (fst s))) else effective_address md s)\<rparr>, snd s)"
| "ref65_step c02_BRK md s =
     (let (r, mem) = ref_push (reg_SR (fst s) OR 0x30) (ref_push_word (reg_PC (fst s) + 1) s)
      in (flag 3 False (flag 2 True r)\<lparr>reg_PC := word_at mem 0xFFFE\<rparr>, mem))"
| "ref65_step c02_PHX md s = ref_push (reg_X (fst s)) s"
| "ref65_step c02_PHY md s = ref_push (reg_Y (fst s)) s"
| "ref65_step c02_PLX md s = (set_X (stacked 1 s) (ref_drop 1 (fst s)), snd s)"
| "ref65_step c02_PLY md s = (set_Y (stacked 1 s) (ref_drop 1 (fst s)), snd s)"
| "ref65_step c02_IRQ md s = s"
| "ref65_step c02_NMI md s = s"
| "ref65_step c02_RESET md s = s"

primrec ref_step :: "isa_6502_op \<Rightarrow> isa_6502_addressing \<Rightarrow> cpu \<Rightarrow> cpu" where
  "ref_step op_ADC md s = on_registers md ref_add s"
| "ref_step op_SBC md s = on_registers md ref_subtract s"
| "ref_step op_AND md s = on_registers md (\<lambda>v r. set_A (reg_A r AND v) r) s"
| "ref_step op_EOR md s = on_registers md (\<lambda>v r. set_A (reg_A r XOR v) r) s"
| "ref_step op_ORA md s = on_registers md (\<lambda>v r. set_A (reg_A r OR v) r) s"
| "ref_step op_LDA md s = on_registers md set_A s"
| "ref_step op_LDX md s = on_registers md set_X s"
| "ref_step op_LDY md s = on_registers md set_Y s"
| "ref_step op_CMP md s = on_registers md (\<lambda>v r. ref_compare (reg_A r) v r) s"
| "ref_step op_CPX md s = on_registers md (\<lambda>v r. ref_compare (reg_X r) v r) s"
| "ref_step op_CPY md s = on_registers md (\<lambda>v r. ref_compare (reg_Y r) v r) s"
| "ref_step op_BIT md s = on_registers md ref_bit s"
| "ref_step op_STA md s = ref_store md (reg_A (fst s)) s"
| "ref_step op_STX md s = ref_store md (reg_X (fst s)) s"
| "ref_step op_STY md s = ref_store md (reg_Y (fst s)) s"
| "ref_step op_INC md s = ref_modify md (\<lambda>v. v + 1) (\<lambda>v r. r) s"
| "ref_step op_DEC md s = ref_modify md (\<lambda>v. v - 1) (\<lambda>v r. r) s"
| "ref_step op_ASL md s = ref_modify md (\<lambda>v. push_bit 1 v) (\<lambda>v. flag 0 (bit v 7)) s"
| "ref_step op_LSR md s = ref_modify md (\<lambda>v. drop_bit 1 v) (\<lambda>v. flag 0 (bit v 0)) s"
| "ref_step op_ROL md s =
     ref_modify md (\<lambda>v. push_bit 1 v OR of_bool (has_bit 0 (fst s))) (\<lambda>v. flag 0 (bit v 7)) s"
| "ref_step op_ROR md s =
     ref_modify md (\<lambda>v. drop_bit 1 v OR push_bit 7 (of_bool (has_bit 0 (fst s))))
       (\<lambda>v. flag 0 (bit v 0)) s"
| "ref_step op_BCC md s = ref_branch (\<not> has_bit 0 (fst s)) s"
| "ref_step op_BCS md s = ref_branch (has_bit 0 (fst s)) s"
| "ref_step op_BNE md s = ref_branch (\<not> has_bit 1 (fst s)) s"
| "ref_step op_BEQ md s = ref_branch (has_bit 1 (fst s)) s"
| "ref_step op_BVC md s = ref_branch (\<not> has_bit 6 (fst s)) s"
| "ref_step op_BVS md s = ref_branch (has_bit 6 (fst s)) s"
| "ref_step op_BPL md s = ref_branch (\<not> has_bit 7 (fst s)) s"
| "ref_step op_BMI md s = ref_branch (has_bit 7 (fst s)) s"
| "ref_step op_CLC md s = (flag 0 False (fst s), snd s)"
| "ref_step op_SEC md s = (flag 0 True (fst s), snd s)"
| "ref_step op_CLI md s = (flag 2 False (fst s), snd s)"
| "ref_step op_SEI md s = (flag 2 True (fst s), snd s)"
| "ref_step op_CLD md s = (flag 3 False (fst s), snd s)"
| "ref_step op_SED md s = (flag 3 True (fst s), snd s)"
| "ref_step op_CLV md s = (flag 6 False (fst s), snd s)"
| "ref_step op_NOP md s = s"
| "ref_step op_TAX md s = (set_X (reg_A (fst s)) (fst s), snd s)"
| "ref_step op_TAY md s = (set_Y (reg_A (fst s)) (fst s), snd s)"
| "ref_step op_TSX md s = (set_X (reg_SP (fst s)) (fst s), snd s)"
| "ref_step op_TXA md s = (set_A (reg_X (fst s)) (fst s), snd s)"
| "ref_step op_TYA md s = (set_A (reg_Y (fst s)) (fst s), snd s)"
| "ref_step op_TXS md s = ((fst s)\<lparr>reg_SP := reg_X (fst s)\<rparr>, snd s)"
| "ref_step op_INX md s = (set_X (reg_X (fst s) + 1) (fst s), snd s)"
| "ref_step op_INY md s = (set_Y (reg_Y (fst s) + 1) (fst s), snd s)"
| "ref_step op_DEX md s = (set_X (reg_X (fst s) - 1) (fst s), snd s)"
| "ref_step op_DEY md s = (set_Y (reg_Y (fst s) - 1) (fst s), snd s)"
| "ref_step op_PHA md s = ref_push (reg_A (fst s)) s"
| "ref_step op_PHP md s = ref_push (reg_SR (fst s) OR 0x30) s"
| "ref_step op_PLA md s = (set_A (stacked 1 s) (ref_drop 1 (fst s)), snd s)"
| "ref_step op_PLP md s =
     ((ref_drop 1 (fst s))\<lparr>reg_SR := stacked 1 s AND NOT 0x30\<rparr>, snd s)"
| "ref_step op_JMP md s = ((fst s)\<lparr>reg_PC := effective_address md s\<rparr>, snd s)"
| "ref_step op_JSR md s =
     (let (r, mem) = ref_push_word (reg_PC (fst s) + 1) s
      in (r\<lparr>reg_PC := effective_address md s\<rparr>, mem))"
| "ref_step op_RTS md s =
     ((ref_drop 2 (fst s))\<lparr>reg_PC := join_bytes (stacked 1 s) (stacked 2 s) + 1\<rparr>, snd s)"
| "ref_step op_RTI md s =
     ((ref_drop 3 (fst s))\<lparr>reg_SR := stacked 1 s AND NOT 0x30,
        reg_PC := join_bytes (stacked 2 s) (stacked 3 s)\<rparr>, snd s)"
| "ref_step op_BRK md s =
     (let (r, mem) = ref_push (reg_SR (fst s) OR 0x30) (ref_push_word (reg_PC (fst s) + 1) s)
      in (flag 2 True r\<lparr>reg_PC := word_at mem 0xFFFE\<rparr>, mem))"
| "ref_step (op_65C02 f) md s = ref65_step f md s"
| "ref_step op_IRQ md s = s"
| "ref_step op_NMI md s = s"
| "ref_step op_RESET md s = s"

text \<open>Clock cycles, the fetch of the opcode included.\<close>

definition page_crossed :: "isa_6502_addressing \<Rightarrow> cpu \<Rightarrow> bool" where
  "page_crossed md s \<longleftrightarrow>
     hi_byte (base_address md s) \<noteq> hi_byte (effective_address md s)"

fun read_cycles :: "isa_6502_addressing \<Rightarrow> cpu \<Rightarrow> u64" where
  "read_cycles isa_6502_addressing_immediate s = 2"
| "read_cycles isa_6502_addressing_zeropage s = 3"
| "read_cycles isa_6502_addressing_x_indexed_indirect s = 6"
| "read_cycles isa_6502_addressing_indirect_y_indexed s =
     5 + of_bool (page_crossed isa_6502_addressing_indirect_y_indexed s)"
| "read_cycles isa_6502_addressing_zeropage_indirect s = 5"
| "read_cycles md s = 4 + of_bool (page_crossed md s)"

fun write_cycles :: "isa_6502_addressing \<Rightarrow> u64" where
  "write_cycles isa_6502_addressing_zeropage = 3"
| "write_cycles isa_6502_addressing_absolute_x_indexed = 5"
| "write_cycles isa_6502_addressing_absolute_y_indexed = 5"
| "write_cycles isa_6502_addressing_x_indexed_indirect = 6"
| "write_cycles isa_6502_addressing_indirect_y_indexed = 6"
| "write_cycles isa_6502_addressing_zeropage_indirect = 5"
| "write_cycles _ = 4"

fun modify_cycles :: "isa_6502_addressing \<Rightarrow> u64" where
  "modify_cycles isa_6502_addressing_accumulator = 2"
| "modify_cycles isa_6502_addressing_zeropage = 5"
| "modify_cycles isa_6502_addressing_absolute_x_indexed = 7"
| "modify_cycles _ = 6"

definition branch_cycles :: "bool \<Rightarrow> cpu \<Rightarrow> u64" where
  "branch_cycles taken s =
    (if taken then 3 + of_bool (hi_byte (base_address isa_6502_addressing_relative s)
       \<noteq> hi_byte (reg_PC (fst s) + 1)) else 2)"

text \<open>A shift of the 65C02 saves a cycle in the absolute X-indexed mode when it stays in the page.\<close>

fun shift65_cycles :: "isa_6502_addressing \<Rightarrow> cpu \<Rightarrow> u64" where
  "shift65_cycles isa_6502_addressing_absolute_x_indexed s =
     6 + of_bool (page_crossed isa_6502_addressing_absolute_x_indexed s)"
| "shift65_cycles md s = modify_cycles md"

primrec ref65_cycles :: "isa_65C02_op \<Rightarrow> isa_6502_addressing \<Rightarrow> cpu \<Rightarrow> u64" where
  "ref65_cycles c02_STA md s = write_cycles md"
| "ref65_cycles c02_STZ md s = write_cycles md"
| "ref65_cycles c02_INC md s = modify_cycles md"
| "ref65_cycles c02_DEC md s = modify_cycles md"
| "ref65_cycles c02_TSB md s = modify_cycles md"
| "ref65_cycles c02_TRB md s = modify_cycles md"
| "ref65_cycles c02_ASL md s = shift65_cycles md s"
| "ref65_cycles c02_LSR md s = shift65_cycles md s"
| "ref65_cycles c02_ROL md s = shift65_cycles md s"
| "ref65_cycles c02_ROR md s = shift65_cycles md s"
| "ref65_cycles c02_BRA md s = branch_cycles True s"
| "ref65_cycles c02_JMP md s = (if md = isa_6502_addressing_absolute then 3 else 6)"
| "ref65_cycles c02_BRK md s = 7"
| "ref65_cycles c02_PHX md s = 3"
| "ref65_cycles c02_PHY md s = 3"
| "ref65_cycles c02_PLX md s = 4"
| "ref65_cycles c02_PLY md s = 4"
| "ref65_cycles c02_AND md s = read_cycles md s"
| "ref65_cycles c02_EOR md s = read_cycles md s"
| "ref65_cycles c02_ORA md s = read_cycles md s"
| "ref65_cycles c02_ADC md s = read_cycles md s"
| "ref65_cycles c02_SBC md s = read_cycles md s"
| "ref65_cycles c02_LDA md s = read_cycles md s"
| "ref65_cycles c02_CMP md s = read_cycles md s"
| "ref65_cycles c02_BIT md s = read_cycles md s"
| "ref65_cycles c02_IRQ md s = read_cycles md s"
| "ref65_cycles c02_NMI md s = read_cycles md s"
| "ref65_cycles c02_RESET md s = read_cycles md s"

primrec ref_cycles :: "isa_6502_op \<Rightarrow> isa_6502_addressing \<Rightarrow> cpu \<Rightarrow> u64" where
  "ref_cycles op_STA md s = write_cycles md"
| "ref_cycles op_STX md s = write_cycles md"
| "ref_cycles op_STY md s = write_cycles md"
| "ref_cycles op_INC md s = modify_cycles md"
| "ref_cycles op_DEC md s = modify_cycles md"
| "ref_cycles op_ASL md s = modify_cycles md"
| "ref_cycles op_LSR md s = modify_cycles md"
| "ref_cycles op_ROL md s = modify_cycles md"
| "ref_cycles op_ROR md s = modify_cycles md"
| "ref_cycles op_BCC md s = branch_cycles (\<not> has_bit 0 (fst s)) s"
| "ref_cycles op_BCS md s = branch_cycles (has_bit 0 (fst s)) s"
| "ref_cycles op_BNE md s = branch_cycles (\<not> has_bit 1 (fst s)) s"
| "ref_cycles op_BEQ md s = branch_cycles (has_bit 1 (fst s)) s"
| "ref_cycles op_BVC md s = branch_cycles (\<not> has_bit 6 (fst s)) s"
| "ref_cycles op_BVS md s = branch_cycles (has_bit 6 (fst s)) s"
| "ref_cycles op_BPL md s = branch_cycles (\<not> has_bit 7 (fst s)) s"
| "ref_cycles op_BMI md s = branch_cycles (has_bit 7 (fst s)) s"
| "ref_cycles op_PHA md s = 3"
| "ref_cycles op_PHP md s = 3"
| "ref_cycles op_PLA md s = 4"
| "ref_cycles op_PLP md s = 4"
| "ref_cycles op_JMP md s = (if md = isa_6502_addressing_absolute then 3 else 5)"
| "ref_cycles op_JSR md s = 6"
| "ref_cycles op_RTS md s = 6"
| "ref_cycles op_RTI md s = 6"
| "ref_cycles op_BRK md s = 7"
| "ref_cycles (op_65C02 f) md s = ref65_cycles f md s"
| "ref_cycles op_ADC md s =
    (if op_ADC \<in> {op_ADC, op_SBC, op_AND, op_EOR, op_ORA, op_LDA, op_LDX, op_LDY, op_CMP, op_CPX, op_CPY,
       op_BIT} then read_cycles md s else 2)"
| "ref_cycles op_AND md s =
    (if op_AND \<in> {op_ADC, op_SBC, op_AND, op_EOR, op_ORA, op_LDA, op_LDX, op_LDY, op_CMP, op_CPX, op_CPY,
       op_BIT} then read_cycles md s else 2)"
| "ref_cycles op_BIT md s =
    (if op_BIT \<in> {op_ADC, op_SBC, op_AND, op_EOR, op_ORA, op_LDA, op_LDX, op_LDY, op_CMP, op_CPX, op_CPY,
       op_BIT} then read_cycles md s else 2)"
| "ref_cycles op_CLC md s =
    (if op_CLC \<in> {op_ADC, op_SBC, op_AND, op_EOR, op_ORA, op_LDA, op_LDX, op_LDY, op_CMP, op_CPX, op_CPY,
       op_BIT} then read_cycles md s else 2)"
| "ref_cycles op_CLD md s =
    (if op_CLD \<in> {op_ADC, op_SBC, op_AND, op_EOR, op_ORA, op_LDA, op_LDX, op_LDY, op_CMP, op_CPX, op_CPY,
       op_BIT} then read_cycles md s else 2)"
| "ref_cycles op_CLI md s =
    (if op_CLI \<in> {op_ADC, op_SBC, op_AND, op_EOR, op_ORA, op_LDA, op_LDX, op_LDY, op_CMP, op_CPX, op_CPY,
       op_BIT} then read_cycles md s else 2)"
| "ref_cycles op_CLV md s =
    (if op_CLV \<in> {op_ADC, op_SBC, op_AND, op_EOR, op_ORA, op_LDA, op_LDX, op_LDY, op_CMP, op_CPX, op_CPY,
       op_BIT} then read_cycles md s else 2)"
| "ref_cycles op_CMP md s =
    (if op_CMP \<in> {op_ADC, op_SBC, op_AND, op_EOR, op_ORA, op_LDA, op_LDX, op_LDY, op_CMP, op_CPX, op_CPY,
       op_BIT} then read_cycles md s else 2)"
| "ref_cycles op_CPX md s =
    (if op_CPX \<in> {op_ADC, op_SBC, op_AND, op_EOR, op_ORA, op_LDA, op_LDX, op_LDY, op_CMP, op_CPX, op_CPY,
       op_BIT} then read_cycles md s else 2)"
| "ref_cycles op_CPY md s =
    (if op_CPY \<in> {op_ADC, op_SBC, op_AND, op_EOR, op_ORA, op_LDA, op_LDX, op_LDY, op_CMP, op_CPX, op_CPY,
       op_BIT} then read_cycles md s else 2)"
| "ref_cycles op_DEX md s =
    (if op_DEX \<in> {op_ADC, op_SBC, op_AND, op_EOR, op_ORA, op_LDA, op_LDX, op_LDY, op_CMP, op_CPX, op_CPY,
       op_BIT} then read_cycles md s else 2)"
| "ref_cycles op_DEY md s =
    (if op_DEY \<in> {op_ADC, op_SBC, op_AND, op_EOR, op_ORA, op_LDA, op_LDX, op_LDY, op_CMP, op_CPX, op_CPY,
       op_BIT} then read_cycles md s else 2)"
| "ref_cycles op_EOR md s =
    (if op_EOR \<in> {op_ADC, op_SBC, op_AND, op_EOR, op_ORA, op_LDA, op_LDX, op_LDY, op_CMP, op_CPX, op_CPY,
       op_BIT} then read_cycles md s else 2)"
| "ref_cycles op_INX md s =
    (if op_INX \<in> {op_ADC, op_SBC, op_AND, op_EOR, op_ORA, op_LDA, op_LDX, op_LDY, op_CMP, op_CPX, op_CPY,
       op_BIT} then read_cycles md s else 2)"
| "ref_cycles op_INY md s =
    (if op_INY \<in> {op_ADC, op_SBC, op_AND, op_EOR, op_ORA, op_LDA, op_LDX, op_LDY, op_CMP, op_CPX, op_CPY,
       op_BIT} then read_cycles md s else 2)"
| "ref_cycles op_LDA md s =
    (if op_LDA \<in> {op_ADC, op_SBC, op_AND, op_EOR, op_ORA, op_LDA, op_LDX, op_LDY, op_CMP, op_CPX, op_CPY,
       op_BIT} then read_cycles md s else 2)"
| "ref_cycles op_LDX md s =
    (if op_LDX \<in> {op_ADC, op_SBC, op_AND, op_EOR, op_ORA, op_LDA, op_LDX, op_LDY, op_CMP, op_CPX, op_CPY,
       op_BIT} then read_cycles md s else 2)"
| "ref_cycles op_LDY md s =
    (if op_LDY \<in> {op_ADC, op_SBC, op_AND, op_EOR, op_ORA, op_LDA, op_LDX, op_LDY, op_CMP, op_CPX, op_CPY,
       op_BIT} then read_cycles md s else 2)"
| "ref_cycles op_NOP md s =
    (if op_NOP \<in> {op_ADC, op_SBC, op_AND, op_EOR, op_ORA, op_LDA, op_LDX, op_LDY, op_CMP, op_CPX, op_CPY,
       op_BIT} then read_cycles md s else 2)"
| "ref_cycles op_ORA md s =
    (if op_ORA \<in> {op_ADC, op_SBC, op_AND, op_EOR, op_ORA, op_LDA, op_LDX, op_LDY, op_CMP, op_CPX, op_CPY,
       op_BIT} then read_cycles md s else 2)"
| "ref_cycles op_SBC md s =
    (if op_SBC \<in> {op_ADC, op_SBC, op_AND, op_EOR, op_ORA, op_LDA, op_LDX, op_LDY, op_CMP, op_CPX, op_CPY,
       op_BIT} then read_cycles md s else 2)"
| "ref_cycles op_SEC md s =
    (if op_SEC \<in> {op_ADC, op_SBC, op_AND, op_EOR, op_ORA, op_LDA, op_LDX, op_LDY, op_CMP, op_CPX, op_CPY,
       op_BIT} then read_cycles md s else 2)"
| "ref_cycles op_SED md s =
    (if op_SED \<in> {op_ADC, op_SBC, op_AND, op_EOR, op_ORA, op_LDA, op_LDX, op_LDY, op_CMP, op_CPX, op_CPY,
       op_BIT} then read_cycles md s else 2)"
| "ref_cycles op_SEI md s =
    (if op_SEI \<in> {op_ADC, op_SBC, op_AND, op_EOR, op_ORA, op_LDA, op_LDX, op_LDY, op_CMP, op_CPX, op_CPY,
       op_BIT} then read_cycles md s else 2)"
| "ref_cycles op_TAX md s =
    (if op_TAX \<in> {op_ADC, op_SBC, op_AND, op_EOR, op_ORA, op_LDA, op_LDX, op_LDY, op_CMP, op_CPX, op_CPY,
       op_BIT} then read_cycles md s else 2)"
| "ref_cycles op_TAY md s =
    (if op_TAY \<in> {op_ADC, op_SBC, op_AND, op_EOR, op_ORA, op_LDA, op_LDX, op_LDY, op_CMP, op_CPX, op_CPY,
       op_BIT} then read_cycles md s else 2)"
| "ref_cycles op_TSX md s =
    (if op_TSX \<in> {op_ADC, op_SBC, op_AND, op_EOR, op_ORA, op_LDA, op_LDX, op_LDY, op_CMP, op_CPX, op_CPY,
       op_BIT} then read_cycles md s else 2)"
| "ref_cycles op_TXA md s =
    (if op_TXA \<in> {op_ADC, op_SBC, op_AND, op_EOR, op_ORA, op_LDA, op_LDX, op_LDY, op_CMP, op_CPX, op_CPY,
       op_BIT} then read_cycles md s else 2)"
| "ref_cycles op_TXS md s =
    (if op_TXS \<in> {op_ADC, op_SBC, op_AND, op_EOR, op_ORA, op_LDA, op_LDX, op_LDY, op_CMP, op_CPX, op_CPY,
       op_BIT} then read_cycles md s else 2)"
| "ref_cycles op_TYA md s =
    (if op_TYA \<in> {op_ADC, op_SBC, op_AND, op_EOR, op_ORA, op_LDA, op_LDX, op_LDY, op_CMP, op_CPX, op_CPY,
       op_BIT} then read_cycles md s else 2)"
| "ref_cycles op_IRQ md s =
    (if op_IRQ \<in> {op_ADC, op_SBC, op_AND, op_EOR, op_ORA, op_LDA, op_LDX, op_LDY, op_CMP, op_CPX, op_CPY,
       op_BIT} then read_cycles md s else 2)"
| "ref_cycles op_NMI md s =
    (if op_NMI \<in> {op_ADC, op_SBC, op_AND, op_EOR, op_ORA, op_LDA, op_LDX, op_LDY, op_CMP, op_CPX, op_CPY,
       op_BIT} then read_cycles md s else 2)"
| "ref_cycles op_RESET md s =
    (if op_RESET \<in> {op_ADC, op_SBC, op_AND, op_EOR, op_ORA, op_LDA, op_LDX, op_LDY, op_CMP, op_CPX, op_CPY,
       op_BIT} then read_cycles md s else 2)"

end
