(* ===== verification/Isa_Arith.thy ===== *)
theory Isa_Arith
  imports Isa_Table
begin

text \<open>
  The arithmetic of the instructions read as numbers: a byte is a number below 256 or a number in
  two's complement, a status bit is the comparison it stands for.
\<close>

section \<open>Bytes as numbers\<close>


lemma bit7_unat: "bit (v :: u8) 7 \<longleftrightarrow> 128 \<le> unat v"
proof -
  have "unat v div 128 = (if 128 \<le> unat v then 1 else 0)"
    using unat_u8 [of v] by (simp add: div_nat_eqI)
  moreover have "bit v 7 \<longleftrightarrow> odd (unat v div 128)"
    by (simp add: bit_unsigned_iff flip: bit_iff_odd [of "unat v" 7, simplified])
  ultimately show ?thesis by simp
qed

lemma sint_unat: "sint (v :: u8) = int (unat v) - (if 128 \<le> unat v then 256 else 0)"
proof -
  have "sint v = signed_take_bit 7 (uint v)" by (simp add: sint_uint)
  also have "\<dots> = uint v - 256 * of_bool (bit v 7)"
    using uint_lt2p [of v]
    by (simp add: signed_take_bit_eq_take_bit_minus bit_uint_iff) (simp add: take_bit_eq_mod)
  finally show ?thesis by (simp add: bit7_unat)
qed

text \<open>The 16-bit sum of two bytes and a carry does not wrap.\<close>

lemma unat_widen: "unat (widen v) = unat v"
  using unat_u8 [of v] by (simp add: unsigned_ucast_eq take_bit_nat_eq_self_iff)

lemma unat_sum:
  fixes a v c :: u8
  assumes "unat c \<le> 1"
  shows "unat (widen v + widen a + widen c) = unat v + unat a + unat c"
  using unat_u8 [of a] unat_u8 [of v] assms
  by (simp add: unat_word_ariths unat_widen)

lemma low_byte_unat: "unat (s AND 0xFF :: u16) = unat s mod 256" "unat (narrow s) = unat s mod 256"
proof -
  have "s AND 0xFF = take_bit 8 s" by (simp add: low_mask take_bit_eq_mask)
  then show "unat (s AND 0xFF :: u16) = unat s mod 256"
    by (simp only: unsigned_take_bit_eq) (simp add: take_bit_eq_mod)
  show "unat (narrow s) = unat s mod 256"
    by (simp add: unsigned_ucast_eq take_bit_eq_mod)
qed

lemma high_byte_zero: "s AND 0xFF00 = (0 :: u16) \<longleftrightarrow> unat s < 256"
proof -
  have "s AND 0xFF00 = 0 \<longleftrightarrow> take_bit 8 s = s"
    unfolding high_mask bit_eq_iff by (auto simp: bit_simps dest: bit_imp_le_length)
  also have "\<dots> \<longleftrightarrow> unat s mod 256 = unat s"
    by (simp add: word_unat_eq_iff unsigned_take_bit_eq) (simp add: take_bit_eq_mod)
  finally show ?thesis by (metis mod_less mod_less_divisor zero_less_numeral)
qed

lemma bit7_u16: "s AND 0x80 \<noteq> (0 :: u16) \<longleftrightarrow> 128 \<le> unat s mod 256"
proof -
  have "s AND 0x80 \<noteq> 0 \<longleftrightarrow> bit s 7" using and_single_bit [of s 7] by simp
  also have "\<dots> \<longleftrightarrow> bit (narrow s) 7" by (simp add: bit_ucast_iff)
  finally show ?thesis by (simp add: bit7_unat low_byte_unat)
qed
section \<open>The sum of the accumulator, an operand and the carry\<close>

definition carry_of :: "registers \<Rightarrow> nat" where
  "carry_of r = unat (registers_SR_get_bit r register_SR_Bit_C)"

lemma carry_of_le: "carry_of r \<le> 1"
  by (simp add: carry_of_def registers_SR_get_bit_def)

lemma carry_of_bit: "carry_of r = of_bool (bit (reg_SR r) 0)"
  by (simp add: carry_of_def get_bit_iff)

text \<open>The status register after an arithmetic instruction, bit by bit.\<close>

lemma alu_store_bits:
  "bit (reg_SR (alu_store 0 v s r)) 0 \<longleftrightarrow> s AND 0xFF00 \<noteq> 0"
  "bit (reg_SR (alu_store 0 v s r)) 1 \<longleftrightarrow> s AND 0xFF = 0"
  "bit (reg_SR (alu_store 0 v s r)) 6 \<longleftrightarrow> v"
  "bit (reg_SR (alu_store 0 v s r)) 7 \<longleftrightarrow> s AND 0x80 \<noteq> 0"
  "n \<in> {2, 3, 4, 5} \<Longrightarrow> bit (reg_SR (alu_store 0 v s r)) n = bit (reg_SR r) n"
  unfolding alu_store_def alu_flags_def Let_def sr_bits_push
  by (auto simp: bit_simps)

definition byte_sum :: "u8 \<Rightarrow> registers \<Rightarrow> nat" where
  "byte_sum v r = unat (reg_A r) + unat v + carry_of r"

lemma adc_sum_unat: "unat (adc_sum False (widen v) r) = byte_sum v r"
  using unat_sum [of "registers_SR_get_bit r register_SR_Bit_C" v "reg_A r"] carry_of_le [of r]
  by (simp add: adc_sum_def Let_def byte_sum_def carry_of_def)

text \<open>Bit 7 of the two operands and of the sum tell the overflow of the signed sum.\<close>

lemma signed_sum_range:
  fixes x y k :: nat
  assumes "x < 256" "y < 256" "k \<le> 1"
  shows "(128 \<le> x) = (128 \<le> y) \<and> (128 \<le> x) \<noteq> (128 \<le> (x + y + k) mod 256) \<longleftrightarrow>
    int x - (if 128 \<le> x then 256 else 0) + (int y - (if 128 \<le> y then 256 else 0)) + int k
      \<notin> {-128 .. 127}"
proof -
  have "(x + y + k) mod 256 = (if x + y + k < 256 then x + y + k else x + y + k - 256)"
    using assms by (simp add: mod_if)
  then show ?thesis using assms
    by (cases "128 \<le> x"; cases "128 \<le> y"; cases "x + y + k < 256") auto
qed

lemma overflow_signed:
  fixes a v :: u8 and s :: u16
  assumes "unat s = unat a + unat v + k" "k \<le> 1"
  shows "overflow_bit (widen a) (widen v) s \<longleftrightarrow> sint a + sint v + int k \<notin> {-128 .. 127}"
proof -
  have "overflow_bit (widen a) (widen v) s \<longleftrightarrow> (bit a 7 = bit v 7 \<and> bit a 7 \<noteq> bit s 7)"
    using and_single_bit [of "NOT (widen a XOR widen v) AND (widen a XOR s)" 7]
    by (auto simp: overflow_bit_def and.assoc bit_simps)
  also have "bit s 7 \<longleftrightarrow> 128 \<le> (unat a + unat v + k) mod 256"
    using bit7_u16 [of s] and_single_bit [of s 7] by (simp add: assms(1))
  finally show ?thesis
    using signed_sum_range [OF unat_u8 [of a] unat_u8 [of v] assms(2)]
    by (simp only: bit7_unat sint_unat)
qed

text \<open>Binary addition.\<close>

lemma adc_binary:
  fixes v :: u8 and r :: registers
  defines "r' \<equiv> adc_finish False (widen v) 0 r"
  shows "unat (reg_A r') = byte_sum v r mod 256"
    "bit (reg_SR r') 0 \<longleftrightarrow> 256 \<le> byte_sum v r"
    "bit (reg_SR r') 1 \<longleftrightarrow> reg_A r' = 0"
    "bit (reg_SR r') 7 \<longleftrightarrow> sint (reg_A r') < 0"
    "bit (reg_SR r') 6 \<longleftrightarrow> sint (reg_A r) + sint v + int (carry_of r) \<notin> {-128 .. 127}"
proof -
  let ?s = "adc_sum False (widen v) r"
  have r': "r' = alu_store 0 (overflow_bit (widen (reg_A r)) (widen v) ?s) ?s r"
    by (simp add: r'_def adc_finish_def Let_def)
  have a: "unat (reg_A r') = byte_sum v r mod 256"
    by (simp add: r' alu_store_def low_byte_unat adc_sum_unat)
  show "unat (reg_A r') = byte_sum v r mod 256" by (rule a)
  show "bit (reg_SR r') 0 \<longleftrightarrow> 256 \<le> byte_sum v r"
    by (simp add: r' alu_store_bits high_byte_zero adc_sum_unat not_less)
  have "?s AND 0xFF = 0 \<longleftrightarrow> unat (reg_A r') = 0"
    by (simp add: a word_unat_eq_iff low_byte_unat adc_sum_unat)
  then show "bit (reg_SR r') 1 \<longleftrightarrow> reg_A r' = 0"
    by (subst r') (simp only: alu_store_bits word_unat_eq_iff unat_0)
  show "bit (reg_SR r') 7 \<longleftrightarrow> sint (reg_A r') < 0"
    using unat_u8 [of "reg_A r'"]
    by (simp add: sint_unat a) (simp add: r' alu_store_bits bit7_u16 adc_sum_unat)
  show "bit (reg_SR r') 6 \<longleftrightarrow> sint (reg_A r) + sint v + int (carry_of r) \<notin> {-128 .. 127}"
    using overflow_signed [of ?s "reg_A r" v "carry_of r"] carry_of_le [of r]
    by (simp add: r' alu_store_bits adc_sum_unat byte_sum_def)
qed

text \<open>Binary subtraction adds the complement; the 16-bit complement has a high byte of ones, so the
  high byte of the sum is zero exactly when there is no borrow.\<close>

lemma borrow_mod:
  fixes y a k :: nat
  assumes "y < 256" "a < 256" "k \<le> 1"
  shows "(65535 - y + a + k) mod 65536 = (if y < a + k then a + k - y - 1 else 65535 + a + k - y)"
proof (cases "y < a + k")
  case True
  then have "65535 - y + a + k = (a + k - y - 1) + 65536" using assms by linarith
  then have "(65535 - y + a + k) mod 65536 = (a + k - y - 1) mod 65536" by simp
  then show ?thesis using True assms by simp
qed (use assms in simp)

lemma sbc_sum_unat:
  "unat (sbc_sum False (NOT (widen v)) r) =
     (if unat v < unat (reg_A r) + carry_of r then unat (reg_A r) + carry_of r - unat v - 1
      else 65535 + unat (reg_A r) + carry_of r - unat v)"
proof -
  have "NOT (widen v) = - 1 - widen v" by (simp add: not_eq_complement)
  moreover have "unat (- 1 - widen v) = unat (- 1 :: u16) - unat (widen v)"
    by (rule unat_sub) simp
  ultimately have n: "unat (NOT (widen v)) = 65535 - unat v"
    by (simp add: unsigned_minus_1_eq_mask mask_eq_exp_minus_1 unat_widen)
  have c: "unat (widen (registers_SR_get_bit r register_SR_Bit_C)) = carry_of r"
    by (simp add: carry_of_def unat_widen)
  have "unat (sbc_sum False (NOT (widen v)) r)
      = (65535 - unat v + unat (reg_A r) + carry_of r) mod 65536"
    unfolding sbc_sum_def Let_def if_False unat_word_ariths c n unat_widen by (simp add: mod_add_left_eq carry_of_def)
  also have "\<dots> = (if unat v < unat (reg_A r) + carry_of r
      then unat (reg_A r) + carry_of r - unat v - 1
      else 65535 + unat (reg_A r) + carry_of r - unat v)"
    by (rule borrow_mod) (use unat_u8 [of v] unat_u8 [of "reg_A r"] carry_of_le [of r] in linarith)+
  finally show ?thesis .
qed

lemma sbc_binary:
  fixes v :: u8 and r :: registers
  defines "r' \<equiv> sbc_finish False (widen v) 0 r"
  shows "int (unat (reg_A r')) = (int (unat (reg_A r)) - int (unat v) - 1 + int (carry_of r)) mod 256"
    "bit (reg_SR r') 0 \<longleftrightarrow> unat (reg_A r) + carry_of r \<le> unat v"
    "bit (reg_SR r') 1 \<longleftrightarrow> reg_A r' = 0"
    "bit (reg_SR r') 7 \<longleftrightarrow> sint (reg_A r') < 0"
proof -
  let ?s = "sbc_sum False (NOT (widen v)) r"
  obtain o' where r': "r' = alu_store 0 o' ?s r"
    by (simp add: r'_def sbc_finish_def Let_def)
  have a: "unat (reg_A r') = unat ?s mod 256"
    by (simp add: r' alu_store_def low_byte_unat)
  show "int (unat (reg_A r')) = (int (unat (reg_A r)) - int (unat v) - 1 + int (carry_of r)) mod 256"
    using unat_u8 [of v] unat_u8 [of "reg_A r"] carry_of_le [of r]
    by (auto simp: a sbc_sum_unat of_nat_mod of_nat_diff algebra_simps intro!: mod_eq_dvd_iff [THEN iffD2])
  show "bit (reg_SR r') 0 \<longleftrightarrow> unat (reg_A r) + carry_of r \<le> unat v"
    using unat_u8 [of v] unat_u8 [of "reg_A r"] carry_of_le [of r]
    by (auto simp: r' alu_store_bits high_byte_zero sbc_sum_unat)
  have "?s AND 0xFF = 0 \<longleftrightarrow> unat (reg_A r') = 0"
    by (simp add: a word_unat_eq_iff low_byte_unat)
  then show "bit (reg_SR r') 1 \<longleftrightarrow> reg_A r' = 0"
    by (subst r') (simp only: alu_store_bits word_unat_eq_iff unat_0)
  show "bit (reg_SR r') 7 \<longleftrightarrow> sint (reg_A r') < 0"
    using unat_u8 [of "reg_A r'"]
    by (simp add: sint_unat a) (simp add: r' alu_store_bits bit7_u16)
qed

end
