(* ===== verification/Isa_Ref_Laws.thy ===== *)
theory Isa_Ref_Laws
  imports Isa_Ref Isa_Arith
begin

text \<open>
  The pieces the bodies of the source are made of, rewritten into the terms of the reference: status
  updates, arithmetic, shifts, stack addresses, the page tests.
\<close>

section \<open>The results of the source in these terms\<close>

lemma set_bit_flag:
  "registers_SR_set_bit r register_SR_Bit_C v = flag 0 (v \<noteq> 0) r"
  "registers_SR_set_bit r register_SR_Bit_Z v = flag 1 (v \<noteq> 0) r"
  "registers_SR_set_bit r register_SR_Bit_I v = flag 2 (v \<noteq> 0) r"
  "registers_SR_set_bit r register_SR_Bit_D v = flag 3 (v \<noteq> 0) r"
  "registers_SR_set_bit r register_SR_Bit_V v = flag 6 (v \<noteq> 0) r"
  "registers_SR_set_bit r register_SR_Bit_N v = flag 7 (v \<noteq> 0) r"
  by (simp_all only: registers_SR_set_bit_def flag_def sr_bits_push set_bit_eq_or
      unset_bit_eq_and_not) (simp_all split: if_splits)

lemma status_flags:
  "registers_status_with_value r v registers_Carry_ignore = flag_NZ v r"
  "registers_status_with_value r v (if b then registers_Carry_set else registers_Carry_clear) =
     flag 0 b (flag_NZ v r)"
  by (simp_all add: registers_status_with_value_def Let_def carry_defs set_bit_flag flag_NZ_def sign_bit)

lemma flag_frame [simp]:
  "reg_A (flag n b r) = reg_A r" "reg_X (flag n b r) = reg_X r" "reg_Y (flag n b r) = reg_Y r"
  "reg_SP (flag n b r) = reg_SP r" "reg_PC (flag n b r) = reg_PC r"
  "reg_A (flag_NZ v r) = reg_A r" "reg_X (flag_NZ v r) = reg_X r" "reg_Y (flag_NZ v r) = reg_Y r"
  "reg_SP (flag_NZ v r) = reg_SP r" "reg_PC (flag_NZ v r) = reg_PC r"
  by (simp_all add: flag_def flag_NZ_def)

lemma flag_bit [simp]:
  "n < 8 \<Longrightarrow> bit (reg_SR (flag n b r)) k = (if k = n then b else bit (reg_SR r) k)"
  by (auto simp: flag_def bit_simps)

lemma flag_move [simp]:
  "flag n b (r\<lparr>reg_A := x\<rparr>) = (flag n b r)\<lparr>reg_A := x\<rparr>"
  "flag n b (r\<lparr>reg_PC := y\<rparr>) = (flag n b r)\<lparr>reg_PC := y\<rparr>"
  "flag_NZ v (r\<lparr>reg_A := x\<rparr>) = (flag_NZ v r)\<lparr>reg_A := x\<rparr>"
  "flag_NZ v (r\<lparr>reg_PC := y\<rparr>) = (flag_NZ v r)\<lparr>reg_PC := y\<rparr>"
  by (simp_all add: flag_def flag_NZ_def)

text \<open>Registers are equal when their bytes are and the bits of the status are.\<close>

lemma registers_eqI:
  fixes r r' :: registers
  assumes "reg_A r = reg_A r'" "reg_X r = reg_X r'" "reg_Y r = reg_Y r'" "reg_SP r = reg_SP r'"
    "reg_PC r = reg_PC r'" "\<And>n. n < 8 \<Longrightarrow> bit (reg_SR r) n = bit (reg_SR r') n"
  shows "r = r'"
proof -
  have "reg_SR r = reg_SR r'" by (rule bit_word_eqI) (use assms(6) in simp)
  then show ?thesis using assms(1-5) by simp
qed

lemma below_8: "n < 8 \<Longrightarrow> n \<in> {0, 1, 2, 3, 4, 5, 6, 7 :: nat}"
  by auto

lemma load_flags:
  "load_A v r = set_A v r" "load_X v r = set_X v r" "load_Y v r = set_Y v r"
  by (simp_all add: load_A_def load_X_def load_Y_def did_set_is_status status_flags set_A_def
      set_X_def set_Y_def)

lemma did_set_flags:
  "registers_did_set_A (r\<lparr>reg_A := v\<rparr>) registers_Carry_ignore = set_A v r"
  "registers_did_set_X (r\<lparr>reg_X := v\<rparr>) registers_Carry_ignore = set_X v r"
  "registers_did_set_Y (r\<lparr>reg_Y := v\<rparr>) registers_Carry_ignore = set_Y v r"
  by (simp_all add: did_set_is_status status_flags set_A_def set_X_def set_Y_def)

lemma logic_flags: "logic_finish f (widen v) r = set_A (f (reg_A r) v) r"
  by (simp add: logic_finish_def did_set_flags)

lemma adc_is_ref: "adc_finish False (widen v) 0 r = ref_add v r"
proof -
  let ?r = "adc_finish False (widen v) 0 r"
  have n: "byte_sum v r = unat (reg_A r) + unat v + of_bool (has_bit 0 r)"
    by (simp add: byte_sum_def carry_of_bit has_bit_def)
  have a: "reg_A ?r = of_nat (byte_sum v r)"
    by (simp add: word_unat_eq_iff adc_binary unsigned_of_nat take_bit_eq_mod)
  have ref: "bit (reg_SR (ref_add v r)) k = (if k = 7 then sint (reg_A ?r) < 0 else if k = 1 then reg_A ?r = 0
      else if k = 6 then sint (reg_A r) + sint v + int (carry_of r) \<notin> {-128 .. 127}
      else if k = 0 then 256 \<le> byte_sum v r else bit (reg_SR r) k)" for k
    by (auto simp: a n ref_add_def Let_def flag_NZ_def carry_of_bit has_bit_def)
  have "bit (reg_SR ?r) k = bit (reg_SR (ref_add v r)) k" if "k < 8" for k
  proof (cases "k \<in> {2, 3, 4, 5}")
    case True
    then show ?thesis by (subst ref) (auto simp: adc_finish_def Let_def alu_store_bits(5))
  next
    case False
    then have "k \<in> {0, 1, 6, 7}" using below_8 [OF that] by auto
    then show ?thesis by (subst ref) (auto simp: adc_binary simp del: One_nat_def)
  qed
  then show ?thesis
    by (intro registers_eqI) (simp_all add: a, simp_all add: ref_add_def n Let_def adc_finish_def
        alu_store_def)
qed

lemma bit_is_ref: "bit_finish v r = ref_bit v r"
proof -
  have "bit (0xC0 :: u8) k \<longleftrightarrow> k \<in> {6, 7}" if "k < 8" for k
    using below_8 [OF that] by (auto simp: bit_numeral_rec)
  then have "bit (reg_SR (bit_finish v r)) k = bit (reg_SR (ref_bit v r)) k" if "k < 8" for k
    using below_8 [OF that]
    by (auto simp: bit_finish_def Let_def ref_bit_def sr_bits_push bit_simps)
  then show ?thesis
    by (intro registers_eqI) (simp_all add: ref_bit_def, simp_all add: bit_finish_def Let_def)
qed

text \<open>The zero flag of \<^verbatim>\<open>TSB\<close> and \<^verbatim>\<open>TRB\<close>.\<close>

lemma bits_is_ref: "bits_status v r = flag 1 (reg_A r AND v = 0) r"
proof -
  have "bit (reg_SR (bits_status v r)) k = bit (reg_SR (flag 1 (reg_A r AND v = 0) r)) k" if "k < 8" for k
    using below_8 [OF that]
    by (auto simp: bits_status_def Let_def sr_bits_push bit_simps)
  then show ?thesis by (intro registers_eqI) simp_all
qed

text \<open>A comparison of the source sets bit 7 when the register is below the operand.\<close>

definition compare_signs :: "u8 \<Rightarrow> u8 \<Rightarrow> bool" where
  "compare_signs x v \<longleftrightarrow> (sint (x - v) < 0) = (unat x < unat v)"

lemma compare_is_ref:
  assumes "compare_signs x v"
  shows "compare_finish (unat x) (unat v) r = ref_compare x v r"
proof -
  have "x - v = 0 \<longleftrightarrow> unat x = unat v" by (simp flip: word_unat_eq_iff)
  then have "bit (reg_SR (compare_finish (unat x) (unat v) r)) k = bit (reg_SR (ref_compare x v r)) k"
    if "k < 8" for k
    using below_8 [OF that] assms
    by (auto simp: compare_finish_def compare_flags_def ref_compare_def flag_NZ_def compare_signs_def
        sr_bits_push bit_simps)
  then show ?thesis
    by (intro registers_eqI) (simp_all add: ref_compare_def, simp_all add: compare_finish_def)
qed

text \<open>The shifts of the accumulator.\<close>

lemma high_bits: "w AND 0xFF00 \<noteq> (0 :: u16) \<longleftrightarrow> (\<exists>n. 8 \<le> n \<and> n < 16 \<and> bit w n)"
  unfolding bit_eq_iff bit_and_iff bit_high_mask bit_0_eq by auto

lemma shift_low:
  "ucast ((push_bit k (widen v) OR widen w) AND 0x00FF :: u16) = (push_bit k v OR w :: u8)"
  "ucast ((drop_bit k (widen v) OR widen w) AND 0x00FF :: u16) = (drop_bit k v OR w :: u8)"
  by (rule bit_word_eqI; auto simp: bit_simps bit_low_mask dest: bit_imp_le_length)+

lemma shift_carry: "(push_bit (Suc 0) (widen v) OR of_bool b) AND 0xFF00 \<noteq> 0 \<longleftrightarrow> bit v 7"
proof -
  have "bit v (n - Suc 0) \<longleftrightarrow> bit v 7 \<and> n = 8" if "8 \<le> n" for n
    using that by (cases "n = 8") (auto dest: bit_imp_le_length)
  then show ?thesis
    unfolding high_bits
    by (intro iffI; (elim exE)?, (rule exI [of _ 8])?) (auto simp: bit_simps simp del: push_bit_Suc)
qed

lemma shift_A_flags:
  "shift_A f r = (case f r (widen (reg_A r)) of (w, carry) \<Rightarrow>
     flag 0 carry (set_A (ucast (w AND 0x00FF)) r))"
  by (simp add: shift_A_def did_set_is_status status_flags set_A_def split: prod.splits)

lemma carry_in_flag: "carry_in r = of_bool (has_bit 0 r)"
  by (simp add: carry_in_def get_bit_iff has_bit_def)

lemma widen_bit0: "widen v AND 1 \<noteq> 0 \<longleftrightarrow> bit v 0"
  using and_single_bit [of "widen v" 0] by (simp add: bit_ucast_iff)

lemma shift_ops_flags:
  "shift_A asl_op r = flag 0 (bit (reg_A r) 7) (set_A (push_bit 1 (reg_A r)) r)"
  "shift_A rol_op r = flag 0 (bit (reg_A r) 7)
     (set_A (push_bit 1 (reg_A r) OR of_bool (has_bit 0 r)) r)"
  "shift_A lsr_op r = flag 0 (bit (reg_A r) 0) (set_A (drop_bit 1 (reg_A r)) r)"
  "shift_A ror_op r = flag 0 (bit (reg_A r) 0)
     (set_A (drop_bit 1 (reg_A r) OR push_bit 7 (of_bool (has_bit 0 r))) r)"
  using shift_carry [of "reg_A r" False] shift_carry [of "reg_A r" "has_bit 0 r"]
    shift_low(1) [of 1 "reg_A r" 0] shift_low(1) [of 1 "reg_A r" "of_bool (has_bit 0 r)"]
    shift_low(2) [of 1 "reg_A r" 0]
    shift_low(2) [of 1 "reg_A r" "push_bit 7 (of_bool (has_bit 0 r))"] widen_bit0 [of "reg_A r"]
  by (cases "has_bit 0 r"; simp add: shift_A_flags asl_op_def rol_op_def lsr_op_def ror_op_def Let_def carry_in_flag
      and.assoc del: push_bit_Suc)+

text \<open>Addresses.\<close>

lemma stack_address_eq: "0x0100 + (widen sp AND 0x00FF) = stack_address sp"
proof -
  have "widen sp AND 0x00FF = widen sp"
    unfolding low_mask by (rule bit_word_eqI) (auto simp: bit_simps dest: bit_imp_le_length)
  moreover have "push_bit 8 1 AND widen sp = 0"
    by (rule bit_word_eqI, unfold bit_and_iff bit_push_bit_iff bit_1_iff bit_ucast_iff)
      (use bit_imp_le_length [of sp] in fastforce)
  ultimately show ?thesis
    by (simp add: stack_address_def join_bytes_def disjunctive_add_eq_or or.commute)
qed

lemma same_page_iff: "same_page a b \<longleftrightarrow> hi_byte a = hi_byte b"
proof
  assume "hi_byte a = hi_byte b"
  then have "push_bit 8 (widen (hi_byte a)) = push_bit 8 (widen (hi_byte b))" by simp
  moreover have "push_bit 8 (widen (hi_byte w)) = w AND 0xFF00" for w :: u16
    unfolding hi_byte_def high_mask by (rule bit_word_eqI) (auto simp: bit_simps)
  ultimately show "same_page a b" by (simp add: same_page_def)
qed (simp add: same_page_def hi_byte_def)

text \<open>The increment of a pointer within its page.\<close>

lemma join_bytes_unat: "unat (join_bytes l h) = unat l + 256 * unat h"
proof -
  have "widen l AND push_bit 8 (widen h) = 0"
    by (rule bit_word_eqI) (auto simp: bit_simps dest: bit_imp_le_length)
  then have "join_bytes l h = widen l + push_bit 8 (widen h)"
    by (simp add: join_bytes_def disjunctive_add_eq_or)
  also have "push_bit 8 (widen h) = widen h * 256" by (simp add: push_bit_eq_mult)
  finally show ?thesis
    using unat_u8 [of l] unat_u8 [of h] by (simp add: unat_word_ariths unat_widen)
qed

lemma lo_byte_mask: "a AND 0x00FF = 0x00FF \<longleftrightarrow> lo_byte a = 0xFF"
proof -
  have w: "widen (lo_byte a) = a AND 0x00FF"
    unfolding lo_byte_def low_mask by (rule bit_word_eqI) (auto simp: bit_simps)
  have "a AND 0x00FF = 0x00FF \<longleftrightarrow> unat (widen (lo_byte a)) = 255"
    unfolding w by (simp add: word_unat_eq_iff)
  then show ?thesis by (simp add: unat_widen word_unat_eq_iff)
qed

lemma jmp_high_addr_eq: "jmp_high_addr a = join_bytes (lo_byte a + 1) (hi_byte a)"
proof -
  have a: "unat a = unat (lo_byte a) + 256 * unat (hi_byte a)"
    using join_bytes_unat [of "lo_byte a" "hi_byte a"] by simp
  show ?thesis
  proof (cases "lo_byte a = 0xFF")
    case True
    have "a AND 0xFF00 = join_bytes 0 (hi_byte a)"
      unfolding join_bytes_def hi_byte_def high_mask by (rule bit_word_eqI) (auto simp: bit_simps)
    moreover have "lo_byte a + 1 = 0" using True by simp
    ultimately show ?thesis using True by (simp only: jmp_high_addr_def lo_byte_mask if_True refl)
  next
    case False
    then have l: "unat (lo_byte a + 1) = unat (lo_byte a) + 1"
      using unat_u8 [of "lo_byte a"] by (simp add: unat_word_ariths word_unat_eq_iff)
    have "unat (a + 1) = unat (join_bytes (lo_byte a + 1) (hi_byte a))"
      using False unat_u8 [of "lo_byte a"] unat_u8 [of "hi_byte a"]
      by (simp add: join_bytes_unat l unat_word_ariths a word_unat_eq_iff)
    then have "a + 1 = join_bytes (lo_byte a + 1) (hi_byte a)" by (simp only: word_unat_eq_iff)
    then show ?thesis using False by (simp add: jmp_high_addr_def lo_byte_mask)
  qed
qed

lemma jmp_pointer:
  "push_bit 8 (widen (mem (jmp_high_addr a))) OR widen (mem a) = paged_word mem a"
  by (simp add: paged_word_def jmp_high_addr_eq join_bytes_def or.commute)

end
