(* ===== verification/Isa_Refine.thy ===== *)
theory Isa_Refine
  imports Isa_Ref_Laws Isa_Agree Isa_Frame
begin

text \<open>
  The staged bodies on the bus of one 64k module against the reference: the abstraction of a context
  is its registers and the bytes of its bus, the contexts for which a function conforms are those of
  \<open>conforms\<close>, and a run of the body is one reference step in the documented number of cycles.
\<close>

definition cpu_of :: "module_ref \<Rightarrow> isa_6502_instr_context \<Rightarrow> cpu" where
  "cpu_of m c = (registers c, bus_view m (memory c))"

text \<open>The modes in which the staged body of a function implements the reference.\<close>

primrec conform65_modes :: "isa_65C02_op \<Rightarrow> isa_6502_addressing set" where
  "conform65_modes c02_ADC = operand_modes \<union> load_modes"
| "conform65_modes c02_SBC = {}"
| "conform65_modes c02_AND = insert isa_6502_addressing_zeropage_indirect (operand_modes \<union> load_modes)"
| "conform65_modes c02_EOR = insert isa_6502_addressing_zeropage_indirect (operand_modes \<union> load_modes)"
| "conform65_modes c02_ORA = insert isa_6502_addressing_zeropage_indirect (operand_modes \<union> load_modes)"
| "conform65_modes c02_BIT = {isa_6502_addressing_zeropage, isa_6502_addressing_zeropage_x_indexed,
     isa_6502_addressing_absolute, isa_6502_addressing_absolute_x_indexed}"
| "conform65_modes c02_DEC = step_modes"
| "conform65_modes c02_BRA = {isa_6502_addressing_relative}"
| "conform65_modes c02_JMP = {isa_6502_addressing_absolute,
     isa_6502_addressing_absolute_x_indexed_indirect}"
| "conform65_modes c02_BRK = {}"
| "conform65_modes c02_NMI = {}"
| "conform65_modes c02_LDA = agree65_modes c02_LDA"
| "conform65_modes c02_STA = agree65_modes c02_STA"
| "conform65_modes c02_STZ = agree65_modes c02_STZ"
| "conform65_modes c02_CMP = agree65_modes c02_CMP"
| "conform65_modes c02_INC = agree65_modes c02_INC"
| "conform65_modes c02_ASL = agree65_modes c02_ASL"
| "conform65_modes c02_ROL = agree65_modes c02_ROL"
| "conform65_modes c02_LSR = agree65_modes c02_LSR"
| "conform65_modes c02_ROR = agree65_modes c02_ROR"
| "conform65_modes c02_TSB = agree65_modes c02_TSB"
| "conform65_modes c02_TRB = agree65_modes c02_TRB"
| "conform65_modes c02_PHX = agree65_modes c02_PHX"
| "conform65_modes c02_PHY = agree65_modes c02_PHY"
| "conform65_modes c02_PLX = agree65_modes c02_PLX"
| "conform65_modes c02_PLY = agree65_modes c02_PLY"
| "conform65_modes c02_IRQ = agree65_modes c02_IRQ"
| "conform65_modes c02_RESET = agree65_modes c02_RESET"

primrec conform_modes :: "isa_6502_op \<Rightarrow> isa_6502_addressing set" where
  "conform_modes op_ADC = operand_modes \<union> load_modes"
| "conform_modes op_AND = operand_modes \<union> load_modes"
| "conform_modes op_EOR = operand_modes \<union> load_modes"
| "conform_modes op_ORA = operand_modes \<union> load_modes"
| "conform_modes op_LDA = load_modes"
| "conform_modes op_LDX = {isa_6502_addressing_immediate, isa_6502_addressing_zeropage,
     isa_6502_addressing_absolute}"
| "conform_modes op_LDY = load_modes - {isa_6502_addressing_absolute_y_indexed}"
| "conform_modes op_STA = load_modes - {isa_6502_addressing_immediate}"
| "conform_modes op_CMP = {isa_6502_addressing_immediate, isa_6502_addressing_absolute_x_indexed,
     isa_6502_addressing_absolute_y_indexed}"
| "conform_modes op_SBC = {}"
| "conform_modes op_JSR = {}"
| "conform_modes op_RTS = {}"
| "conform_modes op_BRK = {}"
| "conform_modes op_NMI = {}"
| "conform_modes op_BCC = {isa_6502_addressing_relative}"
| "conform_modes op_BCS = {isa_6502_addressing_relative}"
| "conform_modes op_BNE = {isa_6502_addressing_relative}"
| "conform_modes op_BEQ = {isa_6502_addressing_relative}"
| "conform_modes op_BVC = {isa_6502_addressing_relative}"
| "conform_modes op_BVS = {isa_6502_addressing_relative}"
| "conform_modes op_BPL = {isa_6502_addressing_relative}"
| "conform_modes op_BMI = {isa_6502_addressing_relative}"
| "conform_modes op_SED = UNIV"
| "conform_modes (op_65C02 f) = conform65_modes f"
| "conform_modes op_ASL = agree_modes op_ASL"
| "conform_modes op_BIT = agree_modes op_BIT"
| "conform_modes op_CLC = agree_modes op_CLC"
| "conform_modes op_CLD = agree_modes op_CLD"
| "conform_modes op_CLI = agree_modes op_CLI"
| "conform_modes op_CLV = agree_modes op_CLV"
| "conform_modes op_CPX = agree_modes op_CPX"
| "conform_modes op_CPY = agree_modes op_CPY"
| "conform_modes op_DEC = agree_modes op_DEC"
| "conform_modes op_DEX = agree_modes op_DEX"
| "conform_modes op_DEY = agree_modes op_DEY"
| "conform_modes op_INC = agree_modes op_INC"
| "conform_modes op_INX = agree_modes op_INX"
| "conform_modes op_INY = agree_modes op_INY"
| "conform_modes op_JMP = agree_modes op_JMP"
| "conform_modes op_LSR = agree_modes op_LSR"
| "conform_modes op_NOP = agree_modes op_NOP"
| "conform_modes op_PHA = agree_modes op_PHA"
| "conform_modes op_PHP = agree_modes op_PHP"
| "conform_modes op_PLA = agree_modes op_PLA"
| "conform_modes op_PLP = agree_modes op_PLP"
| "conform_modes op_ROL = agree_modes op_ROL"
| "conform_modes op_ROR = agree_modes op_ROR"
| "conform_modes op_RTI = agree_modes op_RTI"
| "conform_modes op_SEC = agree_modes op_SEC"
| "conform_modes op_SEI = agree_modes op_SEI"
| "conform_modes op_STX = agree_modes op_STX"
| "conform_modes op_STY = agree_modes op_STY"
| "conform_modes op_TAX = agree_modes op_TAX"
| "conform_modes op_TAY = agree_modes op_TAY"
| "conform_modes op_TSX = agree_modes op_TSX"
| "conform_modes op_TXA = agree_modes op_TXA"
| "conform_modes op_TXS = agree_modes op_TXS"
| "conform_modes op_TYA = agree_modes op_TYA"
| "conform_modes op_IRQ = agree_modes op_IRQ"
| "conform_modes op_RESET = agree_modes op_RESET"

text \<open>The states: no decimal addition, a comparison whose sign is its order.\<close>

definition conform_state :: "isa_6502_op \<Rightarrow> isa_6502_addressing \<Rightarrow> cpu \<Rightarrow> bool" where
  "conform_state f md s \<longleftrightarrow>
     (f \<in> {op_ADC, op_65C02 c02_ADC} \<longrightarrow> \<not> has_bit 3 (fst s))
   \<and> (f \<in> {op_CMP, op_65C02 c02_CMP} \<longrightarrow> compare_signs (reg_A (fst s)) (operand_at md s))
   \<and> (f = op_CPX \<longrightarrow> compare_signs (reg_X (fst s)) (operand_at md s))
   \<and> (f = op_CPY \<longrightarrow> compare_signs (reg_Y (fst s)) (operand_at md s))"

lemma conform_state_simps [simp]:
  "conform_state op_ADC md s \<longleftrightarrow> \<not> has_bit 3 (fst s)"
  "conform_state (op_65C02 c02_ADC) md s \<longleftrightarrow> \<not> has_bit 3 (fst s)"
  "conform_state op_CMP md s \<longleftrightarrow> compare_signs (reg_A (fst s)) (operand_at md s)"
  "conform_state (op_65C02 c02_CMP) md s \<longleftrightarrow> compare_signs (reg_A (fst s)) (operand_at md s)"
  "conform_state op_CPX md s \<longleftrightarrow> compare_signs (reg_X (fst s)) (operand_at md s)"
  "conform_state op_CPY md s \<longleftrightarrow> compare_signs (reg_Y (fst s)) (operand_at md s)"
  "f \<notin> {op_ADC, op_65C02 c02_ADC, op_CMP, op_65C02 c02_CMP, op_CPX, op_CPY} \<Longrightarrow> conform_state f md s"
  by (auto simp: conform_state_def)

definition conforms :: "isa_6502_op \<Rightarrow> isa_6502_addressing \<Rightarrow> cpu \<Rightarrow> bool" where
  "conforms f md s \<longleftrightarrow> md \<in> conform_modes f \<and> conform_state f md s"

text \<open>What one run of a body has to establish.\<close>

definition implements :: "module_ref \<Rightarrow> isa_6502_op \<Rightarrow> isa_6502_instr_context \<Rightarrow> isa_6502_instr_context \<Rightarrow> bool" where
  "implements m f c c' \<longleftrightarrow> ram_bus m (memory c')
     \<and> cpu_of m c' = ref_step f (addressing_mode c) (cpu_of m c)
     \<and> cycle_count c' = ref_cycles f (addressing_mode c) (cpu_of m c)
     \<and> opcode c' = opcode c \<and> addressing_mode c' = addressing_mode c"

lemmas ref_defs = on_registers_def ref_store_def ref_modify_def ref_branch_def operand_at_def
  skip_operand_def isa_6502_addressing_operand_counts_def word_at_def zeropage_word_def
  branch_cycles_def page_crossed_def same_page_iff stack_address_eq ref_drop_def stacked_def

lemmas results_are_ref = unat_widen adc_is_ref bit_is_ref compare_is_ref load_flags did_set_flags logic_flags
  shift_ops_flags set_bit_flag status_flags

lemmas run_defs = staged_outcome_def implements_def cpu_of_def results_are_ref ref_defs Let_def
  join_bytes_def add.commute [of 2] add.commute [of 3] jmp_pointer

definition has_run :: "module_ref \<Rightarrow> isa_6502_op \<Rightarrow> isa_locals \<Rightarrow> isa_6502_instr_context \<Rightarrow> bool" where
  "has_run m f l c \<longleftrightarrow> (\<exists>c'. staged_outcome 8 (staged_fn f) l c = Some (isa_6502_instr_stage_end, c')
     \<and> implements m f c c')"

text \<open>Function by function: the body is evaluated in each mode it conforms in.\<close>

lemma implied_runs:
  assumes "ram_bus m (memory c)" "cycle_count c = 1"
    "f \<in> {op_CLC, op_SEC, op_CLI, op_SEI, op_CLD, op_SED, op_CLV, op_NOP, op_TAX, op_TAY, op_TSX,
       op_TXA, op_TYA, op_TXS, op_INX, op_INY, op_DEX, op_DEY}"
  shows "has_run m f l c"
  using assms
  by (auto simp: has_run_def run_defs implied_staged_defs one_cycle_def with_reg_def add_cycles_def)

lemma load_runs:
  assumes "ram_bus m (memory c)" "cycle_count c = 1" "addressing_mode c \<in> conform_modes f"
    "f \<in> {op_LDA, op_LDX, op_LDY}"
  shows "has_run m f l c"
  using assms unfolding has_run_def
  by (auto simp: load_modes_def run_defs load_staged_defs ctx_defs ram_read [of m])

lemma store_runs:
  assumes "ram_bus m (memory c)" "cycle_count c = 1" "addressing_mode c \<in> conform_modes f"
    "f \<in> {op_STA, op_STX, op_STY}"
  shows "has_run m f l c"
  using assms unfolding has_run_def
  by (auto simp: load_modes_def run_defs load_staged_defs ctx_defs ram_read [of m] ram_write [of m])

lemma operand_runs:
  assumes "ram_bus m (memory c)" "cycle_count c = 1" "addressing_mode c \<in> conform_modes f"
    "f \<in> {op_ADC, op_AND, op_EOR, op_ORA}" "f = op_ADC \<longrightarrow> \<not> has_bit 3 (registers c)"
  shows "has_run m f l c"
  using assms unfolding has_run_def
  by (auto simp: operand_modes_def load_modes_def run_defs alu_staged_defs ctx_defs ram_read [of m]
      decimal_mode_def get_bit_iff has_bit_def)

lemma test_runs:
  assumes "ram_bus m (memory c)" "cycle_count c = 1" "conforms f (addressing_mode c) (cpu_of m c)"
    "f \<in> {op_CMP, op_CPX, op_CPY, op_BIT}"
  shows "has_run m f l c"
  using assms unfolding has_run_def
  by (auto simp: conforms_def load_modes_def run_defs test_staged_defs ctx_defs ram_read [of m])

lemma modify_runs:
  assumes "ram_bus m (memory c)" "cycle_count c = 1" "addressing_mode c \<in> conform_modes f"
    "f \<in> {op_INC, op_DEC, op_ASL, op_LSR, op_ROL, op_ROR}"
  shows "has_run m f l c"
  using assms unfolding has_run_def
  by (auto simp: step_modes_def run_defs rmw_staged_defs ctx_defs set_A_def
      ram_read [of m] ram_write [of m])

lemma branch_runs:
  assumes "ram_bus m (memory c)" "cycle_count c = 1" "addressing_mode c \<in> conform_modes f"
    "f \<in> {op_BCC, op_BCS, op_BNE, op_BEQ, op_BVC, op_BVS, op_BPL, op_BMI}"
  shows "has_run m f l c"
  using assms unfolding has_run_def
  by (auto simp: run_defs flow_staged_defs flow_shared_defs ctx_defs ram_read [of m]
      SR_is_clear_def SR_is_set_def get_bit_iff has_bit_def branch_target_def)

lemma stack_runs:
  assumes "ram_bus m (memory c)" "cycle_count c = 1" "addressing_mode c \<in> conform_modes f"
    "f \<in> {op_PHA, op_PHP, op_PLA, op_PLP, op_RTI, op_JMP}"
  shows "has_run m f l c"
  using assms unfolding has_run_def
  by (auto simp: run_defs flow_staged_defs implied_staged_defs flow_shared_defs ctx_defs
      sr_bit_defs or.assoc and.assoc ram_read [of m] ram_write [of m])

text \<open>The functions of the 65C02.\<close>

lemma operand65_runs:
  assumes "ram_bus m (memory c)" "cycle_count c = 1" "addressing_mode c \<in> conform65_modes f"
    "f \<in> {c02_AND, c02_EOR, c02_ORA}"
  shows "has_run m (op_65C02 f) l c"
  using assms unfolding has_run_def
  by (auto simp: operand_modes_def load_modes_def run_defs alu65_staged_defs ctx_defs ram_read [of m])

lemma adder65_runs:
  assumes "ram_bus m (memory c)" "cycle_count c = 1" "addressing_mode c \<in> conform65_modes c02_ADC"
    "\<not> has_bit 3 (registers c)"
  shows "has_run m (op_65C02 c02_ADC) l c"
  using assms unfolding has_run_def
  by (auto simp: operand_modes_def load_modes_def run_defs alu65_staged_defs ctx_defs ram_read [of m]
      decimal_mode_def get_bit_iff has_bit_def)

lemma memory65_runs:
  assumes "ram_bus m (memory c)" "cycle_count c = 1" "addressing_mode c \<in> conform65_modes f"
    "f \<in> {c02_LDA, c02_STA, c02_STZ, c02_BIT}"
  shows "has_run m (op_65C02 f) l c"
  using assms unfolding has_run_def
  by (auto simp: load_modes_def run_defs load65_staged_defs test65_staged_defs ctx_defs
      ram_read [of m] ram_write [of m])

lemma compare65_runs:
  assumes "ram_bus m (memory c)" "cycle_count c = 1"
    "conforms (op_65C02 c02_CMP) (addressing_mode c) (cpu_of m c)"
  shows "has_run m (op_65C02 c02_CMP) l c"
  using assms unfolding has_run_def
  by (auto simp: conforms_def run_defs test65_staged_defs ctx_defs ram_read [of m])

lemma modify65_runs:
  assumes "ram_bus m (memory c)" "cycle_count c = 1" "addressing_mode c \<in> conform65_modes f"
    "f \<in> {c02_INC, c02_DEC, c02_ASL, c02_LSR, c02_ROL, c02_ROR, c02_TSB, c02_TRB}"
  shows "has_run m (op_65C02 f) l c"
  using assms unfolding has_run_def
  by (auto simp: step_modes_def run_defs rmw_staged_defs rmw65_staged_defs ctx_defs set_A_def
      increment_A_def bits_is_ref ref_bits_def set_bits_def reset_bits_def
      ram_read [of m] ram_write [of m])

lemma flow65_runs:
  assumes "ram_bus m (memory c)" "cycle_count c = 1" "addressing_mode c \<in> conform65_modes f"
    "f \<in> {c02_BRA, c02_JMP, c02_PHX, c02_PHY, c02_PLX, c02_PLY}"
  shows "has_run m (op_65C02 f) l c"
  using assms unfolding has_run_def
  by (auto simp: run_defs flow65_staged_defs flow65_shared_defs flow_shared_defs ctx_defs
      branch_target_def or.commute ram_read [of m] ram_write [of m])

lemma staged65_runs:
  assumes "ram_bus m (memory c)" "cycle_count c = 1"
    "conforms (op_65C02 f) (addressing_mode c) (cpu_of m c)"
  shows "has_run m (op_65C02 f) l c"
proof -
  have md: "addressing_mode c \<in> conform65_modes f" using assms(3) by (simp add: conforms_def)
  have d: "f = c02_ADC \<Longrightarrow> \<not> has_bit 3 (registers c)"
    using assms(3) by (simp add: conforms_def cpu_of_def)
  show ?thesis
    using md d operand65_runs [OF assms(1,2) md] adder65_runs [OF assms(1,2)] memory65_runs [OF assms(1,2) md]
      compare65_runs [OF assms(1,2)] modify65_runs [OF assms(1,2) md] flow65_runs [OF assms(1,2) md] assms(3)
    by (cases f) simp_all
qed

text \<open>All of them.\<close>

lemma staged_runs:
  assumes "ram_bus m (memory c)" "cycle_count c = 1" "conforms f (addressing_mode c) (cpu_of m c)"
  shows "has_run m f l c"
proof -
  have md: "addressing_mode c \<in> conform_modes f" using assms(3) by (simp add: conforms_def)
  have d: "f = op_ADC \<Longrightarrow> \<not> has_bit 3 (registers c)"
    using assms(3) by (simp add: conforms_def cpu_of_def)
  show ?thesis
    using md d assms(3)
    by (cases f) (simp_all add: staged65_runs [OF assms(1,2)] implied_runs [OF assms(1,2)] load_runs [OF assms(1,2)]
        store_runs [OF assms(1,2)] operand_runs [OF assms(1,2)] test_runs [OF assms(1,2)] modify_runs [OF assms(1,2)]
        branch_runs [OF assms(1,2)] stack_runs [OF assms(1,2)])
qed

end
