(* ===== verification/Executor_Ref.thy ===== *)
theory Executor_Ref
  imports Executor_Sim Isa_Refine
begin

text \<open>
  Programs.  A run of the reference machine through \<open>n\<close> instructions, and the launch functions
  that follow it.  The locale is the contract of an execution of one instruction; the interpretations
  are the staged execution and the static one, whose cycle totals the reference predicts.
\<close>

section \<open>The reference machine\<close>

text \<open>Fetch, decode by the dispatch table \<open>tb\<close> and execute one instruction; \<open>None\<close> where \<open>allowed\<close> does
  not hold.\<close>

type_synonym admission = "isa_6502_op \<Rightarrow> isa_6502_addressing \<Rightarrow> cpu \<Rightarrow> bool"

definition ref_instr :: "isa_6502_table \<Rightarrow> admission \<Rightarrow> cpu \<Rightarrow> (cpu \<times> u64) option" where
  "ref_instr tb allowed s =
    (let d = isa_6502_table_lookup_dispatch tb (snd s (reg_PC (fst s)));
         s = ((fst s)\<lparr>reg_PC := reg_PC (fst s) + 1\<rparr>, snd s)
     in case exec_fn d of
          None \<Rightarrow> None
        | Some f \<Rightarrow>
            if dispatch_mode d \<noteq> isa_6502_addressing_undefined \<and> allowed f (dispatch_mode d) s
            then Some (ref_step f (dispatch_mode d) s, ref_cycles f (dispatch_mode d) s) else None)"

definition below :: "u32 \<Rightarrow> cpu \<Rightarrow> bool" where
  "below PC_end s \<longleftrightarrow> ucast (reg_PC (fst s)) < PC_end"

primrec ref_run :: "isa_6502_table \<Rightarrow> admission \<Rightarrow> u32 \<Rightarrow> nat \<Rightarrow> cpu \<Rightarrow> (cpu \<times> u64) option" where
  "ref_run tb allowed PC_end 0 s = Some (s, 0)"
| "ref_run tb allowed PC_end (Suc n) s =
    (if below PC_end s then do {
       (s, k) \<leftarrow> ref_instr tb allowed s;
       (s, j) \<leftarrow> ref_run tb allowed PC_end n s;
       Some (s, k + j) }
     else None)"

text \<open>Where a program stops: behind the range, or at an illegal opcode, whose fetch counts.\<close>

definition ref_halt :: "isa_6502_table \<Rightarrow> u32 \<Rightarrow> cpu \<Rightarrow> (cpu \<times> u64) option" where
  "ref_halt tb PC_end s =
    (if \<not> below PC_end s then Some (s, 0)
     else if dispatch_mode (isa_6502_table_lookup_dispatch tb (snd s (reg_PC (fst s))))
       = isa_6502_addressing_undefined
     then Some (((fst s)\<lparr>reg_PC := reg_PC (fst s) + 1\<rparr>, snd s), 1) else None)"

definition ref_program :: "isa_6502_table \<Rightarrow> admission \<Rightarrow> u32 \<Rightarrow> nat \<Rightarrow> cpu \<Rightarrow> (cpu \<times> u64) option" where
  "ref_program tb allowed PC_end n s = do {
     (s, k) \<leftarrow> ref_run tb allowed PC_end n s;
     (s, j) \<leftarrow> ref_halt tb PC_end s;
     Some (s, k + j) }"

section \<open>Machines that follow it\<close>

definition machine_cpu :: "module_ref \<Rightarrow> machine \<Rightarrow> cpu" where
  "machine_cpu m s = (ex_registers s, bus_view m (ex_memory s))"

definition ready :: "isa_6502_table \<Rightarrow> module_ref \<Rightarrow> bool \<Rightarrow> machine \<Rightarrow> bool" where
  "ready tb m locking s \<longleftrightarrow> quiet locking s \<and> ram_bus m (ex_memory s) \<and> ex_isa s = tb"

lemma ready_fields:
  assumes "ready tb m locking s"
  shows "\<not> has_flag executor_flags_exec_stop s"
    "service_interrupts no_callback locking s = Some s"
    "below e (machine_cpu m s) \<longleftrightarrow> ucast (reg_PC (ex_registers s)) < e"
  using assms by (simp_all add: ready_def quiet_flags(4) quiet_interrupts below_def machine_cpu_def)
    (simp add: quiet_def quiet_flags(4))

lemma ready_fetch:
  assumes "ready tb m locking s"
  shows "\<exists>u. fetch_instr no_callback s = Some u \<and> ready tb m locking u \<and> instr_cycles u = 1
    \<and> instr_opcode u = bus_view m (ex_memory s) (reg_PC (ex_registers s))
    \<and> machine_cpu m u = ((ex_registers s)\<lparr>reg_PC := reg_PC (ex_registers s) + 1\<rparr>, bus_view m (ex_memory s))
    \<and> total_cycles u = total_cycles s + 1 \<and> indet_locals u = indet_locals s"
  using assms
  by (simp add: fetch_instr_def Let_def ready_def ram_read [of m] count_cycle_def machine_cpu_def quiet_def)

lemma ready_decode:
  assumes "ready tb m locking u" "decode_instr no_callback u = (legal, d, v)"
  shows "d = isa_6502_table_lookup_dispatch tb (instr_opcode u)"
    "legal \<longleftrightarrow> dispatch_mode d \<noteq> isa_6502_addressing_undefined"
    "ready tb m locking v" "machine_cpu m v = machine_cpu m u" "instr_cycles v = instr_cycles u"
    "total_cycles v = total_cycles u" "indet_locals v = indet_locals u"
    "legal \<Longrightarrow> instr_mode v = dispatch_mode d"
  using assms
  by (auto simp: decode_instr_def Let_def ready_def machine_cpu_def quiet_def split: if_splits)

locale reference_execution =
  fixes execute :: "bool \<Rightarrow> isa_6502_opcode_dispatch \<Rightarrow> machine \<Rightarrow> machine option"
    and allowed :: admission
    and junk_ok :: "(u64 \<Rightarrow> isa_locals) \<Rightarrow> bool"
    and surplus :: u64
  assumes executes: "\<lbrakk>ready tb m locking s; junk_ok (indet_locals s); exec_fn d = Some f;
      instr_mode s = dispatch_mode d; instr_cycles s = 1; allowed f (dispatch_mode d) (machine_cpu m s)\<rbrakk>
    \<Longrightarrow> \<exists>t. execute locking d s = Some t \<and> ready tb m locking t \<and> indet_locals t = indet_locals s
      \<and> machine_cpu m t = ref_step f (dispatch_mode d) (machine_cpu m s)
      \<and> total_cycles t = total_cycles s + (ref_cycles f (dispatch_mode d) (machine_cpu m s) - 1) + surplus"
begin

abbreviation exec_step :: "bool \<Rightarrow> machine \<Rightarrow> (bool \<times> machine) option" where
  "exec_step locking \<equiv> instruction_step no_callback locking (execute locking)"

lemma instruction:
  assumes "ready tb m locking s" "junk_ok (indet_locals s)" "ref_instr tb allowed (machine_cpu m s) = Some (q, k)"
  shows "\<exists>t. exec_step locking s = Some (True, t) \<and> ready tb m locking t \<and> junk_ok (indet_locals t)
    \<and> machine_cpu m t = q \<and> total_cycles t = total_cycles s + k + surplus"
proof -
  obtain u where u: "fetch_instr no_callback s = Some u" "ready tb m locking u" "instr_cycles u = 1"
    "instr_opcode u = bus_view m (ex_memory s) (reg_PC (ex_registers s))"
    "machine_cpu m u = ((ex_registers s)\<lparr>reg_PC := reg_PC (ex_registers s) + 1\<rparr>, bus_view m (ex_memory s))"
    "total_cycles u = total_cycles s + 1" "indet_locals u = indet_locals s"
    using ready_fetch [OF assms(1)] by blast
  obtain legal d v where d: "decode_instr no_callback u = (legal, d, v)"
    by (cases "decode_instr no_callback u")
  note v = ready_decode [OF u(2) d]
  have f: "exec_fn d \<noteq> None" "legal" "allowed (the (exec_fn d)) (dispatch_mode d) (machine_cpu m v)"
    "q = ref_step (the (exec_fn d)) (dispatch_mode d) (machine_cpu m v)"
    "k = ref_cycles (the (exec_fn d)) (dispatch_mode d) (machine_cpu m v)"
    using assms(3) v u by (auto simp: ref_instr_def Let_def machine_cpu_def split: option.splits if_splits)
  then obtain g where g: "exec_fn d = Some g" by auto
  obtain t where t: "execute locking d v = Some t" "ready tb m locking t" "indet_locals t = indet_locals v"
    "machine_cpu m t = q" "total_cycles t = total_cycles v + (k - 1) + surplus"
    using executes [OF v(3) _ g v(8) _ ] f v u assms(2) g by auto
  show ?thesis
    using u(1) d f(2) t v(6,7) u(6,7) assms(2) ready_fields(2) [OF t(2)]
    by (simp add: instruction_step_def)
qed

lemma halting:
  assumes "ready tb m locking s" "ref_halt tb e (machine_cpu m s) = Some (q, k)"
  shows "\<exists>t. loop_runs (exec_step locking) e 0 s t \<and> machine_cpu m t = q \<and> total_cycles t = total_cycles s + k"
proof (cases "below e (machine_cpu m s)")
  case True
  obtain u where u: "fetch_instr no_callback s = Some u" "ready tb m locking u"
    "instr_opcode u = bus_view m (ex_memory s) (reg_PC (ex_registers s))"
    "machine_cpu m u = ((ex_registers s)\<lparr>reg_PC := reg_PC (ex_registers s) + 1\<rparr>, bus_view m (ex_memory s))"
    "total_cycles u = total_cycles s + 1"
    using ready_fetch [OF assms(1)] by blast
  obtain legal d v where d: "decode_instr no_callback u = (legal, d, v)"
    by (cases "decode_instr no_callback u")
  note v = ready_decode [OF u(2) d]
  have "\<not> legal" "k = 1" "q = machine_cpu m v"
    using assms(2) True v u by (auto simp: ref_halt_def machine_cpu_def split: if_splits)
  moreover from this have "exec_step locking s = Some (False, v)"
    using u(1) d by (simp add: instruction_step_def)
  ultimately show ?thesis
    using True ready_fields [OF assms(1)] v(6) u(5) by (intro exI [of _ v]) (simp add: loop_runs.broken)
next
  case False
  then have "loop_runs (exec_step locking) e 0 s s"
    using ready_fields [OF assms(1)] by (intro loop_runs.left) auto
  then show ?thesis using False assms(2) by (auto simp: ref_halt_def)
qed

lemma program_runs:
  assumes "ready tb m locking s" "junk_ok (indet_locals s)"
    "ref_program tb allowed e n (machine_cpu m s) = Some (q, k)"
  shows "\<exists>t. loop_runs (exec_step locking) e n s t \<and> machine_cpu m t = q
    \<and> total_cycles t = total_cycles s + k + of_nat n * surplus"
  using assms
proof (induction n arbitrary: s k)
  case 0
  then show ?case using halting [of tb m locking s e q k] by (auto simp: ref_program_def split: bind_splits)
next
  case (Suc n)
  obtain s1 k1 j where one: "below e (machine_cpu m s)" "ref_instr tb allowed (machine_cpu m s) = Some (s1, k1)"
    and rest: "ref_program tb allowed e n s1 = Some (q, j)" "k = k1 + j"
    using Suc.prems(3)
    by (fastforce simp: ref_program_def bind_eq_Some_conv add.assoc split: if_splits)
  obtain u where u: "exec_step locking s = Some (True, u)" "ready tb m locking u" "junk_ok (indet_locals u)"
    "machine_cpu m u = s1" "total_cycles u = total_cycles s + k1 + surplus"
    using instruction [OF Suc.prems(1,2) one(2)] by blast
  obtain t where t: "loop_runs (exec_step locking) e n u t" "machine_cpu m t = q"
    "total_cycles t = total_cycles u + j + of_nat n * surplus"
    using Suc.IH [OF u(2,3)] rest(1) u(4) by blast
  have "loop_runs (exec_step locking) e (Suc n) s t"
    using one(1) ready_fields [OF Suc.prems(1)] u(1) t(1) by (auto intro: loop_runs.turn)
  then show ?case
    using t u(5) rest(2) by (intro exI [of _ t]) (simp add: algebra_simps)
qed

lemma launch_follows:
  assumes "ram_bus m (ex_memory s)" "ex_isa s = tb" "windows s = []"
    "\<not> locking \<or> \<not> state_locked s" "junk_ok (indet_locals s)"
    "ref_program tb allowed (PC_end_of r) n ((ex_registers s)\<lparr>reg_PC := PC\<rparr>, bus_view m (ex_memory s)) = Some (q, k)"
  shows "\<exists>t. launch no_callback locking (execute locking) r PC s = Some (k + of_nat n * surplus, t)
    \<and> machine_cpu m t = q"
proof -
  obtain u where u: "launch_begin no_callback locking PC s = Some u"
    using assms(4) launch_begins by blast
  note frame = launch_begin_frame [OF u]
  have j: "indet_locals u = indet_locals s"
    using u by (auto simp: launch_begin_def Let_def bind_eq_Some_conv take_lock_def clear_flags_def split: if_splits)
  have ready: "ready tb m locking u"
    using assms(1-3) by (simp add: ready_def quiet_def frame and.assoc)
  have "junk_ok (indet_locals u)"
    "ref_program tb allowed (PC_end_of r) n (machine_cpu m u) = Some (q, k)"
    using assms(5,6) j by (simp_all add: machine_cpu_def frame)
  from program_runs [OF ready this] obtain t where t: "loop_runs (exec_step locking) (PC_end_of r) n u t" "machine_cpu m t = q"
    "total_cycles t = total_cycles u + k + of_nat n * surplus"
    by blast
  then show ?thesis
    using u loop_runs_run_loop [OF t(1)] frame(9)
    by (auto simp: launch_def launch_end_def Let_def clear_flags_def machine_cpu_def)
qed

end

text \<open>The staged execution follows the reference wherever its bodies conform.\<close>

interpretation staged_machine:
  reference_execution "staged_turns no_callback" conforms "\<lambda>_. True" 0
proof
  fix tb m locking s f and d :: isa_6502_opcode_dispatch
  assume s: "ready tb m locking s" "exec_fn d = Some f" "instr_mode s = dispatch_mode d" "instr_cycles s = 1"
    "conforms f (dispatch_mode d) (machine_cpu m s)"
  have "has_run m f (statics s f) (instr_context_of s)"
    using s by (intro staged_runs) (simp_all add: ready_def instr_context_of_def machine_cpu_def cpu_of_def)
  then obtain l c where c: "run_cycles 8 (staged_fn f) (statics s f) (instr_context_of s)
      = Some (isa_6502_instr_stage_end, l, c)" "implements m f (instr_context_of s) c"
    by (auto simp: has_run_def staged_outcome_def simp del: run_cycles_numeral)
  have q: "quiet locking s" using s(1) by (simp add: ready_def)
  have "staged_turns no_callback locking d s = Some (after_run f l c s)"
    by (rule uninterrupted_turns [OF q s(2) c(1)])
  then show "\<exists>t. staged_turns no_callback locking d s = Some t \<and> ready tb m locking t
      \<and> indet_locals t = indet_locals s \<and> machine_cpu m t = ref_step f (dispatch_mode d) (machine_cpu m s)
      \<and> total_cycles t = total_cycles s + (ref_cycles f (dispatch_mode d) (machine_cpu m s) - 1) + 0"
    using c(2) s(1,3,4)
    by (simp add: after_run_def implements_def ready_def quiet_def machine_cpu_def cpu_of_def
        with_instr_context_def instr_context_of_def)
qed

text \<open>The static execution follows it where moreover the two bodies agree; it counts the fetch of
  every instruction twice.\<close>

interpretation static_machine:
  reference_execution "static_turn no_callback"
    "\<lambda>f md s. conforms f md s \<and> md \<in> agree_modes f \<and> agree_registers f (fst s)"
    "\<lambda>j. \<forall>n. local_flag_bits (j n) = 0" 1
proof
  fix tb m locking s f and d :: isa_6502_opcode_dispatch
  assume s: "ready tb m locking s" "\<forall>n. local_flag_bits (indet_locals s n) = 0" "exec_fn d = Some f"
    "instr_mode s = dispatch_mode d" "instr_cycles s = 1"
    "conforms f (dispatch_mode d) (machine_cpu m s) \<and> dispatch_mode d \<in> agree_modes f
      \<and> agree_registers f (fst (machine_cpu m s))"
  let ?c = "instr_context_of s" and ?j = "indet_locals s (total_cycles s)"
  have dom: "agrees_in f ?c" "cycle_count ?c = 1" "agree_locals f ?j"
    using s by (auto simp: agrees_in_def instr_context_of_def machine_cpu_def agree_locals_zero)
  have "has_run m f (statics s f) ?c"
    using s by (intro staged_runs) (simp_all add: ready_def instr_context_of_def machine_cpu_def cpu_of_def)
  then obtain l c where c: "run_cycles 8 (staged_fn f) (statics s f) ?c
      = Some (isa_6502_instr_stage_end, l, c)" "implements m f ?c c"
    by (auto simp: has_run_def staged_outcome_def simp del: run_cycles_numeral)
  obtain st where st: "static_fn f isa_6502_instr_stage_next_cycle ?j ?c = Some (st, c)"
    using isa_bodies.staged_ends(2) [OF dom c(1)] by blast
  have q: "quiet locking s" using s(1) by (simp add: ready_def)
  then show "\<exists>t. static_turn no_callback locking d s = Some t \<and> ready tb m locking t
      \<and> indet_locals t = indet_locals s \<and> machine_cpu m t = ref_step f (dispatch_mode d) (machine_cpu m s)
      \<and> total_cycles t = total_cycles s + (ref_cycles f (dispatch_mode d) (machine_cpu m s) - 1) + 1"
    using c(2) s(1,3,4)
    by (simp add: static_turn_def quiet_window call_static_def st Let_def)
      (simp add: implements_def ready_def quiet_def quiet_flags machine_cpu_def cpu_of_def
        with_instr_context_def instr_context_of_def)
qed

end
