(* ===== verification/Conformance.thy ===== *)
theory Conformance
  imports Sample_Machine Executor_Ref
begin

text \<open>
  How much of the base dialect the staged bodies implement: the entries of the dispatch table, those
  whose body is the reference instruction and those it is not, each with a state in which the two
  differ.
\<close>

section \<open>The entries of the table\<close>

definition legal_entries :: "isa_6502_table \<Rightarrow> (isa_6502_op \<times> isa_6502_addressing) list" where
  "legal_entries t = List.map_filter (\<lambda>d. map_option (\<lambda>f. (f, dispatch_mode d)) (exec_fn d))
     (concat (concat (table t)))"

definition deviating_entries :: "(isa_6502_op \<times> isa_6502_addressing) list" where
  "deviating_entries =
    [(op_BRK, isa_6502_addressing_implied), (op_JSR, isa_6502_addressing_absolute),
     (op_RTS, isa_6502_addressing_implied)]
    @ List.map (Pair op_STA) [isa_6502_addressing_x_indexed_indirect, isa_6502_addressing_indirect_y_indexed]
    @ List.map (Pair op_LDA) [isa_6502_addressing_x_indexed_indirect, isa_6502_addressing_indirect_y_indexed]
    @ List.map (Pair op_CMP) [isa_6502_addressing_x_indexed_indirect, isa_6502_addressing_zeropage,
        isa_6502_addressing_absolute, isa_6502_addressing_indirect_y_indexed,
        isa_6502_addressing_zeropage_x_indexed]
    @ List.map (Pair op_SBC) [isa_6502_addressing_x_indexed_indirect, isa_6502_addressing_zeropage,
        isa_6502_addressing_immediate, isa_6502_addressing_absolute,
        isa_6502_addressing_indirect_y_indexed, isa_6502_addressing_zeropage_x_indexed,
        isa_6502_addressing_absolute_y_indexed, isa_6502_addressing_absolute_x_indexed]
    @ concat (List.map (\<lambda>f. List.map (Pair f) [isa_6502_addressing_zeropage, isa_6502_addressing_absolute,
        isa_6502_addressing_zeropage_x_indexed, isa_6502_addressing_absolute_x_indexed])
        [op_ASL, op_ROL, op_LSR, op_ROR])
    @ List.map (Pair op_LDX) [isa_6502_addressing_zeropage_y_indexed, isa_6502_addressing_absolute_y_indexed]"

text \<open>151 entries, of which 113 conform.\<close>

lemma deviating: "[e \<leftarrow> legal_entries isa_6502_base_table. snd e \<notin> conform_modes (fst e)] = deviating_entries"
  by code_simp

lemma entries_count: "length (legal_entries isa_6502_base_table) = 151" "length deviating_entries = 38"
  by code_simp+

section \<open>A state in which they differ\<close>

abbreviation odd_registers :: registers where
  "odd_registers \<equiv> \<lparr>reg_A = 0x50, reg_X = 1, reg_Y = 2, reg_SP = 0xF0, reg_PC = 1, reg_SR = 0\<rparr>"

abbreviation odd_memory :: "u16 \<Rightarrow> u8" where
  "odd_memory \<equiv> (program [0x11, 0x05, 0x00, 0x07, 0x13, 0x60, 0x03, 0x01, 0x55])(0x65 := 0x77)"

abbreviation odd_context :: "isa_6502_addressing \<Rightarrow> isa_6502_instr_context" where
  "odd_context md \<equiv> sample_context odd_memory md odd_registers"

lemma upd_eq: "f = f(x := y) \<longleftrightarrow> f x = y"
  by (metis fun_upd_idem_iff)

lemmas ref_eval = upd_eq sample_context_def sample_locals_def has_run_def staged_outcome_def implements_def
  cpu_of_def sample_bus_ram sample_view program_def page_crossed_def on_registers_def operand_at_def
  skip_operand_def isa_6502_addressing_operand_counts_def join_bytes_def hi_byte_def lo_byte_def
  word_at_def zeropage_word_def paged_word_def ref_add_def ref_subtract_def ref_compare_def set_A_def
  set_X_def set_Y_def ref_bit_def ref_modify_def ref_branch_def stack_address_def ref_drop_def
  stacked_def ref_push_word_def ref_store_def branch_cycles_def flag_def flag_NZ_def has_bit_def
  set_bit_eq_or unset_bit_eq_and_not Let_def same_page_def compare_finish_def compare_flags_def sr_bit_defs
  registers_SR_get_bit_def registers_SR_set_bit_def load_A_def
  registers_did_set_A_def registers_status_with_value_def carry_defs shift_status_def sbc_finish_def
  sbc_sum_def alu_store_def alu_flags_def overflow_bit_def decimal_mode_def
  asl_op_def lsr_op_def rol_op_def ror_op_def carry_in_def vector_addr_defs

lemma flow_diverges:
  assumes "(f, md) \<in> {(op_BRK, isa_6502_addressing_implied), (op_RTS, isa_6502_addressing_implied)}"
  shows "\<not> has_run 0 f sample_locals (odd_context md)"
  using assms
  by (elim insertE; simp add: ref_eval flow_staged_defs flow_shared_defs ctx_defs Let_def program_def cpu_of_def sample_view MEMORY_ADDR_NMI_VECTOR_def)

lemma load_diverges:
  assumes "(f, md) \<in> {(op_STA, isa_6502_addressing_x_indexed_indirect),
  (op_STA, isa_6502_addressing_indirect_y_indexed),
  (op_LDA, isa_6502_addressing_x_indexed_indirect),
  (op_LDA, isa_6502_addressing_indirect_y_indexed),
  (op_LDX, isa_6502_addressing_zeropage_y_indexed),
  (op_LDX, isa_6502_addressing_absolute_y_indexed)}"
  shows "\<not> has_run 0 f sample_locals (odd_context md)"
  using assms
  by (elim insertE; simp add: ref_eval load_staged_defs ctx_defs Let_def program_def cpu_of_def sample_view same_page_def)

lemma shift_diverges:
  assumes "f \<in> {op_ASL, op_LSR, op_ROL, op_ROR}" "md \<in> {isa_6502_addressing_zeropage, isa_6502_addressing_zeropage_x_indexed, isa_6502_addressing_absolute, isa_6502_addressing_absolute_x_indexed}"
  shows "\<not> has_run 0 f sample_locals (odd_context md)"
  using assms
  by (elim insertE; simp add: ref_eval rmw_staged_defs ctx_defs Let_def program_def cpu_of_def sample_view asl_op_def lsr_op_def rol_op_def ror_op_def carry_in_def registers_SR_get_bit_def
    shift_status_def)

lemma compare_diverges:
  assumes "(f,md) \<in> {(op_CMP, isa_6502_addressing_x_indexed_indirect),
  (op_CMP, isa_6502_addressing_zeropage),
  (op_CMP, isa_6502_addressing_absolute),
  (op_CMP, isa_6502_addressing_indirect_y_indexed),
  (op_CMP, isa_6502_addressing_zeropage_x_indexed)}"
  shows "\<not> has_run 0 f sample_locals (odd_context md)"
  using assms
  by (elim insertE; simp add: ref_eval test_staged_defs ctx_defs Let_def program_def cpu_of_def sample_view page_crossed_def)

text \<open>It is enough that the status differs.\<close>

lemma run_status:
  "has_run m f l c \<Longrightarrow> map_option (\<lambda>(_, c). reg_SR (registers c)) (staged_outcome 8 (staged_fn f) l c)
     = Some (reg_SR (fst (ref_step f (addressing_mode c) (cpu_of m c))))"
  by (auto simp: has_run_def implements_def cpu_of_def dest!: arg_cong [of _ _ fst])

lemma subtract_diverges:
  assumes "md \<in> operand_modes \<union> load_modes"
  shows "\<not> has_run 0 op_SBC sample_locals (odd_context md)"
proof
  assume "has_run 0 op_SBC sample_locals (odd_context md)"
  from run_status [OF this] assms show False unfolding operand_modes_def load_modes_def
    by (elim UnE insertE emptyE; simp add: ref_eval alu_staged_defs ctx_defs Let_def program_def cpu_of_def sample_view same_page_def)
qed

lemma call_diverges: "\<not> has_run 0 op_JSR sample_locals (odd_context isa_6502_addressing_absolute)"
proof
  assume "has_run 0 op_JSR sample_locals (odd_context isa_6502_addressing_absolute)"
  then have "bus_view 0 (sample_bus (odd_memory(496 := 0, 495 := 3)))
      = (bus_view 0 (sample_bus odd_memory))(496 := 0, 495 := 2)"
    by (simp add: ref_eval flow_staged_defs flow_shared_defs ctx_defs)
  from fun_cong [OF this, of 495] show False by (simp add: sample_view)
qed

lemma deviations_diverge:
  assumes "(f, md) \<in> set deviating_entries"
  shows "\<not> has_run 0 f sample_locals (odd_context md)" "conform_state f md (cpu_of 0 (odd_context md))"
proof -
  show "\<not> has_run 0 f sample_locals (odd_context md)"
    using assms flow_diverges [of f md] load_diverges [of f md] shift_diverges [of f md]
      compare_diverges [of f md] subtract_diverges [of md] call_diverges
    by (auto simp: deviating_entries_def operand_modes_def load_modes_def)
  show "conform_state f md (cpu_of 0 (odd_context md))"
    using assms
    by (auto simp: deviating_entries_def) (simp_all add: ref_eval compare_signs_def)
qed

text \<open>Outside \<open>conform_state\<close>: \<open>CMP #$00\<close> with \<open>$FF\<close> in the accumulator clears N where the processor sets it.\<close>

lemma comparison_sign_diverges:
  "\<not> has_run 0 op_CMP sample_locals (sample_context (program [0xC9, 0x00]) isa_6502_addressing_immediate
      (odd_registers\<lparr>reg_A := 0xFF\<rparr>))"
  by (simp add: ref_eval test_staged_defs ctx_defs)

section \<open>The staged bodies and the reference\<close>

text \<open>C3 (refinement).  In the modes listed in \<open>conform_modes\<close>, on a bus of one 64k module, the staged
  body called cycle by cycle ends within its eight cycles in the registers and memory of the
  reference instruction, in the documented number of clock cycles (\<open>ADC\<close> outside decimal mode,
  comparisons whose sign is their order).\<close>

theorem staged_body_implements_reference:
  assumes "ram_bus m (memory c)" "cycle_count c = 1" "conforms f (addressing_mode c) (cpu_of m c)"
  shows "\<exists>c'. staged_outcome 8 (staged_fn f) l c = Some (isa_6502_instr_stage_end, c')
    \<and> cpu_of m c' = ref_step f (addressing_mode c) (cpu_of m c)
    \<and> cycle_count c' = ref_cycles f (addressing_mode c) (cpu_of m c) \<and> ram_bus m (memory c')"
  using staged_runs [OF assms] by (auto simp: has_run_def implements_def)

theorem staged_body_implements_reference_witness:
  "\<exists>c'. staged_outcome 8 isa_6502_ADC sample_locals
      (sample_context ((program [0x7D, 0xFF, 0x00])(0x0100 := 0x30)) isa_6502_addressing_absolute_x_indexed odd_registers)
    = Some (isa_6502_instr_stage_end, c') \<and> reg_A (registers c') = 0x80 \<and> reg_PC (registers c') = 3
    \<and> reg_SR (registers c') = 0xC0 \<and> cycle_count c' = 5"
  using staged_body_implements_reference [of 0 "sample_context ((program [0x7D, 0xFF, 0x00])(0x0100 := 0x30))
      isa_6502_addressing_absolute_x_indexed odd_registers" op_ADC sample_locals]
  by (fastforce simp: ref_eval conforms_def load_modes_def simp del: run_cycles_numeral)

end
