(* ===== verification/Conformance65.thy ===== *)
theory Conformance65
  imports Conformance Isa65_Table
begin

text \<open>
  The same for the 65C02, and the exactness of \<open>conform_modes\<close> on the two dispatch tables.
\<close>

section \<open>The entries of the table\<close>

definition flow65_deviations :: "(isa_65C02_op \<times> isa_6502_addressing) list" where
  "flow65_deviations = [(c02_BRK, isa_6502_addressing_implied), (c02_JMP, isa_6502_addressing_indirect)]"

definition memory65_deviations :: "(isa_65C02_op \<times> isa_6502_addressing) list" where
  "memory65_deviations =
    [(c02_STA, isa_6502_addressing_x_indexed_indirect), (c02_STA, isa_6502_addressing_indirect_y_indexed),
     (c02_LDA, isa_6502_addressing_x_indexed_indirect), (c02_LDA, isa_6502_addressing_indirect_y_indexed),
     (c02_LDA, isa_6502_addressing_zeropage_indirect)]"

definition test65_deviations :: "(isa_65C02_op \<times> isa_6502_addressing) list" where
  "test65_deviations =
    [(c02_BIT, isa_6502_addressing_immediate), (c02_CMP, isa_6502_addressing_x_indexed_indirect),
     (c02_CMP, isa_6502_addressing_zeropage), (c02_CMP, isa_6502_addressing_absolute),
     (c02_CMP, isa_6502_addressing_indirect_y_indexed), (c02_CMP, isa_6502_addressing_zeropage_x_indexed),
     (c02_CMP, isa_6502_addressing_zeropage_indirect)]"

definition modify65_deviations :: "(isa_65C02_op \<times> isa_6502_addressing) list" where
  "modify65_deviations =
    [(c02_TSB, isa_6502_addressing_absolute), (c02_TRB, isa_6502_addressing_absolute),
     (c02_DEC, isa_6502_addressing_accumulator), (c02_ASL, isa_6502_addressing_accumulator),
     (c02_ROR, isa_6502_addressing_accumulator)]"

definition shift65_deviations :: "(isa_65C02_op \<times> isa_6502_addressing) list" where
  "shift65_deviations = concat (List.map (\<lambda>f. List.map (Pair f) [isa_6502_addressing_zeropage,
     isa_6502_addressing_absolute, isa_6502_addressing_zeropage_x_indexed,
     isa_6502_addressing_absolute_x_indexed]) [c02_ASL, c02_ROL, c02_LSR, c02_ROR])"

definition adder65_deviations :: "(isa_65C02_op \<times> isa_6502_addressing) list" where
  "adder65_deviations = (c02_ADC, isa_6502_addressing_zeropage_indirect)
     # List.map (Pair c02_SBC) [isa_6502_addressing_x_indexed_indirect, isa_6502_addressing_zeropage,
         isa_6502_addressing_immediate, isa_6502_addressing_absolute,
         isa_6502_addressing_indirect_y_indexed, isa_6502_addressing_zeropage_x_indexed,
         isa_6502_addressing_absolute_y_indexed, isa_6502_addressing_absolute_x_indexed,
         isa_6502_addressing_zeropage_indirect]"

definition deviating65_entries :: "(isa_65C02_op \<times> isa_6502_addressing) list" where
  "deviating65_entries = flow65_deviations @ memory65_deviations
    @ [(c02_STZ, isa_6502_addressing_zeropage)] @ test65_deviations @ modify65_deviations
    @ shift65_deviations @ adder65_deviations"

text \<open>178 entries, of which 128 conform: 46 of the functions of \<^verbatim>\<open>src/isa_65C02/\<close> do not, and four that the
  table shares with the base dialect.\<close>

lemma deviating65:
  "list_all (\<lambda>e. snd e \<in> conform_modes (fst e) \<or> e \<in> set (List.map (map_prod op_65C02 id) deviating65_entries
     @ deviating_entries)) (legal_entries isa_65C02_table)"
  by code_simp

lemma entries65_count: "length (legal_entries isa_65C02_table) = 178" "length deviating65_entries = 46"
  "length [e \<leftarrow> legal_entries isa_65C02_table. snd e \<in> conform_modes (fst e)] = 128"
  by code_simp+

section \<open>A state in which they differ\<close>

abbreviation odd65_memory :: "u16 \<Rightarrow> u8" where
  "odd65_memory \<equiv> odd_memory(0x63 := 0x44)"

abbreviation odd65_context :: "isa_6502_addressing \<Rightarrow> isa_6502_instr_context" where
  "odd65_context md \<equiv> sample_context odd65_memory md (odd_registers\<lparr>reg_SR := 0xC1\<rparr>)"

lemmas ref65_eval = ref_eval bits_status_def ref_bits_def set_bits_def reset_bits_def increment_A_def
  bit_finish_def clear_D_def set_I_def

lemma flow65_diverges:
  assumes "(f, md) \<in> set flow65_deviations"
  shows "\<not> has_run 0 (op_65C02 f) sample_locals (odd65_context md)"
  using assms
  by (auto simp: flow65_deviations_def; simp add: ref65_eval flow65_staged_defs flow65_shared_defs
      flow_shared_defs MEMORY_ADDR_NMI_VECTOR_def ctx_defs Let_def)

lemma memory65_diverges:
  assumes "(f, md) \<in> set memory65_deviations"
  shows "\<not> has_run 0 (op_65C02 f) sample_locals (odd65_context md)"
  using assms
  by (auto simp: memory65_deviations_def; simp add: ref65_eval load65_staged_defs load_staged_defs ctx_defs Let_def)

lemma store_zero_diverges:
  "\<not> has_run 0 (op_65C02 c02_STZ) sample_locals (odd65_context isa_6502_addressing_zeropage)"
proof
  assume "has_run 0 (op_65C02 c02_STZ) sample_locals (odd65_context isa_6502_addressing_zeropage)"
  then have "bus_view 0 (sample_bus (odd65_memory(0 := 0)))
      = (bus_view 0 (sample_bus odd65_memory))(5 := 0)"
    by (simp add: ref65_eval load65_staged_defs ctx_defs)
  from fun_cong [OF this, of 0] show False by (simp add: sample_view program_def)
qed

lemma test65_diverges:
  assumes "(f, md) \<in> set test65_deviations"
  shows "\<not> has_run 0 (op_65C02 f) sample_locals (odd65_context md)"
  using assms
  by (auto simp: test65_deviations_def; simp add: ref65_eval test65_staged_defs ctx_defs Let_def)

lemma modify65_diverges:
  assumes "(f, md) \<in> set modify65_deviations"
  shows "\<not> has_run 0 (op_65C02 f) sample_locals (odd65_context md)"
  using assms
  by (auto simp: modify65_deviations_def; simp add: ref65_eval rmw65_staged_defs shift_A_def ctx_defs Let_def)

lemma shift65_diverges:
  assumes "(f, md) \<in> set shift65_deviations"
  shows "\<not> has_run 0 (op_65C02 f) sample_locals (odd65_context md)"
  using assms
  by (auto simp: shift65_deviations_def; simp add: ref65_eval rmw65_staged_defs shift_tail_def
      shift_status_def ctx_defs Let_def)

lemma adder65_diverges:
  assumes "(f, md) \<in> set adder65_deviations"
  shows "\<not> has_run 0 (op_65C02 f) sample_locals (odd65_context md)"
  using assms
  by (auto simp: adder65_deviations_def; simp add: ref65_eval alu65_staged_defs ctx_defs Let_def)

lemma deviating65_state:
  assumes "(f, md) \<in> set deviating65_entries"
  shows "conform_state (op_65C02 f) md (cpu_of 0 (odd65_context md))"
proof -
  have "conform_state (op_65C02 f) md (cpu_of 0 (odd65_context md))" if "(f, md) \<in> set test65_deviations"
    using that by (auto simp: test65_deviations_def; simp add: ref_eval compare_signs_def)
  moreover have "conform_state (op_65C02 f) md (cpu_of 0 (odd65_context md))" if "f \<noteq> c02_CMP"
    using that by (cases f) (simp_all add: ref_eval)
  ultimately show ?thesis
    using assms by (cases "f = c02_CMP") (auto simp: deviating65_entries_def flow65_deviations_def
      memory65_deviations_def modify65_deviations_def shift65_deviations_def adder65_deviations_def)
qed

text \<open>A state in which an entry differs from the reference.\<close>

definition deviates :: "isa_6502_op \<Rightarrow> isa_6502_addressing \<Rightarrow> bool" where
  "deviates f md \<longleftrightarrow> (\<exists>m l c. ram_bus m (memory c) \<and> cycle_count c = 1 \<and> addressing_mode c = md
     \<and> conform_state f md (cpu_of m c) \<and> \<not> has_run m f l c)"

lemma deviations65_diverge:
  assumes "(f, md) \<in> set deviating65_entries"
  shows "deviates (op_65C02 f) md"
proof -
  have "\<not> has_run 0 (op_65C02 f) sample_locals (odd65_context md)"
    using assms flow65_diverges memory65_diverges store_zero_diverges test65_diverges modify65_diverges
      shift65_diverges adder65_diverges
    by (auto simp: deviating65_entries_def)
  moreover have "conform_state (op_65C02 f) md (cpu_of 0 (odd65_context md))"
    by (rule deviating65_state [OF assms])
  ultimately show ?thesis
    unfolding deviates_def
    by (intro exI [of _ 0] exI [of _ sample_locals] exI [of _ "odd65_context md"])
      (simp add: sample_context_def sample_bus_ram)
qed

lemma deviations_deviate:
  assumes "(f, md) \<in> set deviating_entries"
  shows "deviates f md"
  using deviations_diverge [OF assms] unfolding deviates_def
  by (intro exI [of _ 0] exI [of _ sample_locals] exI [of _ "odd_context md"])
    (simp add: sample_context_def sample_bus_ram)

section \<open>Exactness\<close>

text \<open>C4 (equivalence).  That list is exact: an entry of one of the two dispatch tables is in it if and
  only if its body implements the reference in every state that satisfies \<open>conform_state\<close>.  That condition
  leaves out two kinds of state only, whatever the mode: \<open>ADC\<close> with the decimal flag set, and \<open>CMP\<close>, \<open>CPX\<close> or
  \<open>CPY\<close> of operands whose difference has not the sign of their order (of the 65C02's own bodies, \<open>ADC\<close> and
  \<open>CMP\<close>); for every other function it holds in every state.  Of the 151 entries of the base dialect 38
  are not in the list, of the 178 of the 65C02 50.\<close>

theorem conformance_is_exact:
  assumes "(f, md) \<in> set (legal_entries isa_6502_base_table) \<union> set (legal_entries isa_65C02_table)"
  shows "md \<in> conform_modes f \<longleftrightarrow> (\<forall>m l c. ram_bus m (memory c) \<and> cycle_count c = 1
    \<and> addressing_mode c = md \<and> conform_state f md (cpu_of m c) \<longrightarrow> has_run m f l c)"
proof (cases "md \<in> conform_modes f")
  case True
  then show ?thesis by (auto intro!: staged_runs simp: conforms_def)
next
  case False
  have "(f, md) \<in> set deviating_entries \<union> map_prod op_65C02 id ` set deviating65_entries"
  proof (cases "(f, md) \<in> set (legal_entries isa_6502_base_table)")
    case True
    then have "(f, md) \<in> set [e \<leftarrow> legal_entries isa_6502_base_table. snd e \<notin> conform_modes (fst e)]"
      using False by simp
    then show ?thesis unfolding deviating by simp
  next
    case other: False
    then have "(f, md) \<in> set (legal_entries isa_65C02_table)" using assms by simp
    then show ?thesis using deviating65 False by (fastforce simp: list_all_iff)
  qed
  then have "deviates f md"
    using deviations_deviate deviations65_diverge by auto
  then show ?thesis using False by (auto simp: deviates_def)
qed

theorem conformance_is_exact_witness:
  "has_run 0 op_LDA sample_locals (odd_context isa_6502_addressing_immediate)
   \<and> \<not> (\<forall>m l c. ram_bus m (memory c) \<and> cycle_count c = 1 \<and> addressing_mode c = isa_6502_addressing_accumulator
        \<and> conform_state (op_65C02 c02_DEC) isa_6502_addressing_accumulator (cpu_of m c)
        \<longrightarrow> has_run m (op_65C02 c02_DEC) l c)"
proof -
  have e: "(op_LDA, isa_6502_addressing_immediate) \<in> set (legal_entries isa_6502_base_table)"
    "(op_65C02 c02_DEC, isa_6502_addressing_accumulator) \<in> set (legal_entries isa_65C02_table)"
    by code_simp+
  show ?thesis
    using conformance_is_exact [of op_LDA isa_6502_addressing_immediate]
      conformance_is_exact [of "op_65C02 c02_DEC" isa_6502_addressing_accumulator] e
    by (simp add: load_modes_def step_modes_def sample_context_def sample_bus_ram)
qed

end
