(* ===== verification/Programs.thy ===== *)
theory Programs
  imports Conformance65
begin

text \<open>
  Whole programs: the launch functions of the executor follow the reference machine from the first
  instruction to the end of the program, registers, memory and clock cycles.
\<close>

lemma ref_run_numeral [simp]:
  "ref_run tb allowed PC_end (numeral k) s =
    (if below PC_end s then do {
       (s, k1) \<leftarrow> ref_instr tb allowed s;
       (s, j) \<leftarrow> ref_run tb allowed PC_end (pred_numeral k) s;
       Some (s, k1 + j) }
     else None)"
  by (simp add: numeral_eq_Suc)

lemmas lookup_eval = isa_6502_table_lookup_dispatch_def isa_6502_base_table_def opcode_A_def
  opcode_B_def opcode_C_def table_block_0_def table_block_1_def table_block_2_def

text \<open>The opcodes of the two sample programs.\<close>

lemma program_opcodes:
  "isa_6502_table_lookup_dispatch isa_6502_base_table 0xA2 = entry op_LDX ''LDX'' ''LDX #$XX'' isa_6502_addressing_immediate"
  "isa_6502_table_lookup_dispatch isa_6502_base_table 0xCA = entry op_DEX ''DEX'' ''DEX'' isa_6502_addressing_implied"
  "isa_6502_table_lookup_dispatch isa_6502_base_table 0xD0 = entry op_BNE ''BNE'' ''BNE $XX'' isa_6502_addressing_relative"
  "isa_6502_table_lookup_dispatch isa_6502_base_table 0xA9 = entry op_LDA ''LDA'' ''LDA #$XX'' isa_6502_addressing_immediate"
  "isa_6502_table_lookup_dispatch isa_6502_base_table 0x69 = entry op_ADC ''ADC'' ''ADC #$XX'' isa_6502_addressing_immediate"
  "isa_6502_table_lookup_dispatch isa_6502_base_table 0x85 = entry op_STA ''STA'' ''STA $XX'' isa_6502_addressing_zeropage"
  by (simp_all add: lookup_eval)

lemma program65_opcodes:
  "isa_6502_table_lookup_dispatch isa_65C02_table 0xA9
     = entry (op_65C02 c02_LDA) ''LDA'' ''LDA #$XX'' isa_6502_addressing_immediate"
  "isa_6502_table_lookup_dispatch isa_65C02_table 0x1A
     = entry (op_65C02 c02_INC) ''INC'' ''INC A'' isa_6502_addressing_accumulator"
  "isa_6502_table_lookup_dispatch isa_65C02_table 0x80
     = entry (op_65C02 c02_BRA) ''BRA'' ''BRA $XX'' isa_6502_addressing_relative"
  "isa_6502_table_lookup_dispatch isa_65C02_table 0x02 = UNUSED_OPCODE"
  by code_simp+

lemmas program_eval = ref_program_def ref_halt_def ref_instr_def below_def conforms_def ref_eval
  program_opcodes lookup_illegal entry_def UNUSED_OPCODE_def load_modes_def operand_modes_def

text \<open>C2 (refinement).  A staged launch is the reference program: if the reference machine, started
  with the dispatch table, registers and memory of a machine on a 64k bus, runs through \<open>n\<close> conforming instructions
  inside the address range and then leaves the range or meets an illegal opcode, the launch returns,
  with its registers and memory and with its number of clock cycles.\<close>

theorem staged_launch_runs_program:
  assumes "ram_bus m (ex_memory s)" "windows s = []" "\<not> state_locked s"
    and "ref_program (ex_isa s) conforms (PC_end_of r) n ((ex_registers s)\<lparr>reg_PC := PC\<rparr>, bus_view m (ex_memory s))
      = Some (q, k)"
  shows "\<exists>t. executor_launch_staged r PC s = Some (k, t)
    \<and> (ex_registers t, bus_view m (ex_memory t)) = q"
  using staged_machine.launch_follows [OF assms(1) refl assms(2) _ _ assms(4), of True] assms(3)
  by (simp add: launch_variants machine_cpu_def)

text \<open>A count-down loop, \<^verbatim>\<open>LDX #2; loop: DEX; BNE loop\<close>, then an illegal opcode.\<close>

lemma count_down:
  "ref_program isa_6502_base_table conforms (PC_end_of whole_range) 5 (sample_registers\<lparr>reg_PC := 0\<rparr>,
      bus_view 0 (sample_bus (program [0xA2, 0x02, 0xCA, 0xD0, 0xFD, 0x02])))
    = Some ((sample_registers\<lparr>reg_PC := 6, reg_SR := 0x02\<rparr>,
      bus_view 0 (sample_bus (program [0xA2, 0x02, 0xCA, 0xD0, 0xFD, 0x02]))), 12)"
  by (simp add: program_eval sample_registers_def)

text \<open>On a 65C02, \<^verbatim>\<open>LDA #5; INC A; BRA +1\<close> over an illegal opcode to another one.\<close>

lemma skip_ahead:
  "ref_program isa_65C02_table conforms (PC_end_of whole_range) 3 (sample_registers\<lparr>reg_PC := 0\<rparr>,
      bus_view 0 (sample_bus (program [0xA9, 0x05, 0x1A, 0x80, 0x01, 0x02, 0x02])))
    = Some ((sample_registers\<lparr>reg_PC := 7, reg_A := 6\<rparr>,
      bus_view 0 (sample_bus (program [0xA9, 0x05, 0x1A, 0x80, 0x01, 0x02, 0x02]))), 8)"
  by (simp add: program_eval program65_opcodes sample_registers_def)

theorem staged_launch_runs_program_witness:
  "(\<exists>t. executor_launch_staged whole_range 0 (sample_machine (program [0xA2, 0x02, 0xCA, 0xD0, 0xFD, 0x02]) [])
      = Some (12, t) \<and> reg_X (ex_registers t) = 0 \<and> reg_PC (ex_registers t) = 6)
   \<and> (\<exists>t. executor_launch_staged whole_range 0
        ((sample_machine (program [0xA9, 0x05, 0x1A, 0x80, 0x01, 0x02, 0x02]) [])\<lparr>ex_isa := isa_65C02_table\<rparr>)
      = Some (8, t) \<and> reg_A (ex_registers t) = 6 \<and> reg_PC (ex_registers t) = 7)"
proof
  let ?s = "sample_machine (program [0xA2, 0x02, 0xCA, 0xD0, 0xFD, 0x02]) []"
  have r: "ex_registers ?s = sample_registers" by (simp add: sample_machine_def)
  show "\<exists>t. executor_launch_staged whole_range 0 ?s
      = Some (12, t) \<and> reg_X (ex_registers t) = 0 \<and> reg_PC (ex_registers t) = 6"
    using staged_launch_runs_program [of 0 ?s whole_range 5 0, unfolded r sample_fields, OF _ _ _ count_down]
    by (auto simp: sample_bus_ram sample_registers_def)
next
  let ?s = "(sample_machine (program [0xA9, 0x05, 0x1A, 0x80, 0x01, 0x02, 0x02]) [])\<lparr>ex_isa := isa_65C02_table\<rparr>"
  show "\<exists>t. executor_launch_staged whole_range 0 ?s
      = Some (8, t) \<and> reg_A (ex_registers t) = 6 \<and> reg_PC (ex_registers t) = 7"
    using staged_launch_runs_program [of 0 ?s whole_range 3 0] skip_ahead
    by (auto simp: sample_bus_ram sample_machine_def sample_registers_def)
qed



end
