(* ===== verification/Isa_Props.thy ===== *)
theory Isa_Props
  imports Conformance
begin

text \<open>
  Properties of single instructions: arithmetic, stack and subroutines, interrupts, branches, the
  cycles of the staged bodies, and the places where the code leaves the processor it emulates.
\<close>

section \<open>Both bodies of an instruction\<close>



section \<open>Subtraction\<close>

text \<open>The bodies of subtraction read the operand like those of addition.\<close>

lemma subtract_run:
  assumes "ram_bus m (memory c)" "cycle_count c = 1" "addressing_mode c \<in> operand_modes \<union> load_modes"
    "\<not> has_bit 3 (registers c)"
  shows "\<exists>c'. staged_outcome 8 isa_6502_SBC l c = Some (isa_6502_instr_stage_end, c')
    \<and> registers c' = sbc_finish False (widen (operand_at (addressing_mode c) (cpu_of m c))) 0
        (skip_operand (addressing_mode c) (registers c))"
  using assms
  by (auto simp: operand_modes_def load_modes_def run_defs alu_staged_defs ctx_defs ram_read [of m]
      decimal_mode_def get_bit_iff has_bit_def simp del: results_are_ref)

lemma skip_operand_frame [simp]:
  "reg_A (skip_operand md r) = reg_A r" "reg_SR (skip_operand md r) = reg_SR r"
  "carry_of (skip_operand md r) = carry_of r"
  by (simp_all add: skip_operand_def carry_of_bit split: option.splits)

text \<open>C17 (functional).  \<^verbatim>\<open>SBC\<close> in binary mode computes \<open>A - M - 1 + C\<close> modulo 256 with the right zero and
  negative flags, and sets the carry exactly when the subtraction borrows, where the processor clears
  it.\<close>

theorem subtraction_sets_carry_on_borrow:
  assumes "ram_bus m (memory c)" "cycle_count c = 1" "addressing_mode c \<in> operand_modes \<union> load_modes"
    "\<not> has_bit 3 (registers c)"
  defines "A \<equiv> unat (reg_A (registers c))"
    and "M \<equiv> unat (operand_at (addressing_mode c) (cpu_of m c))"
    and "C \<equiv> (of_bool (has_bit 0 (registers c)) :: nat)"
  shows "\<exists>c'. staged_outcome 8 isa_6502_SBC l c = Some (isa_6502_instr_stage_end, c')
    \<and> int (unat (reg_A (registers c'))) = (int A - int M - 1 + int C) mod 256
    \<and> (has_bit 0 (registers c') \<longleftrightarrow> int A - int M - 1 + int C < 0)
    \<and> (has_bit 1 (registers c') \<longleftrightarrow> reg_A (registers c') = 0)
    \<and> (has_bit 7 (registers c') \<longleftrightarrow> sint (reg_A (registers c')) < 0)"
proof -
  let ?v = "operand_at (addressing_mode c) (cpu_of m c)"
    and ?r = "skip_operand (addressing_mode c) (registers c)"
  have C: "carry_of (registers c) = C" by (simp add: C_def carry_of_bit has_bit_def)
  obtain c' where c': "staged_outcome 8 isa_6502_SBC l c = Some (isa_6502_instr_stage_end, c')"
    "registers c' = sbc_finish False (widen ?v) 0 ?r"
    using subtract_run [OF assms(1-4)] by blast
  have "int A - int M - 1 + int C < 0 \<longleftrightarrow> A + C \<le> M" by linarith
  then show ?thesis
    using c' sbc_binary [of ?v ?r] by (simp add: C A_def M_def has_bit_def del: One_nat_def)
qed

text \<open>\<open>5 - 3\<close> with the carry set leaves 2 and clears the carry; \<open>3 - 5\<close> leaves 254 and sets it.\<close>

theorem subtraction_sets_carry_on_borrow_witness:
  "\<exists>c'. staged_outcome 8 isa_6502_SBC sample_locals (sample_context (program [0xE9, 5])
      isa_6502_addressing_immediate (odd_registers\<lparr>reg_A := 3, reg_SR := 1\<rparr>))
    = Some (isa_6502_instr_stage_end, c') \<and> uint (reg_A (registers c')) = 254 \<and> has_bit 0 (registers c')"
  using subtraction_sets_carry_on_borrow [of 0 "sample_context (program [0xE9, 5])
      isa_6502_addressing_immediate (odd_registers\<lparr>reg_A := 3, reg_SR := 1\<rparr>)" sample_locals]
  by (auto simp: sample_context_def sample_bus_ram load_modes_def has_bit_def cpu_of_def operand_at_def
      sample_view program_def simp del: run_cycles_numeral)

section \<open>Shifts in memory\<close>

text \<open>C18 (safety).  The staged \<^verbatim>\<open>ASL\<close>, \<^verbatim>\<open>LSR\<close>, \<^verbatim>\<open>ROL\<close> and \<^verbatim>\<open>ROR\<close> of a memory operand run for the documented number
  of cycles and change flags, but never write: memory is as it was, whatever the operand.\<close>

theorem staged_memory_shift_is_lost:
  assumes "ram_bus m (memory c)" "cycle_count c = 1" "addressing_mode c \<in> step_modes" "f \<in> shift_ops"
  shows "\<exists>c'. staged_outcome 8 (staged_fn f) l c = Some (isa_6502_instr_stage_end, c')
    \<and> bus_view m (memory c') = bus_view m (memory c)
    \<and> cycle_count c' = modify_cycles (addressing_mode c)
    \<and> reg_A (registers c') = reg_A (registers c)"
  using assms
  by (auto simp: step_modes_def shift_ops_def staged_outcome_def Let_def rmw_staged_defs ctx_defs
      ram_read [of m] shift_status_def split: prod.splits)

theorem staged_memory_shift_is_lost_witness:
  "\<exists>c'. staged_outcome 8 isa_6502_ASL sample_locals (odd_context isa_6502_addressing_zeropage)
      = Some (isa_6502_instr_stage_end, c') \<and> bus_view 0 (memory c') 5 = 0x60 \<and> cycle_count c' = 5"
  using staged_memory_shift_is_lost [of 0 "odd_context isa_6502_addressing_zeropage" op_ASL sample_locals]
  by (auto simp: sample_context_def sample_bus_ram step_modes_def shift_ops_def sample_view program_def
      simp del: run_cycles_numeral)

section \<open>Branches\<close>

definition branch_ops :: "isa_6502_op set" where
  "branch_ops = {op_BCC, op_BCS, op_BNE, op_BEQ, op_BVC, op_BVS, op_BPL, op_BMI,
     op_65C02 c02_BRA}"

text \<open>C19 (safety).  No static branch body branches, of either dialect: on any bus, taken or not, the program counter is left
  behind the operand.\<close>

theorem static_branch_falls_through:
  assumes "f \<in> branch_ops" "static_fn f at_stage l c = Some (at_stage', c')"
  shows "registers c' = (registers c)\<lparr>reg_PC := reg_PC (registers c) + 1\<rparr>"
  using assms
  by (auto simp: branch_ops_def flow_static_defs flow65_static_defs flow_shared_defs ctx_defs Let_def split: bind_splits if_splits)

lemma static_body_answers:
  assumes "bus_ok (memory c)"
  shows "\<exists>st c'. static_fn f at_stage l c = Some (st, c')"
  using ok_bus.static_keeps [OF assms, of f at_stage l]
  by (cases "static_fn f at_stage l c") (simp add: ok_bus.keeps_def, auto)

theorem static_branch_falls_through_witness:
  "\<exists>st c'. isa_6502_static_BCC isa_6502_instr_stage_next_cycle sample_locals
      (odd_context isa_6502_addressing_relative) = Some (st, c')
    \<and> reg_PC (registers c') = 2 \<and> reg_PC (fst (ref_step op_BCC isa_6502_addressing_relative
        (cpu_of 0 (odd_context isa_6502_addressing_relative)))) = 7"
proof -
  have ok: "bus_ok (memory (odd_context isa_6502_addressing_relative))"
    by (simp add: sample_context_def sample_bus_ok)
  obtain st c' where "static_fn op_BCC isa_6502_instr_stage_next_cycle sample_locals
      (odd_context isa_6502_addressing_relative) = Some (st, c')"
    using static_body_answers [OF ok] by blast
  with static_branch_falls_through [OF _ this] show ?thesis
    by (auto simp: branch_ops_def ref_eval)
qed

section \<open>Stack and subroutines\<close>

text \<open>The context of the next instruction of the same program: opcode fetched.\<close>

definition next_instr :: "isa_6502_addressing \<Rightarrow> isa_6502_instr_context \<Rightarrow> isa_6502_instr_context" where
  "next_instr md c = c\<lparr>addressing_mode := md, cycle_count := 1\<rparr>"

lemma stack_address_page [simp]: "hi_byte (stack_address sp) = 1"
  by (simp add: stack_address_def)

lemma stack_address_vector [simp]:
  "0xFFFA \<noteq> stack_address sp" "0xFFFB \<noteq> stack_address sp" "0xFFFE \<noteq> stack_address sp"
  "0xFFFF \<noteq> stack_address sp"
  using stack_address_page [of sp] by (auto simp: hi_byte_def)

lemma stack_address_inj [simp]: "stack_address a = stack_address b \<longleftrightarrow> a = b"
  by (metis lo_join stack_address_def)

text \<open>C16 (roundtrip).  \<^verbatim>\<open>RTS\<close> undoes \<^verbatim>\<open>JSR\<close>: executed at the entry of the called routine it returns to the
  instruction behind the call with the stack pointer and all registers of the caller, even where the
  stack pointer wraps around in page 1.\<close>

theorem return_undoes_call:
  assumes "ram_bus m (memory c)" "cycle_count c = 1"
  shows "\<exists>c1 c2. staged_outcome 8 isa_6502_JSR l c = Some (isa_6502_instr_stage_end, c1)
    \<and> reg_PC (registers c1) = word_at (bus_view m (memory c)) (reg_PC (registers c))
    \<and> staged_outcome 8 isa_6502_RTS l' (next_instr isa_6502_addressing_implied c1)
        = Some (isa_6502_instr_stage_end, c2)
    \<and> registers c2 = (registers c)\<lparr>reg_PC := reg_PC (registers c) + 2\<rparr>"
proof -
  have "widen (lo_byte w) OR push_bit 8 (widen (hi_byte w)) = w" for w :: u16
    using join_hi_lo [of w] by (simp add: join_bytes_def)
  then show ?thesis
    using assms
    by (auto simp: staged_outcome_def next_instr_def flow_staged_defs flow_shared_defs ctx_defs Let_def
        ram_read [of m] ram_write [of m] stack_address_eq word_at_def join_bytes_def add.commute [of 2])
qed

theorem return_undoes_call_witness:
  "\<exists>c1 c2. staged_outcome 8 isa_6502_JSR sample_locals (odd_context isa_6502_addressing_absolute)
        = Some (isa_6502_instr_stage_end, c1)
    \<and> reg_PC (registers c1) = 5
    \<and> staged_outcome 8 isa_6502_RTS sample_locals (next_instr isa_6502_addressing_implied c1)
        = Some (isa_6502_instr_stage_end, c2)
    \<and> registers c2 = odd_registers\<lparr>reg_PC := 3\<rparr>"
  using return_undoes_call [of 0 "odd_context isa_6502_addressing_absolute" sample_locals sample_locals]
  by (simp add: sample_context_def sample_bus_ram sample_view program_def word_at_def join_bytes_def
      del: run_cycles_numeral)

text \<open>\<^verbatim>\<open>PLA\<close> restores the accumulator that \<^verbatim>\<open>PHA\<close> pushed and sets the zero and
  negative flags from it, whatever the instructions between left in A and the flags.\<close>

theorem pull_undoes_push:
  assumes "ram_bus m (memory c)" "cycle_count c = 1"
  shows "\<exists>c1 c2. staged_outcome 8 isa_6502_PHA l c = Some (isa_6502_instr_stage_end, c1)
    \<and> staged_outcome 8 isa_6502_PLA l' (next_instr md (with_reg (\<lambda>r. r\<lparr>reg_A := x, reg_SR := y\<rparr>) c1))
        = Some (isa_6502_instr_stage_end, c2)
    \<and> registers c2 = set_A (reg_A (registers c)) ((registers c)\<lparr>reg_SR := y\<rparr>)"
  using assms
  by (simp add: staged_outcome_def next_instr_def implied_staged_defs ctx_defs Let_def
      ram_read [of m] ram_write [of m] stack_address_eq did_set_is_status status_flags set_A_def
      flag_NZ_def flag_def)

theorem pull_undoes_push_witness:
  "\<exists>c1 c2. staged_outcome 8 isa_6502_PHA sample_locals (odd_context isa_6502_addressing_implied)
        = Some (isa_6502_instr_stage_end, c1)
    \<and> staged_outcome 8 isa_6502_PLA sample_locals (next_instr isa_6502_addressing_implied
          (with_reg (\<lambda>r. r\<lparr>reg_A := 7, reg_SR := 0x82\<rparr>) c1)) = Some (isa_6502_instr_stage_end, c2)
    \<and> reg_A (registers c2) = 0x50 \<and> reg_SR (registers c2) = 0"
  using pull_undoes_push [of 0 "odd_context isa_6502_addressing_implied" sample_locals sample_locals
      isa_6502_addressing_implied "0x82" 7]
  by (auto simp: sample_context_def sample_bus_ram set_A_def flag_NZ_def flag_def unset_bit_eq_and_not
      simp del: run_cycles_numeral)

section \<open>Interrupts\<close>

text \<open>\<^verbatim>\<open>BRK\<close> pushes the address of the byte behind its operand and the status with B set,
  sets I and continues at the address in the NMI vector \<open>$FFFA\<close>, where the processor takes the one
  at \<open>$FFFE\<close>; an \<^verbatim>\<open>RTI\<close> in the handler resumes the program with its status, bits 4 and 5 cleared.\<close>

theorem break_uses_nmi_vector:
  assumes "ram_bus m (memory c)" "cycle_count c = 1"
  shows "\<exists>c1 c2. staged_outcome 8 isa_6502_BRK l c = Some (isa_6502_instr_stage_end, c1)
    \<and> reg_PC (registers c1) = word_at (bus_view m (memory c)) 0xFFFA
    \<and> has_bit 2 (registers c1)
    \<and> staged_outcome 8 isa_6502_RTI l' (next_instr md c1) = Some (isa_6502_instr_stage_end, c2)
    \<and> registers c2 = (registers c)\<lparr>reg_PC := reg_PC (registers c) + 1,
        reg_SR := reg_SR (registers c) AND NOT 0x30\<rparr>"
proof -
  have w: "widen (lo_byte w) OR push_bit 8 (widen (hi_byte w)) = w" for w :: u16
    using join_hi_lo [of w] by (simp add: join_bytes_def)
  have "(x OR register_SR_Bit_B) AND NOT register_SR_Bit_B AND NOT register_SR_Bit_IGN = x AND - 49"
    for x :: u8
    by (simp add: sr_bit_defs word_ao_dist and.assoc)
  with w show ?thesis
    using assms
    by (simp add: staged_outcome_def next_instr_def flow_staged_defs flow_shared_defs ctx_defs Let_def
        ram_read [of m] ram_write [of m] stack_address_eq word_at_def join_bytes_def has_bit_def
        set_bit_flag vector_addr_defs flag_def bit_set_bit_iff)
qed

theorem break_uses_nmi_vector_witness:
  "\<exists>c1 c2. staged_outcome 8 isa_6502_BRK sample_locals
        (sample_context ((program [0x00, 0x00, 0xEA])(0xFFFB := 0x20, 0xFFFE := 0x30)) isa_6502_addressing_implied
          (odd_registers\<lparr>reg_SR := 1\<rparr>)) = Some (isa_6502_instr_stage_end, c1)
    \<and> reg_PC (registers c1) = 0x2000
    \<and> staged_outcome 8 isa_6502_RTI sample_locals (next_instr isa_6502_addressing_implied c1)
        = Some (isa_6502_instr_stage_end, c2)
    \<and> registers c2 = odd_registers\<lparr>reg_PC := 2, reg_SR := 1\<rparr>"
  using break_uses_nmi_vector [of 0 "sample_context ((program [0x00, 0x00, 0xEA])(0xFFFB := 0x20, 0xFFFE := 0x30))
      isa_6502_addressing_implied (odd_registers\<lparr>reg_SR := 1\<rparr>)" sample_locals sample_locals
      isa_6502_addressing_implied]
  by (auto simp: sample_context_def sample_bus_ram sample_view program_def word_at_def join_bytes_def
      simp del: run_cycles_numeral)

end
