(* ===== verification/Isa_Ends.thy ===== *)
theory Isa_Ends
  imports Conformance65
begin

text \<open>
  When the staged bodies end: which of the two dispatch tables return from every well-formed bus within
  seven cycles, and which never do.
\<close>

section \<open>Accesses on a well-formed bus\<close>

text \<open>What an access answers, as rewrite rules.\<close>

definition bus_value :: "membus \<Rightarrow> u16 \<Rightarrow> u8" where
  "bus_value b a = fst (the (membus_read_addr b a))"

definition bus_read :: "membus \<Rightarrow> u16 \<Rightarrow> membus" where
  "bus_read b a = snd (the (membus_read_addr b a))"

definition bus_written :: "membus \<Rightarrow> u16 \<Rightarrow> u8 \<Rightarrow> membus" where
  "bus_written b a v = the (membus_write_addr b a v)"

lemma ok_access:
  "bus_ok b \<Longrightarrow> membus_read_addr b a = Some (bus_value b a, bus_read b a)"
  "bus_ok b \<Longrightarrow> membus_write_addr b a v = Some (bus_written b a v)"
  "bus_ok b \<Longrightarrow> bus_ok (bus_read b a)" "bus_ok b \<Longrightarrow> bus_ok (bus_written b a v)"
  using read_addr_ok [of b a] write_addr_ok [of b a v]
  by (auto simp: bus_value_def bus_read_def bus_written_def)

section \<open>The modes the table asks for\<close>

primrec table65_modes :: "isa_65C02_op \<Rightarrow> isa_6502_addressing list" where
  "table65_modes c02_AND = [isa_6502_addressing_x_indexed_indirect, isa_6502_addressing_zeropage,
     isa_6502_addressing_immediate, isa_6502_addressing_absolute, isa_6502_addressing_indirect_y_indexed,
     isa_6502_addressing_zeropage_x_indexed, isa_6502_addressing_absolute_y_indexed,
     isa_6502_addressing_absolute_x_indexed, isa_6502_addressing_zeropage_indirect]"
| "table65_modes c02_EOR = [isa_6502_addressing_x_indexed_indirect, isa_6502_addressing_zeropage,
     isa_6502_addressing_immediate, isa_6502_addressing_absolute, isa_6502_addressing_indirect_y_indexed,
     isa_6502_addressing_zeropage_x_indexed, isa_6502_addressing_absolute_y_indexed,
     isa_6502_addressing_absolute_x_indexed, isa_6502_addressing_zeropage_indirect]"
| "table65_modes c02_ORA = [isa_6502_addressing_x_indexed_indirect, isa_6502_addressing_zeropage,
     isa_6502_addressing_immediate, isa_6502_addressing_absolute, isa_6502_addressing_indirect_y_indexed,
     isa_6502_addressing_zeropage_x_indexed, isa_6502_addressing_absolute_y_indexed,
     isa_6502_addressing_absolute_x_indexed, isa_6502_addressing_zeropage_indirect]"
| "table65_modes c02_ADC = [isa_6502_addressing_x_indexed_indirect, isa_6502_addressing_zeropage,
     isa_6502_addressing_immediate, isa_6502_addressing_absolute, isa_6502_addressing_indirect_y_indexed,
     isa_6502_addressing_zeropage_x_indexed, isa_6502_addressing_absolute_y_indexed,
     isa_6502_addressing_absolute_x_indexed, isa_6502_addressing_zeropage_indirect]"
| "table65_modes c02_SBC = [isa_6502_addressing_x_indexed_indirect, isa_6502_addressing_zeropage,
     isa_6502_addressing_immediate, isa_6502_addressing_absolute, isa_6502_addressing_indirect_y_indexed,
     isa_6502_addressing_zeropage_x_indexed, isa_6502_addressing_absolute_y_indexed,
     isa_6502_addressing_absolute_x_indexed, isa_6502_addressing_zeropage_indirect]"
| "table65_modes c02_LDA = [isa_6502_addressing_x_indexed_indirect, isa_6502_addressing_zeropage,
     isa_6502_addressing_immediate, isa_6502_addressing_absolute, isa_6502_addressing_indirect_y_indexed,
     isa_6502_addressing_zeropage_x_indexed, isa_6502_addressing_absolute_y_indexed,
     isa_6502_addressing_absolute_x_indexed, isa_6502_addressing_zeropage_indirect]"
| "table65_modes c02_STA = [isa_6502_addressing_x_indexed_indirect, isa_6502_addressing_zeropage,
     isa_6502_addressing_absolute, isa_6502_addressing_indirect_y_indexed,
     isa_6502_addressing_zeropage_x_indexed, isa_6502_addressing_absolute_y_indexed,
     isa_6502_addressing_absolute_x_indexed, isa_6502_addressing_zeropage_indirect]"
| "table65_modes c02_STZ = [isa_6502_addressing_zeropage, isa_6502_addressing_zeropage_x_indexed,
     isa_6502_addressing_absolute, isa_6502_addressing_absolute_x_indexed]"
| "table65_modes c02_CMP = [isa_6502_addressing_x_indexed_indirect, isa_6502_addressing_zeropage,
     isa_6502_addressing_immediate, isa_6502_addressing_absolute, isa_6502_addressing_indirect_y_indexed,
     isa_6502_addressing_zeropage_x_indexed, isa_6502_addressing_absolute_y_indexed,
     isa_6502_addressing_absolute_x_indexed, isa_6502_addressing_zeropage_indirect]"
| "table65_modes c02_BIT = [isa_6502_addressing_zeropage, isa_6502_addressing_absolute,
     isa_6502_addressing_zeropage_x_indexed, isa_6502_addressing_absolute_x_indexed,
     isa_6502_addressing_immediate]"
| "table65_modes c02_INC = [isa_6502_addressing_accumulator, isa_6502_addressing_zeropage,
     isa_6502_addressing_absolute, isa_6502_addressing_zeropage_x_indexed,
     isa_6502_addressing_absolute_x_indexed]"
| "table65_modes c02_DEC = [isa_6502_addressing_accumulator, isa_6502_addressing_zeropage,
     isa_6502_addressing_absolute, isa_6502_addressing_zeropage_x_indexed,
     isa_6502_addressing_absolute_x_indexed]"
| "table65_modes c02_ASL = [isa_6502_addressing_zeropage, isa_6502_addressing_accumulator,
     isa_6502_addressing_absolute, isa_6502_addressing_zeropage_x_indexed,
     isa_6502_addressing_absolute_x_indexed]"
| "table65_modes c02_ROL = [isa_6502_addressing_zeropage, isa_6502_addressing_accumulator,
     isa_6502_addressing_absolute, isa_6502_addressing_zeropage_x_indexed,
     isa_6502_addressing_absolute_x_indexed]"
| "table65_modes c02_LSR = [isa_6502_addressing_zeropage, isa_6502_addressing_accumulator,
     isa_6502_addressing_absolute, isa_6502_addressing_zeropage_x_indexed,
     isa_6502_addressing_absolute_x_indexed]"
| "table65_modes c02_ROR = [isa_6502_addressing_zeropage, isa_6502_addressing_accumulator,
     isa_6502_addressing_absolute, isa_6502_addressing_zeropage_x_indexed,
     isa_6502_addressing_absolute_x_indexed]"
| "table65_modes c02_TSB = [isa_6502_addressing_zeropage, isa_6502_addressing_absolute]"
| "table65_modes c02_TRB = [isa_6502_addressing_zeropage, isa_6502_addressing_absolute]"
| "table65_modes c02_BRA = [isa_6502_addressing_relative]"
| "table65_modes c02_JMP = [isa_6502_addressing_absolute, isa_6502_addressing_indirect,
     isa_6502_addressing_absolute_x_indexed_indirect]"
| "table65_modes c02_BRK = [isa_6502_addressing_implied]"
| "table65_modes c02_PHX = [isa_6502_addressing_implied]"
| "table65_modes c02_PHY = [isa_6502_addressing_implied]"
| "table65_modes c02_PLX = [isa_6502_addressing_implied]"
| "table65_modes c02_PLY = [isa_6502_addressing_implied]"
| "table65_modes c02_IRQ = []"
| "table65_modes c02_NMI = []"
| "table65_modes c02_RESET = []"

primrec table_modes :: "isa_6502_op \<Rightarrow> isa_6502_addressing list" where
  "table_modes op_BRK = [isa_6502_addressing_implied]"
| "table_modes op_PHP = [isa_6502_addressing_implied]"
| "table_modes op_BPL = [isa_6502_addressing_relative]"
| "table_modes op_CLC = [isa_6502_addressing_implied]"
| "table_modes op_JSR = [isa_6502_addressing_absolute]"
| "table_modes op_PLP = [isa_6502_addressing_implied]"
| "table_modes op_BIT = [isa_6502_addressing_zeropage, isa_6502_addressing_absolute]"
| "table_modes op_BMI = [isa_6502_addressing_relative]"
| "table_modes op_SEC = [isa_6502_addressing_implied]"
| "table_modes op_RTI = [isa_6502_addressing_implied]"
| "table_modes op_PHA = [isa_6502_addressing_implied]"
| "table_modes op_BVC = [isa_6502_addressing_relative]"
| "table_modes op_CLI = [isa_6502_addressing_implied]"
| "table_modes op_RTS = [isa_6502_addressing_implied]"
| "table_modes op_PLA = [isa_6502_addressing_implied]"
| "table_modes op_JMP = [isa_6502_addressing_absolute, isa_6502_addressing_indirect]"
| "table_modes op_BVS = [isa_6502_addressing_relative]"
| "table_modes op_SEI = [isa_6502_addressing_implied]"
| "table_modes op_DEY = [isa_6502_addressing_implied]"
| "table_modes op_BCC = [isa_6502_addressing_relative]"
| "table_modes op_STY = [isa_6502_addressing_zeropage, isa_6502_addressing_absolute,
     isa_6502_addressing_zeropage_x_indexed]"
| "table_modes op_TYA = [isa_6502_addressing_implied]"
| "table_modes op_TAY = [isa_6502_addressing_implied]"
| "table_modes op_BCS = [isa_6502_addressing_relative]"
| "table_modes op_CLV = [isa_6502_addressing_implied]"
| "table_modes op_LDY = [isa_6502_addressing_immediate, isa_6502_addressing_zeropage,
     isa_6502_addressing_absolute, isa_6502_addressing_zeropage_x_indexed,
     isa_6502_addressing_absolute_x_indexed]"
| "table_modes op_INY = [isa_6502_addressing_implied]"
| "table_modes op_CPY = [isa_6502_addressing_immediate, isa_6502_addressing_zeropage,
     isa_6502_addressing_absolute]"
| "table_modes op_BNE = [isa_6502_addressing_relative]"
| "table_modes op_CLD = [isa_6502_addressing_implied]"
| "table_modes op_INX = [isa_6502_addressing_implied]"
| "table_modes op_CPX = [isa_6502_addressing_immediate, isa_6502_addressing_zeropage,
     isa_6502_addressing_absolute]"
| "table_modes op_BEQ = [isa_6502_addressing_relative]"
| "table_modes op_SED = [isa_6502_addressing_implied]"
| "table_modes op_ORA = [isa_6502_addressing_x_indexed_indirect, isa_6502_addressing_zeropage,
     isa_6502_addressing_immediate, isa_6502_addressing_absolute,
     isa_6502_addressing_indirect_y_indexed, isa_6502_addressing_zeropage_x_indexed,
     isa_6502_addressing_absolute_y_indexed, isa_6502_addressing_absolute_x_indexed]"
| "table_modes op_AND = [isa_6502_addressing_x_indexed_indirect, isa_6502_addressing_zeropage,
     isa_6502_addressing_immediate, isa_6502_addressing_absolute,
     isa_6502_addressing_indirect_y_indexed, isa_6502_addressing_zeropage_x_indexed,
     isa_6502_addressing_absolute_y_indexed, isa_6502_addressing_absolute_x_indexed]"
| "table_modes op_EOR = [isa_6502_addressing_x_indexed_indirect, isa_6502_addressing_zeropage,
     isa_6502_addressing_immediate, isa_6502_addressing_absolute,
     isa_6502_addressing_indirect_y_indexed, isa_6502_addressing_zeropage_x_indexed,
     isa_6502_addressing_absolute_y_indexed, isa_6502_addressing_absolute_x_indexed]"
| "table_modes op_ADC = [isa_6502_addressing_x_indexed_indirect, isa_6502_addressing_zeropage,
     isa_6502_addressing_immediate, isa_6502_addressing_absolute,
     isa_6502_addressing_indirect_y_indexed, isa_6502_addressing_zeropage_x_indexed,
     isa_6502_addressing_absolute_y_indexed, isa_6502_addressing_absolute_x_indexed]"
| "table_modes op_STA = [isa_6502_addressing_x_indexed_indirect, isa_6502_addressing_zeropage,
     isa_6502_addressing_absolute, isa_6502_addressing_indirect_y_indexed,
     isa_6502_addressing_zeropage_x_indexed, isa_6502_addressing_absolute_y_indexed,
     isa_6502_addressing_absolute_x_indexed]"
| "table_modes op_LDA = [isa_6502_addressing_x_indexed_indirect, isa_6502_addressing_zeropage,
     isa_6502_addressing_immediate, isa_6502_addressing_absolute,
     isa_6502_addressing_indirect_y_indexed, isa_6502_addressing_zeropage_x_indexed,
     isa_6502_addressing_absolute_y_indexed, isa_6502_addressing_absolute_x_indexed]"
| "table_modes op_CMP = [isa_6502_addressing_x_indexed_indirect, isa_6502_addressing_zeropage,
     isa_6502_addressing_immediate, isa_6502_addressing_absolute,
     isa_6502_addressing_indirect_y_indexed, isa_6502_addressing_zeropage_x_indexed,
     isa_6502_addressing_absolute_y_indexed, isa_6502_addressing_absolute_x_indexed]"
| "table_modes op_SBC = [isa_6502_addressing_x_indexed_indirect, isa_6502_addressing_zeropage,
     isa_6502_addressing_immediate, isa_6502_addressing_absolute,
     isa_6502_addressing_indirect_y_indexed, isa_6502_addressing_zeropage_x_indexed,
     isa_6502_addressing_absolute_y_indexed, isa_6502_addressing_absolute_x_indexed]"
| "table_modes op_ASL = [isa_6502_addressing_zeropage, isa_6502_addressing_accumulator,
     isa_6502_addressing_absolute, isa_6502_addressing_zeropage_x_indexed,
     isa_6502_addressing_absolute_x_indexed]"
| "table_modes op_ROL = [isa_6502_addressing_zeropage, isa_6502_addressing_accumulator,
     isa_6502_addressing_absolute, isa_6502_addressing_zeropage_x_indexed,
     isa_6502_addressing_absolute_x_indexed]"
| "table_modes op_LSR = [isa_6502_addressing_zeropage, isa_6502_addressing_accumulator,
     isa_6502_addressing_absolute, isa_6502_addressing_zeropage_x_indexed,
     isa_6502_addressing_absolute_x_indexed]"
| "table_modes op_ROR = [isa_6502_addressing_zeropage, isa_6502_addressing_accumulator,
     isa_6502_addressing_absolute, isa_6502_addressing_zeropage_x_indexed,
     isa_6502_addressing_absolute_x_indexed]"
| "table_modes op_TXA = [isa_6502_addressing_implied]"
| "table_modes op_STX = [isa_6502_addressing_zeropage, isa_6502_addressing_absolute,
     isa_6502_addressing_zeropage_y_indexed]"
| "table_modes op_TXS = [isa_6502_addressing_implied]"
| "table_modes op_TAX = [isa_6502_addressing_implied]"
| "table_modes op_TSX = [isa_6502_addressing_implied]"
| "table_modes op_LDX = [isa_6502_addressing_immediate, isa_6502_addressing_zeropage,
     isa_6502_addressing_absolute, isa_6502_addressing_zeropage_y_indexed,
     isa_6502_addressing_absolute_y_indexed]"
| "table_modes op_DEX = [isa_6502_addressing_implied]"
| "table_modes op_DEC = [isa_6502_addressing_zeropage, isa_6502_addressing_absolute,
     isa_6502_addressing_zeropage_x_indexed, isa_6502_addressing_absolute_x_indexed]"
| "table_modes op_NOP = [isa_6502_addressing_implied]"
| "table_modes op_INC = [isa_6502_addressing_zeropage, isa_6502_addressing_absolute,
     isa_6502_addressing_zeropage_x_indexed, isa_6502_addressing_absolute_x_indexed]"
| "table_modes op_IRQ = []"
| "table_modes op_NMI = []"
| "table_modes op_RESET = []"
| "table_modes (op_65C02 g) = table65_modes g"

text \<open>The entries of the two dialects.\<close>

definition dialect_entries :: "(isa_6502_op \<times> isa_6502_addressing) set" where
  "dialect_entries = set (legal_entries isa_6502_base_table) \<union> set (legal_entries isa_65C02_table)"

lemma in_table: "(f, md) \<in> dialect_entries \<Longrightarrow> md \<in> set (table_modes f)"
proof -
  have "list_all (\<lambda>(f, md). md \<in> set (table_modes f)) (legal_entries isa_6502_base_table)" by code_simp
  moreover have "list_all (\<lambda>(f, md). md \<in> set (table_modes f)) (legal_entries isa_65C02_table)" by code_simp
  ultimately show "(f, md) \<in> dialect_entries \<Longrightarrow> md \<in> set (table_modes f)"
    by (auto simp: list_all_iff dialect_entries_def)
qed

section \<open>Bodies that end\<close>

text \<open>The entries whose staged body answers \<open>next_cycle\<close> for ever.\<close>

definition endless_entries :: "(isa_6502_op \<times> isa_6502_addressing) set" where
  "endless_entries =
    {(op_STA, isa_6502_addressing_x_indexed_indirect), (op_STA, isa_6502_addressing_indirect_y_indexed),
     (op_LDX, isa_6502_addressing_zeropage_y_indexed), (op_LDX, isa_6502_addressing_absolute_y_indexed),
     (op_65C02 c02_STA, isa_6502_addressing_x_indexed_indirect),
     (op_65C02 c02_STA, isa_6502_addressing_indirect_y_indexed),
     (op_65C02 c02_ADC, isa_6502_addressing_zeropage_indirect),
     (op_65C02 c02_SBC, isa_6502_addressing_zeropage_indirect)}"

definition ends_by :: "nat \<Rightarrow> isa_6502_op \<Rightarrow> isa_locals \<Rightarrow> isa_6502_instr_context \<Rightarrow> bool" where
  "ends_by n f l c \<longleftrightarrow> (\<exists>l' c'. run_cycles n (staged_fn f) l c = instr_end l' c')"

lemmas end_defs = ends_by_def Let_def ctx_defs flow_shared_defs ok_access

lemma load_ends:
  assumes "bus_ok (memory c)" "cycle_count c = 1" "(f, addressing_mode c) \<notin> endless_entries"
    "addressing_mode c \<in> set (table_modes f)" "f \<in> {op_LDA, op_LDX, op_LDY, op_STA, op_STX, op_STY}"
  shows "ends_by 7 f l c"
  using assms(3-5)
  by (elim insertE emptyE; simp add: endless_entries_def; elim disjE;
      simp add: load_staged_defs end_defs assms(1,2))

lemma operand_ends:
  assumes "bus_ok (memory c)" "cycle_count c = 1"
    "addressing_mode c \<in> set (table_modes f)" "f \<in> operand_ops"
  shows "ends_by 7 f l c"
  using assms
  by (auto simp: operand_ops_def) (simp_all add: alu_staged_defs end_defs)

lemma test_ends:
  assumes "bus_ok (memory c)" "cycle_count c = 1"
    "addressing_mode c \<in> set (table_modes f)" "f \<in> {op_CMP, op_CPX, op_CPY, op_BIT}"
  shows "ends_by 7 f l c"
  using assms
  by auto (simp_all add: test_staged_defs end_defs)

lemma step_ends:
  assumes "bus_ok (memory c)" "cycle_count c = 1"
    "addressing_mode c \<in> set (table_modes f)" "f \<in> {op_INC, op_DEC}"
  shows "ends_by 7 f l c"
  using assms
  by auto (simp_all add: rmw_staged_defs end_defs)

lemma shift_ends:
  assumes "bus_ok (memory c)" "cycle_count c = 1"
    "addressing_mode c \<in> set (table_modes f)" "f \<in> shift_ops"
  shows "ends_by 7 f l c"
  using assms
  by (auto simp: shift_ops_def) (simp_all add: rmw_staged_defs split_beta end_defs)

lemma flow_ends:
  assumes "bus_ok (memory c)" "cycle_count c = 1"
    "addressing_mode c \<in> set (table_modes f)"
    "f \<in> {op_BCC, op_BCS, op_BNE, op_BEQ, op_BVC, op_BVS, op_BPL, op_BMI, op_BRK, op_JMP, op_JSR,
       op_RTS, op_RTI, op_PHA, op_PHP, op_PLA, op_PLP}"
  shows "ends_by 7 f l c"
  using assms
  by (auto simp: flow_staged_defs implied_staged_defs end_defs SR_is_clear_def)

lemma implied_ends:
  assumes "f \<in> {op_CLC, op_SEC, op_CLI, op_SEI, op_CLD, op_SED, op_CLV, op_NOP, op_TAX, op_TAY, op_TSX,
       op_TXA, op_TYA, op_TXS, op_INX, op_INY, op_DEX, op_DEY}"
  shows "ends_by 7 f l c"
  using assms by (auto simp: implied_staged_defs one_cycle_def ends_by_def)

lemma operand65_ends:
  assumes "bus_ok (memory c)" "cycle_count c = 1" "(op_65C02 g, addressing_mode c) \<notin> endless_entries"
    "addressing_mode c \<in> set (table65_modes g)" "g \<in> {c02_AND, c02_EOR, c02_ORA, c02_ADC, c02_SBC}"
  shows "ends_by 7 (op_65C02 g) l c"
  using assms(3-5)
  by (elim insertE emptyE; simp add: endless_entries_def; elim disjE;
      simp add: alu65_staged_defs end_defs assms(1,2))

lemma memory65_ends:
  assumes "bus_ok (memory c)" "cycle_count c = 1" "(op_65C02 g, addressing_mode c) \<notin> endless_entries"
    "addressing_mode c \<in> set (table65_modes g)" "g \<in> {c02_LDA, c02_STA, c02_STZ, c02_CMP, c02_BIT}"
  shows "ends_by 7 (op_65C02 g) l c"
  using assms(3-5)
  by (elim insertE emptyE; simp add: endless_entries_def; elim disjE;
      simp add: load65_staged_defs test65_staged_defs ADDR16_zeropage_unshifted_def end_defs assms(1,2))

lemma modify65_ends:
  assumes "bus_ok (memory c)" "cycle_count c = 1" "addressing_mode c \<in> set (table65_modes g)"
    "g \<in> {c02_INC, c02_DEC, c02_ASL, c02_ROL, c02_LSR, c02_ROR, c02_TSB, c02_TRB}"
  shows "ends_by 7 (op_65C02 g) l c"
  using assms
  by auto (simp_all add: rmw65_staged_defs rmw_staged_defs split_beta end_defs)

lemma flow65_ends:
  assumes "bus_ok (memory c)" "cycle_count c = 1" "addressing_mode c \<in> set (table65_modes g)"
    "g \<in> {c02_BRA, c02_JMP, c02_BRK, c02_PHX, c02_PHY, c02_PLX, c02_PLY}"
  shows "ends_by 7 (op_65C02 g) l c"
  using assms
  by (auto simp: flow65_staged_defs end_defs)

lemma table65_ends:
  assumes "bus_ok (memory c)" "cycle_count c = 1" "(op_65C02 g, addressing_mode c) \<notin> endless_entries"
    "addressing_mode c \<in> set (table65_modes g)"
  shows "ends_by 7 (op_65C02 g) l c"
  using operand65_ends [OF assms] memory65_ends [OF assms] modify65_ends [OF assms(1,2,4)]
    flow65_ends [OF assms(1,2,4)] assms(4)
  by (cases g) simp_all

text \<open>C10 (termination).  On a well-formed bus the staged body of every entry of the two dispatch tables
  but eight ends within seven calls, whatever its local variables held before.\<close>

theorem staged_bodies_end:
  assumes "bus_ok (memory c)" "cycle_count c = 1" "(f, addressing_mode c) \<in> dialect_entries - endless_entries"
  shows "\<exists>l' c'. run_cycles 7 (staged_fn f) l c = Some (isa_6502_instr_stage_end, l', c')"
proof -
  have md: "addressing_mode c \<in> set (table_modes f)" "(f, addressing_mode c) \<notin> endless_entries"
    using assms(3) in_table by auto
  have "f \<notin> {op_IRQ, op_NMI, op_RESET}"
    using md(1) by auto
  then have "ends_by 7 f l c"
    using load_ends [OF assms(1,2) md(2,1)] operand_ends [OF assms(1,2) md(1)] test_ends [OF assms(1,2) md(1)]
      step_ends [OF assms(1,2) md(1)] shift_ends [OF assms(1,2) md(1)] flow_ends [OF assms(1,2) md(1)]
      implied_ends [of f l c] table65_ends [OF assms(1,2)] md
    by (cases f) (simp_all add: operand_ops_def shift_ops_def)
  then show ?thesis by (simp only: ends_by_def)
qed

lemma break_in_table: "(op_BRK, isa_6502_addressing_implied) \<in> dialect_entries"
proof -
  have "(op_BRK, isa_6502_addressing_implied) \<in> set (legal_entries isa_6502_base_table)" by code_simp
  then show ?thesis by (simp add: dialect_entries_def)
qed

theorem staged_bodies_end_witness:
  "\<exists>l' c'. run_cycles 7 isa_6502_BRK sample_locals (odd_context isa_6502_addressing_implied)
     = Some (isa_6502_instr_stage_end, l', c')"
  using staged_bodies_end [of "odd_context isa_6502_addressing_implied" op_BRK sample_locals]
  by (simp add: endless_entries_def sample_context_def sample_bus_ok break_in_table
      del: run_cycles_numeral)

section \<open>Bodies that never end\<close>

text \<open>No call of these bodies answers \<open>end\<close>, whatever the cycle counter (which wraps) has reached.\<close>

lemma endless_call:
  assumes "(f, addressing_mode c) \<in> endless_entries" "staged_fn f l c = Some (st, l', c')"
  shows "st = isa_6502_instr_stage_next_cycle" "addressing_mode c' = addressing_mode c"
proof -
  show "st = isa_6502_instr_stage_next_cycle"
    using assms
    by (auto simp: endless_entries_def load_staged_defs load65_staged_defs alu65_staged_defs statement_defs Let_def split: bind_splits if_splits)
  show "addressing_mode c' = addressing_mode c"
    using fixed.staged_keeps [of c "opcode c" "addressing_mode c" "cycle_count c" f l] assms(2)
    by (simp add: fixed.keeps_def)
qed

lemma endless_cycles:
  assumes "(f, addressing_mode c) \<in> endless_entries" "run_cycles n (staged_fn f) l c = Some (st, l', c')"
  shows "st = isa_6502_instr_stage_next_cycle"
  using assms
proof (induction n arbitrary: l c)
  case (Suc n)
  obtain st1 l1 c1 where b: "staged_fn f l c = Some (st1, l1, c1)"
    using Suc.prems(2) by (auto simp: bind_eq_Some_conv)
  note e = endless_call [OF Suc.prems(1) b]
  have "run_cycles n (staged_fn f) l1 (add_cycles 1 c1) = Some (st, l', c')"
    using Suc.prems(2) b e(1) by (simp add: Let_def)
  then show ?case
    using Suc.IH [of "add_cycles 1 c1"] Suc.prems(1) e(2) by (simp add: add_cycles_def)
qed simp

end
