(* ===== verification/Executor_Props.thy ===== *)
theory Executor_Props
  imports Programs Isa_Props Isa_Ends
begin

text \<open>
  Properties of the executor that rest on the instructions: launches that never return, the service
  of interrupts.
\<close>

section \<open>Instructions that never end\<close>

lemma endless_turn:
  assumes "staged_turn cb locking d s = Some t" "quiet locking s" "exec_fn d = Some f"
    "(f, instr_mode s) \<in> endless_entries"
  shows "quiet locking t" "instr_mode t = instr_mode s" "next_stage t = isa_6502_instr_stage_next_cycle"
proof -
  let ?u = "emit_instr cb isa_6502_instr_stage_pre_next_cycle (dispatch_mode d) s"
  obtain st l c where b: "staged_fn f (statics s f) (instr_context_of s) = Some (st, l, c)"
    and t: "t = emit_instr cb isa_6502_instr_stage_next_cycle (dispatch_mode d)
      (count_cycle ((with_instr_context c ?u)\<lparr>statics := (statics s)(f := l), next_stage := st\<rparr>))"
    using assms(1-3)
    by (auto simp: staged_turn_def quiet_window call_staged_def bind_eq_Some_conv emit_defs quiet_def
        quiet_flags instr_context_of_def count_cycle_def with_instr_context_def)
  have e: "st = isa_6502_instr_stage_next_cycle" "addressing_mode c = instr_mode s"
    using endless_call [of f "instr_context_of s", OF _ b] assms(4) by (simp_all add: instr_context_of_def)
  show "quiet locking t" "instr_mode t = instr_mode s" "next_stage t = isa_6502_instr_stage_next_cycle"
    using assms(2) e by (simp_all add: t emit_defs count_cycle_def with_instr_context_def quiet_def)
qed

lemma endless_turns:
  assumes "quiet locking s" "exec_fn d = Some f" "(f, instr_mode s) \<in> endless_entries"
  shows "staged_turns cb locking d s = None"
proof (rule ccontr)
  assume "staged_turns cb locking d s \<noteq> None"
  then obtain t where t: "staged_turns cb locking d s = Some t" by auto
  then obtain u where u: "staged_turn cb locking d s = Some u"
    by (subst (asm) staged_turns.simps) (auto simp: bind_eq_Some_conv)
  note first = endless_turn [OF u assms]
  define P where "P = (\<lambda>v. quiet locking v \<and> instr_mode v = instr_mode s
    \<and> next_stage v = isa_6502_instr_stage_next_cycle)"
  have "staged_turns cb locking d u = Some t"
    using t first(3) by (subst (asm) staged_turns.simps) (simp add: u)
  moreover have "P u" using first by (simp add: P_def)
  moreover have "P v'" if "staged_turn cb locking d v = Some v'" "P v" for v v'
    using endless_turn [OF that(1) _ assms(2)] that(2) assms(3) by (simp add: P_def)
  ultimately have "P t \<and> next_stage t = isa_6502_instr_stage_end"
    by (rule staged_turns_inv)
  then show False by (auto simp: P_def)
qed

text \<open>C12 (liveness).  The staged \<^verbatim>\<open>STA ($XX,X)\<close>, \<^verbatim>\<open>STA ($XX),Y\<close>, \<^verbatim>\<open>LDX $XX,Y\<close> and \<^verbatim>\<open>LDX $XXXX,Y\<close> of either
  dialect and the \<^verbatim>\<open>ADC ($XX)\<close> and \<^verbatim>\<open>SBC ($XX)\<close> of the 65C02 never end: a staged launch that starts at
  one of them, with nobody interfering, never returns, whatever the dispatch table of the executor.\<close>

theorem endless_instruction_hangs:
  assumes "exec_mode AND exec_mode_mask = exec_mode_staged"
    and "windows s = []" "ucast PC < PC_end_of r"
    and "membus_read_addr (ex_memory s) PC = Some (b, m)"
    and "isa_6502_table_lookup_dispatch (ex_isa s) b = d"
    and "exec_fn d = Some f" "(f, dispatch_mode d) \<in> endless_entries"
  shows "launch_in_mode exec_mode cb r PC s = None"
proof -
  have "launch cb' lk (staged_turns cb' lk) r PC s = None" for cb' lk
  proof (cases "launch_begin cb' lk PC s")
    case (Some u)
    note frame = launch_begin_frame [OF Some]
    obtain v where v: "fetch_instr cb' u = Some v" "instr_opcode v = b" "ex_isa v = ex_isa s" "quiet lk v"
      using assms(2,4)
      by (auto simp: fetch_instr_def Let_def emit_defs frame count_cycle_def quiet_def and.assoc)
    have "dispatch_mode d \<noteq> isa_6502_addressing_undefined" using assms(7) by (auto simp: endless_entries_def)
    then obtain w where w: "decode_instr cb' v = (True, d, w)" "quiet lk w" "instr_mode w = dispatch_mode d"
      using v assms(5) by (auto simp: decode_instr_def Let_def emit_defs quiet_def)
    have "staged_turns cb' lk d w = None"
      using endless_turns [OF w(2) assms(6)] assms(7) w(3) by simp
    then have "run_loop (instruction_step cb' lk (staged_turns cb' lk)) (PC_end_of r) u = None"
      using assms(3) v(1) w(1)
      by (subst run_loop.simps)
        (simp add: frame has_flag_def internal_flags_def flag_defs and.assoc instruction_step_def)
    then show ?thesis by (simp add: launch_def Some)
  qed (simp add: launch_def)
  then show ?thesis using assms(1) by (simp add: launch_in_mode_eq Let_def)
qed

lemma lookup_endless:
  "isa_6502_table_lookup_dispatch isa_6502_base_table 0x81
     = entry op_STA ''STA'' ''STA ($XX,X)'' isa_6502_addressing_x_indexed_indirect"
  "isa_6502_table_lookup_dispatch isa_65C02_table 0x72
     = entry (op_65C02 c02_ADC) ''ADC'' ''ADC ($XX)'' isa_6502_addressing_zeropage_indirect"
  by code_simp+

theorem endless_instruction_hangs_witness:
  "launch_in_mode 0 no_callback whole_range 0 (sample_machine (program [0x81, 0x10]) []) = None
   \<and> launch_in_mode 0 no_callback whole_range 0
       ((sample_machine (program [0x72, 0x10]) [])\<lparr>ex_isa := isa_65C02_table\<rparr>) = None"
  using endless_instruction_hangs [of 0 "sample_machine (program [0x81, 0x10]) []" 0 whole_range "0x81"
      "sample_bus (program [0x81, 0x10])" _ op_STA no_callback]
    endless_instruction_hangs [of 0 "(sample_machine (program [0x72, 0x10]) [])\<lparr>ex_isa := isa_65C02_table\<rparr>" 0
      whole_range "0x72" "sample_bus (program [0x72, 0x10])" _ "op_65C02 c02_ADC" no_callback]
  by (simp add: exec_mode_defs program_def entry_def endless_entries_def lookup_endless)

section \<open>Interrupts\<close>

lemma service_run:
  assumes "run_cycles n (staged_fn f) (statics s f) (instr_context_of s) = Some (isa_6502_instr_stage_end, l, c)"
  shows "service_turns f s = Some (after_run f l c s)"
  using assms
proof (induction n arbitrary: s)
  case (Suc n)
  obtain st l1 c1 where b: "staged_fn f (statics s f) (instr_context_of s) = Some (st, l1, c1)"
    using Suc.prems by (auto simp: bind_eq_Some_conv)
  define t where
    "t = count_cycle ((with_instr_context c1 s)\<lparr>statics := (statics s)(f := l1), next_stage := st\<rparr>)"
  note step = call_staged_step [OF b, folded t_def]
  show ?case
  proof (cases "st = isa_6502_instr_stage_end")
    case True
    then have "l = l1" "c = add_cycles 1 c1" using Suc.prems b by (auto simp: Let_def)
    moreover have "after_run f l1 (add_cycles 1 c1) t = t"
      using after_run_idle [of t f] step(2-4) True by simp
    ultimately show ?thesis
      using step(1,4,6) True by (subst service_turns.simps) simp
  next
    case False
    have "service_turns f t = Some (after_run f l c t)"
      using Suc.prems step b False by (intro Suc.IH) (auto simp: Let_def)
    then show ?thesis
      using step(1,4,6) False by (subst service_turns.simps) simp
  qed
qed simp

text \<open>C15 (safety).  An interrupt request with I clear pushes the program counter and the status and sets
  I, and then the staged service gives up, because its own inhibit test runs in every cycle: the
  handler is never entered, the program goes on with three bytes more on its stack and further
  requests masked.\<close>

theorem irq_never_enters_handler:
  assumes "ram_bus m (ex_memory s)" "ex_isa s \<in> {isa_6502_base_table, isa_65C02_table}"
    and "has_flag executor_flags_irq_is_set s" "\<not> has_bit 2 (ex_registers s)"
  shows "\<exists>t. service_irq no_callback s = Some t
    \<and> reg_PC (ex_registers t) = reg_PC (ex_registers s)
    \<and> reg_SP (ex_registers t) = reg_SP (ex_registers s) - 3 \<and> has_bit 2 (ex_registers t)"
proof -
  let ?s = "s\<lparr>instr_cycles := 1, instr_opcode := 0\<rparr>"
  obtain f where f: "table_irq (ex_isa s) = Some f" "f \<in> {op_IRQ, op_65C02 c02_IRQ}"
    using assms(2) by (auto simp: isa_6502_base_table_def isa_65C02_table_def)
  have "\<exists>l c. run_cycles 8 (staged_fn f) (statics s f) (instr_context_of ?s)
        = Some (isa_6502_instr_stage_end, l, c)
      \<and> reg_PC (registers c) = reg_PC (ex_registers s)
      \<and> reg_SP (registers c) = reg_SP (ex_registers s) - 3 \<and> has_bit 2 (registers c)"
    using assms(1,4) f(2)
    by (elim insertE emptyE; simp add: instr_context_of_def flow_staged_defs flow65_staged_defs
        flow_shared_defs ctx_defs Let_def ram_write [of m] SR_is_set_def get_bit_iff has_bit_def set_bit_flag
        flag_def bit_set_bit_iff bit_unset_bit_iff)
  then obtain l c where run: "run_cycles 8 (staged_fn f) (statics s f) (instr_context_of ?s)
        = Some (isa_6502_instr_stage_end, l, c)"
    and c: "reg_PC (registers c) = reg_PC (ex_registers s)"
      "reg_SP (registers c) = reg_SP (ex_registers s) - 3" "has_bit 2 (registers c)"
    by blast
  have "service_turns f ?s = Some (after_run f l c ?s)"
    using service_run [of 8 f ?s l c] run by simp
  then show ?thesis
    using f(1) assms(3,4) c
    by (simp add: service_irq_def get_bit_iff has_bit_def service_def after_run_def with_instr_context_def)
qed

theorem irq_never_enters_handler_witness:
  "\<exists>t. service_irq no_callback ((sample_machine (\<lambda>a. 0x20) [])\<lparr>ex_flags := executor_flags_irq_is_set\<rparr>) = Some t
    \<and> reg_PC (ex_registers t) = 0 \<and> reg_SP (ex_registers t) = 0xFC"
  using irq_never_enters_handler [of 0 "(sample_machine (\<lambda>a. 0x20) [])\<lparr>ex_flags := executor_flags_irq_is_set\<rparr>"]
  by (auto simp: sample_bus_ram has_flag_def flag_defs has_bit_def sample_machine_def sample_registers_def)

text \<open>C14 (roundtrip).  A non-maskable interrupt is served in five cycles: the program counter and the status
  are pushed, I is set, execution continues at the address in the NMI vector; an \<^verbatim>\<open>RTI\<close> there resumes
  the interrupted program with its registers, bits 4 and 5 of the status cleared.\<close>

theorem nmi_service_and_return:
  assumes "ram_bus m (ex_memory s)" "ex_isa s \<in> {isa_6502_base_table, isa_65C02_table}"
    and "has_flag executor_flags_nmi_is_set s"
  shows "\<exists>t c. service_nmi no_callback s = Some t
    \<and> reg_PC (ex_registers t) = word_at (bus_view m (ex_memory s)) 0xFFFA \<and> has_bit 2 (ex_registers t)
    \<and> total_cycles t = total_cycles s + 5
    \<and> staged_outcome 8 isa_6502_RTI l (next_instr md (instr_context_of t)) = Some (isa_6502_instr_stage_end, c)
    \<and> registers c = (ex_registers s)\<lparr>reg_SR := reg_SR (ex_registers s) AND NOT 0x30\<rparr>"
proof -
  let ?s = "s\<lparr>instr_cycles := 1, instr_opcode := 0\<rparr>"
  obtain f where f: "table_nmi (ex_isa s) = Some f" "f \<in> {op_NMI, op_65C02 c02_NMI}"
    using assms(2) by (auto simp: isa_6502_base_table_def isa_65C02_table_def)
  have w: "widen (lo_byte w) OR push_bit 8 (widen (hi_byte w)) = w" for w :: u16
    using join_hi_lo [of w] by (simp add: join_bytes_def)
  have u: "x AND NOT register_SR_Bit_B AND NOT register_SR_Bit_IGN = x AND - 49" for x :: u8
    by (simp add: sr_bit_defs and.assoc)
  have "\<exists>l c. run_cycles 8 (staged_fn f) (statics s f) (instr_context_of ?s)
        = Some (isa_6502_instr_stage_end, l, c)
      \<and> reg_PC (registers c) = word_at (bus_view m (ex_memory s)) 0xFFFA \<and> has_bit 2 (registers c)
      \<and> cycle_count c = 6
      \<and> (\<exists>c'. staged_outcome 8 isa_6502_RTI l' (next_instr md c) = Some (isa_6502_instr_stage_end, c')
          \<and> registers c' = (ex_registers s)\<lparr>reg_SR := reg_SR (ex_registers s) AND NOT 0x30\<rparr>)" for l'
    using assms(1) f(2)
    by (elim insertE emptyE; simp add: staged_outcome_def next_instr_def instr_context_of_def flow_staged_defs flow65_staged_defs
        flow_shared_defs ctx_defs Let_def ram_read [of m] ram_write [of m] stack_address_eq word_at_def
        join_bytes_def has_bit_def set_bit_flag vector_addr_defs flag_def bit_set_bit_iff bit_unset_bit_iff w u)
  then obtain l1 c where run: "run_cycles 8 (staged_fn f) (statics s f) (instr_context_of ?s)
        = Some (isa_6502_instr_stage_end, l1, c)"
    and c: "reg_PC (registers c) = word_at (bus_view m (ex_memory s)) 0xFFFA" "has_bit 2 (registers c)"
      "cycle_count c = 6"
      "\<exists>c'. staged_outcome 8 isa_6502_RTI l (next_instr md c) = Some (isa_6502_instr_stage_end, c')
        \<and> registers c' = (ex_registers s)\<lparr>reg_SR := reg_SR (ex_registers s) AND NOT 0x30\<rparr>"
    by blast
  have "service_turns f ?s = Some (after_run f l1 c ?s)"
    using service_run [of 8 f ?s l1 c] run by simp
  moreover have "instr_context_of (after_run f l1 c ?s) = c"
    by (simp add: after_run_def with_instr_context_def instr_context_of_def)
  ultimately show ?thesis
    using f(1) assms(3) c
    by (simp add: service_nmi_def service_def del: run_cycles_numeral)
      (simp add: after_run_def with_instr_context_def)
qed

theorem nmi_service_and_return_witness:
  "\<exists>t c. service_nmi no_callback ((sample_machine (\<lambda>a. 0x20) [])\<lparr>ex_flags := executor_flags_nmi_is_set\<rparr>) = Some t
    \<and> reg_PC (ex_registers t) = 0x2020 \<and> total_cycles t = 5
    \<and> staged_outcome 8 isa_6502_RTI sample_locals (next_instr isa_6502_addressing_implied (instr_context_of t))
        = Some (isa_6502_instr_stage_end, c) \<and> registers c = sample_registers"
proof -
  let ?s = "(sample_machine (\<lambda>a. 0x20) [])\<lparr>ex_flags := executor_flags_nmi_is_set\<rparr>"
  have "ram_bus 0 (ex_memory ?s)" "ex_isa ?s \<in> {isa_6502_base_table, isa_65C02_table}"
    "has_flag executor_flags_nmi_is_set ?s"
    by (simp_all add: sample_bus_ram has_flag_def flag_defs sample_machine_def)
  from nmi_service_and_return [OF this, of sample_locals isa_6502_addressing_implied] show ?thesis
    by (auto simp: sample_machine_def sample_view word_at_def join_bytes_def sample_registers_def
        simp del: run_cycles_numeral)
qed

end
