(* ===== verification/Dma_Props.thy ===== *)
theory Dma_Props
  imports Conformance
begin

text \<open>
  The direct memory access of the executor: runs of \<open>dma_cycle\<close>, and what a transfer in and a transfer
  out leave behind.
\<close>

primrec dma_cycles :: "nat \<Rightarrow> machine \<Rightarrow> machine option" where
  "dma_cycles 0 s = Some s"
| "dma_cycles (Suc n) s = do { s \<leftarrow> dma_cycle s; dma_cycles n s }"

text \<open>A transfer that is about to read: started, on an even cycle.\<close>

definition dma_ready :: "module_ref \<Rightarrow> bool \<Rightarrow> machine \<Rightarrow> bool" where
  "dma_ready m copyout s \<longleftrightarrow> ram_bus m (ex_memory s) \<and> is_in_dma s \<and> is_dma_started s
     \<and> even (total_cycles s) \<and> is_dma_copyout s = copyout"

text \<open>The bytes left up to the end of the range.\<close>

definition dma_left :: "machine \<Rightarrow> nat \<Rightarrow> bool" where
  "dma_left s n \<longleftrightarrow> unat (addr_lo (dma_range s)) + n \<le> 0xFFFF
     \<and> unat (dma_addr_hi s) = unat (addr_lo (dma_range s)) + n"

definition put_bytes :: "u16 \<Rightarrow> u8 list \<Rightarrow> (u16 \<Rightarrow> u8) \<Rightarrow> u16 \<Rightarrow> u8" where
  "put_bytes lo bs mem a =
     (if unat lo \<le> unat a \<and> unat a < unat lo + length bs then bs ! (unat a - unat lo) else mem a)"

lemma put_bytes_Cons:
  assumes "unat lo + Suc (length bs) \<le> 0xFFFF"
  shows "put_bytes lo (b # bs) mem = put_bytes (lo + 1) bs (mem(lo := b))"
proof
  fix a
  have "unat (lo + 1) = unat lo + 1" using assms by (simp add: unat_word_ariths)
  then show "put_bytes lo (b # bs) mem a = put_bytes (lo + 1) bs (mem(lo := b)) a"
    by (auto simp: put_bytes_def nth_Cons' word_unat_eq_iff less_Suc_eq_le)
qed

lemma dma_end_test:
  assumes "dma_left s n"
  shows "dma_addr_hi s \<le> ucast (addr_lo (dma_range s)) \<longleftrightarrow> n = 0"
proof -
  have "unat (addr_lo (dma_range s)) < 2 ^ 32" using unat_u16 [of "addr_lo (dma_range s)"] by simp
  then have "take_bit 32 (unat (addr_lo (dma_range s))) = unat (addr_lo (dma_range s))"
    by (simp only: take_bit_nat_eq_self)
  then show ?thesis using assms by (simp add: dma_left_def word_le_nat_alt unsigned_ucast_eq)
qed

definition dma_finished :: "machine \<Rightarrow> machine \<Rightarrow> bool" where
  "dma_finished s t \<longleftrightarrow> \<not> is_in_dma t \<and> \<not> has_flag executor_flags_dma_is_set t
     \<and> next_stage t = saved_stage s \<and> membus_get_cache_disable (ex_memory t) = saved_membus_cache_state s
     \<and> ex_registers t = ex_registers s"

lemma leave_dma_finished:
  "membus_get_cache_disable (ex_memory (leave_dma s)) = saved_membus_cache_state s"
  "\<not> has_flag executor_flags_dma_is_set (leave_dma s)"
  by (simp_all add: leave_dma_def clear_flags_def has_flag_def and.assoc)
    (simp add: membus_get_cache_disable_def membus_set_cache_disable_def)

text \<open>One byte in: the provider is asked in the even cycle, memory is written in the odd one.\<close>

lemma copyin_byte:
  assumes "dma_ready m False s" "dma_left s (Suc n)" "dma_provider s = Some p" "p (dma_byte_index s) = Some b"
  shows "\<exists>t. dma_cycles 2 s = Some t
    \<and> bus_view m (ex_memory t) = (bus_view m (ex_memory s))(addr_lo (dma_range s) := b)
    \<and> total_cycles t = total_cycles s + 2
    \<and> (if n = 0 then dma_finished s t
       else dma_ready m False t \<and> dma_left t n \<and> dma_provider t = Some p
         \<and> dma_byte_index t = dma_byte_index s + 1 \<and> addr_lo (dma_range t) = addr_lo (dma_range s) + 1
         \<and> saved_stage t = saved_stage s \<and> ex_registers t = ex_registers s
         \<and> saved_membus_cache_state t = saved_membus_cache_state s)"
proof -
  let ?lo = "addr_lo (dma_range s)"
  have r: "ram_bus m (ex_memory s)" and e: "even (total_cycles s)" "is_dma_started s" "\<not> is_dma_copyout s" "is_in_dma s"
    using assms(1) by (simp_all add: dma_ready_def)
  define u where "u = s\<lparr>dma_byte_index := dma_byte_index s + 1, dma_next_byte := b,
    total_cycles := total_cycles s + 1\<rparr>"
  have u: "dma_cycle s = Some u"
    using assms(3,4) e by (simp add: dma_cycle_def dma_read_def u_def even_iff_mod_2_eq_zero Let_def)
  define v where "v = dma_advance (u\<lparr>ex_memory := bus_put m ?lo b (ex_memory s)\<rparr>)"
  have lo: "unat (?lo + 1) = unat ?lo + 1"
    using assms(2) by (simp add: dma_left_def unat_word_ariths)
  have left: "dma_left v n" using assms(2) lo by (simp add: dma_left_def v_def u_def dma_advance_def)
  have w: "dma_write u = Some (if n = 0 then leave_dma v else v)"
    using r e dma_end_test [OF left]
    by (simp add: dma_write_def u_def ram_write [of m] flip: v_def [unfolded u_def])
  have c: "dma_cycle u = Some ((if n = 0 then leave_dma v else v)\<lparr>total_cycles := total_cycles s + 2\<rparr>)"
  proof -
    have "total_cycles u mod 2 \<noteq> 0" "is_dma_started u"
      using e by (simp_all add: u_def even_iff_mod_2_eq_zero flip: even_iff_mod_2_eq_zero)
    moreover have "total_cycles (leave_dma v) = total_cycles s + 1" "total_cycles v = total_cycles s + 1"
      by (simp_all add: v_def u_def dma_advance_def leave_dma_def clear_flags_def)
    ultimately show ?thesis using w by (simp add: dma_cycle_def)
  qed
  show ?thesis
    using r e left assms(3)
    by (simp add: numeral_2_eq_2 u c leave_dma_finished dma_finished_def)
      (auto simp: v_def u_def dma_advance_def leave_dma_def clear_flags_def dma_ready_def dma_left_def
        has_flag_def and.assoc)
qed

lemma dma_cycles_add: "dma_cycles (j + k) s = Option.bind (dma_cycles j s) (dma_cycles k)"
  by (induction j arbitrary: s) (auto simp: bind_assoc intro!: bind_cong_fun)

text \<open>C13 (liveness).  A transfer in ends: when the provider has bytes for the whole address range, two
  cycles per byte later the bytes are in memory in order, nothing else is changed, and the executor is
  back in the stage, the registers and the ring setting it left, with the request flag down.\<close>

theorem dma_copyin_completes:
  assumes "dma_ready m False s" "dma_left s (length bs)" "bs \<noteq> []" "dma_provider s = Some p"
    and "\<forall>i < length bs. p (dma_byte_index s + of_nat i) = Some (bs ! i)"
  shows "\<exists>t. dma_cycles (2 * length bs) s = Some t \<and> dma_finished s t
    \<and> bus_view m (ex_memory t) = put_bytes (addr_lo (dma_range s)) bs (bus_view m (ex_memory s))
    \<and> total_cycles t = total_cycles s + 2 * of_nat (length bs)"
  using assms
proof (induction bs arbitrary: s)
  case (Cons b bs)
  have "p (dma_byte_index s) = Some b" using Cons.prems(5) by (force dest: spec [of _ 0])
  moreover have left: "dma_left s (Suc (length bs))" using Cons.prems(2) by simp
  ultimately obtain u where u: "dma_cycles 2 s = Some u"
    "bus_view m (ex_memory u) = (bus_view m (ex_memory s))(addr_lo (dma_range s) := b)"
    "total_cycles u = total_cycles s + 2"
    "if length bs = 0 then dma_finished s u
       else dma_ready m False u \<and> dma_left u (length bs) \<and> dma_provider u = Some p
         \<and> dma_byte_index u = dma_byte_index s + 1 \<and> addr_lo (dma_range u) = addr_lo (dma_range s) + 1
         \<and> saved_stage u = saved_stage s \<and> ex_registers u = ex_registers s
         \<and> saved_membus_cache_state u = saved_membus_cache_state s"
    using copyin_byte [OF Cons.prems(1) _ Cons.prems(4)] by blast
  have split: "dma_cycles (2 * length (b # bs)) s = dma_cycles (2 * length bs) u"
    using dma_cycles_add [of 2 "2 * length bs" s] u(1) by simp
  show ?case
  proof (cases "bs = []")
    case True
    then show ?thesis
      using u split by (auto simp: put_bytes_def fun_eq_iff word_unat_eq_iff)
  next
    case False
    have "\<forall>i < length bs. p (dma_byte_index u + of_nat i) = Some (bs ! i)"
    proof (intro allI impI)
      fix i assume "i < length bs"
      then show "p (dma_byte_index u + of_nat i) = Some (bs ! i)"
        using Cons.prems(5) [rule_format, of "Suc i"] u(4) False by (simp add: add.assoc)
    qed
    then obtain t where t: "dma_cycles (2 * length bs) u = Some t" "dma_finished u t"
      "bus_view m (ex_memory t) = put_bytes (addr_lo (dma_range u)) bs (bus_view m (ex_memory u))"
      "total_cycles t = total_cycles u + 2 * of_nat (length bs)"
      using Cons.IH [of u] u(4) False by auto
    have "unat (addr_lo (dma_range s)) + Suc (length bs) \<le> 0xFFFF"
      using left by (simp add: dma_left_def)
    then show ?thesis
      using t u False split put_bytes_Cons [of "addr_lo (dma_range s)" bs b]
      by (auto simp: dma_finished_def algebra_simps)
  qed
qed simp

text \<open>A transfer of two bytes to address 512 that has just been started.\<close>

definition sample_dma :: machine where
  "sample_dma = (sample_machine (\<lambda>a. 0) [])
     \<lparr>is_in_dma := True, is_dma_started := True, dma_range := \<lparr>addr_lo = 0x200, addr_len = 2\<rparr>,
      dma_addr_hi := 0x202, dma_provider := Some (\<lambda>i. Some (if i = 0 then 7 else 8))\<rparr>"

theorem dma_copyin_completes_witness:
  "\<exists>t. dma_cycles 4 sample_dma = Some t \<and> dma_finished sample_dma t
     \<and> bus_view 0 (ex_memory t) 0x200 = 7 \<and> bus_view 0 (ex_memory t) 0x201 = 8 \<and> total_cycles t = 4"
proof -
  have "dma_ready 0 False sample_dma" "dma_left sample_dma (length [7, 8 :: u8])"
    by (simp_all add: dma_ready_def dma_left_def sample_dma_def sample_machine_def sample_bus_ram)
  moreover have "dma_provider sample_dma = Some (\<lambda>i. Some (if i = 0 then 7 else 8))"
    "\<forall>i < length [7, 8 :: u8]. Some (if dma_byte_index sample_dma + of_nat i = 0 then 7 else 8)
      = Some ([7, 8 :: u8] ! i)"
    by (simp_all add: sample_dma_def sample_machine_def less_Suc_eq)
  ultimately obtain t where t: "dma_cycles 4 sample_dma = Some t" "dma_finished sample_dma t"
    "bus_view 0 (ex_memory t)
      = put_bytes (addr_lo (dma_range sample_dma)) [7, 8] (bus_view 0 (ex_memory sample_dma))"
    "total_cycles t = total_cycles sample_dma + 4"
    using dma_copyin_completes [of 0 sample_dma "[7, 8]"] by auto
  have "addr_lo (dma_range sample_dma) = 0x200" "total_cycles sample_dma = 0"
    by (simp_all add: sample_dma_def sample_machine_def)
  then show ?thesis using t by (simp add: put_bytes_def del: dma_cycles.simps)
qed

end
