(* ===== verification/Bus_Props.thy ===== *)
theory Bus_Props
  imports Sample_Machine
begin

text \<open>
  Properties of the registers, the address ranges and the routing of the bus: what the operations
  promise to the processor and to the programs that set a bus up.
\<close>

section \<open>Status register\<close>

text \<open>Every register load and transfer reports its value in the status register: Z is set
  exactly for zero, N for a negative value, C follows the disposition (left alone from 2 on), and the
  five other bits and registers stay as they are.\<close>

theorem status_reports_value:
  "registers_SR_get_bit (registers_status_with_value r v cy) register_SR_Bit_Z = of_bool (v = 0)
   \<and> registers_SR_get_bit (registers_status_with_value r v cy) register_SR_Bit_N = of_bool (sint v < 0)
   \<and> registers_SR_get_bit (registers_status_with_value r v cy) register_SR_Bit_C =
       (if cy < 2 then of_bool (word_of_int cy \<noteq> (0 :: u8)) else registers_SR_get_bit r register_SR_Bit_C)
   \<and> reg_SR (registers_status_with_value r v cy) AND 0x7C = reg_SR r AND 0x7C
   \<and> registers_status_with_value r v cy = r\<lparr>reg_SR := reg_SR (registers_status_with_value r v cy)\<rparr>"
proof -
  have keep: "reg_SR (registers_SR_set_bit r b w) AND 0x7C = reg_SR r AND 0x7C"
    if "b AND 0x7C = 0" for r b w
  proof -
    have "(x OR b) AND 0x7C = x AND 0x7C" for x using that by (simp add: bit.conj_disj_distrib2)
    moreover have "(b AND m) OR (NOT b AND m) = m" for m :: u8
      by (rule bit_word_eqI) (auto simp: bit_simps)
    from this [of "0x7C"] have "NOT b AND 0x7C = 0x7C" using that by simp
    ultimately show ?thesis by (simp add: and.assoc)
  qed
  have "registers_SR_set_bit r b w = r\<lparr>reg_SR := reg_SR (registers_SR_set_bit r b w)\<rparr>" for r b w
    by simp
  then show ?thesis
    by (simp add: status_bits sign_bit)
      (simp add: registers_status_with_value_def Let_def keep sr_bit_defs del: set_bit_simps)
qed

section \<open>Address ranges\<close>

text \<open>Two ranges that end in the address space intersect, by the test of the code, exactly
  when they share an address, and the intersection it computes holds exactly the shared addresses.\<close>

theorem intersection_is_exact:
  assumes "range_fits r1" "range_fits r2"
  shows "(memory_addr_range_do_intersect r1 r2 \<longleftrightarrow> range_set r1 \<inter> range_set r2 \<noteq> {})
    \<and> range_set (memory_addr_range_intersection r1 r2) = range_set r1 \<inter> range_set r2"
  by (simp add: do_intersect_iff [OF assms] range_set_intersection [OF assms])

theorem intersection_is_exact_witness:
  "range_set (memory_addr_range_intersection \<lparr>addr_lo = 0x100, addr_len = 0x100\<rparr> \<lparr>addr_lo = 0x180, addr_len = 0x100\<rparr>)
     = {0x180 .. 0x1FF}"
proof -
  let ?r = "\<lparr>addr_lo = 0x100, addr_len = 0x100\<rparr>" and ?t = "\<lparr>addr_lo = 0x180, addr_len = 0x100\<rparr>"
  have fits: "range_fits ?r" "range_fits ?t" by (simp_all add: range_fits_def)
  then have "range_set ?r = {0x100 .. 0x1FF}" "range_set ?t = {0x180 .. 0x27F}"
    by (simp_all add: range_set_interval range_last_def)
  then show ?thesis using intersection_is_exact [OF fits] by (auto simp del: range_set_intersection)
qed

lemma range_lo_UNIV:
  assumes "range_fits r1" "range_fits r2" "range_set r1 \<union> range_set r2 = UNIV"
    "addr_len r1 \<noteq> 0" "addr_len r2 \<noteq> 0"
  shows "min (addr_lo r1) (addr_lo r2) = 0" "max (range_last r1) (range_last r2) = 0xFFFF"
proof -
  have top: "(0xFFFF :: u16) \<le> x \<longleftrightarrow> x = 0xFFFF" for x
    using unat_u16 [of x] by (auto simp: word_le_nat_alt word_unat_eq_iff)
  have le: "x \<le> (0xFFFF :: u16)" for x
    using unat_u16 [of x] by (simp add: word_le_nat_alt)
  have "0 \<in> range_set r1 \<union> range_set r2" "0xFFFF \<in> range_set r1 \<union> range_set r2" using assms(3) by auto
  then show "min (addr_lo r1) (addr_lo r2) = 0" "max (range_last r1) (range_last r2) = 0xFFFF"
    using assms by (auto simp: range_set_interval top le min_def max_def)
qed

text \<open>The union of two ranges that share an address holds exactly the addresses of both,
  except when it is the whole address space: its length does not fit sixteen bits, the code stores 0,
  and the union includes no address at all.\<close>

theorem union_loses_whole_space:
  assumes "range_fits r1" "range_fits r2" "range_set r1 \<inter> range_set r2 \<noteq> {}"
  shows "range_set (memory_addr_range_union r1 r2) =
    (if range_set r1 \<union> range_set r2 = UNIV then {} else range_set r1 \<union> range_set r2)"
proof (cases "range_set r1 \<union> range_set r2 = UNIV")
  case True
  have n: "addr_len r1 \<noteq> 0" "addr_len r2 \<noteq> 0" using assms(3) by (auto simp: range_set_empty)
  note ends = range_lo_UNIV [OF assms(1,2) True n]
  have "range_last r1 \<ge> addr_lo r2" "range_last r2 \<ge> addr_lo r1"
    using assms n by (auto simp: range_set_interval)
  then have "addr_len (memory_addr_range_union r1 r2)
      = max (range_last r1) (range_last r2) - min (addr_lo r1) (addr_lo r2) + 1"
    using n by (auto simp: memory_addr_range_union_def Let_def min_def max_def)
  then show ?thesis using True by (simp add: ends range_set_empty)
qed (simp add: range_set_union [OF assms])

theorem union_loses_whole_space_witness:
  "range_set (memory_addr_range_union \<lparr>addr_lo = 0, addr_len = 0x9000\<rparr> \<lparr>addr_lo = 0x8000, addr_len = 0x8000\<rparr>) = {}"
proof -
  let ?r = "\<lparr>addr_lo = 0, addr_len = 0x9000\<rparr>" and ?t = "\<lparr>addr_lo = 0x8000, addr_len = 0x8000\<rparr>"
  have fits: "range_fits ?r" "range_fits ?t" by (simp_all add: range_fits_def)
  then have sets: "range_set ?r = {0 .. 0x8FFF}" "range_set ?t = {0x8000 .. 0xFFFF}"
    by (simp_all add: range_set_interval range_last_def)
  have "0x8000 \<in> range_set ?r \<inter> range_set ?t" unfolding sets by simp
  then have meet: "range_set ?r \<inter> range_set ?t \<noteq> {}" by blast
  have "x \<in> range_set ?r \<union> range_set ?t" for x
    unfolding sets using unat_u16 [of x] by (simp add: word_le_nat_alt) linarith
  then have "range_set ?r \<union> range_set ?t = UNIV" by blast
  then show ?thesis using union_loses_whole_space [OF fits meet] by simp
qed

section \<open>Routing\<close>

text \<open>C24 (functional).  A read on a well-formed bus is answered by the first module, in the order of the
  tiers and of the start addresses, whose range includes the address; when that module does not accept
  or there is none, by the jump vectors; else the byte is 0.  An answered byte goes to the ring.\<close>

theorem read_is_routed:
  assumes "bus_ok b"
  shows "membus_read_addr b a = Some (snd (bus_answer b a),
    if fst (bus_answer b a) \<and> \<not> cache_disable b then membus_rcache_push b (snd (bus_answer b a)) else b)"
  by (rule read_addr_answer [OF assms])

text \<open>A bus with a write-only byte at 512 in the lower tier and 64k of memory in the upper one.\<close>

definition layered_bus :: membus where
  "layered_bus = (sample_bus (\<lambda>a. 7))
     \<lparr>tiers := [(-1, [1]), (0, [0])],
      bus_heap := [Some \<lparr>ref_count = 1, addr_range = std64k_range, module_impl = Std64k_impl (\<lambda>a. 7)\<rparr>,
        Some \<lparr>ref_count = 1, addr_range = \<lparr>addr_lo = 0x200, addr_len = 1\<rparr>, module_impl = Byte_impl 0x2CA\<rparr>]\<rparr>"

lemma layered_bus_ok: "bus_ok layered_bus"
proof -
  have "module_ok (bus_heap layered_bus) m md" if "deref (bus_heap layered_bus) m = Some md" for m md
    using that by (auto simp: layered_bus_def deref_def module_ok_def nth_Cons' split: if_splits)
  then show ?thesis
    by (simp add: bus_ok_def heap_ok_def tiers_ok_def chain_ok_def)
      (simp add: layered_bus_def sample_bus_def deref_def)
qed

lemma layered_modules:
  "deref (bus_heap layered_bus) 0 = Some \<lparr>ref_count = 1, addr_range = std64k_range, module_impl = Std64k_impl (\<lambda>a. 7)\<rparr>"
  "deref (bus_heap layered_bus) 1
     = Some \<lparr>ref_count = 1, addr_range = \<lparr>addr_lo = 0x200, addr_len = 1\<rparr>, module_impl = Byte_impl 0x2CA\<rparr>"
  "bus_modules (tiers layered_bus) = [1, 0]" "cache_disable layered_bus"
  by (simp_all add: layered_bus_def deref_def bus_modules_def sample_bus_def)

lemma layered_tiers: "tiers layered_bus = [(-1, [1]), (0, [0])]"
  by (simp add: layered_bus_def)

lemma layered_owner: "bus_owner layered_bus a = (if a = 0x200 then Some 1 else if a = 0xFFFF then None else Some 0)"
proof -
  have "memory_addr_range_does_include \<lparr>addr_lo = 0x200, addr_len = 1\<rparr> a \<longleftrightarrow> unat a = 0x200"
    using in_range_set [of a "\<lparr>addr_lo = 0x200, addr_len = 1\<rparr>"] by (auto simp: range_set_def)
  also have "\<dots> \<longleftrightarrow> a = 0x200" by (simp add: word_unat_eq_iff)
  finally have "memory_addr_range_does_include \<lparr>addr_lo = 0x200, addr_len = 1\<rparr> a \<longleftrightarrow> a = 0x200" .
  then show ?thesis
    by (simp add: bus_owner_def layered_modules module_includes_def std64k_includes del: One_nat_def)
qed

lemma layered_reads:
  "module_read (bus_heap layered_bus) 0 a p = membus_module_std64k_read_addr (\<lambda>a. 7) a p"
  "module_read (bus_heap layered_bus) 1 a p = Some (membus_module_op_result_not_accepted, p)"
proof -
  have "ucast (drop_bit 8 (0x2CA :: u16)) AND membus_module_mode_mask = membus_module_mode_wo"
    unfolding mode_defs by code_simp
  then show "module_read (bus_heap layered_bus) 1 a p = Some (membus_module_op_result_not_accepted, p)"
    by (simp add: module_read_kind(1) [OF layered_modules(2)] membus_module_byte_read_addr_def del: One_nat_def)
qed (simp add: module_read_kind(3) [OF layered_modules(1)])

theorem read_is_routed_witness: "membus_read_addr layered_bus 0x300 = Some (7, layered_bus)"
  using read_is_routed [OF layered_bus_ok, of "0x300"]
  by (simp add: bus_answer_def layered_owner layered_reads membus_module_std64k_read_addr_def layered_modules)

text \<open>A module that does not accept an access hides the modules behind it: they are never
  asked, the read returns 0 (outside the vectors), although the interface documents that the next module
  in line gets its turn.\<close>

theorem refusal_hides_later_modules:
  assumes "bus_ok b" "bus_owner b a = Some m" "read_vector b a = None"
    and "module_read (bus_heap b) m a (Some 0) = Some (membus_module_op_result_not_accepted, p)"
  shows "membus_read_addr b a = Some (0, b)"
  using assms(2-4) by (simp add: read_addr_answer [OF assms(1)] bus_answer_def)

theorem refusal_hides_later_modules_witness:
  "membus_read_addr layered_bus 0x200 = Some (0, layered_bus)
   \<and> module_includes (bus_heap layered_bus) 0 0x200"
  using refusal_hides_later_modules [OF layered_bus_ok, of "0x200" 1]
  by (simp add: layered_owner layered_reads layered_modules module_includes_def std64k_includes
      read_vector_def vector_addr_defs del: One_nat_def)

text \<open>C25 (type).  On a well-formed bus every read and every write, at any address, returns, and leaves a
  well-formed bus with the same modules in the same tiers; a read changes no module.\<close>

theorem bus_access_is_total:
  assumes "bus_ok b"
  shows "\<exists>u r w. membus_read_addr b a = Some (u, r) \<and> bus_ok r \<and> bus_heap r = bus_heap b
    \<and> membus_write_addr b a v = Some w \<and> bus_ok w \<and> tiers w = tiers b
    \<and> same_shape (bus_heap b) (bus_heap w)"
  using read_addr_ok [OF assms, of a] write_addr_ok [OF assms, of a v] by blast

theorem bus_access_is_total_witness:
  "\<exists>w. membus_write_addr layered_bus 0x200 9 = Some w \<and> bus_ok w \<and> tiers w = tiers layered_bus"
  using bus_access_is_total [OF layered_bus_ok, of "0x200" 9] by blast

section \<open>Registration\<close>

lemma insert_module_set:
  "insert_module h new ms = Some ms' \<Longrightarrow> set ms' = insert new (set ms)"
  by (induction ms arbitrary: ms') (auto simp: bind_eq_Some_conv split: if_splits)

lemma insert_in_tiers_set:
  "\<lbrakk>insert_in_tiers h tier new at_root ts = Some ts'; at_root \<Longrightarrow> ts = [] \<or> fst (hd ts) \<le> tier\<rbrakk>
    \<Longrightarrow> set (bus_modules ts') = insert new (set (bus_modules ts))"
proof (induction ts arbitrary: ts' at_root)
  case (Cons x ts)
  obtain t ms where "x = (t, ms)" by (cases x)
  then show ?case
    using Cons by (fastforce simp: bind_eq_Some_conv bus_modules_Cons insert_module_set split: if_splits)
qed (simp add: bus_modules_def)

text \<open>C26 (invariant).  Registering a live module in a tier that is not below the first one succeeds, keeps
  the bus well formed (tiers in increasing order, each sorted by start address) and adds the module
  to those of the bus.\<close>

theorem registration_adds_module:
  assumes "bus_ok b" "deref (bus_heap b) m \<noteq> None"
    and "tier \<noteq> MEMBUS_TIER_PRE_OP" "tier \<noteq> MEMBUS_TIER_POST_OP" "tiers b = [] \<or> fst (hd (tiers b)) \<le> tier"
  shows "\<exists>b'. membus_register_module b tier m = Some (True, b') \<and> bus_ok b'
    \<and> set (bus_modules (tiers b')) = insert m (set (bus_modules (tiers b)))"
proof -
  obtain b' where b': "membus_register_module b tier m = Some (True, b')" "bus_ok b'"
    using register_module_ok [OF assms(1-3)] by blast
  then obtain h ts where "insert_in_tiers h tier m True (tiers b) = Some ts" "tiers b' = ts"
    using assms(3,4) by (auto simp: membus_register_module_def bind_eq_Some_conv)
  then show ?thesis using b' insert_in_tiers_set [OF _ assms(5)] by blast
qed

theorem registration_adds_module_witness:
  "\<exists>b'. membus_register_module layered_bus 5 0 = Some (True, b') \<and> bus_ok b'
     \<and> set (bus_modules (tiers b')) = {0, 1}"
  using registration_adds_module [OF layered_bus_ok, of 0 5]
  by (simp add: layered_modules MEMBUS_TIER_PRE_OP_def MEMBUS_TIER_POST_OP_def insert_commute
      del: One_nat_def) (simp add: layered_tiers insert_commute)

text \<open>C27 (safety).  Registering a module in a tier below the first one loses every module registered before:
  afterwards nobody owns an address outside the range of the new module.\<close>

theorem lower_tier_loses_modules:
  assumes "deref (bus_heap b) m \<noteq> None" "tiers b = (t, ms) # ts" "tier < t"
    and "tier \<noteq> MEMBUS_TIER_PRE_OP" "tier \<noteq> MEMBUS_TIER_POST_OP"
  shows "\<exists>b'. membus_register_module b tier m = Some (True, b') \<and> bus_modules (tiers b') = [m]
    \<and> (\<forall>a. \<not> module_includes (bus_heap b') m a \<longrightarrow> bus_owner b' a = None)"
  using register_below_first [OF assms] by (auto simp: bus_modules_def bus_owner_def)

theorem lower_tier_loses_modules_witness:
  "\<exists>b'. membus_register_module layered_bus (-2) 0 = Some (True, b') \<and> bus_modules (tiers b') = [0]"
  using lower_tier_loses_modules [of layered_bus 0 "-1" "[1]" "[(0, [0])]" "-2"]
  by (auto simp: layered_tiers layered_modules(1) MEMBUS_TIER_PRE_OP_def MEMBUS_TIER_POST_OP_def
      simp del: One_nat_def)

text \<open>A readable module on the pre-operation tier makes every read in its range undefined: the
  bus hands it a null pointer for the value, which its callback stores through.\<close>

theorem pre_op_read_crashes:
  assumes "std64k_at m (bus_heap b)" "pre_op b = Some (m # ms)" "module_includes (bus_heap b) m a"
  shows "membus_read_addr b a = None"
proof -
  obtain md ram where md: "deref (bus_heap b) m = Some md" "module_impl md = Std64k_impl ram"
    using std64k_atE [OF assms(1)] .
  moreover have "memory_addr_range_does_include (addr_range md) a"
    using assms(3) md by (simp add: module_includes_def)
  ultimately show ?thesis
    using assms(2) module_read_kind(3) [OF md]
    by (auto simp: membus_read_addr_def membus_module_std64k_read_addr_def memory_addr_range_does_include_def)
qed

theorem pre_op_read_crashes_witness:
  "membus_read_addr (layered_bus\<lparr>pre_op := Some [0]\<rparr>) 0x300 = None"
  by (rule pre_op_read_crashes [of 0])
    (simp_all add: std64k_at_def layered_modules module_includes_def std64k_includes)

section \<open>The rings\<close>

definition push_reads :: "u8 list \<Rightarrow> membus \<Rightarrow> membus" where
  "push_reads bs b = fold (\<lambda>v b. membus_rcache_push b v) bs b"

primrec pop_reads :: "nat \<Rightarrow> membus \<Rightarrow> u8 list \<times> membus" where
  "pop_reads 0 b = ([], b)"
| "pop_reads (Suc n) b =
    (let (v, b) = membus_rcache_pop b; (vs, b) = pop_reads n b in (v # vs, b))"

lemma ring_index: "unat (i + of_nat n :: u8) mod 8 = (unat i + n) mod 8"
proof -
  have "(x mod 256) mod 8 = x mod (8 :: nat)" for x by (rule mod_mod_cancel) simp
  then show ?thesis by (simp add: unat_word_ariths unat_of_nat mod_simps)
qed

lemma push_reads_frame:
  "rcache_idx (push_reads bs b) = rcache_idx b + of_nat (length bs)"
  "length (rcache (push_reads bs b)) = length (rcache b)"
  by (induction bs arbitrary: b) (simp_all add: push_reads_def membus_rcache_push_def)

lemma push_reads_snoc: "push_reads (bs @ [v]) b = membus_rcache_push (push_reads bs b) v"
  by (simp add: push_reads_def)

text \<open>The slot of each of the last eight bytes pushed.\<close>

lemma push_reads_slot:
  "\<lbrakk>length (rcache b) = 8; i < length bs; length bs \<le> i + 8\<rbrakk>
    \<Longrightarrow> rcache (push_reads bs b) ! ((unat (rcache_idx b) + i) mod 8) = bs ! i"
proof (induction bs rule: rev_induct)
  case (snoc v bs)
  let ?j = "(unat (rcache_idx b) + length bs) mod 8" and ?k = "(unat (rcache_idx b) + i) mod 8"
  have ring: "rcache (push_reads (bs @ [v]) b) = (rcache (push_reads bs b))[?j := v]"
    by (simp add: push_reads_snoc membus_rcache_push_def push_reads_frame ring_index)
  show ?case
  proof (cases "i = length bs")
    case True
    then show ?thesis using snoc.prems(1) by (simp add: ring push_reads_frame)
  next
    case False
    then have "i < length bs" "length bs - i < 8" using snoc.prems by auto
    then have i: "i < length bs" "length bs \<le> i + 8" by auto
    obtain d where d: "length bs = i + d" "0 < d" "d < 8"
      using \<open>i < length bs\<close> \<open>length bs - i < 8\<close> by (metis add_diff_inverse_nat less_imp_not_less zero_less_diff)
    have "?j \<noteq> ?k"
    proof
      assume "?j = ?k"
      then have "d mod 8 = 0"
        unfolding d(1) add.assoc [symmetric] by (metis add_diff_cancel_left' mod_eq_dvd_iff_nat le_add1 dvd_imp_mod_0)
      then show False using d by simp
    qed
    then show ?thesis using snoc.IH [OF snoc.prems(1) i] i(1) by (simp add: ring nth_append)
  qed
qed simp

lemma pop_reads_slots:
  assumes "\<And>i. \<lbrakk>i < length bs; length bs \<le> i + 8\<rbrakk> \<Longrightarrow> rcache c ! ((unat j + i) mod 8) = bs ! i"
    and "rcache_idx c = j + of_nat (length bs)" "n \<le> length bs" "n \<le> 8"
  shows "fst (pop_reads n c) = take n (rev bs)"
proof -
  have "fst (pop_reads k d) = take k (drop (n - k) (rev bs))"
    if "k \<le> n" "rcache d = rcache c" "rcache_idx d = j + of_nat (length bs - (n - k))" for k d
    using that
  proof (induction k arbitrary: d)
    case (Suc k)
    let ?i = "length bs - Suc (n - Suc k)"
    have n: "n - Suc k < length bs" "length bs - (n - Suc k) = Suc ?i" "n - k = Suc (n - Suc k)"
      using Suc.prems(1) assms(3) by auto
    then have i: "rcache_idx d - 1 = j + of_nat ?i" using Suc.prems(3) by simp
    have "rcache d ! (unat (rcache_idx d - 1) mod 8) = bs ! ?i"
      unfolding i ring_index Suc.prems(2) using n(1) assms(4) by (intro assms(1)) auto
    also have "\<dots> = rev bs ! (n - Suc k)" using n(1) by (simp add: rev_nth)
    finally have v: "rcache d ! (unat (rcache_idx d - 1) mod 8) = rev bs ! (n - Suc k)" .
    have "fst (pop_reads k (d\<lparr>rcache_idx := rcache_idx d - 1\<rparr>)) = take k (drop (n - k) (rev bs))"
      using Suc.IH [of "d\<lparr>rcache_idx := rcache_idx d - 1\<rparr>"] Suc.prems i n by simp
    moreover have "drop (n - Suc k) (rev bs) = rev bs ! (n - Suc k) # drop (n - k) (rev bs)"
      using n by (simp add: Cons_nth_drop_Suc)
    ultimately show ?case by (simp add: membus_rcache_pop_def v Let_def split_beta)
  qed simp
  from this [of n c] show ?thesis using assms(2) by simp
qed

text \<open>C32 (roundtrip).  The read ring keeps the last eight bytes, whatever its index: up to eight pops return
  them, the most recent first.\<close>

theorem ring_pops_last_eight:
  assumes "length (rcache b) = 8" "n \<le> length bs" "n \<le> 8"
  shows "fst (pop_reads n (push_reads bs b)) = take n (rev bs)"
  by (rule pop_reads_slots) (use assms push_reads_slot push_reads_frame in auto)

theorem ring_pops_last_eight_witness:
  "fst (pop_reads 8 (push_reads [1, 2, 3, 4, 5, 6, 7, 8, 9, 10] ((sample_bus (\<lambda>a. 0))\<lparr>rcache_idx := 0xFC\<rparr>)))
     = [10, 9, 8, 7, 6, 5, 4, 3]"
  using ring_pops_last_eight [of "(sample_bus (\<lambda>a. 0))\<lparr>rcache_idx := 0xFC\<rparr>" 8 "[1, 2, 3, 4, 5, 6, 7, 8, 9, 10]"]
  by (simp add: sample_bus_def del: pop_reads.simps)

text \<open>A peek at the read ring returns the byte pushed last, except after every multiple of 256
  pushes: then the index is 0 and the expression \<^verbatim>\<open>-1 % 8\<close> indexes the ring out of bounds.\<close>

theorem ring_peek_bounds:
  assumes "length (rcache b) = 8" "bs \<noteq> []"
  shows "membus_rcache_peek (push_reads bs b) =
    (if (unat (rcache_idx b) + length bs) mod 256 = 0 then None else Some (last bs))"
proof -
  let ?i = "rcache_idx b + of_nat (length bs) :: u8" and ?n = "unat (rcache_idx b) + length bs"
  have i: "unat ?i = ?n mod 256" by (simp add: unat_word_ariths unat_of_nat mod_simps)
  then have zero: "?i = 0 \<longleftrightarrow> ?n mod 256 = 0" by (simp add: unat_eq_zero flip: i)
  have "(?n mod 256 - 1) mod 8 = (unat (rcache_idx b) + (length bs - 1)) mod 8" if nz: "?n mod 256 \<noteq> 0"
  proof -
    define k where "k = unat (rcache_idx b) + (length bs - 1)"
    have k: "?n = Suc k" using assms(2) by (cases bs) (simp_all add: k_def)
    have "Suc k mod 256 = Suc (k mod 256)" using nz by (simp add: k mod_Suc split: if_splits)
    moreover have "(k mod 256) mod 8 = k mod 8" by (rule mod_mod_cancel) simp
    ultimately show ?thesis unfolding k k_def [symmetric] by simp
  qed
  moreover have "rcache (push_reads bs b) ! ((unat (rcache_idx b) + (length bs - 1)) mod 8) = last bs"
    using push_reads_slot [OF assms(1), of "length bs - 1" bs] assms(2) by (simp add: last_conv_nth)
  ultimately show ?thesis
    by (simp add: membus_rcache_peek_def push_reads_frame zero i)
qed

theorem ring_peek_bounds_witness:
  "membus_rcache_peek (push_reads (replicate 256 1) (sample_bus (\<lambda>a. 0))) = None"
  using ring_peek_bounds [of "sample_bus (\<lambda>a. 0)" "replicate 256 1"] by (simp add: sample_bus_def)

end
