(* ===== verification/Memory_Props.thy ===== *)
theory Memory_Props
  imports Isa_Props
begin

text \<open>
  Properties of memory as the programs see it: blocks copied in and out, streams, the stack, the
  modules with less than 64k.
\<close>

section \<open>Blocks of bytes\<close>

lemma range_stop_fits: "range_fits r \<Longrightarrow> range_stop r = unat (addr_lo r) + unat (addr_len r)"
  by (simp add: range_stop_def range_fits_def)

text \<open>C29 (roundtrip).  Bytes copied into a range that ends in the address space are there when they are
  copied out again, and no other address has changed.\<close>

theorem copy_in_then_out:
  assumes "ram_bus m b" "range_fits r" "length bs = unat (addr_len r)"
  shows "\<exists>b1 b2. membus_copy_in_bytes b bs r = Some b1 \<and> membus_copy_out_bytes b1 r = Some (bs, b2)
    \<and> ram_bus m b2 \<and> bus_view m b2 = overlay (bus_view m b) (unat (addr_lo r)) bs"
  using ram_store.write_read_run [OF assms(1), of "unat (addr_lo r)" bs] assms(2,3)
  by (simp add: membus_copy_in_bytes_def membus_copy_out_bytes_def range_stop_fits range_fits_def)

theorem copy_in_then_out_witness:
  "\<exists>b1 b2. membus_copy_in_bytes (sample_bus (\<lambda>a. 0)) [1, 2, 3] \<lparr>addr_lo = 0xFFFD, addr_len = 3\<rparr> = Some b1
     \<and> membus_copy_out_bytes b1 \<lparr>addr_lo = 0xFFFD, addr_len = 3\<rparr> = Some ([1, 2, 3], b2)"
  using copy_in_then_out [OF sample_bus_ram, of "\<lparr>addr_lo = 0xFFFD, addr_len = 3\<rparr>" "[1, 2, 3]" "\<lambda>a. 0"]
  by (auto simp: range_fits_def)

lemma load_done: "\<not> a < e \<Longrightarrow> load_chunks a e t s b = Some (t, s, b)"
  by (subst load_chunks.simps) simp

lemma load_chunk:
  assumes "a < e" "min (if e - a + 1 > 4096 then 4096 else e - a + 1) (length s) = k" "k \<noteq> 0"
    and "write_run membus_write_addr a (take k s) b = Some b'"
  shows "load_chunks a e t s b = load_chunks (a + k) e (t + k) (drop k s) b'"
  using assms by (subst load_chunks.simps) (simp only: Let_def if_True if_False Option.bind.simps)



section \<open>The stack\<close>

fun push_all :: "u8 list \<Rightarrow> registers \<times> membus \<Rightarrow> (registers \<times> membus) option" where
  "push_all [] s = Some s"
| "push_all (v # vs) s = do { s \<leftarrow> isa_6502_push (fst s) (snd s) v; push_all vs s }"

fun pop_all :: "nat \<Rightarrow> registers \<times> membus \<Rightarrow> (u8 list \<times> registers \<times> membus) option" where
  "pop_all 0 s = Some ([], s)"
| "pop_all (Suc n) s = do {
     (v, r, b) \<leftarrow> isa_6502_pop (fst s) (snd s);
     (vs, s) \<leftarrow> pop_all n (r, b);
     Some (v # vs, s) }"

lemma push_ram:
  "ram_bus m b \<Longrightarrow> isa_6502_push r b v = Some (r\<lparr>reg_SP := reg_SP r - 1\<rparr>, bus_put m (stack_address (reg_SP r)) v b)"
  by (simp add: isa_6502_push_def ram_write [of m] stack_address_eq)

lemma pop_ram:
  "ram_bus m b \<Longrightarrow> isa_6502_pop r b = Some (bus_view m b (stack_address (reg_SP r + 1)),
     r\<lparr>reg_SP := reg_SP r + 1\<rparr>, bus_got m (stack_address (reg_SP r + 1)) b)"
  by (simp add: isa_6502_pop_def ram_read [of m] stack_address_eq)

text \<open>The stack as a byte list: what pushes leave in page one.\<close>

fun stack_bytes :: "u8 list \<Rightarrow> u8 \<Rightarrow> (u16 \<Rightarrow> u8) \<Rightarrow> u16 \<Rightarrow> u8" where
  "stack_bytes [] sp mem = mem"
| "stack_bytes (v # vs) sp mem = stack_bytes vs (sp - 1) (mem(stack_address sp := v))"

lemma push_all_view:
  assumes "ram_bus m b"
  shows "\<exists>b'. push_all vs (r, b) = Some (r\<lparr>reg_SP := reg_SP r - of_nat (length vs)\<rparr>, b') \<and> ram_bus m b'
    \<and> bus_view m b' = stack_bytes vs (reg_SP r) (bus_view m b)"
  using assms
proof (induction vs arbitrary: r b)
  case (Cons v vs)
  let ?b = "bus_put m (stack_address (reg_SP r)) v b"
  show ?case
    using Cons.IH [of ?b "r\<lparr>reg_SP := reg_SP r - 1\<rparr>"] Cons.prems
    by (auto simp: push_ram [OF Cons.prems] algebra_simps fun_upd_def)
qed simp

lemma pop_all_view:
  assumes "ram_bus m b"
  shows "\<exists>b'. pop_all n (r, b) = Some (List.map (\<lambda>i. bus_view m b (stack_address (reg_SP r + 1 + of_nat i))) [0..<n],
      r\<lparr>reg_SP := reg_SP r + of_nat n\<rparr>, b') \<and> ram_bus m b' \<and> bus_view m b' = bus_view m b"
  using assms
proof (induction n arbitrary: r b)
  case (Suc n)
  let ?a = "stack_address (reg_SP r + 1)"
  have step: "List.map f [0..<Suc n] = f 0 # List.map (\<lambda>i. f (Suc i)) [0..<n]" for f :: "nat \<Rightarrow> u8"
    by (simp add: upt_conv_Cons map_Suc_upt [symmetric] del: upt_Suc)
  show ?case
    using Suc.IH [of "bus_got m ?a b" "r\<lparr>reg_SP := reg_SP r + 1\<rparr>"] Suc.prems
    unfolding step by (auto simp: pop_ram [OF Suc.prems] algebra_simps)
qed simp

lemma stack_bytes_outside:
  "hi_byte a \<noteq> 1 \<Longrightarrow> stack_bytes vs sp mem a = mem a"
  by (induction vs arbitrary: sp mem) auto

lemma stack_bytes_other:
  "(\<And>j. j < length vs \<Longrightarrow> a \<noteq> sp - of_nat j)
    \<Longrightarrow> stack_bytes vs sp mem (stack_address a) = mem (stack_address a)"
proof (induction vs arbitrary: sp mem)
  case (Cons v vs)
  have "a \<noteq> sp" using Cons.prems [of 0] by simp
  moreover have "a \<noteq> sp - 1 - of_nat j" if "j < length vs" for j
    using Cons.prems [of "Suc j"] that by (simp add: algebra_simps)
  ultimately show ?case using Cons.IH by simp
qed simp

lemma stack_bytes_nth:
  "\<lbrakk>i < length vs; length vs \<le> 256\<rbrakk> \<Longrightarrow> stack_bytes vs sp mem (stack_address (sp - of_nat i)) = vs ! i"
proof (induction vs arbitrary: sp mem i)
  case (Cons v vs)
  show ?case
  proof (cases i)
    case 0
    have "sp \<noteq> sp - 1 - of_nat j" if "j < length vs" for j
    proof
      assume "sp = sp - 1 - of_nat j"
      then have "of_nat (Suc j) = (0 :: u8)" by (simp add: algebra_simps)
      then have "unat (of_nat (Suc j) :: u8) = 0" by (simp only: unat_0)
      then show False using that Cons.prems by (simp only: unat_of_nat) simp
    qed
    then show ?thesis using 0 stack_bytes_other [of vs sp "sp - 1"] by simp
  next
    case (Suc k)
    then show ?thesis using Cons.IH [of k "sp - 1"] Cons.prems by (simp add: algebra_simps)
  qed
qed simp

lemma pushed_slot:
  assumes "i < n"
  shows "sp - of_nat n + 1 + of_nat i = (sp - of_nat (n - Suc i) :: u8)"
proof -
  have "n = (n - Suc i) + 1 + i" using assms by simp
  from arg_cong [OF this, of "of_nat :: nat \<Rightarrow> u8"]
  have "of_nat n = (of_nat (n - Suc i) + 1 + of_nat i :: u8)" by (simp only: of_nat_add of_nat_1)
  then show ?thesis by (simp add: algebra_simps)
qed

text \<open>C28 (roundtrip).  The stack is last in, first out, for up to 256 bytes and from any stack pointer: pops
  return the pushed bytes in reverse and restore the stack pointer, and all of it stays in page one.\<close>

theorem stack_is_lifo:
  assumes "ram_bus m b" "length vs \<le> 256"
  shows "\<exists>r1 b1 b2. push_all vs (r, b) = Some (r1, b1) \<and> pop_all (length vs) (r1, b1) = Some (rev vs, r, b2)
    \<and> (\<forall>a. hi_byte a \<noteq> 1 \<longrightarrow> bus_view m b2 a = bus_view m b a)"
proof -
  let ?n = "length vs" and ?r = "r\<lparr>reg_SP := reg_SP r - of_nat (length vs)\<rparr>"
  obtain b1 where b1: "push_all vs (r, b) = Some (?r, b1)" "ram_bus m b1"
    "bus_view m b1 = stack_bytes vs (reg_SP r) (bus_view m b)"
    using push_all_view [OF assms(1)] by blast
  have "List.map (\<lambda>i. bus_view m b1 (stack_address (reg_SP ?r + 1 + of_nat i))) [0..<?n] = rev vs"
  proof (rule nth_equalityI)
    fix i assume "i < length (List.map (\<lambda>i. bus_view m b1 (stack_address (reg_SP ?r + 1 + of_nat i))) [0..<?n])"
    then have i: "i < ?n" by simp
    have slot: "reg_SP ?r + 1 + of_nat i = reg_SP r - of_nat (?n - Suc i)"
      using pushed_slot [OF i, of "reg_SP r"] by simp
    have "bus_view m b1 (stack_address (reg_SP ?r + 1 + of_nat i)) = vs ! (?n - Suc i)"
      unfolding slot b1(3) by (rule stack_bytes_nth) (use i assms(2) in auto)
    then show "List.map (\<lambda>i. bus_view m b1 (stack_address (reg_SP ?r + 1 + of_nat i))) [0..<?n] ! i = rev vs ! i"
      using i by (simp only: nth_map length_upt nth_upt rev_nth minus_nat.diff_0 add_0)
  qed simp
  moreover obtain b2 where "pop_all ?n (?r, b1)
      = Some (List.map (\<lambda>i. bus_view m b1 (stack_address (reg_SP ?r + 1 + of_nat i))) [0..<?n], r, b2)"
    "bus_view m b2 = bus_view m b1"
    using pop_all_view [OF b1(2), of ?n ?r] by auto
  ultimately show ?thesis using b1 stack_bytes_outside by auto
qed

theorem stack_is_lifo_witness:
  "\<exists>r1 b1 b2. push_all [1, 2, 3] (sample_registers\<lparr>reg_SP := 1\<rparr>, sample_bus (\<lambda>a. 0)) = Some (r1, b1)
     \<and> pop_all 3 (r1, b1) = Some ([3, 2, 1], sample_registers\<lparr>reg_SP := 1\<rparr>, b2)"
proof -
  have "length [1, 2, 3 :: u8] \<le> 256" by simp
  from stack_is_lifo [OF sample_bus_ram this] show ?thesis by (simp add: numeral_3_eq_3) blast
qed

section \<open>Modules\<close>

lemma word_flags_kept: "drop_bit 16 ((fw AND 0xFFFF0000) OR push_bit n (ucast (v :: u8))) = drop_bit 16 (fw :: u32)"
  if "n \<le> 8"
proof -
  have m: "(0xFFFF0000 :: u32) = push_bit 16 (mask 16)" by (simp add: mask_eq_decr_exp)
  show ?thesis unfolding m
    by (rule bit_word_eqI) (use that in \<open>auto simp: bit_simps dest: bit_imp_le_length\<close>)
qed

lemma word_bytes_set:
  "ucast (drop_bit n (((fw AND 0xFFFF0000) OR push_bit k (ucast v)) AND push_bit n (0x00FF :: u32)))
     = (if n = k then v else 0 :: u8)"
  if "n \<in> {0, 8}" "k \<in> {0, 8}"
proof -
  have m: "(0xFFFF0000 :: u32) = push_bit 16 (mask 16)" "(0x00FF :: u32) = mask 8"
    by (simp_all add: mask_eq_decr_exp)
  show ?thesis unfolding m
    by (rule bit_word_eqI) (use that in \<open>auto simp: bit_simps dest: bit_imp_le_length\<close>)
qed

text \<open>A word module does not hold two bytes: a write to one of its addresses stores the byte
  and clears the other one.\<close>

theorem word_write_clears_other_byte:
  assumes "deref h m = Some md" "module_impl md = Word_impl fw"
    and "drop_bit 16 fw AND membus_module_mode_mask = membus_module_mode_rw" "i \<in> {0, 1}" "j \<in> {0, 1}"
  shows "\<exists>h'. module_store m h (addr_lo (addr_range md) + i) v = Some h'
    \<and> module_load m h' (addr_lo (addr_range md) + j) = Some (if i = j then v else 0, h')"
proof -
  let ?n = "unat (push_bit 3 i)" and ?k = "unat (push_bit 3 j)"
  have n: "?n \<in> {0, 8}" "?k \<in> {0, 8}" "?n = ?k \<longleftrightarrow> i = j" using assms(4,5) by auto
  define fw' where "fw' = (fw AND 0xFFFF0000) OR push_bit ?n (ucast v)"
  define h' where "h' = set_impl h m (Word_impl fw')"
  have md': "deref h' m = Some (md\<lparr>module_impl := Word_impl fw'\<rparr>)"
    using assms(1) by (simp add: h'_def deref_set_impl)
  have "?n < 24" "?k < 24" "?n \<le> 8" using n by auto
  moreover have "drop_bit 16 fw' = drop_bit 16 fw"
    unfolding fw'_def using \<open>?n \<le> 8\<close> by (rule word_flags_kept)
  ultimately show ?thesis
    using assms(1-3) word_bytes_set [OF n(2,1), of fw v, folded fw'_def] n(3)
      module_write_kind(2) [OF assms(1,2)] module_read_kind(2) [OF md', of fw']
    by (auto simp: module_store_def module_load_def membus_module_word_write_addr_def word_shift_def
        membus_module_word_read_addr_def mode_defs Let_def simp flip: fw'_def h'_def)
qed

theorem word_write_clears_other_byte_witness:
  "\<exists>h'. module_store 0 [Some \<lparr>ref_count = 1, addr_range = \<lparr>addr_lo = 0x10, addr_len = 2\<rparr>, module_impl = Word_impl 0xFACE\<rparr>] 0x10 5
      = Some h' \<and> module_load 0 h' 0x11 = Some (0, h')"
  using word_write_clears_other_byte [of "[Some \<lparr>ref_count = 1, addr_range = \<lparr>addr_lo = 0x10, addr_len = 2\<rparr>, module_impl = Word_impl 0xFACE\<rparr>]"
      0 _ "0xFACE" 0 1 5]
  by (simp add: deref_def mode_defs)

definition mirrors :: "module_ref \<Rightarrow> module_ref \<Rightarrow> u16 \<Rightarrow> module_heap \<Rightarrow> bool" where
  "mirrors m orig base h = (case deref h m of None \<Rightarrow> False
     | Some md \<Rightarrow> module_impl md = Mirror_impl orig \<and> addr_lo (addr_range md) = base)"

lemma mirror_access:
  assumes "mirrors m orig base h" "paged_at orig r h"
  shows "module_load m h (base + i) = module_load orig h (addr_lo r + i)"
    and "module_store m h (base + i) v = module_store orig h (addr_lo r + i) v"
proof -
  obtain md other where "deref h m = Some md" "module_impl md = Mirror_impl orig"
    "addr_lo (addr_range md) = base" "deref h orig = Some other" "addr_range other = r"
    using assms by (auto simp: mirrors_def split: option.splits elim!: paged_atE)
  then show "module_load m h (base + i) = module_load orig h (addr_lo r + i)"
    "module_store m h (base + i) v = module_store orig h (addr_lo r + i) v"
    by (simp_all add: module_load_def module_store_def module_read_kind(5) module_write_kind(5)
        mirror_addr_def add.commute)
qed

lemma mirror_alloc:
  assumes "paged_at orig r h" "membus_module_mirror_alloc h orig base = Some (h0, Some m)"
  shows "mirrors m orig base h0" "paged_at orig r h0" "m \<noteq> orig"
proof -
  obtain md where md: "deref h orig = Some md" using assms(1) by (elim paged_atE)
  then have "orig < length h" by (rule deref_length)
  moreover have "h0 = h[orig := Some (md\<lparr>ref_count := ref_count md + 1\<rparr>)]
      @ [Some \<lparr>ref_count = 0, addr_range = memory_addr_range_with_lo_and_hi base
          (ucast (ucast base + ucast (addr_len (addr_range md)) - 1 :: u32)), module_impl = Mirror_impl orig\<rparr>]"
    "m = length h"
    using assms(2) md
    by (auto simp: membus_module_mirror_alloc_def membus_module_retain_def module_malloc_def Let_def
        split: if_splits)
  ultimately show "mirrors m orig base h0" "paged_at orig r h0" "m \<noteq> orig"
    using assms(1) md
    by (auto simp: mirrors_def paged_at_def deref_def nth_append memory_addr_range_with_lo_and_hi_def)
qed

lemma paged_store_keeps_mirror:
  assumes "mirrors m orig base h" "paged_at orig r h" "m \<noteq> orig" "module_store orig h a v = Some h1"
  shows "mirrors m orig base h1"
  using assms
  by (auto simp: module_store_def module_write_kind(4) mirrors_def deref_set_impl elim!: paged_atE
      split: option.splits prod.splits membus_module_op_result.splits)

text \<open>C31 (equivalence).  A mirror is an alias: a byte stored through a freshly allocated mirror of a page
  module is read back from the original at the same offset, and the other way round.\<close>

theorem mirror_is_alias:
  assumes "paged_at orig r h" "membus_module_mirror_alloc h orig base = Some (h0, Some m)" "i < addr_len r"
  shows "\<exists>h1. module_store m h0 (base + i) v = Some h1 \<and> module_store orig h0 (addr_lo r + i) v = Some h1
      \<and> (\<exists>h2. module_load orig h1 (addr_lo r + i) = Some (v, h2))
      \<and> (\<exists>h2. module_load m h1 (base + i) = Some (v, h2))"
proof -
  note new = mirror_alloc [OF assms(1,2)]
  have a: "addr_lo r + i \<in> offset_in r" using assms(3) by (simp add: offset_in_def)
  obtain h1 where h1: "module_store orig h0 (addr_lo r + i) v = Some h1" "paged_at orig r h1"
    "module_view orig h1 = (module_view orig h0)(addr_lo r + i := v)"
    using paged_store.wr_view [OF new(2) a] by blast
  have "mirrors m orig base h1" by (rule paged_store_keeps_mirror [OF new h1(1)])
  moreover have "\<exists>h2. module_load orig h1 (addr_lo r + i) = Some (v, h2)"
    using paged_store.rd_view [OF h1(2) a] h1(3) by auto
  ultimately show ?thesis
    using h1(1,2) mirror_access new(1,2) by auto
qed

text \<open>One page of memory at 4096.\<close>

definition page_heap :: module_heap where
  "page_heap = fst (membus_module_paged_alloc [] (\<lambda>a. 0) membus_module_mode_rw 0x10 1)"

lemma page_heap_at: "paged_at 0 \<lparr>addr_lo = 0x1000, addr_len = 0x100\<rparr> page_heap"
  by (simp add: page_heap_def membus_module_paged_alloc_def module_malloc_def paged_at_def deref_def
      mode_defs memory_addr_range_with_lo_and_len_def)

theorem mirror_is_alias_witness:
  "\<exists>h0 m h1 h2. membus_module_mirror_alloc page_heap 0 0x2000 = Some (h0, Some m)
     \<and> module_store m h0 0x2010 7 = Some h1 \<and> module_load 0 h1 0x1010 = Some (7, h2)"
proof -
  obtain h0 m where "membus_module_mirror_alloc page_heap 0 0x2000 = Some (h0, Some m)"
    by (auto simp: page_heap_def membus_module_paged_alloc_def module_malloc_def deref_def Let_def
        membus_module_mirror_alloc_def membus_module_retain_def memory_addr_range_with_lo_and_len_def)
  from this mirror_is_alias [OF page_heap_at this, of "0x10" 7] show ?thesis by fastforce
qed

end
