(* ===== verification/Watchpoints.thy ===== *)
theory Watchpoints
  imports Bus_Modules
begin

text \<open>
  The watchpoint module, \<^verbatim>\<open>src/libmembus/membus_module_watchpoints.h\<close> and \<^verbatim>\<open>.c\<close>: callbacks on the
  reads and writes of every address (a list), of ranges of addresses (a list) and of single addresses
  (a search tree whose nodes carry the watchpoints of one address as a chain).  The objects of each C
  struct live in a heap of their own, indexed by references; \<open>None\<close> is the null pointer, a freed
  object is no longer in its heap, and an access to it has no result.  A function pointer and the
  opaque context are numbers; a callback leaves the module as it is, so the notifications of an
  access are the list of its calls.  A failing \<^verbatim>\<open>malloc\<close> is left out.
\<close>

section \<open>Data\<close>

datatype membus_watchpoint_subtype =
    membus_watchpoint_subtype_generic
  | membus_watchpoint_subtype_address
  | membus_watchpoint_subtype_address_range

definition membus_watchpoint_event_read :: u32 where "membus_watchpoint_event_read = push_bit 0 1"
definition membus_watchpoint_event_write :: u32 where "membus_watchpoint_event_write = push_bit 1 1"
definition membus_watchpoint_event_all :: u32 where
  "membus_watchpoint_event_all = membus_watchpoint_event_read OR membus_watchpoint_event_write"
definition membus_watchpoint_event_merge_at_register :: u32 where
  "membus_watchpoint_event_merge_at_register = push_bit 3 1"

lemmas event_defs = membus_watchpoint_event_read_def membus_watchpoint_event_write_def
  membus_watchpoint_event_all_def membus_watchpoint_event_merge_at_register_def

type_synonym wp_ref = nat
type_synonym wp_module_ref = nat
type_synonym wp_callback = nat
type_synonym wp_context = nat

record membus_watchpoint =
  subtype :: membus_watchpoint_subtype
  source :: "wp_module_ref option"
  on_events :: u32
  callback_fn :: "wp_callback option"
  context_ptr :: wp_context

record membus_watchpoint_generic = membus_watchpoint +
  generic_link :: "wp_ref option"

record membus_watchpoint_addr_range = membus_watchpoint +
  wp_addr_range :: memory_addr_range
  range_link :: "wp_ref option"

record membus_watchpoint_addr = membus_watchpoint +
  wp_addr :: u16
  wp_left :: "wp_ref option"
  wp_right :: "wp_ref option"
  wp_parent :: "wp_ref option"
  wp_child :: "wp_ref option"

record membus_module_watchpoints =
  header_range :: memory_addr_range
  mode :: u32
  generics :: "wp_ref option"
  address_ranges :: "wp_ref option"
  addresses :: "wp_ref option"

type_synonym generic_heap = "wp_ref \<Rightarrow> membus_watchpoint_generic option"
type_synonym range_heap = "wp_ref \<Rightarrow> membus_watchpoint_addr_range option"
type_synonym addr_heap = "wp_ref \<Rightarrow> membus_watchpoint_addr option"

text \<open>Everything \<^verbatim>\<open>malloc\<close> has handed out, and the next reference it returns.\<close>

record watch_store =
  wp_modules :: "wp_module_ref \<Rightarrow> membus_module_watchpoints option"
  wp_generics :: generic_heap
  wp_ranges :: range_heap
  wp_addrs :: addr_heap
  wp_fresh :: nat

text \<open>A reference to a registered watchpoint, by the struct it points to.\<close>

datatype membus_watchpoint_ref = Generic_ref wp_ref | Addr_ref wp_ref | Range_ref wp_ref

definition set_module :: "wp_module_ref \<Rightarrow> (membus_module_watchpoints \<Rightarrow> membus_module_watchpoints)
    \<Rightarrow> watch_store \<Rightarrow> watch_store option" where
  "set_module m f s = do { md \<leftarrow> wp_modules s m; Some (s\<lparr>wp_modules := (wp_modules s)(m \<mapsto> f md)\<rparr>) }"

definition set_addr :: "wp_ref \<Rightarrow> (membus_watchpoint_addr \<Rightarrow> membus_watchpoint_addr)
    \<Rightarrow> watch_store \<Rightarrow> watch_store option" where
  "set_addr p f s = do { n \<leftarrow> wp_addrs s p; Some (s\<lparr>wp_addrs := (wp_addrs s)(p \<mapsto> f n)\<rparr>) }"

text \<open>The event mask \<open>old\<close> after \<open>new\<close> was set on it.\<close>

definition merged_events :: "u32 \<Rightarrow> u32 \<Rightarrow> u32" where
  "merged_events old new =
    (if new AND membus_watchpoint_event_merge_at_register \<noteq> 0
     then old OR (new AND membus_watchpoint_event_all)
     else new AND membus_watchpoint_event_all)"

section \<open>Watchpoints on every address\<close>

definition membus_watchpoint_generic_register :: "wp_module_ref \<Rightarrow> u32 \<Rightarrow> wp_callback \<Rightarrow> wp_context
    \<Rightarrow> watch_store \<Rightarrow> (wp_ref \<times> watch_store) option" where
  "membus_watchpoint_generic_register src events cb ctx s = do {
     md \<leftarrow> wp_modules s src;
     let new_wp = wp_fresh s;
     let n = \<lparr>subtype = membus_watchpoint_subtype_generic, source = Some src, on_events = events,
              callback_fn = Some cb, context_ptr = ctx, generic_link = generics md\<rparr>;
     s \<leftarrow> set_module src (\<lambda>md. md\<lparr>generics := Some new_wp\<rparr>)
            (s\<lparr>wp_generics := (wp_generics s)(new_wp \<mapsto> n), wp_fresh := new_wp + 1\<rparr>);
     Some (new_wp, s) }"

text \<open>The loop over the list, with the node before the current one.\<close>

partial_function (option) generic_unlink :: "wp_module_ref \<Rightarrow> wp_ref option \<Rightarrow> wp_ref
    \<Rightarrow> wp_ref option \<Rightarrow> wp_ref option \<Rightarrow> watch_store \<Rightarrow> watch_store option" where
  "generic_unlink src root the_watchpoint node prev s =
    (case node of None \<Rightarrow> Some s
     | Some p \<Rightarrow> do {
         n \<leftarrow> wp_generics s p;
         if p = the_watchpoint then do {
           s \<leftarrow> (if node = root then set_module src (\<lambda>md. md\<lparr>generics := generic_link n\<rparr>) s
                 else do {
                   q \<leftarrow> prev;
                   pn \<leftarrow> wp_generics s q;
                   Some (s\<lparr>wp_generics := (wp_generics s)(q \<mapsto> pn\<lparr>generic_link := generic_link n\<rparr>)\<rparr>) });
           Some (s\<lparr>wp_generics := (wp_generics s)(p := None)\<rparr>) }
         else generic_unlink src root the_watchpoint (generic_link n) node s })"

definition membus_watchpoint_generic_unregister :: "wp_ref \<Rightarrow> watch_store \<Rightarrow> watch_store option" where
  "membus_watchpoint_generic_unregister the_watchpoint s = do {
     n \<leftarrow> wp_generics s the_watchpoint;
     src \<leftarrow> source n;
     md \<leftarrow> wp_modules s src;
     generic_unlink src (generics md) the_watchpoint (generics md) None s }"

partial_function (option) membus_watchpoint_generic_recursive_free ::
    "wp_ref option \<Rightarrow> generic_heap \<Rightarrow> generic_heap option" where
  "membus_watchpoint_generic_recursive_free wp h =
    (case wp of None \<Rightarrow> Some h
     | Some p \<Rightarrow> do {
         n \<leftarrow> h p;
         membus_watchpoint_generic_recursive_free (generic_link n) (h(p := None)) })"

section \<open>Watchpoints on ranges of addresses\<close>

partial_function (option) membus_watchpoint_addr_range_find_addr ::
    "range_heap \<Rightarrow> wp_ref option \<Rightarrow> u16 \<Rightarrow> wp_ref option option" where
  "membus_watchpoint_addr_range_find_addr h wp a =
    (case wp of None \<Rightarrow> Some None
     | Some p \<Rightarrow> do {
         n \<leftarrow> h p;
         if memory_addr_range_does_include (wp_addr_range n) a then Some wp
         else membus_watchpoint_addr_range_find_addr h (range_link n) a })"

definition membus_watchpoint_addr_range_register :: "wp_module_ref \<Rightarrow> u32 \<Rightarrow> wp_callback \<Rightarrow> wp_context
    \<Rightarrow> memory_addr_range \<Rightarrow> watch_store \<Rightarrow> (wp_ref option \<times> watch_store) option" where
  "membus_watchpoint_addr_range_register src events cb ctx r s = do {
     md \<leftarrow> wp_modules s src;
     if addr_len r \<noteq> 0 then do {
       let new_wp = wp_fresh s;
       let n = \<lparr>subtype = membus_watchpoint_subtype_address_range, source = Some src,
                on_events = events, callback_fn = Some cb, context_ptr = ctx, wp_addr_range = r,
                range_link = address_ranges md\<rparr>;
       s \<leftarrow> set_module src (\<lambda>md. md\<lparr>address_ranges := Some new_wp\<rparr>)
              (s\<lparr>wp_ranges := (wp_ranges s)(new_wp \<mapsto> n), wp_fresh := new_wp + 1\<rparr>);
       Some (Some new_wp, s) }
     else Some (None, s) }"

partial_function (option) range_unlink :: "wp_module_ref \<Rightarrow> wp_ref option \<Rightarrow> wp_ref
    \<Rightarrow> wp_ref option \<Rightarrow> wp_ref option \<Rightarrow> watch_store \<Rightarrow> watch_store option" where
  "range_unlink src root the_watchpoint node prev s =
    (case node of None \<Rightarrow> Some s
     | Some p \<Rightarrow> do {
         n \<leftarrow> wp_ranges s p;
         if p = the_watchpoint then do {
           s \<leftarrow> (if node = root then set_module src (\<lambda>md. md\<lparr>address_ranges := range_link n\<rparr>) s
                 else do {
                   q \<leftarrow> prev;
                   pn \<leftarrow> wp_ranges s q;
                   Some (s\<lparr>wp_ranges := (wp_ranges s)(q \<mapsto> pn\<lparr>range_link := range_link n\<rparr>)\<rparr>) });
           Some (s\<lparr>wp_ranges := (wp_ranges s)(p := None)\<rparr>) }
         else range_unlink src root the_watchpoint (range_link n) node s })"

definition membus_watchpoint_addr_range_unregister :: "wp_ref \<Rightarrow> watch_store \<Rightarrow> watch_store option" where
  "membus_watchpoint_addr_range_unregister the_watchpoint s = do {
     n \<leftarrow> wp_ranges s the_watchpoint;
     src \<leftarrow> source n;
     md \<leftarrow> wp_modules s src;
     range_unlink src (address_ranges md) the_watchpoint (address_ranges md) None s }"

partial_function (option) membus_watchpoint_addr_range_recursive_free ::
    "wp_ref option \<Rightarrow> range_heap \<Rightarrow> range_heap option" where
  "membus_watchpoint_addr_range_recursive_free wp h =
    (case wp of None \<Rightarrow> Some h
     | Some p \<Rightarrow> do {
         n \<leftarrow> h p;
         membus_watchpoint_addr_range_recursive_free (range_link n) (h(p := None)) })"

section \<open>Watchpoints on single addresses\<close>

partial_function (option) membus_watchpoint_addr_find_addr ::
    "addr_heap \<Rightarrow> wp_ref option \<Rightarrow> u16 \<Rightarrow> wp_ref option option" where
  "membus_watchpoint_addr_find_addr h wp a =
    (case wp of None \<Rightarrow> Some None
     | Some p \<Rightarrow> do {
         n \<leftarrow> h p;
         if wp_addr n = a then Some wp
         else if wp_addr n > a then membus_watchpoint_addr_find_addr h (wp_left n) a
         else membus_watchpoint_addr_find_addr h (wp_right n) a })"

definition alloc_addr :: "wp_module_ref \<Rightarrow> u32 \<Rightarrow> wp_callback \<Rightarrow> wp_context \<Rightarrow> u16 \<Rightarrow> wp_ref option
    \<Rightarrow> watch_store \<Rightarrow> wp_ref \<times> watch_store" where
  "alloc_addr src events cb ctx a par s =
    (wp_fresh s, s\<lparr>wp_addrs := (wp_addrs s)(wp_fresh s \<mapsto>
       \<lparr>subtype = membus_watchpoint_subtype_address, source = Some src, on_events = events,
        callback_fn = Some cb, context_ptr = ctx, wp_addr = a, wp_left = None, wp_right = None,
        wp_parent = par, wp_child = None\<rparr>), wp_fresh := wp_fresh s + 1\<rparr>)"

text \<open>Along the chain of one address: the same callback gets new events, else a new node at the end.\<close>

partial_function (option) chain_register :: "wp_module_ref \<Rightarrow> u32 \<Rightarrow> wp_callback \<Rightarrow> wp_context \<Rightarrow> u16
    \<Rightarrow> wp_ref \<Rightarrow> watch_store \<Rightarrow> (wp_ref \<times> watch_store) option" where
  "chain_register src events cb ctx a wp s = do {
     n \<leftarrow> wp_addrs s wp;
     if callback_fn n = Some cb then do {
       s \<leftarrow> set_addr wp (\<lambda>n. n\<lparr>on_events := merged_events (on_events n) events\<rparr>) s;
       Some (wp, s) }
     else (case wp_child n of
       Some next_wp \<Rightarrow> chain_register src events cb ctx a next_wp s
     | None \<Rightarrow> do {
         let (new_wp, s) = alloc_addr src (events AND membus_watchpoint_event_all) cb ctx a (Some wp) s;
         s \<leftarrow> set_addr wp (\<lambda>n. n\<lparr>wp_child := Some new_wp\<rparr>) s;
         Some (new_wp, s) }) }"

text \<open>Down the tree.\<close>

partial_function (option) tree_register :: "wp_module_ref \<Rightarrow> u32 \<Rightarrow> wp_callback \<Rightarrow> wp_context \<Rightarrow> u16
    \<Rightarrow> wp_ref \<Rightarrow> watch_store \<Rightarrow> (wp_ref \<times> watch_store) option" where
  "tree_register src events cb ctx a wp s = do {
     n \<leftarrow> wp_addrs s wp;
     if wp_addr n = a then chain_register src events cb ctx a wp s
     else if wp_addr n > a then
       (case wp_left n of
          Some l \<Rightarrow> tree_register src events cb ctx a l s
        | None \<Rightarrow> do {
            let (new_wp, s) = alloc_addr src (events AND membus_watchpoint_event_all) cb ctx a (Some wp) s;
            s \<leftarrow> set_addr wp (\<lambda>n. n\<lparr>wp_left := Some new_wp\<rparr>) s;
            Some (new_wp, s) })
     else
       (case wp_right n of
          Some r \<Rightarrow> tree_register src events cb ctx a r s
        | None \<Rightarrow> do {
            let (new_wp, s) = alloc_addr src (events AND membus_watchpoint_event_all) cb ctx a (Some wp) s;
            s \<leftarrow> set_addr wp (\<lambda>n. n\<lparr>wp_right := Some new_wp\<rparr>) s;
            Some (new_wp, s) }) }"

definition membus_watchpoint_addr_register :: "wp_module_ref \<Rightarrow> u32 \<Rightarrow> wp_callback \<Rightarrow> wp_context
    \<Rightarrow> u16 \<Rightarrow> watch_store \<Rightarrow> (wp_ref \<times> watch_store) option" where
  "membus_watchpoint_addr_register src events cb ctx a s = do {
     md \<leftarrow> wp_modules s src;
     case addresses md of
       None \<Rightarrow> do {
         let (new_wp, s) = alloc_addr src events cb ctx a None s;
         s \<leftarrow> set_module src (\<lambda>md. md\<lparr>addresses := Some new_wp\<rparr>) s;
         Some (new_wp, s) }
     | Some root \<Rightarrow> tree_register src events cb ctx a root s }"

text \<open>Removal from the tree.  The node that takes the place of \<open>wp\<close> first takes over its two subtrees; the
  fields of \<open>wp\<close> are read again after each store.\<close>

definition adopt_subtrees :: "wp_ref \<Rightarrow> wp_ref \<Rightarrow> watch_store \<Rightarrow> watch_store option" where
  "adopt_subtrees q wp s = do {
     n \<leftarrow> wp_addrs s wp;
     s \<leftarrow> set_addr q (\<lambda>x. x\<lparr>wp_left := wp_left n\<rparr>) s;
     s \<leftarrow> (case wp_left n of None \<Rightarrow> Some s
           | Some l \<Rightarrow> set_addr l (\<lambda>x. x\<lparr>wp_parent := Some q\<rparr>) s);
     n \<leftarrow> wp_addrs s wp;
     s \<leftarrow> set_addr q (\<lambda>x. x\<lparr>wp_right := wp_right n\<rparr>) s;
     (case wp_right n of None \<Rightarrow> Some s
      | Some r \<Rightarrow> set_addr r (\<lambda>x. x\<lparr>wp_parent := Some q\<rparr>) s) }"

text \<open>Where \<open>wp\<close> hangs: at the root of its module, or left or right below its parent.\<close>

datatype wp_place = At_root | On_left | On_right

definition hang :: "wp_place \<Rightarrow> wp_ref \<Rightarrow> wp_ref option \<Rightarrow> watch_store \<Rightarrow> watch_store option" where
  "hang place wp q s = do {
     n \<leftarrow> wp_addrs s wp;
     s \<leftarrow> (case q of None \<Rightarrow> Some s
           | Some q \<Rightarrow> set_addr q (\<lambda>x. x\<lparr>wp_parent := (if place = At_root then None else wp_parent n)\<rparr>) s);
     case place of
       At_root \<Rightarrow> do { src \<leftarrow> source n; set_module src (\<lambda>md. md\<lparr>addresses := q\<rparr>) s }
     | On_left \<Rightarrow> do { par \<leftarrow> wp_parent n; set_addr par (\<lambda>x. x\<lparr>wp_left := q\<rparr>) s }
     | On_right \<Rightarrow> do { par \<leftarrow> wp_parent n; set_addr par (\<lambda>x. x\<lparr>wp_right := q\<rparr>) s } }"

partial_function (option) rightmost_leaf :: "addr_heap \<Rightarrow> wp_ref \<Rightarrow> wp_ref option" where
  "rightmost_leaf h leaf = do {
     n \<leftarrow> h leaf;
     case wp_right n of Some r \<Rightarrow> rightmost_leaf h r | None \<Rightarrow> Some leaf }"

partial_function (option) leftmost_leaf :: "addr_heap \<Rightarrow> wp_ref \<Rightarrow> wp_ref option" where
  "leftmost_leaf h leaf = do {
     n \<leftarrow> h leaf;
     case wp_left n of Some l \<Rightarrow> leftmost_leaf h l | None \<Rightarrow> Some leaf }"

definition remove_from_tree :: "wp_place \<Rightarrow> wp_ref \<Rightarrow> watch_store \<Rightarrow> watch_store option" where
  "remove_from_tree place wp s = do {
     n \<leftarrow> wp_addrs s wp;
     case (wp_child n, wp_left n, wp_right n) of
       (Some c, _, _) \<Rightarrow> do { s \<leftarrow> adopt_subtrees c wp s; hang place wp (Some c) s }
     | (None, Some l, Some r) \<Rightarrow> do {
         leaf \<leftarrow> (if place = On_right then leftmost_leaf (wp_addrs s) l else rightmost_leaf (wp_addrs s) r);
         s \<leftarrow> adopt_subtrees leaf wp s;
         hang place wp (Some leaf) s }
     | (None, Some l, None) \<Rightarrow> hang place wp (Some l) s
     | (None, None, q) \<Rightarrow> hang place wp q s }"

definition membus_watchpoint_addr_unregister :: "wp_ref \<Rightarrow> watch_store \<Rightarrow> watch_store option" where
  "membus_watchpoint_addr_unregister wp s = do {
     n \<leftarrow> wp_addrs s wp;
     s \<leftarrow> (case wp_parent n of
             None \<Rightarrow> remove_from_tree At_root wp s
           | Some par \<Rightarrow> do {
               pn \<leftarrow> wp_addrs s par;
               if wp_child pn = Some wp then set_addr par (\<lambda>x. x\<lparr>wp_child := wp_child n\<rparr>) s
               else if wp_left pn = Some wp then remove_from_tree On_left wp s
               else remove_from_tree On_right wp s });
     Some (s\<lparr>wp_addrs := (wp_addrs s)(wp := None)\<rparr>) }"

partial_function (option) free_chain :: "wp_ref option \<Rightarrow> addr_heap \<Rightarrow> addr_heap option" where
  "free_chain node h =
    (case node of None \<Rightarrow> Some h
     | Some p \<Rightarrow> do { n \<leftarrow> h p; free_chain (wp_child n) (h(p := None)) })"

partial_function (option) membus_watchpoint_addr_recursive_free ::
    "wp_ref \<Rightarrow> addr_heap \<Rightarrow> addr_heap option" where
  "membus_watchpoint_addr_recursive_free wp h = do {
     n \<leftarrow> h wp;
     h \<leftarrow> free_chain (wp_child n) h;
     n \<leftarrow> h wp;
     h \<leftarrow> (case wp_left n of None \<Rightarrow> Some h | Some l \<Rightarrow> membus_watchpoint_addr_recursive_free l h);
     n \<leftarrow> h wp;
     h \<leftarrow> (case wp_right n of None \<Rightarrow> Some h | Some r \<Rightarrow> membus_watchpoint_addr_recursive_free r h);
     Some (h(wp := None)) }"

section \<open>The module\<close>

text \<open>The allocators set the header and the mode; the three roots are as \<^verbatim>\<open>malloc\<close> returned them, the
  parameter \<open>junk\<close>.\<close>

definition watchpoints_alloc :: "membus_module_watchpoints \<Rightarrow> watch_store \<Rightarrow> wp_module_ref \<times> watch_store" where
  "watchpoints_alloc md s =
    (wp_fresh s, s\<lparr>wp_modules := (wp_modules s)(wp_fresh s \<mapsto> md), wp_fresh := wp_fresh s + 1\<rparr>)"

definition membus_module_watchpoints_alloc :: "membus_module_watchpoints \<Rightarrow> u32 \<Rightarrow> watch_store
    \<Rightarrow> wp_module_ref \<times> watch_store" where
  "membus_module_watchpoints_alloc junk md s =
     watchpoints_alloc (junk\<lparr>header_range := \<lparr>addr_lo = 0x0000, addr_len = 0xFFFF\<rparr>, mode := md\<rparr>) s"

definition membus_module_watchpoints_alloc_with_address_range :: "membus_module_watchpoints \<Rightarrow> u32
    \<Rightarrow> memory_addr_range \<Rightarrow> watch_store \<Rightarrow> wp_module_ref \<times> watch_store" where
  "membus_module_watchpoints_alloc_with_address_range junk md r s =
     watchpoints_alloc (junk\<lparr>header_range := r, mode := md\<rparr>) s"

text \<open>The null callback registers nothing.\<close>

definition membus_module_watchpoints_register_addr :: "wp_module_ref \<Rightarrow> u32 \<Rightarrow> wp_callback option
    \<Rightarrow> wp_context \<Rightarrow> u16 \<Rightarrow> watch_store \<Rightarrow> (membus_watchpoint_ref option \<times> watch_store) option" where
  "membus_module_watchpoints_register_addr m events the_callback ctx a s =
    (case the_callback of None \<Rightarrow> Some (None, s)
     | Some cb \<Rightarrow> do {
         (p, s) \<leftarrow> membus_watchpoint_addr_register m events cb ctx a s;
         Some (Some (Addr_ref p), s) })"

definition membus_module_watchpoints_register_generic :: "wp_module_ref \<Rightarrow> u32 \<Rightarrow> wp_callback option
    \<Rightarrow> wp_context \<Rightarrow> watch_store \<Rightarrow> (membus_watchpoint_ref option \<times> watch_store) option" where
  "membus_module_watchpoints_register_generic m events the_callback ctx s =
    (case the_callback of None \<Rightarrow> Some (None, s)
     | Some cb \<Rightarrow> do {
         (p, s) \<leftarrow> membus_watchpoint_generic_register m events cb ctx s;
         Some (Some (Generic_ref p), s) })"

definition membus_module_watchpoints_register_addr_range :: "wp_module_ref \<Rightarrow> u32 \<Rightarrow> wp_callback option
    \<Rightarrow> wp_context \<Rightarrow> memory_addr_range \<Rightarrow> watch_store
    \<Rightarrow> (membus_watchpoint_ref option \<times> watch_store) option" where
  "membus_module_watchpoints_register_addr_range m events the_callback ctx r s =
    (case the_callback of None \<Rightarrow> Some (None, s)
     | Some cb \<Rightarrow> do {
         (p, s) \<leftarrow> membus_watchpoint_addr_range_register m events cb ctx r s;
         Some (map_option Range_ref p, s) })"

definition membus_module_watchpoints_free :: "wp_module_ref \<Rightarrow> watch_store \<Rightarrow> watch_store option" where
  "membus_module_watchpoints_free m s = do {
     md \<leftarrow> wp_modules s m;
     g \<leftarrow> membus_watchpoint_generic_recursive_free (generics md) (wp_generics s);
     a \<leftarrow> (case addresses md of None \<Rightarrow> Some (wp_addrs s)
           | Some p \<Rightarrow> membus_watchpoint_addr_recursive_free p (wp_addrs s));
     r \<leftarrow> membus_watchpoint_addr_range_recursive_free (address_ranges md) (wp_ranges s);
     Some (s\<lparr>wp_generics := g, wp_addrs := a, wp_ranges := r\<rparr>) }"

text \<open>The part common to the three structs, and a store to its event mask.\<close>

definition watchpoint_base :: "membus_watchpoint_ref \<Rightarrow> watch_store \<Rightarrow> membus_watchpoint option" where
  "watchpoint_base w s = (case w of
     Generic_ref p \<Rightarrow> map_option membus_watchpoint.truncate (wp_generics s p)
   | Addr_ref p \<Rightarrow> map_option membus_watchpoint.truncate (wp_addrs s p)
   | Range_ref p \<Rightarrow> map_option membus_watchpoint.truncate (wp_ranges s p))"

definition membus_watchpoint_get_subtype ::
    "membus_watchpoint_ref \<Rightarrow> watch_store \<Rightarrow> membus_watchpoint_subtype option" where
  "membus_watchpoint_get_subtype w s = map_option subtype (watchpoint_base w s)"

definition membus_watchpoint_get_events :: "membus_watchpoint_ref \<Rightarrow> watch_store \<Rightarrow> u32 option" where
  "membus_watchpoint_get_events w s = map_option on_events (watchpoint_base w s)"

definition membus_watchpoint_set_events ::
    "membus_watchpoint_ref \<Rightarrow> u32 \<Rightarrow> watch_store \<Rightarrow> watch_store option" where
  "membus_watchpoint_set_events w events s = (case w of
     Generic_ref p \<Rightarrow> do {
       n \<leftarrow> wp_generics s p;
       Some (s\<lparr>wp_generics := (wp_generics s)(p \<mapsto> n\<lparr>on_events := merged_events (on_events n) events\<rparr>)\<rparr>) }
   | Addr_ref p \<Rightarrow> set_addr p (\<lambda>n. n\<lparr>on_events := merged_events (on_events n) events\<rparr>) s
   | Range_ref p \<Rightarrow> do {
       n \<leftarrow> wp_ranges s p;
       Some (s\<lparr>wp_ranges := (wp_ranges s)(p \<mapsto> n\<lparr>on_events := merged_events (on_events n) events\<rparr>)\<rparr>) })"

definition membus_watchpoint_unregister ::
    "membus_watchpoint_ref \<Rightarrow> watch_store \<Rightarrow> watch_store option" where
  "membus_watchpoint_unregister w s = (case w of
     Addr_ref p \<Rightarrow> membus_watchpoint_addr_unregister p s
   | Generic_ref p \<Rightarrow> membus_watchpoint_generic_unregister p s
   | Range_ref p \<Rightarrow> membus_watchpoint_addr_range_unregister p s)"

section \<open>Notification\<close>

text \<open>A call of a callback: the function, the event, the address, the value and the context.\<close>

type_synonym wp_call = "wp_callback \<times> u32 \<times> u16 \<times> u8 \<times> wp_context"

text \<open>A call through a null function pointer or of the byte behind a null pointer has no result.\<close>

definition notify :: "u32 \<Rightarrow> u16 \<Rightarrow> u8 option \<Rightarrow> ('a) membus_watchpoint_scheme \<Rightarrow> wp_call list option" where
  "notify event a v n =
    (if on_events n AND event = event then do {
       cb \<leftarrow> callback_fn n;
       v \<leftarrow> v;
       Some [(cb, event, a, v, context_ptr n)] }
     else Some [])"

partial_function (option) notify_addrs :: "addr_heap \<Rightarrow> u32 \<Rightarrow> u16 \<Rightarrow> u8 option \<Rightarrow> wp_ref option
    \<Rightarrow> wp_call list option" where
  "notify_addrs h event a v wp =
    (case wp of None \<Rightarrow> Some []
     | Some p \<Rightarrow> do {
         n \<leftarrow> h p;
         cs \<leftarrow> notify event a v n;
         rest \<leftarrow> notify_addrs h event a v (wp_child n);
         Some (cs @ rest) })"

partial_function (option) notify_generics :: "generic_heap \<Rightarrow> u32 \<Rightarrow> u16 \<Rightarrow> u8 option \<Rightarrow> wp_ref option
    \<Rightarrow> wp_call list option" where
  "notify_generics h event a v wp =
    (case wp of None \<Rightarrow> Some []
     | Some p \<Rightarrow> do {
         n \<leftarrow> h p;
         cs \<leftarrow> notify event a v n;
         rest \<leftarrow> notify_generics h event a v (generic_link n);
         Some (cs @ rest) })"

partial_function (option) notify_ranges :: "range_heap \<Rightarrow> u32 \<Rightarrow> u16 \<Rightarrow> u8 option \<Rightarrow> wp_ref option
    \<Rightarrow> wp_call list option" where
  "notify_ranges h event a v wp =
    (case wp of None \<Rightarrow> Some []
     | Some p \<Rightarrow> do {
         n \<leftarrow> h p;
         cs \<leftarrow> notify event a v n;
         next_wp \<leftarrow> membus_watchpoint_addr_range_find_addr h (range_link n) a;
         rest \<leftarrow> notify_ranges h event a v next_wp;
         Some (cs @ rest) })"

definition notify_all :: "watch_store \<Rightarrow> membus_module_watchpoints \<Rightarrow> u32 \<Rightarrow> u16 \<Rightarrow> u8 option
    \<Rightarrow> wp_call list option" where
  "notify_all s md event a v = do {
     wp \<leftarrow> membus_watchpoint_addr_find_addr (wp_addrs s) (addresses md) a;
     as \<leftarrow> notify_addrs (wp_addrs s) event a v wp;
     gs \<leftarrow> notify_generics (wp_generics s) event a v (generics md);
     wp \<leftarrow> membus_watchpoint_addr_range_find_addr (wp_ranges s) (address_ranges md) a;
     rs \<leftarrow> notify_ranges (wp_ranges s) event a v wp;
     Some (as @ gs @ rs) }"

definition membus_module_watchpoints_read_addr :: "wp_module_ref \<Rightarrow> u16 \<Rightarrow> u8 option \<Rightarrow> watch_store
    \<Rightarrow> (membus_module_op_result \<times> wp_call list) option" where
  "membus_module_watchpoints_read_addr m a v s = do {
     md \<leftarrow> wp_modules s m;
     if mode md AND membus_module_mode_mask \<noteq> membus_module_mode_wo then do {
       cs \<leftarrow> notify_all s md membus_watchpoint_event_read a v;
       Some (membus_module_op_result_accepted, cs) }
     else Some (membus_module_op_result_not_accepted, []) }"

definition membus_module_watchpoints_write_addr :: "wp_module_ref \<Rightarrow> u16 \<Rightarrow> u8 \<Rightarrow> watch_store
    \<Rightarrow> (membus_module_op_result \<times> wp_call list) option" where
  "membus_module_watchpoints_write_addr m a v s = do {
     md \<leftarrow> wp_modules s m;
     if mode md AND membus_module_mode_mask \<noteq> membus_module_mode_ro then do {
       cs \<leftarrow> notify_all s md membus_watchpoint_event_write a (Some v);
       Some (membus_module_op_result_accepted, cs) }
     else Some (membus_module_op_result_not_accepted, []) }"

end
