(* ===== verification/Watch_Laws.thy ===== *)
theory Watch_Laws
  imports Watchpoints "HOL-Library.Tree"
begin

text \<open>
  What the objects of the watchpoint module stand for: a list of references for every linked list, a
  search tree of chains for the tree of addresses.  The lists are handled once, in locales on the
  functions that walk, free and unlink them; the search tree is related to a functional one.
\<close>

section \<open>Linked lists\<close>

fun list_rep :: "(wp_ref \<Rightarrow> 'n option) \<Rightarrow> ('n \<Rightarrow> wp_ref option) \<Rightarrow> wp_ref option \<Rightarrow> wp_ref list \<Rightarrow> bool" where
  "list_rep h lnk p [] \<longleftrightarrow> p = None"
| "list_rep h lnk p (q # qs) \<longleftrightarrow> p = Some q \<and> (\<exists>n. h q = Some n \<and> list_rep h lnk (lnk n) qs)"

lemma list_rep_null [simp]: "list_rep h lnk None qs \<longleftrightarrow> qs = []"
  by (cases qs) auto

lemma list_rep_cong:
  "(\<And>q. q \<in> set qs \<Longrightarrow> map_option lnk (h q) = map_option lnk (h' q))
    \<Longrightarrow> list_rep h lnk p qs = list_rep h' lnk p qs"
proof (induction qs arbitrary: p)
  case (Cons q qs)
  then have "map_option lnk (h q) = map_option lnk (h' q)" by simp
  then show ?case using Cons by (cases "h q"; cases "h' q") auto
qed simp

lemma list_rep_frame: "q \<notin> set qs \<Longrightarrow> list_rep (h(q := x)) lnk p qs = list_rep h lnk p qs"
  by (rule list_rep_cong) auto

lemma list_rep_live: "\<lbrakk>list_rep h lnk p qs; q \<in> set qs\<rbrakk> \<Longrightarrow> \<exists>n. h q = Some n"
  by (induction qs arbitrary: p) auto

text \<open>A function that collects a list of results along the links.\<close>

locale link_walk =
  fixes lnk :: "'n \<Rightarrow> wp_ref option"
    and f :: "'n \<Rightarrow> 'c list option"
    and walk :: "(wp_ref \<Rightarrow> 'n option) \<Rightarrow> wp_ref option \<Rightarrow> 'c list option"
  assumes walk_eq: "walk h p = (case p of None \<Rightarrow> Some []
      | Some q \<Rightarrow> do { n \<leftarrow> h q; cs \<leftarrow> f n; rest \<leftarrow> walk h (lnk n); Some (cs @ rest) })"
begin

lemma walk_list:
  assumes "list_rep h lnk p qs" "\<And>q n. \<lbrakk>q \<in> set qs; h q = Some n\<rbrakk> \<Longrightarrow> f n = Some (g n)"
  shows "walk h p = Some (concat (List.map (\<lambda>q. g (the (h q))) qs))"
  using assms
proof (induction qs arbitrary: p)
  case (Cons q qs)
  then show ?case by (subst walk_eq) force
qed (simp add: walk_eq)

end

text \<open>A function that frees the objects along the links.\<close>

locale link_free =
  fixes lnk :: "'n \<Rightarrow> wp_ref option"
    and free :: "wp_ref option \<Rightarrow> (wp_ref \<Rightarrow> 'n option) \<Rightarrow> (wp_ref \<Rightarrow> 'n option) option"
  assumes free_eq: "free p h = (case p of None \<Rightarrow> Some h
      | Some q \<Rightarrow> do { n \<leftarrow> h q; free (lnk n) (h(q := None)) })"
begin

lemma free_list:
  assumes "list_rep h lnk p qs" "distinct qs"
  shows "free p h = Some (\<lambda>r. if r \<in> set qs then None else h r)"
  using assms
proof (induction qs arbitrary: p h)
  case (Cons q qs)
  then obtain n where n: "p = Some q" "h q = Some n" "list_rep h lnk (lnk n) qs" by auto
  have "list_rep (h(q := None)) lnk (lnk n) qs" using n(3) Cons.prems(2) by (simp add: list_rep_frame)
  then have "free (lnk n) (h(q := None)) = Some (\<lambda>r. if r \<in> set qs then None else (h(q := None)) r)"
    using Cons by simp
  then show ?case using n by (subst free_eq) (auto simp: fun_eq_iff)
qed (simp add: free_eq)

end

text \<open>What is watched: events, callback and context.\<close>

type_synonym watch = "u32 \<times> wp_callback \<times> wp_context"

definition watch_of :: "'a membus_watchpoint_scheme \<Rightarrow> watch" where
  "watch_of n = (on_events n, the (callback_fn n), context_ptr n)"

text \<open>The loop that unlinks and frees one object of a list whose root is a field of the module.\<close>

locale link_unlink =
  fixes heap :: "watch_store \<Rightarrow> wp_ref \<Rightarrow> 'n option"
    and put :: "(wp_ref \<Rightarrow> 'n option) \<Rightarrow> watch_store \<Rightarrow> watch_store"
    and lnk :: "'n \<Rightarrow> wp_ref option"
    and with_lnk :: "wp_ref option \<Rightarrow> 'n \<Rightarrow> 'n"
    and root_of :: "membus_module_watchpoints \<Rightarrow> wp_ref option"
    and with_root :: "wp_ref option \<Rightarrow> membus_module_watchpoints \<Rightarrow> membus_module_watchpoints"
    and payload :: "'n \<Rightarrow> 'k"
    and unlink :: "wp_module_ref \<Rightarrow> wp_ref option \<Rightarrow> wp_ref \<Rightarrow> wp_ref option \<Rightarrow> wp_ref option
      \<Rightarrow> watch_store \<Rightarrow> watch_store option"
  assumes unlink_eq: "unlink src root w node prev s =
    (case node of None \<Rightarrow> Some s
     | Some p \<Rightarrow> do {
         n \<leftarrow> heap s p;
         if p = w then do {
           s \<leftarrow> (if node = root then set_module src (with_root (lnk n)) s
                 else do { q \<leftarrow> prev; pn \<leftarrow> heap s q; Some (put ((heap s)(q \<mapsto> with_lnk (lnk n) pn)) s) });
           Some (put ((heap s)(p := None)) s) }
         else unlink src root w (lnk n) node s })"
    and heap_put [simp]: "heap (put h s) = h"
    and heap_module [simp]: "heap (s\<lparr>wp_modules := ms\<rparr>) = heap s"
    and put_put [simp]: "put h (put h' s) = put h s"
    and lnk_with [simp]: "lnk (with_lnk p n) = p"
    and payload_with [simp]: "payload (with_lnk p n) = payload n"
    and with_root_same [simp]: "with_root (root_of md) md = md"
begin

lemma unlink_tail:
  assumes "list_rep (heap s) lnk (Some q) (q # qs)" "distinct (q # qs)" "w \<in> set qs"
    and "root = Some r" "r \<notin> set qs" "heap s q = Some n"
  shows "\<exists>h. unlink src root w (lnk n) (Some q) s = Some (put h s)
    \<and> list_rep h lnk (Some q) (q # remove1 w qs) \<and> h w = None
    \<and> (\<forall>x. x \<noteq> w \<longrightarrow> map_option payload (h x) = map_option payload (heap s x))
    \<and> (\<forall>x. x \<notin> set (q # qs) \<longrightarrow> h x = heap s x)"
  using assms
proof (induction qs arbitrary: q n)
  case (Cons p qs)
  then obtain pn where p: "lnk n = Some p" "heap s p = Some pn" "list_rep (heap s) lnk (lnk pn) qs"
    by auto
  show ?case
  proof (cases "p = w")
    case True
    define h where "h = (heap s)(q \<mapsto> with_lnk (lnk pn) n, w := None)"
    have "unlink src root w (lnk n) (Some q) s = Some (put h s)"
      using p True Cons.prems by (subst unlink_eq) (auto simp: h_def)
    moreover have "list_rep h lnk (lnk pn) qs"
      using p(3) Cons.prems(2) True by (simp add: h_def list_rep_frame)
    moreover have "h w = None" "\<forall>x. x \<noteq> w \<longrightarrow> map_option payload (h x) = map_option payload (heap s x)"
      using Cons.prems(2,6) True by (auto simp: h_def)
    moreover have "h q = Some (with_lnk (lnk pn) n)" "\<forall>x. x \<notin> set (q # p # qs) \<longrightarrow> h x = heap s x"
      using True Cons.prems(2) by (auto simp: h_def)
    ultimately show ?thesis using True by (intro exI [of _ h]) simp
  next
    case False
    then have "w \<in> set qs" using Cons.prems(3) by simp
    then obtain h where h: "unlink src root w (lnk pn) (Some p) s = Some (put h s)"
      "list_rep h lnk (Some p) (p # remove1 w qs)" "\<And>x. x \<notin> set (p # qs) \<Longrightarrow> h x = heap s x"
      "h w = None" "\<forall>x. x \<noteq> w \<longrightarrow> map_option payload (h x) = map_option payload (heap s x)"
      using Cons.IH [of p pn] p Cons.prems by auto
    have "unlink src root w (lnk n) (Some q) s = Some (put h s)"
      using p h(1) False by (subst unlink_eq) simp
    then show ?thesis using h(2-5) p(1) Cons.prems(2,6) False by (intro exI [of _ h]) auto
  qed
qed simp

lemma unlink_removes:
  assumes "list_rep (heap s) lnk (root_of md) qs" "distinct qs" "w \<in> set qs" "wp_modules s src = Some md"
  shows "\<exists>h p. unlink src (root_of md) w (root_of md) None s
      = Some (put h (s\<lparr>wp_modules := (wp_modules s)(src \<mapsto> with_root p md)\<rparr>))
    \<and> list_rep h lnk p (remove1 w qs)
    \<and> (\<forall>x. x \<noteq> w \<longrightarrow> map_option payload (h x) = map_option payload (heap s x))"
proof -
  obtain q ps n where q: "qs = q # ps" "root_of md = Some q" "heap s q = Some n" "list_rep (heap s) lnk (lnk n) ps"
    using assms(1,3) by (cases qs) auto
  show ?thesis
  proof (cases "q = w")
    case True
    let ?h = "(heap s)(w := None)"
    have "unlink src (root_of md) w (root_of md) None s
      = Some (put ?h (s\<lparr>wp_modules := (wp_modules s)(src \<mapsto> with_root (lnk n) md)\<rparr>))"
      using q True assms(4) by (subst unlink_eq) (simp add: set_module_def)
    moreover have "list_rep ?h lnk (lnk n) ps" using q assms(2) True by (simp add: list_rep_frame)
    ultimately show ?thesis using q(1) True by (intro exI [of _ ?h] exI [of _ "lnk n"]) auto
  next
    case False
    then obtain h where h: "unlink src (root_of md) w (lnk n) (Some q) s = Some (put h s)"
      "list_rep h lnk (Some q) (q # remove1 w ps)" "\<forall>x. x \<noteq> w \<longrightarrow> map_option payload (h x) = map_option payload (heap s x)"
      using unlink_tail [of s q ps w "root_of md" q n src] assms q by auto
    have "unlink src (root_of md) w (root_of md) None s = Some (put h s)"
      using q h(1) False by (subst unlink_eq) simp
    moreover have "s\<lparr>wp_modules := (wp_modules s)(src \<mapsto> with_root (root_of md) md)\<rparr> = s"
      using assms(4) by (simp add: fun_upd_idem)
    ultimately show ?thesis
      using h(2,3) q False by (intro exI [of _ h] exI [of _ "root_of md"]) (auto simp del: with_root_same)
  qed
qed

end

interpretation generic_list: link_unlink wp_generics "\<lambda>h. wp_generics_update (\<lambda>_. h)" generic_link
  "\<lambda>p. generic_link_update (\<lambda>_. p)" generics "\<lambda>p. generics_update (\<lambda>_. p)"
  "\<lambda>n. (source n, watch_of n, callback_fn n)" generic_unlink
  by unfold_locales (simp_all add: watch_of_def, subst generic_unlink.simps, simp split: option.split)

interpretation range_list: link_unlink wp_ranges "\<lambda>h. wp_ranges_update (\<lambda>_. h)" range_link
  "\<lambda>p. range_link_update (\<lambda>_. p)" address_ranges "\<lambda>p. address_ranges_update (\<lambda>_. p)"
  "\<lambda>n. (source n, watch_of n, callback_fn n, wp_addr_range n)" range_unlink
  by unfold_locales (simp_all add: watch_of_def, subst range_unlink.simps, simp split: option.split)

interpretation generic_free: link_free generic_link membus_watchpoint_generic_recursive_free
  by unfold_locales (rule membus_watchpoint_generic_recursive_free.simps)

interpretation range_free: link_free range_link membus_watchpoint_addr_range_recursive_free
  by unfold_locales (rule membus_watchpoint_addr_range_recursive_free.simps)

interpretation chain_free: link_free wp_child free_chain
  by unfold_locales (rule free_chain.simps)

interpretation generic_calls: link_walk generic_link "notify event a v" "\<lambda>h. notify_generics h event a v"
  for event a v
  by unfold_locales (rule notify_generics.simps)

interpretation chain_calls: link_walk wp_child "notify event a v" "\<lambda>h. notify_addrs h event a v"
  for event a v
  by unfold_locales (rule notify_addrs.simps)

end
