(* ===== verification/Watch_Tree.thy ===== *)
theory Watch_Tree
  imports Watch_Laws
begin

text \<open>
  The tree of watched addresses: the relation between the objects on the heap and a functional tree
  of chains, and the operations that look up and register.
\<close>

section \<open>Representation\<close>

type_synonym watch_tree = "(u16 \<times> wp_ref list) tree"

definition key_of :: "addr_heap \<Rightarrow> wp_ref \<Rightarrow> u16 option" where
  "key_of h q = map_option wp_addr (h q)"

fun tree_rep :: "addr_heap \<Rightarrow> wp_ref option \<Rightarrow> watch_tree \<Rightarrow> bool" where
  "tree_rep h p Leaf \<longleftrightarrow> p = None"
| "tree_rep h p (Node l (a, qs) r) \<longleftrightarrow> qs \<noteq> [] \<and> list_rep h wp_child p qs
     \<and> (\<forall>q \<in> set qs. key_of h q = Some a)
     \<and> (\<exists>n. h (hd qs) = Some n \<and> tree_rep h (wp_left n) l \<and> tree_rep h (wp_right n) r)"

fun tree_refs :: "watch_tree \<Rightarrow> wp_ref list" where
  "tree_refs Leaf = []"
| "tree_refs (Node l (a, qs) r) = tree_refs l @ qs @ tree_refs r"

fun tree_keys :: "watch_tree \<Rightarrow> u16 set" where
  "tree_keys Leaf = {}"
| "tree_keys (Node l (a, qs) r) = insert a (tree_keys l \<union> tree_keys r)"

fun ordered :: "watch_tree \<Rightarrow> bool" where
  "ordered Leaf \<longleftrightarrow> True"
| "ordered (Node l (a, qs) r) \<longleftrightarrow> (\<forall>x \<in> tree_keys l. x < a) \<and> (\<forall>x \<in> tree_keys r. a < x) \<and> ordered l \<and> ordered r"

fun watch_lookup :: "watch_tree \<Rightarrow> u16 \<Rightarrow> wp_ref list" where
  "watch_lookup Leaf x = []"
| "watch_lookup (Node l (a, qs) r) x = (if a = x then qs else if a > x then watch_lookup l x else watch_lookup r x)"

lemma lookup_refs: "set (watch_lookup t x) \<subseteq> set (tree_refs t)"
  by (induction t x rule: watch_lookup.induct) auto

text \<open>The fields that make the tree.\<close>

definition shape :: "membus_watchpoint_addr \<Rightarrow> u16 \<times> wp_ref option \<times> wp_ref option \<times> wp_ref option" where
  "shape n = (wp_addr n, wp_left n, wp_right n, wp_child n)"

lemma shape_parts:
  assumes "map_option shape x = map_option shape y"
  shows "map_option wp_child x = map_option wp_child y" "map_option wp_addr x = map_option wp_addr y"
    "(\<exists>n. x = Some n \<and> P (wp_left n) (wp_right n)) = (\<exists>n. y = Some n \<and> P (wp_left n) (wp_right n))"
  using assms by (cases x; cases y; auto simp: shape_def)+

lemma tree_rep_cong:
  assumes "\<And>q. q \<in> set (tree_refs t) \<Longrightarrow> map_option shape (h q) = map_option shape (h' q)"
  shows "tree_rep h p t = tree_rep h' p t"
  using assms
proof (induction t arbitrary: p)
  case (Node l k r)
  obtain a qs where k: "k = (a, qs)" by (cases k)
  have eq: "map_option shape (h q) = map_option shape (h' q)" if "q \<in> set qs" for q
    using Node.prems [of q] that by (simp add: k)
  have sub: "tree_rep h p' l = tree_rep h' p' l" "tree_rep h p' r = tree_rep h' p' r" for p'
    using Node by (simp_all add: k)
  have "list_rep h wp_child p qs = list_rep h' wp_child p qs"
    by (rule list_rep_cong) (rule shape_parts(1) [OF eq])
  moreover have "(\<forall>q \<in> set qs. key_of h q = Some a) = (\<forall>q \<in> set qs. key_of h' q = Some a)"
    using shape_parts(2) [OF eq] by (simp add: key_of_def)
  moreover have "(\<exists>n. h (hd qs) = Some n \<and> tree_rep h' (wp_left n) l \<and> tree_rep h' (wp_right n) r)
      = (\<exists>n. h' (hd qs) = Some n \<and> tree_rep h' (wp_left n) l \<and> tree_rep h' (wp_right n) r)" if "qs \<noteq> []"
    using eq [of "hd qs"] that by (intro shape_parts(3)) simp
  ultimately show ?case unfolding k tree_rep.simps sub by blast
qed simp

lemma tree_rep_frame: "q \<notin> set (tree_refs t) \<Longrightarrow> tree_rep (h(q := x)) p t = tree_rep h p t"
  by (rule tree_rep_cong) auto

lemma tree_rep_null [simp]: "tree_rep h None t \<longleftrightarrow> t = Leaf"
  by (cases t) (auto elim!: list_rep.elims)

section \<open>Lookup\<close>

lemma find_addr_null [simp]: "membus_watchpoint_addr_find_addr h None a = Some None"
  by (subst membus_watchpoint_addr_find_addr.simps) simp

text \<open>The search finds the head of the chain of the address, and always ends.\<close>

lemma find_addr_lookup:
  "tree_rep h p t \<Longrightarrow> membus_watchpoint_addr_find_addr h p a =
    Some (case watch_lookup t a of [] \<Rightarrow> None | q # _ \<Rightarrow> Some q)
   \<and> list_rep h wp_child (case watch_lookup t a of [] \<Rightarrow> None | q # _ \<Rightarrow> Some q) (watch_lookup t a)"
proof (induction t arbitrary: p)
  case (Node l k r)
  obtain b qs where k: "k = (b, qs)" by (cases k)
  obtain q ps where qs: "qs = q # ps" using Node.prems by (cases qs) (auto simp: k)
  obtain n where n: "p = Some q" "h q = Some n" "wp_addr n = b" "tree_rep h (wp_left n) l" "tree_rep h (wp_right n) r"
    "list_rep h wp_child p qs"
    using Node.prems by (auto simp: k qs key_of_def)
  show ?case
    using Node.IH(1) [OF n(4)] Node.IH(2) [OF n(5)] n
    by (subst membus_watchpoint_addr_find_addr.simps) (simp add: k qs)
qed simp

section \<open>Registration\<close>

text \<open>What is watched at one address, in the order of its chain.\<close>

definition watched :: "addr_heap \<Rightarrow> watch_tree \<Rightarrow> u16 \<Rightarrow> watch list" where
  "watched h t a = List.map (\<lambda>q. watch_of (the (h q))) (watch_lookup t a)"

text \<open>A registration at an address, on the list of what is watched there: the first watch with the same
  callback gets the new events and keeps its context, else a new watch is added at the end.\<close>

fun note_watch :: "u32 \<Rightarrow> wp_callback \<Rightarrow> wp_context \<Rightarrow> watch list \<Rightarrow> watch list" where
  "note_watch ev cb ctx [] = [(ev AND membus_watchpoint_event_all, cb, ctx)]"
| "note_watch ev cb ctx ((e, c, x) # ws) =
    (if c = cb then (merged_events e ev, c, x) # ws else (e, c, x) # note_watch ev cb ctx ws)"

text \<open>What a registration leaves alone: the modules, the lists, and every object outside \<open>Q\<close>.\<close>

definition only_addrs :: "wp_ref set \<Rightarrow> watch_store \<Rightarrow> watch_store \<Rightarrow> bool" where
  "only_addrs Q s s' \<longleftrightarrow> wp_modules s' = wp_modules s \<and> wp_generics s' = wp_generics s
     \<and> wp_ranges s' = wp_ranges s \<and> wp_fresh s \<le> wp_fresh s'
     \<and> (\<forall>q. q \<notin> Q \<longrightarrow> q < wp_fresh s \<longrightarrow> wp_addrs s' q = wp_addrs s q)"

text \<open>Live objects with a callback, allocated.\<close>

definition live_addr :: "watch_store \<Rightarrow> wp_ref \<Rightarrow> bool" where
  "live_addr s q \<longleftrightarrow> q < wp_fresh s \<and> (\<exists>n. wp_addrs s q = Some n \<and> callback_fn n \<noteq> None)"

abbreviation watches :: "watch_store \<Rightarrow> wp_ref list \<Rightarrow> watch list" where
  "watches s \<equiv> List.map (\<lambda>q. watch_of (the (wp_addrs s q)))"

definition subtrees_of :: "addr_heap \<Rightarrow> wp_ref \<Rightarrow> (wp_ref option \<times> wp_ref option) option" where
  "subtrees_of h q = map_option (\<lambda>n. (wp_left n, wp_right n)) (h q)"

lemma chain_register_notes:
  assumes "list_rep (wp_addrs s) wp_child (Some p) qs" "distinct qs"
    and "\<forall>q \<in> set qs. live_addr s q \<and> key_of (wp_addrs s) q = Some a"
  shows "\<exists>q s' new. chain_register src ev cb ctx a p s = Some (q, s')
    \<and> list_rep (wp_addrs s') wp_child (Some p) (qs @ new) \<and> distinct (qs @ new) \<and> q \<in> set (qs @ new)
    \<and> (\<forall>q \<in> set (qs @ new). live_addr s' q \<and> key_of (wp_addrs s') q = Some a) \<and> set new \<subseteq> {wp_fresh s ..< wp_fresh s'}
    \<and> watches s' (qs @ new) = note_watch ev cb ctx (watches s qs)
    \<and> (\<forall>q \<in> set qs. subtrees_of (wp_addrs s') q = subtrees_of (wp_addrs s) q) \<and> only_addrs (set qs) s s'"
  using assms
proof (induction qs arbitrary: p)
  case (Cons x qs)
  then obtain n c where n: "x = p" "wp_addrs s p = Some n" "list_rep (wp_addrs s) wp_child (wp_child n) qs"
    "callback_fn n = Some c" "wp_addr n = a" "p < wp_fresh s"
    by (auto simp: live_addr_def key_of_def)
  consider (same) "c = cb" | (new) "c \<noteq> cb" "wp_child n = None" | (along) z where "c \<noteq> cb" "wp_child n = Some z"
    by (cases "wp_child n") auto
  then show ?case
  proof cases
    case same
    define s' where "s' = s\<lparr>wp_addrs := (wp_addrs s)(p \<mapsto> n\<lparr>on_events := merged_events (on_events n) ev\<rparr>)\<rparr>"
    have "chain_register src ev cb ctx a p s = Some (p, s')"
      using n same by (subst chain_register.simps) (simp add: set_addr_def s'_def)
    moreover have "list_rep (wp_addrs s') wp_child (Some p) (x # qs)"
      using n Cons.prems(2) by (simp add: s'_def list_rep_frame)
    moreover have "watches s' (x # qs) = note_watch ev cb ctx (watches s (x # qs))"
      using n same Cons.prems(2) by (auto simp: s'_def watch_of_def)
    moreover have "\<forall>q \<in> set (x # qs). live_addr s' q \<and> key_of (wp_addrs s') q = Some a"
      "\<forall>q \<in> set (x # qs). subtrees_of (wp_addrs s') q = subtrees_of (wp_addrs s) q"
      "only_addrs (set (x # qs)) s s'"
      using n Cons.prems(2,3) by (auto simp: s'_def only_addrs_def live_addr_def key_of_def subtrees_of_def)
    ultimately show ?thesis
      using n(1) Cons.prems(2) by (intro exI [of _ p] exI [of _ s'] exI [of _ "[]"]) simp
  next
    case new
    define f where "f = wp_fresh s"
    define nn where "nn = \<lparr>subtype = membus_watchpoint_subtype_address, source = Some src,
        on_events = ev AND membus_watchpoint_event_all, callback_fn = Some cb, context_ptr = ctx, wp_addr = a,
        wp_left = None, wp_right = None, wp_parent = Some p, wp_child = None\<rparr>"
    define s' where "s' = s\<lparr>wp_addrs := (wp_addrs s)(f \<mapsto> nn, p \<mapsto> n\<lparr>wp_child := Some f\<rparr>), wp_fresh := f + 1\<rparr>"
    have qs: "qs = []" using n(3) new by simp
    have f: "p \<noteq> f" "f = wp_fresh s" using n(6) by (auto simp: f_def)
    have "chain_register src ev cb ctx a p s = Some (f, s')"
      using n new f by (subst chain_register.simps) (simp add: set_addr_def s'_def alloc_addr_def nn_def)
    moreover have "list_rep (wp_addrs s') wp_child (Some p) [p, f]"
      using f by (simp add: s'_def nn_def)
    moreover have "watches s' [p, f] = note_watch ev cb ctx (watches s [p])"
      using n new f by (simp add: s'_def nn_def watch_of_def)
    moreover have "\<forall>q \<in> set [p, f]. live_addr s' q \<and> key_of (wp_addrs s') q = Some a"
      "subtrees_of (wp_addrs s') p = subtrees_of (wp_addrs s) p" "only_addrs (set (x # qs)) s s'" "f < wp_fresh s'"
      using n f by (auto simp: s'_def nn_def only_addrs_def live_addr_def key_of_def subtrees_of_def)
    ultimately show ?thesis
      using n(1) f qs by (intro exI [of _ f] exI [of _ s'] exI [of _ "[f]"]) simp
  next
    case along
    have "z \<in> set qs" "list_rep (wp_addrs s) wp_child (Some z) qs" using n(3) along by (cases qs; simp)+
    then obtain q s' new where ih: "chain_register src ev cb ctx a z s = Some (q, s')"
      "list_rep (wp_addrs s') wp_child (Some z) (qs @ new)" "distinct (qs @ new)" "q \<in> set (qs @ new)"
      "\<forall>q \<in> set (qs @ new). live_addr s' q \<and> key_of (wp_addrs s') q = Some a" "set new \<subseteq> {wp_fresh s ..< wp_fresh s'}"
      "watches s' (qs @ new) = note_watch ev cb ctx (watches s qs)"
      "\<forall>q \<in> set qs. subtrees_of (wp_addrs s') q = subtrees_of (wp_addrs s) q" "only_addrs (set qs) s s'"
      using Cons.IH [of z] Cons.prems by auto
    have p: "wp_addrs s' p = Some n" "p < wp_fresh s'" "p \<notin> set (qs @ new)"
      using ih(6,9) n Cons.prems(2) by (auto simp: only_addrs_def)
    have "chain_register src ev cb ctx a p s = Some (q, s')"
      using n along ih(1) by (subst chain_register.simps) simp
    moreover have "list_rep (wp_addrs s') wp_child (Some p) ((x # qs) @ new)"
      using p ih(2) n(1) along by simp
    moreover have "watches s' ((x # qs) @ new) = note_watch ev cb ctx (watches s (x # qs))"
      using p n along ih(7) by (simp add: watch_of_def)
    moreover have "\<forall>q \<in> set ((x # qs) @ new). live_addr s' q \<and> key_of (wp_addrs s') q = Some a"
      using ih(5) p n by (auto simp: live_addr_def key_of_def)
    moreover have "\<forall>q \<in> set (x # qs). subtrees_of (wp_addrs s') q = subtrees_of (wp_addrs s) q"
      using ih(8) p n by (auto simp: subtrees_of_def)
    moreover have "only_addrs (set (x # qs)) s s'" using ih(9) by (auto simp: only_addrs_def)
    ultimately show ?thesis
      using ih(3,4,6) p(3) n(1) by (intro exI [of _ q] exI [of _ s'] exI [of _ new]) simp
  qed
qed simp

lemma live_old: "(\<And>q. q \<in> A \<Longrightarrow> live_addr s q) \<Longrightarrow> A \<inter> {wp_fresh s ..< x} = {}"
proof -
  assume "\<And>q. q \<in> A \<Longrightarrow> live_addr s q"
  then have "q < wp_fresh s" if "q \<in> A" for q using that by (simp add: live_addr_def)
  then show ?thesis by force
qed

text \<open>A registration in a tree, on the functional side.\<close>

definition tree_ok :: "watch_store \<Rightarrow> watch_tree \<Rightarrow> bool" where
  "tree_ok s t \<longleftrightarrow> distinct (tree_refs t) \<and> (\<forall>q \<in> set (tree_refs t). live_addr s q) \<and> ordered t"

definition noted :: "u32 \<Rightarrow> wp_callback \<Rightarrow> wp_context \<Rightarrow> u16 \<Rightarrow> wp_ref
    \<Rightarrow> watch_store \<Rightarrow> watch_tree \<Rightarrow> watch_store \<Rightarrow> watch_tree \<Rightarrow> bool" where
  "noted ev cb ctx a q s t s' t' \<longleftrightarrow> tree_ok s' t' \<and> tree_keys t' = insert a (tree_keys t)
     \<and> set (tree_refs t') \<subseteq> set (tree_refs t) \<union> {wp_fresh s ..< wp_fresh s'} \<and> q \<in> set (watch_lookup t' a)
     \<and> (\<forall>x. watched (wp_addrs s') t' x =
          (if x = a then note_watch ev cb ctx (watched (wp_addrs s) t a) else watched (wp_addrs s) t x))"

lemma only_addrs_tree:
  assumes "only_addrs Q s s'" "set (tree_refs u) \<inter> Q = {}" "\<forall>q \<in> set (tree_refs u). live_addr s q"
  shows "tree_rep (wp_addrs s') p u = tree_rep (wp_addrs s) p u"
    and "watched (wp_addrs s') u x = watched (wp_addrs s) u x"
    and "q \<in> set (tree_refs u) \<Longrightarrow> live_addr s' q"
proof -
  have same: "wp_addrs s' q = wp_addrs s q" if "q \<in> set (tree_refs u)" for q
    using assms that unfolding only_addrs_def live_addr_def by blast
  then show "tree_rep (wp_addrs s') p u = tree_rep (wp_addrs s) p u" by (intro tree_rep_cong) simp
  show "watched (wp_addrs s') u x = watched (wp_addrs s) u x"
    unfolding watched_def using lookup_refs [of u x] same by (intro map_cong) auto
  show "live_addr s' q" if "q \<in> set (tree_refs u)"
    using assms(1,3) that same [OF that] by (auto simp: live_addr_def only_addrs_def)
qed

lemma only_addrs_chain:
  assumes "only_addrs Q s s'" "\<forall>q \<in> set qs. live_addr s q \<and> (q \<in> Q \<longrightarrow> q = p)"
    and "p < wp_fresh s" "wp_addrs s p = Some n" "wp_addrs s' p = Some n'" "watch_of n' = watch_of n"
    "wp_child n' = wp_child n" "wp_addr n' = wp_addr n" "callback_fn n' = callback_fn n"
  shows "list_rep (wp_addrs s') wp_child x qs = list_rep (wp_addrs s) wp_child x qs"
    and "watches s' qs = watches s qs" "\<forall>q \<in> set qs. live_addr s' q \<and> key_of (wp_addrs s') q = key_of (wp_addrs s) q"
proof -
  have same: "wp_addrs s' q = wp_addrs s q" if "q \<in> set qs" "q \<noteq> p" for q
    using assms(1,2) that unfolding only_addrs_def live_addr_def by blast
  have "map_option wp_child (wp_addrs s q) = map_option wp_child (wp_addrs s' q)" if "q \<in> set qs" for q
    using same [OF that] assms by (cases "q = p") auto
  then show "list_rep (wp_addrs s') wp_child x qs = list_rep (wp_addrs s) wp_child x qs"
    by (intro list_rep_cong) simp
  have "watch_of (the (wp_addrs s' q)) = watch_of (the (wp_addrs s q))" if "q \<in> set qs" for q
    using same [OF that] assms by (cases "q = p") auto
  then show "watches s' qs = watches s qs" by simp
  have "live_addr s' q \<and> key_of (wp_addrs s') q = key_of (wp_addrs s) q" if "q \<in> set qs" for q
    using same [OF that] assms(1,2) assms(4-9) that
    by (cases "q = p") (auto simp: live_addr_def key_of_def only_addrs_def)
  then show "\<forall>q \<in> set qs. live_addr s' q \<and> key_of (wp_addrs s') q = key_of (wp_addrs s) q" by blast
qed

text \<open>The node above a subtree in which an address was registered.\<close>

lemma graft_left:
  assumes "tree_rep (wp_addrs s) (Some p) (Node l (b, qs) r)" "tree_ok s (Node l (b, qs) r)" "wp_addrs s p = Some n"
    and "a < b" "noted ev cb ctx a q s l s' l'" "tree_rep (wp_addrs s') z l'"
    and "only_addrs (insert p (set (tree_refs l))) s s'" "wp_addrs s' p = Some (n\<lparr>wp_left := z\<rparr>)"
  shows "tree_rep (wp_addrs s') (Some p) (Node l' (b, qs) r)"
    and "noted ev cb ctx a q s (Node l (b, qs) r) s' (Node l' (b, qs) r)"
proof -
  obtain ps where qs: "qs = p # ps" using assms(1) by (cases qs) auto
  have ok: "distinct (tree_refs l @ qs @ tree_refs r)" "\<forall>q \<in> set (tree_refs l) \<union> set qs \<union> set (tree_refs r). live_addr s q"
    "\<forall>x \<in> tree_keys l. x < b" "\<forall>x \<in> tree_keys r. b < x" "ordered l" "ordered r"
    using assms(2) by (auto simp: tree_ok_def)
  have "\<forall>q \<in> set qs. live_addr s q \<and> (q \<in> insert p (set (tree_refs l)) \<longrightarrow> q = p)" "p < wp_fresh s"
    using ok(1,2) by (auto simp: qs live_addr_def)
  note chain = only_addrs_chain [OF assms(7) this assms(3,8)]
  have chain: "list_rep (wp_addrs s') wp_child x qs = list_rep (wp_addrs s) wp_child x qs" "watches s' qs = watches s qs"
    "\<forall>q \<in> set qs. live_addr s' q \<and> key_of (wp_addrs s') q = key_of (wp_addrs s) q" for x
    by (rule chain; simp add: watch_of_def)+
  have "set (tree_refs r) \<inter> insert p (set (tree_refs l)) = {}" using ok(1) qs by auto
  note right = only_addrs_tree [OF assms(7) this] 
  have right: "tree_rep (wp_addrs s') x r = tree_rep (wp_addrs s) x r" "watched (wp_addrs s') r y = watched (wp_addrs s) r y"
    "\<forall>q \<in> set (tree_refs r). live_addr s' q" for x y
    using right ok(2) by auto
  have l': "distinct (tree_refs l')" "\<forall>q \<in> set (tree_refs l'). live_addr s' q" "ordered l'"
    "tree_keys l' = insert a (tree_keys l)" "set (tree_refs l') \<subseteq> set (tree_refs l) \<union> {wp_fresh s ..< wp_fresh s'}"
    "q \<in> set (watch_lookup l' a)"
    "\<And>x. watched (wp_addrs s') l' x = (if x = a then note_watch ev cb ctx (watched (wp_addrs s) l a) else watched (wp_addrs s) l x)"
    using assms(5) by (auto simp: noted_def tree_ok_def)
  show "tree_rep (wp_addrs s') (Some p) (Node l' (b, qs) r)"
    using assms(1,3,6,8) chain right by (auto simp: qs)
  have old: "(set (tree_refs l) \<union> set qs \<union> set (tree_refs r)) \<inter> {wp_fresh s ..< wp_fresh s'} = {}"
    using ok(2) by (intro live_old) blast
  have "distinct (tree_refs (Node l' (b, qs) r))"
    using ok(1) old l'(1,5) by auto
  moreover have "ordered (Node l' (b, qs) r)" using ok l' assms(4) by auto
  moreover have "\<forall>q \<in> set (tree_refs (Node l' (b, qs) r)). live_addr s' q" using l'(2) chain(3) right(3) by auto
  ultimately have "tree_ok s' (Node l' (b, qs) r)" by (simp add: tree_ok_def)
  moreover have "watched (wp_addrs s') (Node l' (b, qs) r) x =
      (if x = a then note_watch ev cb ctx (watched (wp_addrs s) (Node l (b, qs) r) a)
       else watched (wp_addrs s) (Node l (b, qs) r) x)" for x
    using l'(7) right(2) chain(2) assms(4) by (auto simp: watched_def)
  ultimately show "noted ev cb ctx a q s (Node l (b, qs) r) s' (Node l' (b, qs) r)"
    using l' assms(4) by (auto simp: noted_def)
qed

lemma graft_right:
  assumes "tree_rep (wp_addrs s) (Some p) (Node l (b, qs) r)" "tree_ok s (Node l (b, qs) r)" "wp_addrs s p = Some n"
    and "b < a" "noted ev cb ctx a q s r s' r'" "tree_rep (wp_addrs s') z r'"
    and "only_addrs (insert p (set (tree_refs r))) s s'" "wp_addrs s' p = Some (n\<lparr>wp_right := z\<rparr>)"
  shows "tree_rep (wp_addrs s') (Some p) (Node l (b, qs) r')"
    and "noted ev cb ctx a q s (Node l (b, qs) r) s' (Node l (b, qs) r')"
proof -
  obtain ps where qs: "qs = p # ps" using assms(1) by (cases qs) auto
  have ok: "distinct (tree_refs l @ qs @ tree_refs r)" "\<forall>q \<in> set (tree_refs l) \<union> set qs \<union> set (tree_refs r). live_addr s q"
    "\<forall>x \<in> tree_keys l. x < b" "\<forall>x \<in> tree_keys r. b < x" "ordered l" "ordered r"
    using assms(2) by (auto simp: tree_ok_def)
  have "\<forall>q \<in> set qs. live_addr s q \<and> (q \<in> insert p (set (tree_refs r)) \<longrightarrow> q = p)" "p < wp_fresh s"
    using ok(1,2) by (auto simp: qs live_addr_def)
  note chain = only_addrs_chain [OF assms(7) this assms(3,8)]
  have chain: "list_rep (wp_addrs s') wp_child x qs = list_rep (wp_addrs s) wp_child x qs" "watches s' qs = watches s qs"
    "\<forall>q \<in> set qs. live_addr s' q \<and> key_of (wp_addrs s') q = key_of (wp_addrs s) q" for x
    by (rule chain; simp add: watch_of_def)+
  have "set (tree_refs l) \<inter> insert p (set (tree_refs r)) = {}" using ok(1) qs by auto
  note left = only_addrs_tree [OF assms(7) this]
  have left: "tree_rep (wp_addrs s') x l = tree_rep (wp_addrs s) x l" "watched (wp_addrs s') l y = watched (wp_addrs s) l y"
    "\<forall>q \<in> set (tree_refs l). live_addr s' q" for x y
    using left ok(2) by auto
  have r': "distinct (tree_refs r')" "\<forall>q \<in> set (tree_refs r'). live_addr s' q" "ordered r'"
    "tree_keys r' = insert a (tree_keys r)" "set (tree_refs r') \<subseteq> set (tree_refs r) \<union> {wp_fresh s ..< wp_fresh s'}"
    "q \<in> set (watch_lookup r' a)"
    "\<And>x. watched (wp_addrs s') r' x = (if x = a then note_watch ev cb ctx (watched (wp_addrs s) r a) else watched (wp_addrs s) r x)"
    using assms(5) by (auto simp: noted_def tree_ok_def)
  show "tree_rep (wp_addrs s') (Some p) (Node l (b, qs) r')"
    using assms(1,3,6,8) chain left by (auto simp: qs)
  have old: "(set (tree_refs l) \<union> set qs \<union> set (tree_refs r)) \<inter> {wp_fresh s ..< wp_fresh s'} = {}"
    using ok(2) by (intro live_old) blast
  have "distinct (tree_refs (Node l (b, qs) r'))"
    using ok(1) old r'(1,5) by auto
  moreover have "ordered (Node l (b, qs) r')" using ok r' assms(4) by auto
  moreover have "\<forall>q \<in> set (tree_refs (Node l (b, qs) r')). live_addr s' q" using r'(2) chain(3) left(3) by auto
  ultimately have "tree_ok s' (Node l (b, qs) r')" by (simp add: tree_ok_def)
  moreover have "watched (wp_addrs s') (Node l (b, qs) r') x =
      (if x = a then note_watch ev cb ctx (watched (wp_addrs s) (Node l (b, qs) r) a)
       else watched (wp_addrs s) (Node l (b, qs) r) x)" for x
    using r'(7) left(2) chain(2) assms(4) by (auto simp: watched_def)
  ultimately show "noted ev cb ctx a q s (Node l (b, qs) r) s' (Node l (b, qs) r')"
    using r' assms(4) by (auto simp: noted_def)
qed

lemma graft_chain:
  assumes "tree_rep (wp_addrs s) (Some p) (Node l (a, qs) r)" "tree_ok s (Node l (a, qs) r)"
    and "list_rep (wp_addrs s') wp_child (Some p) (qs @ new)" "distinct (qs @ new)" "q \<in> set (qs @ new)"
    and "\<forall>q \<in> set (qs @ new). live_addr s' q \<and> key_of (wp_addrs s') q = Some a" "set new \<subseteq> {wp_fresh s ..< wp_fresh s'}"
    and "watches s' (qs @ new) = note_watch ev cb ctx (watches s qs)"
    and "\<forall>q \<in> set qs. subtrees_of (wp_addrs s') q = subtrees_of (wp_addrs s) q" "only_addrs (set qs) s s'"
  shows "tree_rep (wp_addrs s') (Some p) (Node l (a, qs @ new) r)"
    and "noted ev cb ctx a q s (Node l (a, qs) r) s' (Node l (a, qs @ new) r)"
proof -
  obtain ps n where qs: "qs = p # ps" "wp_addrs s p = Some n" using assms(1) by (cases qs) auto
  have ok: "distinct (tree_refs l @ qs @ tree_refs r)" "\<forall>q \<in> set (tree_refs l) \<union> set qs \<union> set (tree_refs r). live_addr s q"
    "\<forall>x \<in> tree_keys l. x < a" "\<forall>x \<in> tree_keys r. a < x" "ordered l" "ordered r"
    using assms(2) by (auto simp: tree_ok_def)
  have "set (tree_refs l) \<inter> set qs = {}" "set (tree_refs r) \<inter> set qs = {}" using ok(1) by auto
  note sub = only_addrs_tree [OF assms(10) this(1)] only_addrs_tree [OF assms(10) this(2)]
  have sub: "tree_rep (wp_addrs s') x l = tree_rep (wp_addrs s) x l" "tree_rep (wp_addrs s') x r = tree_rep (wp_addrs s) x r"
    "watched (wp_addrs s') l y = watched (wp_addrs s) l y" "watched (wp_addrs s') r y = watched (wp_addrs s) r y"
    "\<forall>q \<in> set (tree_refs l) \<union> set (tree_refs r). live_addr s' q" for x y
    using sub ok(2) by auto
  obtain n' where n': "wp_addrs s' p = Some n'" "wp_left n' = wp_left n" "wp_right n' = wp_right n"
    using assms(9) qs by (auto simp: subtrees_of_def)
  show "tree_rep (wp_addrs s') (Some p) (Node l (a, qs @ new) r)"
    using assms(1,3,6) n' qs sub by auto
  have old: "(set (tree_refs l) \<union> set qs \<union> set (tree_refs r)) \<inter> {wp_fresh s ..< wp_fresh s'} = {}"
    using ok(2) by (intro live_old) blast
  have "distinct (tree_refs (Node l (a, qs @ new) r))"
    using ok(1) old assms(4,7) by auto
  moreover have "ordered (Node l (a, qs @ new) r)" using ok by auto
  moreover have "\<forall>q \<in> set (tree_refs (Node l (a, qs @ new) r)). live_addr s' q" using sub(5) assms(6) by auto
  ultimately have "tree_ok s' (Node l (a, qs @ new) r)" by (simp add: tree_ok_def)
  moreover have "watched (wp_addrs s') (Node l (a, qs @ new) r) x =
      (if x = a then note_watch ev cb ctx (watched (wp_addrs s) (Node l (a, qs) r) a)
       else watched (wp_addrs s) (Node l (a, qs) r) x)" for x
    using sub(3,4) assms(8) by (auto simp: watched_def simp del: map_append)
  ultimately show "noted ev cb ctx a q s (Node l (a, qs) r) s' (Node l (a, qs @ new) r)"
    using assms(5,7) by (auto simp: noted_def)
qed

text \<open>The new node of an address nobody watched.\<close>

lemma alloc_addr_noted:
  assumes "alloc_addr src e cb ctx a par s = (q, s')" "e = ev AND membus_watchpoint_event_all"
  shows "noted ev cb ctx a q s Leaf s' (Node Leaf (a, [q]) Leaf)" "tree_rep (wp_addrs s') (Some q) (Node Leaf (a, [q]) Leaf)"
    "only_addrs {} s s'" "q = wp_fresh s" "wp_fresh s' = wp_fresh s + 1"
  using assms
  by (auto simp: alloc_addr_def noted_def tree_ok_def live_addr_def watched_def watch_of_def key_of_def only_addrs_def)

lemma noted_frame:
  assumes "noted ev cb ctx a q s t s1 t'" "p \<notin> set (tree_refs t')"
  shows "noted ev cb ctx a q s t (s1\<lparr>wp_addrs := (wp_addrs s1)(p := x)\<rparr>) t'"
proof -
  have "p \<notin> set (watch_lookup t' y)" for y using assms(2) lookup_refs [of t' y] by blast
  then have "watched ((wp_addrs s1)(p := x)) t' y = watched (wp_addrs s1) t' y" for y
    unfolding watched_def by (intro map_cong) auto
  then show ?thesis using assms by (auto simp: noted_def tree_ok_def live_addr_def)
qed

lemma tree_register_notes:
  assumes "tree_rep (wp_addrs s) (Some p) t" "tree_ok s t"
  shows "\<exists>q s' t'. tree_register src ev cb ctx a p s = Some (q, s') \<and> tree_rep (wp_addrs s') (Some p) t'
    \<and> noted ev cb ctx a q s t s' t' \<and> only_addrs (set (tree_refs t)) s s'"
  using assms
proof (induction t arbitrary: p)
  case (Node l k r)
  obtain b qs where k: "k = (b, qs)" by (cases k)
  note rep = Node.prems(1) [unfolded k] and ok = Node.prems(2) [unfolded k]
  obtain ps n where qs: "qs = p # ps" and n: "wp_addrs s p = Some n" "wp_addr n = b" "p < wp_fresh s"
    "tree_rep (wp_addrs s) (wp_left n) l" "tree_rep (wp_addrs s) (wp_right n) r"
    using rep ok by (cases qs) (auto simp: key_of_def tree_ok_def live_addr_def)
  have sub: "tree_ok s l" "tree_ok s r" "p \<notin> set (tree_refs l)" "p \<notin> set (tree_refs r)"
    using ok by (auto simp: tree_ok_def qs)
  have refs: "set (tree_refs (Node l k r)) = set (tree_refs l) \<union> set qs \<union> set (tree_refs r)" by (auto simp: k)
  consider (here) "a = b" | (left) "a < b" | (right) "b < a" by fastforce
  then show ?case
  proof cases
    case here
    have "list_rep (wp_addrs s) wp_child (Some p) qs" "distinct qs"
      "\<forall>q \<in> set qs. live_addr s q \<and> key_of (wp_addrs s) q = Some a"
      using rep ok here by (auto simp: tree_ok_def)
    then obtain q s' new where c: "chain_register src ev cb ctx a p s = Some (q, s')"
      "list_rep (wp_addrs s') wp_child (Some p) (qs @ new)" "distinct (qs @ new)" "q \<in> set (qs @ new)"
      "\<forall>q \<in> set (qs @ new). live_addr s' q \<and> key_of (wp_addrs s') q = Some a" "set new \<subseteq> {wp_fresh s ..< wp_fresh s'}"
      "watches s' (qs @ new) = note_watch ev cb ctx (watches s qs)"
      "\<forall>q \<in> set qs. subtrees_of (wp_addrs s') q = subtrees_of (wp_addrs s) q" "only_addrs (set qs) s s'"
      using chain_register_notes [of s p qs a] by blast
    have "tree_register src ev cb ctx a p s = Some (q, s')"
      using c(1) n here by (subst tree_register.simps) simp
    moreover note graft_chain [OF rep [folded here] ok [folded here] c(2-9)]
    moreover have "only_addrs (set (tree_refs (Node l k r))) s s'"
      using c(9) unfolding refs by (auto simp: only_addrs_def)
    ultimately show ?thesis unfolding k here by blast
  next
    case left
    have "\<exists>q s' z l'. tree_register src ev cb ctx a p s = Some (q, s') \<and> tree_rep (wp_addrs s') z l'
      \<and> noted ev cb ctx a q s l s' l' \<and> only_addrs (insert p (set (tree_refs l))) s s'
      \<and> wp_addrs s' p = Some (n\<lparr>wp_left := z\<rparr>)"
    proof (cases "wp_left n")
      case None
      obtain q s1 where al: "alloc_addr src (ev AND membus_watchpoint_event_all) cb ctx a (Some p) s = (q, s1)"
        by (cases "alloc_addr src (ev AND membus_watchpoint_event_all) cb ctx a (Some p) s")
      note new = alloc_addr_noted [OF al refl]
      define s' where "s' = s1\<lparr>wp_addrs := (wp_addrs s1)(p \<mapsto> n\<lparr>wp_left := Some q\<rparr>)\<rparr>"
      have p: "wp_addrs s1 p = Some n" "p \<noteq> q" using new(3,4) n(1,3) by (auto simp: only_addrs_def)
      have "tree_register src ev cb ctx a p s = Some (q, s')"
        using n None left less_imp_neq [OF left] al p by (subst tree_register.simps) (simp add: set_addr_def s'_def)
      moreover have "tree_rep (wp_addrs s') (Some q) (Node Leaf (a, [q]) Leaf)" "noted ev cb ctx a q s Leaf s' (Node Leaf (a, [q]) Leaf)"
        using new(2) p(2) noted_frame [OF new(1), of p] by (simp_all add: s'_def key_of_def)
      moreover have "only_addrs (insert p (set (tree_refs l))) s s'"
        using new(3) by (auto simp: only_addrs_def s'_def)
      moreover have "wp_addrs s' p = Some (n\<lparr>wp_left := Some q\<rparr>)" by (simp add: s'_def)
      moreover have "l = Leaf" using n(4) None by simp
      ultimately show ?thesis by blast
    next
      case (Some z)
      then obtain q s' l' where ih: "tree_register src ev cb ctx a z s = Some (q, s')" "tree_rep (wp_addrs s') (Some z) l'"
        "noted ev cb ctx a q s l s' l'" "only_addrs (set (tree_refs l)) s s'"
        using Node.IH(1) [of z] n(4) sub(1) by auto
      have "tree_register src ev cb ctx a p s = Some (q, s')"
        using n Some left less_imp_neq [OF left] ih(1) by (subst tree_register.simps) simp
      moreover have "wp_addrs s' p = Some (n\<lparr>wp_left := Some z\<rparr>)"
        using ih(4) sub(3) n Some by (simp add: only_addrs_def)
      moreover have "only_addrs (insert p (set (tree_refs l))) s s'" using ih(4) by (auto simp: only_addrs_def)
      ultimately show ?thesis using ih(2,3) by blast
    qed
    then obtain q s' z l' where c: "tree_register src ev cb ctx a p s = Some (q, s')" "tree_rep (wp_addrs s') z l'"
      "noted ev cb ctx a q s l s' l'" "only_addrs (insert p (set (tree_refs l))) s s'"
      "wp_addrs s' p = Some (n\<lparr>wp_left := z\<rparr>)"
      by blast
    moreover have "only_addrs (set (tree_refs (Node l k r))) s s'"
      using c(4) unfolding refs by (auto simp: only_addrs_def qs)
    ultimately show ?thesis
      using graft_left [OF rep ok n(1) left c(3,2,4,5)] unfolding k by blast
  next
    case right
    have "\<exists>q s' z r'. tree_register src ev cb ctx a p s = Some (q, s') \<and> tree_rep (wp_addrs s') z r'
      \<and> noted ev cb ctx a q s r s' r' \<and> only_addrs (insert p (set (tree_refs r))) s s'
      \<and> wp_addrs s' p = Some (n\<lparr>wp_right := z\<rparr>)"
    proof (cases "wp_right n")
      case None
      obtain q s1 where al: "alloc_addr src (ev AND membus_watchpoint_event_all) cb ctx a (Some p) s = (q, s1)"
        by (cases "alloc_addr src (ev AND membus_watchpoint_event_all) cb ctx a (Some p) s")
      note new = alloc_addr_noted [OF al refl]
      define s' where "s' = s1\<lparr>wp_addrs := (wp_addrs s1)(p \<mapsto> n\<lparr>wp_right := Some q\<rparr>)\<rparr>"
      have p: "wp_addrs s1 p = Some n" "p \<noteq> q" using new(3,4) n(1,3) by (auto simp: only_addrs_def)
      have "tree_register src ev cb ctx a p s = Some (q, s')"
        using n None right less_imp_neq [OF right] less_not_sym [OF right] al p by (subst tree_register.simps) (simp add: set_addr_def s'_def)
      moreover have "tree_rep (wp_addrs s') (Some q) (Node Leaf (a, [q]) Leaf)" "noted ev cb ctx a q s Leaf s' (Node Leaf (a, [q]) Leaf)"
        using new(2) p(2) noted_frame [OF new(1), of p] by (simp_all add: s'_def key_of_def)
      moreover have "only_addrs (insert p (set (tree_refs r))) s s'"
        using new(3) by (auto simp: only_addrs_def s'_def)
      moreover have "wp_addrs s' p = Some (n\<lparr>wp_right := Some q\<rparr>)" by (simp add: s'_def)
      moreover have "r = Leaf" using n(5) None by simp
      ultimately show ?thesis by blast
    next
      case (Some z)
      then obtain q s' r' where ih: "tree_register src ev cb ctx a z s = Some (q, s')" "tree_rep (wp_addrs s') (Some z) r'"
        "noted ev cb ctx a q s r s' r'" "only_addrs (set (tree_refs r)) s s'"
        using Node.IH(2) [of z] n(5) sub(2) by auto
      have "tree_register src ev cb ctx a p s = Some (q, s')"
        using n Some right less_imp_neq [OF right] less_not_sym [OF right] ih(1) by (subst tree_register.simps) simp
      moreover have "wp_addrs s' p = Some (n\<lparr>wp_right := Some z\<rparr>)"
        using ih(4) sub(4) n Some by (simp add: only_addrs_def)
      moreover have "only_addrs (insert p (set (tree_refs r))) s s'" using ih(4) by (auto simp: only_addrs_def)
      ultimately show ?thesis using ih(2,3) by blast
    qed
    then obtain q s' z r' where c: "tree_register src ev cb ctx a p s = Some (q, s')" "tree_rep (wp_addrs s') z r'"
      "noted ev cb ctx a q s r s' r'" "only_addrs (insert p (set (tree_refs r))) s s'"
      "wp_addrs s' p = Some (n\<lparr>wp_right := z\<rparr>)"
      by blast
    moreover have "only_addrs (set (tree_refs (Node l k r))) s s'"
      using c(4) unfolding refs by (auto simp: only_addrs_def qs)
    ultimately show ?thesis
      using graft_right [OF rep ok n(1) right c(3,2,4,5)] unfolding k by blast
  qed
qed simp

end
