(* ===== verification/Watch_Props.thy ===== *)
theory Watch_Props
  imports Watch_Tree
begin

text \<open>
  Properties of the watchpoint module: which callbacks an access calls, what registration adds, and
  where the removal of a watched address goes wrong.
\<close>

section \<open>The state of a module\<close>

definition live_in :: "wp_module_ref \<Rightarrow> watch_store \<Rightarrow> ('a membus_watchpoint_scheme) option \<Rightarrow> bool" where
  "live_in m s x \<longleftrightarrow> (case x of None \<Rightarrow> False | Some n \<Rightarrow> callback_fn n \<noteq> None \<and> source n = Some m)"

text \<open>Module \<open>m\<close> holds the tree \<open>t\<close>, the list \<open>gs\<close> of watchpoints on every address and the list \<open>rs\<close> of
  watchpoints on ranges.\<close>

definition watch_state :: "watch_store \<Rightarrow> wp_module_ref \<Rightarrow> watch_tree \<Rightarrow> wp_ref list \<Rightarrow> wp_ref list \<Rightarrow> bool" where
  "watch_state s m t gs rs \<longleftrightarrow> (\<exists>md. wp_modules s m = Some md
     \<and> tree_rep (wp_addrs s) (addresses md) t \<and> tree_ok s t
     \<and> list_rep (wp_generics s) generic_link (generics md) gs \<and> distinct gs
     \<and> (\<forall>p \<in> set gs. p < wp_fresh s \<and> live_in m s (wp_generics s p))
     \<and> list_rep (wp_ranges s) range_link (address_ranges md) rs \<and> distinct rs
     \<and> (\<forall>p \<in> set rs. p < wp_fresh s \<and> live_in m s (wp_ranges s p)))"

definition module_mode :: "watch_store \<Rightarrow> wp_module_ref \<Rightarrow> u32" where
  "module_mode s m = mode (the (wp_modules s m))"

text \<open>A module that watches the addresses 5, 3 and 8, every address, and the range from 0 to 9.\<close>

definition sample_addr :: "u16 \<Rightarrow> wp_ref option \<Rightarrow> wp_ref option \<Rightarrow> wp_ref option \<Rightarrow> membus_watchpoint_addr" where
  "sample_addr a l r par = \<lparr>subtype = membus_watchpoint_subtype_address, source = Some 0, on_events = 3,
     callback_fn = Some 70, context_ptr = 1, wp_addr = a, wp_left = l, wp_right = r, wp_parent = par, wp_child = None\<rparr>"

definition sample_watches :: watch_store where
  "sample_watches = \<lparr>
     wp_modules = [0 \<mapsto> \<lparr>header_range = \<lparr>addr_lo = 0, addr_len = 0xFFFF\<rparr>, mode = membus_module_mode_rw,
        generics = Some 4, address_ranges = Some 5, addresses = Some 1\<rparr>],
     wp_generics = [4 \<mapsto> \<lparr>subtype = membus_watchpoint_subtype_generic, source = Some 0, on_events = 1,
        callback_fn = Some 71, context_ptr = 2, generic_link = None\<rparr>],
     wp_ranges = [5 \<mapsto> \<lparr>subtype = membus_watchpoint_subtype_address_range, source = Some 0, on_events = 2,
        callback_fn = Some 72, context_ptr = 3, wp_addr_range = \<lparr>addr_lo = 0, addr_len = 10\<rparr>, range_link = None\<rparr>],
     wp_addrs = [1 \<mapsto> sample_addr 5 (Some 2) (Some 3) None, 2 \<mapsto> sample_addr 3 None None (Some 1),
        3 \<mapsto> sample_addr 8 None None (Some 1)],
     wp_fresh = 6\<rparr>"

abbreviation sample_tree :: watch_tree where
  "sample_tree \<equiv> Node (Node Leaf (3, [2]) Leaf) (5, [1]) (Node Leaf (8, [3]) Leaf)"

lemma sample_watch_state: "watch_state sample_watches 0 sample_tree [4] [5]"
  by (simp add: watch_state_def sample_watches_def sample_addr_def key_of_def tree_ok_def live_addr_def live_in_def)

lemma sample_mode: "module_mode sample_watches 0 = membus_module_mode_rw"
  by (simp add: module_mode_def sample_watches_def)

lemma sample_watched:
  "watched (wp_addrs sample_watches) sample_tree x = (if x \<in> {3, 5, 8} then [(3, 70, 1)] else [])"
  by (auto simp: watched_def sample_watches_def sample_addr_def watch_of_def)

section \<open>Notification\<close>

definition generic_watches :: "watch_store \<Rightarrow> wp_ref list \<Rightarrow> watch list" where
  "generic_watches s = List.map (\<lambda>p. watch_of (the (wp_generics s p)))"

definition range_watches :: "watch_store \<Rightarrow> u16 \<Rightarrow> wp_ref list \<Rightarrow> watch list" where
  "range_watches s a rs = List.map (\<lambda>p. watch_of (the (wp_ranges s p)))
     (List.filter (\<lambda>p. memory_addr_range_does_include (wp_addr_range (the (wp_ranges s p))) a) rs)"

fun calls_of :: "u32 \<Rightarrow> u16 \<Rightarrow> u8 \<Rightarrow> watch \<Rightarrow> wp_call list" where
  "calls_of event a v (e, cb, ctx) = (if e AND event = event then [(cb, event, a, v, ctx)] else [])"

lemma notify_calls:
  "callback_fn n \<noteq> None \<Longrightarrow> notify event a (Some v) n = Some (calls_of event a v (watch_of n))"
  by (auto simp: notify_def watch_of_def)

lemma notify_ranges_null [simp]: "notify_ranges h event a v None = Some []"
  by (subst notify_ranges.simps) simp

lemma range_find_null [simp]: "membus_watchpoint_addr_range_find_addr h None a = Some None"
  by (subst membus_watchpoint_addr_range_find_addr.simps) simp

lemma range_calls:
  assumes "list_rep h range_link p rs" "\<And>q n. \<lbrakk>q \<in> set rs; h q = Some n\<rbrakk> \<Longrightarrow> callback_fn n \<noteq> None"
  shows "Option.bind (membus_watchpoint_addr_range_find_addr h p a) (notify_ranges h event a (Some v))
    = Some (concat (List.map (\<lambda>q. calls_of event a v (watch_of (the (h q))))
        (List.filter (\<lambda>q. memory_addr_range_does_include (wp_addr_range (the (h q))) a) rs)))"
  using assms
proof (induction rs arbitrary: p)
  case (Cons q rs)
  then obtain n where n: "p = Some q" "h q = Some n" "list_rep h range_link (range_link n) rs"
    by auto
  then have "callback_fn n \<noteq> None" using n(2) Cons.prems(2) [of q n] by simp
  note n = n this
  have ih: "Option.bind (membus_watchpoint_addr_range_find_addr h (range_link n) a) (notify_ranges h event a (Some v))
    = Some (concat (List.map (\<lambda>q. calls_of event a v (watch_of (the (h q))))
        (List.filter (\<lambda>q. memory_addr_range_does_include (wp_addr_range (the (h q))) a) rs)))"
    by (rule Cons.IH [OF n(3)]) (rule Cons.prems(2), auto)
  show ?case
  proof (cases "memory_addr_range_does_include (wp_addr_range n) a")
    case True
    have "membus_watchpoint_addr_range_find_addr h p a = Some (Some q)"
      using n True by (subst membus_watchpoint_addr_range_find_addr.simps) simp
    moreover have "notify_ranges h event a (Some v) (Some q) = do {
        rest \<leftarrow> Option.bind (membus_watchpoint_addr_range_find_addr h (range_link n) a) (notify_ranges h event a (Some v));
        Some (calls_of event a v (watch_of n) @ rest) }"
      using n by (subst notify_ranges.simps) (simp add: notify_calls bind_assoc)
    ultimately show ?thesis using ih n True by simp
  next
    case False
    have "membus_watchpoint_addr_range_find_addr h p a = membus_watchpoint_addr_range_find_addr h (range_link n) a"
      using n False by (subst membus_watchpoint_addr_range_find_addr.simps) simp
    then show ?thesis using ih n False by simp
  qed
qed simp

lemma notify_all_calls:
  assumes "watch_state s m t gs rs" "wp_modules s m = Some md"
  shows "notify_all s md event a (Some v) = Some (concat (List.map (calls_of event a v)
    (watched (wp_addrs s) t a @ generic_watches s gs @ range_watches s a rs)))"
proof -
  have st: "tree_rep (wp_addrs s) (addresses md) t" "tree_ok s t"
    "list_rep (wp_generics s) generic_link (generics md) gs" "\<forall>p \<in> set gs. live_in m s (wp_generics s p)"
    "list_rep (wp_ranges s) range_link (address_ranges md) rs" "\<forall>p \<in> set rs. live_in m s (wp_ranges s p)"
    using assms by (auto simp: watch_state_def)
  let ?wp = "case watch_lookup t a of [] \<Rightarrow> None | q # _ \<Rightarrow> Some q"
  have find: "membus_watchpoint_addr_find_addr (wp_addrs s) (addresses md) a = Some ?wp"
    "list_rep (wp_addrs s) wp_child ?wp (watch_lookup t a)"
    using find_addr_lookup [OF st(1)] by auto
  have "notify_addrs (wp_addrs s) event a (Some v) ?wp
    = Some (concat (List.map (\<lambda>q. calls_of event a v (watch_of (the (wp_addrs s q)))) (watch_lookup t a)))"
    using chain_calls.walk_list [OF find(2), of event a "Some v" "\<lambda>n. calls_of event a v (watch_of n)"]
      lookup_refs [of t a] st(2)
    by (force simp: tree_ok_def live_addr_def notify_calls)
  moreover have "notify_generics (wp_generics s) event a (Some v) (generics md)
    = Some (concat (List.map (\<lambda>q. calls_of event a v (watch_of (the (wp_generics s q)))) gs))"
    using generic_calls.walk_list [OF st(3), of event a "Some v" "\<lambda>n. calls_of event a v (watch_of n)"] st(4)
    by (force simp: live_in_def notify_calls)
  moreover have "Option.bind (membus_watchpoint_addr_range_find_addr (wp_ranges s) (address_ranges md) a)
      (notify_ranges (wp_ranges s) event a (Some v))
    = Some (concat (List.map (calls_of event a v) (range_watches s a rs)))"
    using range_calls [OF st(5)] st(6) by (force simp: live_in_def range_watches_def comp_def)
  ultimately show ?thesis
    by (simp add: notify_all_def find(1) watched_def generic_watches_def comp_def bind_assoc [symmetric])
qed

text \<open>C20 (refinement).  An access calls exactly the callbacks whose events ask for it, in order: the chain of
  the address, the list of every address, the ranges that include the address; the module accepts.\<close>

theorem access_notifies_watches:
  assumes "watch_state s m t gs rs" "module_mode s m AND membus_module_mode_mask = membus_module_mode_rw"
  shows "membus_module_watchpoints_read_addr m a (Some v) s = Some (membus_module_op_result_accepted,
      concat (List.map (calls_of membus_watchpoint_event_read a v)
        (watched (wp_addrs s) t a @ generic_watches s gs @ range_watches s a rs)))
    \<and> membus_module_watchpoints_write_addr m a v s = Some (membus_module_op_result_accepted,
      concat (List.map (calls_of membus_watchpoint_event_write a v)
        (watched (wp_addrs s) t a @ generic_watches s gs @ range_watches s a rs)))"
proof -
  obtain md where md: "wp_modules s m = Some md" using assms(1) by (auto simp: watch_state_def)
  then show ?thesis
    using assms(2) notify_all_calls [OF assms(1) md]
    by (simp add: membus_module_watchpoints_read_addr_def membus_module_watchpoints_write_addr_def
        module_mode_def mode_defs)
qed

lemma sample_lists: "generic_watches sample_watches [4] = [(1, 71, 2)]" "range_watches sample_watches 8 [5] = [(2, 72, 3)]"
  by (simp_all add: generic_watches_def range_watches_def sample_watches_def watch_of_def
      memory_addr_range_does_include_def)

theorem access_notifies_watches_witness:
  "membus_module_watchpoints_write_addr 0 8 42 sample_watches
     = Some (membus_module_op_result_accepted, [(70, 2, 8, 42, 1), (72, 2, 8, 42, 3)])"
  using access_notifies_watches [OF sample_watch_state, of 8 42] sample_mode
  by (simp add: sample_watched sample_lists mode_defs event_defs del: One_nat_def)

section \<open>Registration\<close>

text \<open>C21 (refinement).  Registering a callback on an address acts on the list of watches of that address
  alone: the first watch with the same callback gets the new events (and keeps its old context), else
  a watch is added at the end; the tree stays a search tree.  The very first watch of a module keeps
  its events as given, the merge flag included.\<close>

theorem register_refines_watches:
  assumes "watch_state s m t gs rs"
  shows "\<exists>q s' t'. membus_module_watchpoints_register_addr m ev (Some cb) ctx a s = Some (Some (Addr_ref q), s')
    \<and> watch_state s' m t' gs rs \<and> tree_keys t' = insert a (tree_keys t) \<and> q \<in> set (watch_lookup t' a)
    \<and> (\<forall>x. watched (wp_addrs s') t' x =
        (if x \<noteq> a then watched (wp_addrs s) t x
         else if t = Leaf then [(ev, cb, ctx)]
         else note_watch ev cb ctx (watched (wp_addrs s) t a)))"
proof -
  obtain md where md: "wp_modules s m = Some md" and st: "tree_rep (wp_addrs s) (addresses md) t" "tree_ok s t"
    "list_rep (wp_generics s) generic_link (generics md) gs" "distinct gs"
    "\<forall>p \<in> set gs. p < wp_fresh s \<and> live_in m s (wp_generics s p)"
    "list_rep (wp_ranges s) range_link (address_ranges md) rs" "distinct rs"
    "\<forall>p \<in> set rs. p < wp_fresh s \<and> live_in m s (wp_ranges s p)"
    using assms by (auto simp: watch_state_def)
  show ?thesis
  proof (cases "addresses md")
    case None
    define q where "q = wp_fresh s"
    define nn where "nn = \<lparr>subtype = membus_watchpoint_subtype_address, source = Some m, on_events = ev,
      callback_fn = Some cb, context_ptr = ctx, wp_addr = a, wp_left = None, wp_right = None,
      wp_parent = None, wp_child = None\<rparr>"
    define s' where "s' = s\<lparr>wp_addrs := (wp_addrs s)(q \<mapsto> nn), wp_fresh := q + 1,
      wp_modules := (wp_modules s)(m \<mapsto> md\<lparr>addresses := Some q\<rparr>)\<rparr>"
    let ?t = "Node Leaf (a, [q]) Leaf"
    have "membus_module_watchpoints_register_addr m ev (Some cb) ctx a s = Some (Some (Addr_ref q), s')"
      using md None by (simp add: membus_module_watchpoints_register_addr_def set_module_def alloc_addr_def
          membus_watchpoint_addr_register_def s'_def q_def nn_def)
    moreover have "watch_state s' m ?t gs rs"
      using st(3-8)
      by (auto simp: watch_state_def s'_def nn_def key_of_def tree_ok_def live_addr_def live_in_def q_def less_Suc_eq)
    moreover have "watched (wp_addrs s') ?t x = (if x \<noteq> a then [] else [(ev, cb, ctx)])" for x
      by (simp add: watched_def s'_def nn_def watch_of_def)
    moreover have "t = Leaf" using st(1) None by simp
    ultimately show ?thesis
      by (intro exI [of _ q] exI [of _ s'] exI [of _ ?t]) (simp add: watched_def)
  next
    case (Some p)
    then obtain q s' t' where r: "tree_register m ev cb ctx a p s = Some (q, s')" "tree_rep (wp_addrs s') (Some p) t'"
      "noted ev cb ctx a q s t s' t'" "only_addrs (set (tree_refs t)) s s'"
      using tree_register_notes [of s p t m ev cb ctx a] st(1,2) by auto
    have "membus_module_watchpoints_register_addr m ev (Some cb) ctx a s = Some (Some (Addr_ref q), s')"
      using md Some r(1) by (simp add: membus_module_watchpoints_register_addr_def membus_watchpoint_addr_register_def)
    moreover have "watch_state s' m t' gs rs"
      using md Some st r by (fastforce simp: watch_state_def only_addrs_def noted_def live_in_def)
    moreover have "t \<noteq> Leaf" using st(1) Some by auto
    ultimately show ?thesis
      using r(3) by (intro exI [of _ q] exI [of _ s'] exI [of _ t']) (simp add: noted_def)
  qed
qed

theorem register_refines_watches_witness:
  "\<exists>q s' t'. membus_module_watchpoints_register_addr 0 1 (Some 99) 7 8 sample_watches = Some (Some (Addr_ref q), s')
     \<and> watched (wp_addrs s') t' 8 = [(3, 70, 1), (1, 99, 7)] \<and> watched (wp_addrs s') t' 5 = [(3, 70, 1)]"
proof -
  obtain q s' t' where "membus_module_watchpoints_register_addr 0 1 (Some 99) 7 8 sample_watches = Some (Some (Addr_ref q), s')"
    and w: "\<forall>x. watched (wp_addrs s') t' x =
        (if x \<noteq> 8 then watched (wp_addrs sample_watches) sample_tree x
         else if sample_tree = Leaf then [(1, 99, 7)]
         else note_watch 1 99 7 (watched (wp_addrs sample_watches) sample_tree 8))"
    using register_refines_watches [OF sample_watch_state, of 1 99 7 8] by blast
  moreover have "watched (wp_addrs s') t' 8 = [(3, 70, 1), (1, 99, 7)]" "watched (wp_addrs s') t' 5 = [(3, 70, 1)]"
    using w by (simp_all add: sample_watched event_defs del: One_nat_def)
  ultimately show ?thesis by blast
qed

lemma generic_unregister_state:
  assumes "watch_state s m t gs rs" "p \<in> set gs"
  shows "\<exists>s'. membus_watchpoint_generic_unregister p s = Some s' \<and> watch_state s' m t (remove1 p gs) rs
    \<and> (\<forall>x. x \<noteq> p \<longrightarrow> map_option watch_of (wp_generics s' x) = map_option watch_of (wp_generics s x))
    \<and> wp_addrs s' = wp_addrs s \<and> wp_ranges s' = wp_ranges s"
proof -
  obtain md where md: "wp_modules s m = Some md" and st: "tree_rep (wp_addrs s) (addresses md) t" "tree_ok s t"
    "list_rep (wp_generics s) generic_link (generics md) gs" "distinct gs"
    "\<forall>p \<in> set gs. p < wp_fresh s \<and> live_in m s (wp_generics s p)"
    "list_rep (wp_ranges s) range_link (address_ranges md) rs" "distinct rs"
    "\<forall>p \<in> set rs. p < wp_fresh s \<and> live_in m s (wp_ranges s p)"
    using assms by (auto simp: watch_state_def)
  obtain n where n: "wp_generics s p = Some n" "source n = Some m"
    using st(5) assms(2) by (force simp: live_in_def split: option.splits)
  obtain h q where h: "generic_unlink m (generics md) p (generics md) None s
      = Some (s\<lparr>wp_modules := (wp_modules s)(m \<mapsto> md\<lparr>generics := q\<rparr>), wp_generics := h\<rparr>)"
    "list_rep h generic_link q (remove1 p gs)"
    "\<And>x. x \<noteq> p \<Longrightarrow> map_option (\<lambda>n. (source n, watch_of n, callback_fn n)) (h x)
      = map_option (\<lambda>n. (source n, watch_of n, callback_fn n)) (wp_generics s x)"
    using generic_list.unlink_removes [OF st(3,4) assms(2) md] by auto
  let ?s = "s\<lparr>wp_modules := (wp_modules s)(m \<mapsto> md\<lparr>generics := q\<rparr>), wp_generics := h\<rparr>"
  have keep: "live_in m ?s (h x) = live_in m s (wp_generics s x)"
    "map_option watch_of (h x) = map_option watch_of (wp_generics s x)" if "x \<noteq> p" for x
    using h(3) [OF that] by (cases "h x"; cases "wp_generics s x"; simp add: live_in_def)+
  have "live_in m ?s y = live_in m s y" for y :: "membus_watchpoint_addr_range option"
    by (simp add: live_in_def split: option.split)
  then have "watch_state ?s m t (remove1 p gs) rs"
    using st h(2) keep(1)
    by (auto simp: watch_state_def tree_ok_def live_addr_def set_remove1_eq)
  then show ?thesis
    using md n h(1) keep(2)
    by (intro exI [of _ ?s]) (simp add: membus_watchpoint_generic_unregister_def)
qed

lemma range_unregister_state:
  assumes "watch_state s m t gs rs" "p \<in> set rs"
  shows "\<exists>s'. membus_watchpoint_addr_range_unregister p s = Some s' \<and> watch_state s' m t gs (remove1 p rs)
    \<and> (\<forall>x. x \<noteq> p \<longrightarrow> map_option (\<lambda>n. (watch_of n, wp_addr_range n)) (wp_ranges s' x)
        = map_option (\<lambda>n. (watch_of n, wp_addr_range n)) (wp_ranges s x))
    \<and> wp_addrs s' = wp_addrs s \<and> wp_generics s' = wp_generics s"
proof -
  obtain md where md: "wp_modules s m = Some md" and st: "tree_rep (wp_addrs s) (addresses md) t" "tree_ok s t"
    "list_rep (wp_generics s) generic_link (generics md) gs" "distinct gs"
    "\<forall>p \<in> set gs. p < wp_fresh s \<and> live_in m s (wp_generics s p)"
    "list_rep (wp_ranges s) range_link (address_ranges md) rs" "distinct rs"
    "\<forall>p \<in> set rs. p < wp_fresh s \<and> live_in m s (wp_ranges s p)"
    using assms by (auto simp: watch_state_def)
  obtain n where n: "wp_ranges s p = Some n" "source n = Some m"
    using st(8) assms(2) by (force simp: live_in_def split: option.splits)
  obtain h q where h: "range_unlink m (address_ranges md) p (address_ranges md) None s
      = Some (s\<lparr>wp_modules := (wp_modules s)(m \<mapsto> md\<lparr>address_ranges := q\<rparr>), wp_ranges := h\<rparr>)"
    "list_rep h range_link q (remove1 p rs)"
    "\<And>x. x \<noteq> p \<Longrightarrow> map_option (\<lambda>n. (source n, watch_of n, callback_fn n, wp_addr_range n)) (h x)
      = map_option (\<lambda>n. (source n, watch_of n, callback_fn n, wp_addr_range n)) (wp_ranges s x)"
    using range_list.unlink_removes [OF st(6,7) assms(2) md] by auto
  let ?s = "s\<lparr>wp_modules := (wp_modules s)(m \<mapsto> md\<lparr>address_ranges := q\<rparr>), wp_ranges := h\<rparr>"
  have keep: "live_in m ?s (h x) = live_in m s (wp_ranges s x)"
    "map_option (\<lambda>n. (watch_of n, wp_addr_range n)) (h x)
      = map_option (\<lambda>n. (watch_of n, wp_addr_range n)) (wp_ranges s x)" if "x \<noteq> p" for x
    using h(3) [OF that] by (cases "h x"; cases "wp_ranges s x"; simp add: live_in_def)+
  have "live_in m ?s y = live_in m s y" for y :: "membus_watchpoint_generic option"
    by (simp add: live_in_def split: option.split)
  then have "watch_state ?s m t gs (remove1 p rs)"
    using st h(2) keep(1)
    by (auto simp: watch_state_def tree_ok_def live_addr_def set_remove1_eq)
  then show ?thesis
    using md n h(1) keep(2)
    by (intro exI [of _ ?s]) (simp add: membus_watchpoint_addr_range_unregister_def)
qed

text \<open>C23 (functional).  Unregistering a watchpoint on every address, or on a range, takes that one off its list
  and changes nothing else that is watched.\<close>

theorem unregister_removes_from_list:
  assumes "watch_state s m t gs rs" "p \<in> set gs" "q \<in> set rs"
  shows "(\<exists>s'. membus_watchpoint_unregister (Generic_ref p) s = Some s' \<and> watch_state s' m t (remove1 p gs) rs
      \<and> (\<forall>x. x \<noteq> p \<longrightarrow> map_option watch_of (wp_generics s' x) = map_option watch_of (wp_generics s x))
      \<and> wp_addrs s' = wp_addrs s \<and> wp_ranges s' = wp_ranges s)
    \<and> (\<exists>s'. membus_watchpoint_unregister (Range_ref q) s = Some s' \<and> watch_state s' m t gs (remove1 q rs)
      \<and> (\<forall>x. x \<noteq> q \<longrightarrow> map_option (\<lambda>n. (watch_of n, wp_addr_range n)) (wp_ranges s' x)
          = map_option (\<lambda>n. (watch_of n, wp_addr_range n)) (wp_ranges s x))
      \<and> wp_addrs s' = wp_addrs s \<and> wp_generics s' = wp_generics s)"
  using generic_unregister_state [OF assms(1,2)] range_unregister_state [OF assms(1,3)]
  by (simp add: membus_watchpoint_unregister_def)

theorem unregister_removes_from_list_witness:
  "\<exists>s'. membus_watchpoint_unregister (Generic_ref 4) sample_watches = Some s' \<and> watch_state s' 0 sample_tree [] [5]"
  using unregister_removes_from_list [OF sample_watch_state, of 4 5] by auto

section \<open>Removing a watched address\<close>

text \<open>A search that only meets nodes below its address and goes round in a set of them never ends.\<close>

definition right_closed :: "addr_heap \<Rightarrow> u16 \<Rightarrow> wp_ref set \<Rightarrow> bool" where
  "right_closed h x S \<longleftrightarrow> (\<forall>q \<in> S. \<exists>n z. h q = Some n \<and> wp_addr n < x \<and> wp_right n = Some z \<and> z \<in> S)"

lemma find_addr_escapes:
  "\<lbrakk>membus_watchpoint_addr_find_addr h p x = Some y; right_closed h x S\<rbrakk> \<Longrightarrow> p \<notin> Some ` S"
proof (induction h p x y rule: membus_watchpoint_addr_find_addr.raw_induct [rotated, consumes 1, case_names step])
  case (step find h p x y)
  show ?case
  proof
    assume "p \<in> Some ` S"
    then obtain q n z where n: "p = Some q" "h q = Some n" "wp_addr n < x" "wp_right n = Some z" "z \<in> S"
      using step(3) by (auto simp: right_closed_def)
    then have "find h (Some z) x = Some y"
      using step(2) less_not_sym [OF n(3)] less_imp_neq [OF n(3)] by simp
    then have "Some z \<notin> Some ` S" using step(1,3) by blast
    then show False using n(5) by simp
  qed
qed

lemma find_addr_diverges:
  assumes "right_closed h x S" "q \<in> S"
  shows "membus_watchpoint_addr_find_addr h (Some q) x = None"
  using find_addr_escapes [OF _ assms(1)] assms(2)
  by (cases "membus_watchpoint_addr_find_addr h (Some q) x") auto

lemma rightmost_spine:
  assumes "tree_rep h (Some p) t"
  shows "\<exists>z S. rightmost_leaf h p = Some z \<and> p \<in> S \<and> z \<in> S \<and> S \<subseteq> set (tree_refs t)
    \<and> (\<forall>q \<in> S. \<exists>n. h q = Some n \<and> wp_addr n \<in> tree_keys t \<and> (q \<noteq> z \<longrightarrow> (\<exists>y \<in> S. wp_right n = Some y)))"
  using assms
proof (induction t arbitrary: p)
  case (Node l k r)
  obtain b ps n where k: "k = (b, p # ps)" and n: "h p = Some n" "wp_addr n = b" "tree_rep h (wp_right n) r"
    using Node.prems by (cases k; cases "snd k") (auto simp: key_of_def)
  show ?case
  proof (cases "wp_right n")
    case None
    then show ?thesis
      using k n by (intro exI [of _ p] exI [of _ "{p}"]) (subst rightmost_leaf.simps, simp)
  next
    case (Some y)
    then obtain z S where S: "rightmost_leaf h y = Some z" "y \<in> S" "z \<in> S" "S \<subseteq> set (tree_refs r)"
      "\<forall>q \<in> S. \<exists>n. h q = Some n \<and> wp_addr n \<in> tree_keys r \<and> (q \<noteq> z \<longrightarrow> (\<exists>y \<in> S. wp_right n = Some y))"
      using Node.IH(2) [of y] n(3) by auto
    have "rightmost_leaf h p = Some z" using n Some S(1) by (subst rightmost_leaf.simps) simp
    then show ?thesis
      using k n Some S(2-5) by (intro exI [of _ z] exI [of _ "insert p S"]) fastforce
  qed
qed simp

text \<open>The objects after the removal of a root with two subtrees: the rightmost node \<open>z\<close> of the right subtree is
  the new root, and still hangs in the subtree that now hangs below it.\<close>

lemma unregister_root:
  assumes "wp_addrs s p = Some n" "wp_parent n = None" "wp_child n = None" "wp_left n = Some l" "wp_right n = Some r"
    and "source n = Some m" "wp_modules s m = Some md" "rightmost_leaf (wp_addrs s) r = Some z"
    and "wp_addrs s l = Some nl" "wp_addrs s r = Some nr" "wp_addrs s z = Some nz"
    and "p \<notin> {l, r, z}" "l \<notin> {r, z}"
  shows "\<exists>s' nz'. membus_watchpoint_unregister (Addr_ref p) s = Some s'
    \<and> wp_modules s' m = Some (md\<lparr>addresses := Some z\<rparr>) \<and> wp_addrs s' z = Some nz' \<and> wp_addr nz' = wp_addr nz
    \<and> wp_left nz' = Some l \<and> wp_right nz' = Some r
    \<and> (\<forall>q. q \<noteq> p \<and> q \<noteq> z \<longrightarrow> map_option shape (wp_addrs s' q) = map_option shape (wp_addrs s q))"
  using assms
  by (cases "r = z")
    (auto simp: membus_watchpoint_unregister_def membus_watchpoint_addr_unregister_def remove_from_tree_def
      adopt_subtrees_def hang_def set_addr_def set_module_def shape_def)

text \<open>C22 (liveness).  Removing the root of the tree when it has two subtrees and is alone at its address makes
  a cycle: every later read of an address above all watched ones searches for ever.\<close>

theorem unregister_root_hangs_search:
  assumes "watch_state s m (Node l (a, [p]) r) gs rs" "l \<noteq> Leaf" "r \<noteq> Leaf"
    and "wp_addrs s p = Some n" "wp_parent n = None" "source n = Some m"
    and "module_mode s m AND membus_module_mode_mask \<noteq> membus_module_mode_wo"
  shows "\<exists>s'. membus_watchpoint_unregister (Addr_ref p) s = Some s'
    \<and> (\<forall>x v. (\<forall>k \<in> tree_keys r. k < x) \<longrightarrow> membus_module_watchpoints_read_addr m x (Some v) s' = None)"
proof -
  obtain md where md: "wp_modules s m = Some md" and t: "tree_rep (wp_addrs s) (addresses md) (Node l (a, [p]) r)"
    "distinct (tree_refs (Node l (a, [p]) r))"
    using assms(1) by (auto simp: watch_state_def tree_ok_def)
  have sub: "wp_child n = None" "tree_rep (wp_addrs s) (wp_left n) l" "tree_rep (wp_addrs s) (wp_right n) r"
    using t(1) assms(4) by auto
  obtain lp rp where n: "wp_left n = Some lp" "wp_right n = Some rp"
    using sub(2,3) assms(2,3) by (cases "wp_left n"; cases "wp_right n") auto
  obtain z S where S: "rightmost_leaf (wp_addrs s) rp = Some z" "rp \<in> S" "z \<in> S" "S \<subseteq> set (tree_refs r)"
    "\<forall>q \<in> S. \<exists>n. wp_addrs s q = Some n \<and> wp_addr n \<in> tree_keys r \<and> (q \<noteq> z \<longrightarrow> (\<exists>y \<in> S. wp_right n = Some y))"
    using rightmost_spine [of "wp_addrs s" rp r] sub(3) n(2) by auto
  have "lp \<in> set (tree_refs l)" "\<exists>nl. wp_addrs s lp = Some nl"
    using sub(2) n(1) assms(2) by (cases l; cases "value l"; auto; cases "snd (value l)"; auto)+
  then obtain nl nr nz where live: "wp_addrs s lp = Some nl" "wp_addrs s rp = Some nr" "wp_addrs s z = Some nz"
    "lp \<in> set (tree_refs l)"
    using S(2,3,5) by blast
  have "p \<notin> {lp, rp, z}" "lp \<notin> {rp, z}" using t(2) S(2-4) live(4) by auto
  with live obtain s' nz' where s': "membus_watchpoint_unregister (Addr_ref p) s = Some s'"
    "wp_modules s' m = Some (md\<lparr>addresses := Some z\<rparr>)" "wp_addrs s' z = Some nz'" "wp_addr nz' = wp_addr nz" "wp_right nz' = Some rp"
    "\<And>q. q \<noteq> p \<Longrightarrow> q \<noteq> z \<Longrightarrow> map_option shape (wp_addrs s' q) = map_option shape (wp_addrs s q)"
    using unregister_root [OF assms(4,5) sub(1) n assms(6) md S(1)] by blast
  have "membus_module_watchpoints_read_addr m x (Some v) s' = None" if x: "\<forall>k \<in> tree_keys r. k < x" for x v
  proof -
    have "\<exists>n y. wp_addrs s' q = Some n \<and> wp_addr n < x \<and> wp_right n = Some y \<and> y \<in> S" if "q \<in> S" for q
    proof (cases "q = z")
      case True
      then show ?thesis using s'(3-5) S(2,3,5) live(3) x by auto
    next
      case False
      obtain n y where "wp_addrs s q = Some n" "wp_addr n < x" "wp_right n = Some y" "y \<in> S"
        using S(5) \<open>q \<in> S\<close> False x by blast
      moreover have "q \<noteq> p" using \<open>q \<in> S\<close> S(4) t(2) by auto
      ultimately show ?thesis using s'(6) [of q] False by (cases "wp_addrs s' q") (auto simp: shape_def)
    qed
    then have "membus_watchpoint_addr_find_addr (wp_addrs s') (Some z) x = None"
      using S(3) by (intro find_addr_diverges [of _ _ S]) (auto simp: right_closed_def)
    then show ?thesis
      using s'(2) assms(7) md
      by (simp add: membus_module_watchpoints_read_addr_def notify_all_def module_mode_def)
  qed
  then show ?thesis using s'(1) by blast
qed

theorem unregister_root_hangs_search_witness:
  "\<exists>s'. membus_watchpoint_unregister (Addr_ref 1) sample_watches = Some s'
     \<and> membus_module_watchpoints_read_addr 0 9 (Some 0) s' = None"
proof -
  let ?n = "sample_addr 5 (Some 2) (Some 3) None"
  have "wp_addrs sample_watches 1 = Some ?n" "wp_parent ?n = None" "source ?n = Some 0"
    by (simp_all add: sample_watches_def sample_addr_def)
  moreover have "module_mode sample_watches 0 AND membus_module_mode_mask \<noteq> membus_module_mode_wo"
    by (simp add: sample_mode mode_defs)
  ultimately show ?thesis
    using unregister_root_hangs_search [OF sample_watch_state, of ?n] by fastforce
qed

text \<open>Removing a watchpoint in the middle of the chain of an address leaves the next one pointing
  at the freed object as its parent: removing that one as well accesses freed memory.\<close>

theorem unregister_chain_uses_freed:
  assumes "wp_addrs s p = Some n" "wp_child n = Some q" "wp_addrs s q = Some nq" "wp_parent nq = Some p"
    and "wp_child nq = Some z" "wp_addrs s z = Some nz" "wp_parent nz = Some q" "distinct [p, q, z]"
  shows "\<exists>s'. membus_watchpoint_unregister (Addr_ref q) s = Some s'
    \<and> membus_watchpoint_unregister (Addr_ref z) s' = None"
  using assms
  by (auto simp: membus_watchpoint_unregister_def membus_watchpoint_addr_unregister_def set_addr_def)

text \<open>Three callbacks on address 5.\<close>

definition sample_chain :: watch_store where
  "sample_chain = sample_watches\<lparr>wp_addrs :=
     [1 \<mapsto> (sample_addr 5 None None None)\<lparr>wp_child := Some 2\<rparr>,
      2 \<mapsto> (sample_addr 5 None None (Some 1))\<lparr>wp_child := Some 3\<rparr>,
      3 \<mapsto> sample_addr 5 None None (Some 2)]\<rparr>"

theorem unregister_chain_uses_freed_witness:
  "\<exists>s'. membus_watchpoint_unregister (Addr_ref 2) sample_chain = Some s'
     \<and> membus_watchpoint_unregister (Addr_ref 3) s' = None"
  by (rule unregister_chain_uses_freed [of _ 1 _ 2 _ 3])
    (simp_all add: sample_chain_def sample_addr_def, simp_all)

end
