(* ===== verification/Cli_Parse.thy ===== *)
theory Cli_Parse
  imports C_Strings Isa65_Table Executor
begin

text \<open>
  The arguments of the command line, \<^verbatim>\<open>src/system_6502.c\<close> (\<^verbatim>\<open>src/disasm_6502.c\<close> has the same text):
  execution modes, addresses, lengths, memory, file and fill specifications, dialects.  A parser
  answers what it stores through its pointers and the rest of the string, or \<open>None\<close> for a null
  pointer, after a warning.
\<close>

section \<open>Execution modes\<close>

definition with_selected :: "u32 \<Rightarrow> u32 \<Rightarrow> u32" where
  "with_selected m selected = (m AND NOT exec_mode_mask) OR selected"

definition with_option :: "u32 \<Rightarrow> bool \<Rightarrow> u32 \<Rightarrow> u32" where
  "with_option m on b = (if on then (m AND NOT b) OR b else m AND NOT b)"

text \<open>One word of a mode: what it makes of the mode, and its length.\<close>

definition mode_word :: "bool \<Rightarrow> u32 \<Rightarrow> string \<Rightarrow> (u32 \<times> nat) option" where
  "mode_word is_negated m s =
    (if has_prefix_nocase ''staged'' s
     then Some (with_selected m (if is_negated then exec_mode_static else exec_mode_staged), 6)
     else if has_prefix_nocase ''static'' s
     then Some (with_selected m (if \<not> is_negated then exec_mode_static else exec_mode_staged), 6)
     else if has_prefix_nocase ''verbose'' s
     then Some (with_option m (\<not> is_negated) exec_mode_verbose, 7)
     else if has_prefix_nocase ''normal'' s
     then Some (with_option m is_negated exec_mode_verbose, 6)
     else if has_prefix_nocase ''locks'' s
     then Some (with_option m is_negated exec_mode_no_locking, 5)
     else if has_prefix_nocase ''nolocks'' s
     then Some (with_option m (\<not> is_negated) exec_mode_no_locking, 7)
     else None)"

definition is_mode_punctuation :: "char \<Rightarrow> bool" where
  "is_mode_punctuation c \<longleftrightarrow> c = CHR '','' \<or> c = CHR '' '' \<or> char_code c = 9 \<or> c = CHR '';'' \<or> c = CHR '':''"

definition mode_sign :: "string \<Rightarrow> bool \<times> string" where
  "mode_sign s =
    (case s of
       c # cs \<Rightarrow> if c = CHR ''+'' then (False, cs) else if c = CHR ''-'' then (True, cs) else (False, s)
     | [] \<Rightarrow> (False, s))"

lemma mode_word_length: "mode_word neg m s = Some (m', n) \<Longrightarrow> 5 \<le> n \<and> n \<le> length s"
  by (auto simp: mode_word_def has_prefix_nocase_def dest!: arg_cong [of _ _ length] split: if_splits)

function parse_exec_words :: "u32 \<Rightarrow> string \<Rightarrow> u32 option" where
  "parse_exec_words m s =
    (if s = [] then Some m
     else let (is_negated, s) = mode_sign s
          in (case mode_word is_negated m s of
                None \<Rightarrow> None
              | Some (m, n) \<Rightarrow> parse_exec_words m (dropWhile is_mode_punctuation (drop n s))))"
  by pat_completeness auto

termination
proof (relation "measure (length \<circ> snd)")
  fix m s x is_negated s' y z m' n
  assume a: "s \<noteq> []" "x = mode_sign s" "(is_negated, s') = x" "mode_word is_negated m s' = Some y" "(m', n) = y"
  have "length s' \<le> length s"
    using a(1-3) by (auto simp: mode_sign_def split: list.splits if_splits)
  moreover have "5 \<le> n" "n \<le> length s'"
    using mode_word_length [of is_negated m s' m' n] a(4,5) by auto
  moreover have "length (dropWhile is_mode_punctuation (drop n s')) \<le> length (drop n s')"
    by (rule length_dropWhile_le)
  ultimately show "((m', dropWhile is_mode_punctuation (drop n s')), (m, s)) \<in> measure (length \<circ> snd)"
    by simp
qed simp

declare parse_exec_words.simps [simp del]

definition parse_exec_mode :: "string \<Rightarrow> u32 option" where
  "parse_exec_mode s = parse_exec_words 0 s"

section \<open>Addresses and lengths\<close>

datatype did_parse = did_parse_unknown | did_parse_irq | did_parse_nmi | did_parse_res

definition parse_addr_str :: "string \<Rightarrow> did_parse \<times> u16 \<times> string" where
  "parse_addr_str s =
    (if has_prefix_nocase ''IRQ'' s then (did_parse_irq, MEMORY_ADDR_IRQ_VECTOR, drop 3 s)
     else if has_prefix_nocase ''NMI'' s then (did_parse_nmi, MEMORY_ADDR_NMI_VECTOR, drop 3 s)
     else if has_prefix_nocase ''RES'' s then (did_parse_res, MEMORY_ADDR_RES_VECTOR, drop 3 s)
     else (did_parse_unknown, 0, s))"

text \<open>A value of more than 16 bits is truncated after a warning.\<close>

definition parse_number :: "nat \<Rightarrow> string \<Rightarrow> (u16 \<times> string) option" where
  "parse_number base s =
    (let (v, endptr) = c_strtoul base s
     in if length endptr < length s then Some (ucast (v AND 0x0000FFFF), endptr) else None)"

definition parse_addr :: "string \<Rightarrow> (u16 \<times> string) option" where
  "parse_addr s =
    (case s of
       [] \<Rightarrow> None
     | c # cs \<Rightarrow>
         if c = CHR ''$'' then parse_number 16 cs
         else if c_isdigit c then parse_number 0 s
         else (case parse_addr_str s of
                 (did_parse_unknown, _, _) \<Rightarrow> None
               | (_, addr, s) \<Rightarrow>
                   let (v, endptr) = c_strtol 0 s
                   in if length endptr < length s \<and> v \<noteq> 0
                      then Some (addr + of_int v, endptr) else Some (addr, s)))"

definition parse_len :: "string \<Rightarrow> (u16 \<times> string) option" where
  "parse_len s =
    (case s of
       [] \<Rightarrow> None
     | c # cs \<Rightarrow>
         if c = CHR ''$'' then parse_number 16 cs
         else if c_isdigit c then parse_number 0 s
         else if c = CHR ''*'' \<and> cs = [] then Some (0xFFFF, cs)
         else None)"

section \<open>Specifications\<close>

definition parse_mem_spec :: "string \<Rightarrow> (u16 \<times> u16 \<times> string) option" where
  "parse_mem_spec s = do {
     (addr_start, s_prime) \<leftarrow> parse_addr s;
     case s_prime of
       [] \<Rightarrow> Some (addr_start, addr_start, s_prime)
     | c # cs \<Rightarrow>
         if c = CHR '':'' then do {
           (len, s_prime) \<leftarrow> parse_len cs;
           let addr = addr_start + len - 1;
           Some (addr_start, if addr < addr_start then 0xFFFF else addr, s_prime) }
         else if c = CHR ''-'' then do {
           (addr_end, s_prime) \<leftarrow> parse_addr cs;
           Some (addr_start, if addr_end < addr_start then 0xFFFF else addr_end, s_prime) }
         else None }"

text \<open>\<^verbatim>\<open>strrchr\<close>: the last separator splits the path off; it must not be empty.\<close>

definition last_at :: "string \<Rightarrow> nat option" where
  "last_at s = (let is = filter (\<lambda>i. s ! i = CHR ''@'') [0..<length s] in if is = [] then None else Some (last is))"

definition parse_file_spec :: "string \<Rightarrow> (string \<times> u16 \<times> u16 \<times> string) option" where
  "parse_file_spec s = do {
     i \<leftarrow> last_at s;
     if i > 0 then do {
       (addr_start, addr_end, rest) \<leftarrow> parse_mem_spec (drop (i + 1) s);
       Some (take i s, addr_start, addr_end, rest) }
     else None }"

text \<open>The digits are counted before they are read: one or two make a byte, three or four a word.\<close>

definition parse_byte_word :: "string \<Rightarrow> (u16 \<times> nat \<times> string) option" where
  "parse_byte_word s =
    (let dollar = (take 1 s = ''$''); zero_x = (take 2 s = ''0x'')
     in if dollar \<or> zero_x then
          let s = drop 1 s;
              s = (if take 1 s = ''x'' then drop 1 s else s);
              n_digits = length (takeWhile c_isxdigit s)
          in if n_digits \<le> 4 \<and> 1 \<le> n_digits then
               let (v, endptr) = c_strtoul 16 s
               in if length endptr < length s
                  then Some (ucast (v AND 0x0000FFFF), if n_digits > 2 then 2 else 1, endptr) else None
             else None
        else None)"

definition parse_fill_spec :: "string \<Rightarrow> (u16 \<times> nat \<times> u16 \<times> u16 \<times> string) option" where
  "parse_fill_spec s = do {
     (value, value_len, s_prime) \<leftarrow> parse_byte_word s;
     if take 1 s_prime = ''@'' then do {
       (addr_start, addr_end, rest) \<leftarrow> parse_mem_spec (drop 1 s_prime);
       Some (value, value_len, addr_start, addr_end, rest) }
     else None }"

definition parse_isa_dialect :: "string \<Rightarrow> (isa_6502_dialect \<times> string) option" where
  "parse_isa_dialect s =
    (if s = ''6502'' then Some (isa_6502_dialect_base, drop 4 s)
     else if equal_nocase s ''65C02'' then Some (isa_6502_dialect_65C02, drop 5 s)
     else None)"

end
