(* ===== verification/Membus_Files.thy ===== *)
theory Membus_Files
  imports Membus C_Strings
begin

text \<open>
  Memory and files, \<^verbatim>\<open>src/libmembus/membus.c\<close>: the operations on file descriptors and the hex dump.  A
  descriptor for reading is the bytes that are left in the file, \<open>None\<close> stands for the \<open>-1\<close> of an \<^verbatim>\<open>open\<close>
  that failed, on which every \<^verbatim>\<open>read\<close> and \<^verbatim>\<open>write\<close> fails.
\<close>

section \<open>File descriptors\<close>

text \<open>The text is that of the stream variant; a failing \<^verbatim>\<open>read\<close> ends the loop as the end of the file does.\<close>

definition membus_load_from_fd ::
    "membus \<Rightarrow> memory_addr_range \<Rightarrow> u8 list option \<Rightarrow> (nat \<times> u8 list \<times> membus) option" where
  "membus_load_from_fd b r fd =
     load_chunks (unat (addr_lo r)) (stream_stop r) 0 (case fd of None \<Rightarrow> [] | Some bytes \<Rightarrow> bytes) b"

text \<open>A \<^verbatim>\<open>write\<close> that fails does not end the loop, and its \<open>-1\<close> is added to the total.\<close>

function save_fd_chunks :: "bool \<Rightarrow> nat \<Rightarrow> nat \<Rightarrow> int \<Rightarrow> u8 list \<Rightarrow> membus \<Rightarrow> (int \<times> u8 list \<times> membus) option" where
  "save_fd_chunks valid addr addr_end total_bytes out b =
    (if addr < addr_end then
       let write_len = (if addr_end - addr > 4096 then 4096 else addr_end - addr)
       in do {
            (bytes, b) \<leftarrow> read_run membus_read_addr addr write_len b;
            save_fd_chunks valid (addr + write_len) addr_end
              (total_bytes + (if valid then int write_len else - 1)) (if valid then out @ bytes else out) b }
     else Some (total_bytes, out, b))"
  by pat_completeness auto

termination
  by (relation "measure (\<lambda>(_, addr, addr_end, _). addr_end - addr)") (auto simp: Let_def)

declare save_fd_chunks.simps [simp del]

definition membus_save_to_fd ::
    "membus \<Rightarrow> memory_addr_range \<Rightarrow> bool \<Rightarrow> (int \<times> u8 list \<times> membus) option" where
  "membus_save_to_fd b r valid = save_fd_chunks valid (unat (addr_lo r)) (stream_stop r) 0 [] b"

section \<open>The hex dump\<close>

definition membus_dump_opts_8byte_width :: u32 where "membus_dump_opts_8byte_width = 1"
definition membus_dump_opts_compact :: u32 where "membus_dump_opts_compact = 2"

text \<open>\<^verbatim>\<open>isprint\<close> in the C locale.\<close>

definition dump_char :: "u8 \<Rightarrow> char" where
  "dump_char v = (if 32 \<le> v \<and> v \<le> 126 then char_of (unat v) else CHR ''.'')"

text \<open>What stands before the cell of a byte, and what fills a row that ends before the cell.\<close>

definition dump_gap :: "nat \<Rightarrow> bool \<Rightarrow> nat \<Rightarrow> string" where
  "dump_gap width is_compact l = (if width = 16 \<and> l = 8 then if is_compact then '' '' else ''   '' else [])"

definition dump_fill :: "nat \<Rightarrow> bool \<Rightarrow> nat \<Rightarrow> string" where
  "dump_fill width is_compact l =
    (if width = 16 \<and> l = 8 then if is_compact then ''    '' else ''      '' else ''   '')"

definition dump_row :: "nat \<Rightarrow> bool \<Rightarrow> nat \<Rightarrow> u8 list \<Rightarrow> string" where
  "dump_row width is_compact addr bytes =
     hex4 (word_of_nat addr) @ (if is_compact then '':'' else '' : '')
     @ concat (List.map (\<lambda>l. dump_gap width is_compact l @ hex2 (bytes ! l) @ '' '') [0..<length bytes])
     @ concat (List.map (dump_fill width is_compact) [length bytes..<width])
     @ (if is_compact then [] else ''   '') @ List.map dump_char bytes @ [CHR 0x0A]"

function dump_rows :: "nat \<Rightarrow> bool \<Rightarrow> nat \<Rightarrow> nat \<Rightarrow> membus \<Rightarrow> (string \<times> membus) option" where
  "dump_rows width is_compact addr addr_max b =
    (if addr < addr_max \<and> 0 < width then
       let n = min width (addr_max - addr)
       in do {
            (bytes, b) \<leftarrow> read_run membus_read_addr addr n b;
            (rows, b) \<leftarrow> dump_rows width is_compact (addr + n) addr_max b;
            Some (dump_row width is_compact addr bytes @ rows, b) }
     else Some ([], b))"
  by pat_completeness auto

termination
  by (relation "measure (\<lambda>(_, _, addr, addr_max, _). addr_max - addr)") (auto simp: Let_def)

declare dump_rows.simps [simp del]

text \<open>The text that is printed; the result of the function is its length.\<close>

definition membus_fprintf :: "membus \<Rightarrow> u32 \<Rightarrow> memory_addr_range \<Rightarrow> (string \<times> membus) option" where
  "membus_fprintf b opts r =
    (let is_compact = opts AND membus_dump_opts_compact = membus_dump_opts_compact;
         width = (if opts AND membus_dump_opts_8byte_width = membus_dump_opts_8byte_width then 8 else 16)
     in dump_rows width is_compact (unat (addr_lo r)) (unat (addr_lo r) + unat (addr_len r)) b)"

end
