(* ===== verification/Static_Disasm.thy ===== *)
theory Static_Disasm
  imports Isa65_Table C_Strings
begin

text \<open>
  The static disassembler, \<^verbatim>\<open>isa_6502_static_disassembly\<close> in \<^verbatim>\<open>src/isa_6502.c\<close>: a loop over a 16-bit
  address, whose end is a 32-bit one.
\<close>

section \<open>One line\<close>

text \<open>The conversion \<^verbatim>\<open>%-3s\<close>.\<close>

definition left_3 :: "string \<Rightarrow> string" where
  "left_3 s = s @ replicate (3 - length s) (CHR '' '')"

text \<open>The operand in the syntax of its mode, by \<open>instr_fmts\<close>; \<open>target\<close> is where a branch goes.\<close>

definition operand_text :: "isa_6502_addressing \<Rightarrow> u16 \<Rightarrow> u16 \<Rightarrow> string" where
  "operand_text md operand target =
    (let lo = hex2 (lo_byte operand) in case md of
       isa_6502_addressing_accumulator \<Rightarrow> '' A''
     | isa_6502_addressing_absolute \<Rightarrow> '' $'' @ hex4 operand
     | isa_6502_addressing_absolute_x_indexed \<Rightarrow> '' $'' @ hex4 operand @ '',X''
     | isa_6502_addressing_absolute_y_indexed \<Rightarrow> '' $'' @ hex4 operand @ '',Y''
     | isa_6502_addressing_immediate \<Rightarrow> '' #$'' @ lo
     | isa_6502_addressing_implied \<Rightarrow> []
     | isa_6502_addressing_indirect \<Rightarrow> '' ($'' @ hex4 operand @ '')''
     | isa_6502_addressing_x_indexed_indirect \<Rightarrow> '' ($'' @ lo @ '',X)''
     | isa_6502_addressing_indirect_y_indexed \<Rightarrow> '' ($'' @ lo @ ''),Y''
     | isa_6502_addressing_relative \<Rightarrow> '' *'' @ signed_text (lo_byte operand) @ '' ($'' @ hex4 target @ '')''
     | isa_6502_addressing_zeropage \<Rightarrow> '' $'' @ lo
     | isa_6502_addressing_zeropage_x_indexed \<Rightarrow> '' $'' @ lo @ '',X''
     | isa_6502_addressing_zeropage_y_indexed \<Rightarrow> '' $'' @ lo @ '',Y''
     | isa_6502_addressing_zeropage_indirect \<Rightarrow> '' ($'' @ lo @ '')''
     | isa_6502_addressing_absolute_x_indexed_indirect \<Rightarrow> '' ($'' @ hex4 operand @ '',X)''
     | isa_6502_addressing_undefined \<Rightarrow> [])"

definition instr_line :: "isa_6502_addressing \<Rightarrow> nat \<Rightarrow> u16 \<Rightarrow> u8 \<Rightarrow> string \<Rightarrow> u16 \<Rightarrow> string" where
  "instr_line md instr_bytes addr op name operand =
     ''$'' @ hex4 addr @ '' : '' @ hex2 op
     @ (if instr_bytes = 0 then ''           ''
        else if instr_bytes = 1 then '' '' @ hex2 (lo_byte operand) @ ''        ''
        else '' '' @ hex2 (lo_byte operand) @ '' '' @ hex2 (hi_byte operand) @ ''     '')
     @ left_3 name
     @ operand_text md operand (addr + 1 + of_nat instr_bytes + scast (lo_byte operand)) @ [CHR 0x0A]"

definition byte_line :: "u16 \<Rightarrow> u8 \<Rightarrow> string" where
  "byte_line addr op = ''$'' @ hex4 addr @ '' : '' @ hex2 op @ ''         .BYTE $'' @ hex2 op @ [CHR 0x0A]"

section \<open>The loop\<close>

text \<open>An operand that is not read is not printed either.\<close>

definition read_operand :: "nat \<Rightarrow> u16 \<Rightarrow> membus \<Rightarrow> (u16 \<times> membus) option" where
  "read_operand instr_bytes addr b =
    (if instr_bytes = 0 then Some (0, b)
     else do {
       (lo, b) \<leftarrow> membus_read_addr b (addr + 1);
       if instr_bytes > 1 then do {
         (hi, b) \<leftarrow> membus_read_addr b (addr + 2);
         Some (widen lo OR push_bit 8 (widen hi), b) }
       else Some (widen lo, b) })"

text \<open>The entries of the block that is not initialised have a null mnemonic, which \<^verbatim>\<open>%s\<close> must not be
  given.\<close>

partial_function (option) static_disassembly ::
    "isa_6502_table \<Rightarrow> nat \<Rightarrow> u16 \<Rightarrow> membus \<Rightarrow> (string list \<times> membus) option" where
  "static_disassembly tb addr_end addr b =
    (if unat addr < addr_end then do {
       (op, b) \<leftarrow> membus_read_addr b addr;
       let d = isa_6502_table_lookup_dispatch tb op;
       case isa_6502_addressing_operand_counts (dispatch_mode d) of
         None \<Rightarrow> do {
           (rest, b) \<leftarrow> static_disassembly tb addr_end (addr + 1) b;
           Some (byte_line addr op # rest, b) }
       | Some instr_bytes \<Rightarrow>
           if exec_fn d = None then None
           else do {
             (operand, b) \<leftarrow> read_operand instr_bytes addr b;
             (rest, b) \<leftarrow> static_disassembly tb addr_end (addr + 1 + of_nat instr_bytes) b;
             Some (instr_line (dispatch_mode d) instr_bytes addr op (mnemonic d) operand # rest, b) } }
     else Some ([], b))"

definition isa_6502_static_disassembly ::
    "isa_6502_table \<Rightarrow> membus \<Rightarrow> memory_addr_range \<Rightarrow> (string list \<times> membus) option" where
  "isa_6502_static_disassembly tb b r =
     static_disassembly tb (unat (addr_lo r) + unat (addr_len r)) (addr_lo r) b"

section \<open>What it lists\<close>

text \<open>The instructions that follow one another from an address to an end: each begins behind the operand
  of the one before.\<close>

definition code_length :: "isa_6502_table \<Rightarrow> u8 \<Rightarrow> nat" where
  "code_length tb op =
    (case isa_6502_addressing_operand_counts (dispatch_mode (isa_6502_table_lookup_dispatch tb op)) of
       None \<Rightarrow> 1 | Some k \<Rightarrow> 1 + k)"

function code_starts :: "isa_6502_table \<Rightarrow> (u16 \<Rightarrow> u8) \<Rightarrow> nat \<Rightarrow> nat \<Rightarrow> nat list" where
  "code_starts tb f e a =
    (if a < e then a # code_starts tb f e (a + code_length tb (f (word_of_nat a))) else [])"
  by pat_completeness auto

termination
  by (relation "measure (\<lambda>(_, _, e, a). e - a)") (auto simp: code_length_def split: option.splits)

declare code_starts.simps [simp del]

text \<open>The line of the instruction at an address.\<close>

definition line_at :: "isa_6502_table \<Rightarrow> (u16 \<Rightarrow> u8) \<Rightarrow> u16 \<Rightarrow> string" where
  "line_at tb f a =
    (let d = isa_6502_table_lookup_dispatch tb (f a) in
     case isa_6502_addressing_operand_counts (dispatch_mode d) of
       None \<Rightarrow> byte_line a (f a)
     | Some k \<Rightarrow> instr_line (dispatch_mode d) k a (f a) (mnemonic d)
         (if k = 0 then 0 else if k = 1 then widen (f (a + 1)) else join_bytes (f (a + 1)) (f (a + 2))))"

end
