(* ===== verification/Disasm_6502.thy ===== *)
theory Disasm_6502
  imports Cli_Parse Membus_Files Static_Disasm
begin

text \<open>
  The program \<^verbatim>\<open>src/disasm_6502.c\<close>: a bus with one 64k module and a dispatch table, options that change
  or print memory, and files that are loaded at an origin and disassembled.  Its parsers are those of
  \<open>Cli_Parse\<close>.  Of what is printed, memory dumps and disassemblies are kept.
\<close>

record disassembler =
  ram :: membus
  dis_isa :: isa_6502_table
  origin :: u16
  dis_printed :: "string list"

datatype dis_progress = dis_going disassembler | dis_exited int disassembler

definition dis_print :: "string \<Rightarrow> disassembler \<Rightarrow> disassembler" where
  "dis_print t s = s\<lparr>dis_printed := dis_printed s @ [t]\<rparr>"

section \<open>Options\<close>

text \<open>The files are those that \<^verbatim>\<open>open\<close> finds; a failure, \<open>-1\<close>, goes on like a success.\<close>

definition dis_load :: "(string \<Rightarrow> u8 list option) \<Rightarrow> string \<Rightarrow> disassembler \<Rightarrow> disassembler option" where
  "dis_load fs optarg s =
    (case parse_file_spec optarg of
       None \<Rightarrow> Some s
     | Some (file_path, addr_start, addr_end, _) \<Rightarrow> do {
         (did_read, _, b) \<leftarrow> membus_load_from_fd (ram s)
           (memory_addr_range_with_lo_and_hi addr_start addr_end) (fs file_path);
         Some (s\<lparr>ram := b\<rparr>) })"

definition dis_poke :: "string \<Rightarrow> disassembler \<Rightarrow> disassembler option" where
  "dis_poke optarg s =
    (case parse_fill_spec optarg of
       None \<Rightarrow> Some s
     | Some (fill_value, fill_size, addr_start, addr_end, _) \<Rightarrow> do {
         let r = memory_addr_range_with_lo_and_hi addr_start addr_end;
         b \<leftarrow> (if fill_size = 1 then membus_write_byte_to_range (ram s) r (ucast fill_value)
                else if fill_size = 2 then membus_write_word_to_range (ram s) r fill_value
                else Some (ram s));
         Some (s\<lparr>ram := b\<rparr>) })"

definition dis_dump :: "string \<Rightarrow> disassembler \<Rightarrow> disassembler option" where
  "dis_dump optarg s =
    (case parse_mem_spec optarg of
       None \<Rightarrow> Some s
     | Some (addr_start, addr_end, _) \<Rightarrow> do {
         (t, b) \<leftarrow> membus_fprintf (ram s) 0 (memory_addr_range_with_lo_and_hi addr_start addr_end);
         Some (dis_print t (s\<lparr>ram := b\<rparr>)) })"

definition dis_range :: "memory_addr_range \<Rightarrow> disassembler \<Rightarrow> disassembler option" where
  "dis_range r s = do {
     (ls, b) \<leftarrow> isa_6502_static_disassembly (dis_isa s) (ram s) r;
     Some (dis_print (concat ls) (s\<lparr>ram := b\<rparr>)) }"

definition dis_disasm :: "string \<Rightarrow> disassembler \<Rightarrow> disassembler option" where
  "dis_disasm optarg s =
    (case parse_mem_spec optarg of
       None \<Rightarrow> Some s
     | Some (addr_start, addr_end, _) \<Rightarrow> dis_range (memory_addr_range_with_lo_and_hi addr_start addr_end) s)"

definition dis_choose_isa :: "string \<Rightarrow> disassembler \<Rightarrow> disassembler option" where
  "dis_choose_isa optarg s =
    (case parse_isa_dialect optarg of
       None \<Rightarrow> Some s
     | Some (d, _) \<Rightarrow> do { tb \<leftarrow> isa_6502_table_init (Some (dis_isa s)) d; Some (s\<lparr>dis_isa := tb\<rparr>) })"

definition dis_origin :: "string \<Rightarrow> disassembler \<Rightarrow> disassembler" where
  "dis_origin optarg s = (case parse_addr optarg of None \<Rightarrow> s | Some (addr, _) \<Rightarrow> s\<lparr>origin := addr\<rparr>)"

definition dis_option ::
    "(string \<Rightarrow> u8 list option) \<Rightarrow> char \<Rightarrow> string \<Rightarrow> disassembler \<Rightarrow> dis_progress option" where
  "dis_option fs optch optarg s =
    (if optch = CHR ''h'' then Some (dis_exited 0 s)
     else if optch = CHR ''V'' then Some (dis_exited 0 s)
     else if optch = CHR ''l'' then map_option dis_going (dis_load fs optarg s)
     else if optch = CHR ''p'' then map_option dis_going (dis_poke optarg s)
     else if optch = CHR ''d'' then map_option dis_going (dis_dump optarg s)
     else if optch = CHR ''D'' then map_option dis_going (dis_disasm optarg s)
     else if optch = CHR ''i'' then map_option dis_going (dis_choose_isa optarg s)
     else if optch = CHR ''O'' then Some (dis_going (dis_origin optarg s))
     else Some (dis_going s))"

fun dis_options ::
    "(string \<Rightarrow> u8 list option) \<Rightarrow> (char \<times> string) list \<Rightarrow> disassembler \<Rightarrow> dis_progress option" where
  "dis_options fs [] s = Some (dis_going s)"
| "dis_options fs ((optch, optarg) # rest) s = do {
     p \<leftarrow> dis_option fs optch optarg s;
     case p of dis_going s \<Rightarrow> dis_options fs rest s | dis_exited rc s \<Rightarrow> Some (dis_exited rc s) }"

section \<open>Files\<close>

text \<open>Each file is loaded from the origin on, and as many bytes as were read are disassembled.\<close>

fun dis_file_paths ::
    "(string \<Rightarrow> u8 list option) \<Rightarrow> string list \<Rightarrow> disassembler \<Rightarrow> disassembler option" where
  "dis_file_paths fs [] s = Some s"
| "dis_file_paths fs (file_path # rest) s = do {
     (did_read, _, b) \<leftarrow> membus_load_from_fd (ram s)
       (memory_addr_range_with_lo_and_hi (origin s) 0xFFFF) (fs file_path);
     s \<leftarrow> dis_range (memory_addr_range_with_lo_and_len (origin s) (of_nat did_read)) (s\<lparr>ram := b\<rparr>);
     dis_file_paths fs rest s }"

text \<open>The arguments \<open>junk\<close> and \<open>contents\<close> hold what \<^verbatim>\<open>malloc\<close> returned for the bus and the module.\<close>

definition disasm_6502_main ::
    "membus \<Rightarrow> (u16 \<Rightarrow> u8) \<Rightarrow> (string \<Rightarrow> u8 list option) \<Rightarrow> (char \<times> string) list \<Rightarrow> string list
      \<Rightarrow> (int \<times> disassembler) option" where
  "disasm_6502_main junk contents fs opts paths =
    (let (h, base64k) = membus_module_std64k_alloc (bus_heap (membus_alloc junk)) contents in do {
       (_, b) \<leftarrow> membus_register_module ((membus_alloc junk)\<lparr>bus_heap := h\<rparr>) 0 base64k;
       tb \<leftarrow> isa_6502_table_init None isa_6502_dialect_base;
       p \<leftarrow> dis_options fs opts \<lparr>ram = b, dis_isa = tb, origin = 0x2000, dis_printed = []\<rparr>;
       case p of
         dis_exited rc s \<Rightarrow> Some (rc, s)
       | dis_going s \<Rightarrow> map_option (Pair 0) (dis_file_paths fs paths s) })"

end
