(* ===== verification/File_Props.thy ===== *)
theory File_Props
  imports Membus_Files Memory_Props
begin

text \<open>
  Memory and files: a region that is saved is what the file holds, a file that fits is loaded as it is,
  and the hex dump shows memory row by row.
\<close>

section \<open>Saving and loading\<close>

text \<open>The bytes of a region.\<close>

definition region :: "(u16 \<Rightarrow> u8) \<Rightarrow> nat \<Rightarrow> nat \<Rightarrow> u8 list" where
  "region f a e = List.map (\<lambda>i. f (word_of_nat i)) [a..<e]"

lemma region_split: "a \<le> k \<Longrightarrow> k \<le> e \<Longrightarrow> region f a e = region f a k @ region f k e"
  using upt_add_eq_append [of a k "e - k"] by (simp add: region_def)

lemma length_region [simp]: "length (region f a e) = e - a"
  by (simp add: region_def)

lemma read_region:
  assumes "ram_bus m b"
  shows "\<exists>b'. read_run membus_read_addr a n b = Some (region (bus_view m b) a (a + n), b')
    \<and> ram_bus m b' \<and> bus_view m b' = bus_view m b"
proof -
  have "List.map (\<lambda>i. bus_view m b (word_of_nat (a + i))) [0..<n] = region (bus_view m b) a (a + n)"
    by (rule nth_equalityI) (simp_all add: region_def)
  then show ?thesis using ram_store.read_run_view [OF assms, of n a] by auto
qed

lemma save_region:
  assumes "ram_bus m b" "a \<le> e"
  shows "\<exists>b'. save_fd_chunks True a e t out b = Some (t + int (e - a), out @ region (bus_view m b) a e, b')
    \<and> ram_bus m b' \<and> bus_view m b' = bus_view m b"
  using assms
proof (induction "True" a e t out b rule: save_fd_chunks.induct)
  case (1 a e t out b)
  show ?case
  proof (cases "a < e")
    case True
    let ?n = "if e - a > 4096 then 4096 else e - a"
    obtain b1 where b1: "read_run membus_read_addr a ?n b = Some (region (bus_view m b) a (a + ?n), b1)"
      "ram_bus m b1" "bus_view m b1 = bus_view m b"
      using read_region [OF "1.prems"(1)] by blast
    have n: "a + ?n \<le> e" using True by (simp, arith)
    have split: "region (bus_view m b) a e = region (bus_view m b) a (a + ?n) @ region (bus_view m b) (a + ?n) e"
      by (rule region_split) (use n in auto)
    show ?thesis
      using "1.hyps" [OF True refl b1(1) refl b1(2) n] True b1 n
      unfolding split by (subst save_fd_chunks.simps) (auto simp: Let_def)
  next
    case False
    then show ?thesis using "1.prems" by (subst save_fd_chunks.simps) (auto simp: region_def)
  qed
qed

text \<open>A file of at most the length of the region is loaded to its end.\<close>

lemma overlay_append: "overlay f a (xs @ ys) = overlay (overlay f a xs) (a + length xs) ys"
  by (induction xs arbitrary: f a) auto

lemma load_file:
  assumes "ram_bus m b" "length bytes \<le> e - a"
  shows "\<exists>b'. load_chunks a e t bytes b = Some (t + length bytes, [], b')
    \<and> ram_bus m b' \<and> bus_view m b' = overlay (bus_view m b) a bytes"
  using assms
proof (induction a e t bytes b rule: load_chunks.induct)
  case (1 a e t bytes b)
  show ?case
  proof (cases "bytes = []")
    case True
    then show ?thesis using "1.prems" by (subst load_chunks.simps) (auto simp: Let_def)
  next
    case False
    let ?n = "if e - a + 1 > 4096 then 4096 else e - a + 1"
    let ?k = "min ?n (length bytes)"
    have a: "a < e" using False "1.prems"(2) by (cases bytes) auto
    have k: "?k \<noteq> 0" "length (drop ?k bytes) \<le> e - (a + ?k)" "length (take ?k bytes) = ?k"
      using False "1.prems"(2) by (auto simp: min_def)
    obtain b1 where b1: "write_run membus_write_addr a (take ?k bytes) b = Some b1" "ram_bus m b1"
      "bus_view m b1 = overlay (bus_view m b) a (take ?k bytes)"
      using ram_store.write_run_view [OF "1.prems"(1), of "take ?k bytes" a] by auto
    obtain b2 where b2: "load_chunks (a + ?k) e (t + ?k) (drop ?k bytes) b1 = Some (t + length bytes, [], b2)"
      "ram_bus m b2" "bus_view m b2 = overlay (bus_view m b1) (a + ?k) (drop ?k bytes)"
      using "1.IH" [OF a refl refl k(1) b1(1,2) k(2)] by auto
    have "overlay (bus_view m b) a bytes = bus_view m b2"
      using overlay_append [of "bus_view m b" a "take ?k bytes" "drop ?k bytes"] b2(3) b1(3) k(3) by simp
    then show ?thesis
      using load_chunk [OF a refl k(1) b1(1), of t] b2 by simp
  qed
qed

text \<open>Where the region goes that was saved from the same addresses.\<close>

lemma overlay_region:
  assumes "a \<le> e" "e \<le> 0x10000"
  shows "overlay g a (region f a e) x = (if a \<le> unat x \<and> unat x < e then f x else g x)"
proof -
  have x: "x = word_of_nat (unat x)" "unat x < 0x10000" using unat_u16 [of x] by simp_all
  consider "unat x < a" | "a \<le> unat x" "unat x < e" | "e \<le> unat x" by linarith
  then show ?thesis
  proof cases
    case 1
    then show ?thesis using overlay_below [of "unat x" a "region f a e" g] assms by simp
  next
    case 2
    then show ?thesis
      using overlay_nth [of "unat x - a" "region f a e" a g] assms by (simp add: region_def)
  next
    case 3
    then show ?thesis using overlay_above [of a "region f a e" "unat x" g] assms x(2) by simp
  qed
qed

text \<open>The range between two addresses, as the bounds of the loops.\<close>

lemma stream_stop_hi:
  assumes "a \<le> b" "\<not> (a = 0 \<and> b = 0xFFFF)"
  shows "stream_stop (memory_addr_range_with_lo_and_hi a b) = unat b + 1"
    "range_stop (memory_addr_range_with_lo_and_hi a b) = unat b + 1"
  using unat_interval_len [OF assms] assms(1) unat_u16 [of b]
  by (simp_all add: stream_stop_def range_stop_def memory_addr_range_with_lo_and_hi_def word_le_nat_alt Let_def)

section \<open>The dump\<close>

text \<open>The start of a row is a multiple of the width from the start of the region.\<close>

function row_starts :: "nat \<Rightarrow> nat \<Rightarrow> nat \<Rightarrow> nat list" where
  "row_starts w a e = (if a < e \<and> 0 < w then a # row_starts w (a + w) e else [])"
  by pat_completeness auto

termination
  by (relation "measure (\<lambda>(w, a, e). e - a)") auto

declare row_starts.simps [simp del]

lemma dump_rows_view:
  assumes "ram_bus m b"
  shows "\<exists>b'. dump_rows w c a e b
      = Some (concat (List.map (\<lambda>i. dump_row w c i (region (bus_view m b) i (min (i + w) e))) (row_starts w a e)), b')
    \<and> ram_bus m b' \<and> bus_view m b' = bus_view m b"
  using assms
proof (induction w c a e b rule: dump_rows.induct)
  case (1 w c a e b)
  show ?case
  proof (cases "a < e \<and> 0 < w")
    case True
    let ?n = "min w (e - a)"
    obtain b1 where b1: "read_run membus_read_addr a ?n b = Some (region (bus_view m b) a (a + ?n), b1)"
      "ram_bus m b1" "bus_view m b1 = bus_view m b"
      using read_region [OF "1.prems"] by blast
    obtain b2 where b2: "dump_rows w c (a + ?n) e b1
        = Some (concat (List.map (\<lambda>i. dump_row w c i (region (bus_view m b) i (min (i + w) e))) (row_starts w (a + ?n) e)), b2)"
      "ram_bus m b2" "bus_view m b2 = bus_view m b"
      using "1.IH" [OF True refl b1(1) refl b1(2)] b1(3) by auto
    have "row_starts w (a + ?n) e = row_starts w (a + w) e"
      by (cases "w \<le> e - a") (simp_all add: row_starts.simps)
    moreover have "a + ?n = min (a + w) e" using True by auto
    ultimately show ?thesis
      using True b1 b2 by (subst dump_rows.simps, subst row_starts.simps) (simp add: Let_def)
  next
    case False
    then show ?thesis using "1.prems" by (subst dump_rows.simps, subst row_starts.simps) auto
  qed
qed

text \<open>On a 64k bus the dump is one row for every 16 or 8 bytes of the region, each with the bytes that
  memory holds there, the last one cut at the end of the region; memory stays as it is.\<close>

theorem dump_shows_memory:
  assumes "ram_bus m b"
    and "w = (if opts AND membus_dump_opts_8byte_width = membus_dump_opts_8byte_width then 8 else 16)"
    and "c \<longleftrightarrow> opts AND membus_dump_opts_compact = membus_dump_opts_compact"
    and "e = unat (addr_lo r) + unat (addr_len r)"
  shows "\<exists>b'. membus_fprintf b opts r
      = Some (concat (List.map (\<lambda>i. dump_row w c i (region (bus_view m b) i (min (i + w) e)))
          (row_starts w (unat (addr_lo r)) e)), b')
    \<and> bus_view m b' = bus_view m b"
  using dump_rows_view [OF assms(1), of w c "unat (addr_lo r)" e] assms(2-4)
  by (auto simp: membus_fprintf_def Let_def)

theorem dump_shows_memory_witness:
  "\<exists>b'. membus_fprintf (sample_bus (program [0x48, 0x69, 0x00])) membus_dump_opts_compact \<lparr>addr_lo = 0, addr_len = 3\<rparr>
     = Some (''0000:48 69 00                                         Hi.'' @ [CHR 0x0A], b')"
proof -
  have "row_starts 16 0 3 = [0]" by (simp add: row_starts.simps)
  moreover have three: "[0..<3] = [0, 1, 2 :: nat]" by (simp add: upt_rec)
  then have "dump_row 16 True 0 (region (bus_view 0 (sample_bus (program [0x48, 0x69, 0x00]))) 0 3)
      = ''0000:48 69 00                                         Hi.'' @ [CHR 0x0A]"
    by (simp add: dump_row_def region_def sample_view program_def dump_gap_def dump_fill_def dump_char_def hex2_def
        hex4_def hex_text_eval hex_text.simps upt_rec_numeral char_of_def numeral_3_eq_3 [symmetric] bit_0)
  ultimately show ?thesis
    using dump_shows_memory [OF sample_bus_ram, of 16 membus_dump_opts_compact True 3 "\<lparr>addr_lo = 0, addr_len = 3\<rparr>"
        "program [0x48, 0x69, 0x00]"]
    by (auto simp: membus_dump_opts_compact_def membus_dump_opts_8byte_width_def)
qed

end
