(* ===== verification/Disasm_Props.thy ===== *)
theory Disasm_Props
  imports Disasm_6502 File_Props Sample_Machine
begin

text \<open>
  Properties of the static disassembler and of the program around it: what is listed below the top of
  the address space, and that the listing does not end when it gets there.
\<close>

lemma code_length_bounds: "0 < code_length tb op \<and> code_length tb op \<le> 3"
  by (auto simp: code_length_def isa_6502_addressing_operand_counts_def split: isa_6502_addressing.splits)

lemma read_operand_view:
  assumes "ram_bus m b"
  shows "\<exists>b'. read_operand k a b = Some (if k = 0 then 0 else if k = 1 then widen (bus_view m b (a + 1))
      else join_bytes (bus_view m b (a + 1)) (bus_view m b (a + 2)), b')
    \<and> ram_bus m b' \<and> bus_view m b' = bus_view m b"
  using assms by (auto simp: read_operand_def ram_read [of m] join_bytes_def)

text \<open>Every opcode that is listed has a mnemonic.\<close>

definition listable :: "isa_6502_table \<Rightarrow> u8 \<Rightarrow> bool" where
  "listable tb op \<longleftrightarrow>
     (let d = isa_6502_table_lookup_dispatch tb op
      in isa_6502_addressing_operand_counts (dispatch_mode d) = None \<or> exec_fn d \<noteq> None)"

lemma disassembly_step:
  assumes "ram_bus m b" "unat a < e" "listable tb (bus_view m b a)"
  shows "\<exists>b'. ram_bus m b' \<and> bus_view m b' = bus_view m b
    \<and> static_disassembly tb e a b = do {
         (rest, b) \<leftarrow> static_disassembly tb e (a + of_nat (code_length tb (bus_view m b a))) b';
         Some (line_at tb (bus_view m b') a # rest, b) }"
proof (cases "isa_6502_addressing_operand_counts (dispatch_mode (isa_6502_table_lookup_dispatch tb (bus_view m b a)))")
  case None
  then show ?thesis
    using assms by (intro exI [of _ "bus_got m a b"])
      (subst static_disassembly.simps, simp add: ram_read [of m] Let_def line_at_def code_length_def)
next
  case (Some k)
  obtain b' where "read_operand k a (bus_got m a b) = Some (if k = 0 then 0 else if k = 1 then widen (bus_view m b (a + 1))
      else join_bytes (bus_view m b (a + 1)) (bus_view m b (a + 2)), b')"
    "ram_bus m b'" "bus_view m b' = bus_view m b"
    using read_operand_view [of m "bus_got m a b" k a] assms(1) by auto
  then show ?thesis
    using assms Some by (intro exI [of _ b'])
      (subst static_disassembly.simps, auto simp: ram_read [of m] Let_def line_at_def code_length_def listable_def ac_simps)
qed

lemma disassembly_lists:
  assumes "ram_bus m b" "e \<le> 0xFFFD" "n \<le> 0xFFFF"
    "\<forall>a \<in> set (code_starts tb (bus_view m b) e n). listable tb (bus_view m b (word_of_nat a))"
  shows "\<exists>b'. static_disassembly tb e (word_of_nat n) b
      = Some (List.map (line_at tb (bus_view m b) \<circ> word_of_nat) (code_starts tb (bus_view m b) e n), b')
    \<and> ram_bus m b' \<and> bus_view m b' = bus_view m b"
  using assms
proof (induction tb "bus_view m b" e n arbitrary: b rule: code_starts.induct)
  case (1 tb e n)
  have unat_n: "unat (word_of_nat n :: u16) = n" using "1.prems"(3) by (simp add: unat_of_nat)
  show ?case
  proof (cases "n < e")
    case True
    let ?n = "n + code_length tb (bus_view m b (word_of_nat n))"
    have n: "?n \<le> 0xFFFF"
      using True "1.prems"(2) code_length_bounds [of tb "bus_view m b (word_of_nat n)"] by linarith
    have starts: "code_starts tb (bus_view m b) e n = n # code_starts tb (bus_view m b) e ?n"
      using True by (subst code_starts.simps) simp
    obtain b' where b': "ram_bus m b'" "bus_view m b' = bus_view m b"
      "static_disassembly tb e (word_of_nat n) b = do {
         (rest, b) \<leftarrow> static_disassembly tb e (word_of_nat ?n) b';
         Some (line_at tb (bus_view m b') (word_of_nat n) # rest, b) }"
      using disassembly_step [OF "1.prems"(1), of "word_of_nat n" e tb] "1.prems"(4) True starts unat_n
      by auto
    show ?thesis
      using "1.hyps" [OF True b'(2) [symmetric] b'(1) "1.prems"(2) ] n "1.prems"(4) b' starts by auto
  qed (use "1.prems"(1) in \<open>auto simp: code_starts.simps static_disassembly.simps unat_n\<close>)
qed

lemma static_listing:
  assumes "ram_bus m b" "unat (addr_lo r) + unat (addr_len r) \<le> 0xFFFD"
    and "\<forall>a \<in> set (code_starts tb (bus_view m b) (unat (addr_lo r) + unat (addr_len r)) (unat (addr_lo r))).
      listable tb (bus_view m b (word_of_nat a))"
  shows "\<exists>b'. isa_6502_static_disassembly tb b r
      = Some (List.map (line_at tb (bus_view m b) \<circ> word_of_nat)
          (code_starts tb (bus_view m b) (unat (addr_lo r) + unat (addr_len r)) (unat (addr_lo r))), b')
    \<and> bus_view m b' = bus_view m b"
  using disassembly_lists [OF assms(1,2) _ assms(3)] assms(2)
  by (auto simp: isa_6502_static_disassembly_def)

text \<open>\<^verbatim>\<open>LDA #5; NOP\<close> and an illegal opcode.\<close>

lemma lookup_LDA: "isa_6502_table_lookup_dispatch isa_6502_base_table 0xA9
    = entry op_LDA ''LDA'' ''LDA #$XX'' isa_6502_addressing_immediate"
  by (simp add: isa_6502_table_lookup_dispatch_def isa_6502_base_table_def opcode_A_def opcode_B_def
      opcode_C_def table_block_1_def)

lemmas lines_eval = code_starts.simps code_length_def isa_6502_addressing_operand_counts_def lookup_LDA lookup_NOP
  lookup_illegal entry_def UNUSED_OPCODE_def sample_view program_def listable_def line_at_def byte_line_def
  instr_line_def operand_text_def hex4_def hex2_def hex_text_eval hex_text.simps left_3_def lo_byte_def hi_byte_def
  Let_def

text \<open>C36 (functional).  The disassembler lists a file: given a file that fits below $FFFE at the default origin and
  holds no opcode without a mnemonic, the program loads it and prints the instructions that follow one
  another from the origin, decoded from the bytes of the file, one line for each, and ends with status 0.\<close>

theorem disassembler_lists_file:
  assumes "fs path = Some bytes" "length bytes \<le> 0xDFFD"
    and "mem = overlay (contents(0xFFFF := 0xCA)) 0x2000 bytes"
    and "starts = code_starts isa_6502_base_table mem (0x2000 + length bytes) 0x2000"
    and "\<forall>a \<in> set starts. listable isa_6502_base_table (mem (word_of_nat a))"
  shows "\<exists>t. disasm_6502_main junk contents fs [] [path] = Some (0, t)
    \<and> dis_printed t = [concat (List.map (line_at isa_6502_base_table mem \<circ> word_of_nat) starts)]"
proof -
  let ?m = "length (bus_heap junk)"
  let ?r = "memory_addr_range_with_lo_and_len 0x2000 (of_nat (length bytes))"
  obtain b where b: "default_bus junk contents 0 = Some b" "ram_bus ?m b"
    "\<forall>a. a \<noteq> 0xFFFF \<longrightarrow> bus_view ?m b a = contents a" "bus_view ?m b 0xFFFF = 0xCA"
    using default_bus_ram [of 0 junk contents] by (auto simp: MEMBUS_TIER_PRE_OP_def MEMBUS_TIER_POST_OP_def)
  have view: "bus_view ?m b = contents(0xFFFF := 0xCA)" using b(3,4) by auto
  obtain c where c: "load_chunks 0x2000 0x10000 0 bytes b = Some (length bytes, [], c)" "ram_bus ?m c"
    "bus_view ?m c = mem"
    using load_file [OF b(2), of bytes "0x10000" "0x2000" 0] assms(2,3) view by auto
  have r: "unat (addr_lo ?r) = 0x2000" "unat (addr_len ?r) = length bytes"
    using assms(2) by (simp_all add: memory_addr_range_with_lo_and_len_def unat_of_nat)
  obtain e where e: "isa_6502_static_disassembly isa_6502_base_table c ?r
      = Some (List.map (line_at isa_6502_base_table mem \<circ> word_of_nat) starts, e)"
    using static_listing [OF c(2), of ?r isa_6502_base_table] assms(2,4,5) c(3) r by auto
  have "stream_stop (memory_addr_range_with_lo_and_hi 0x2000 0xFFFF) = 0x10000"
    "addr_lo (memory_addr_range_with_lo_and_hi 0x2000 0xFFFF) = 0x2000"
    by (simp_all add: stream_stop_def memory_addr_range_with_lo_and_hi_def)
  moreover obtain h k ok where "membus_module_std64k_alloc (bus_heap (membus_alloc junk)) contents = (h, k)"
    "membus_register_module ((membus_alloc junk)\<lparr>bus_heap := h\<rparr>) 0 k = Some (ok, b)"
    using b(1) by (auto simp: default_bus_def Let_def split: prod.splits)
  ultimately show ?thesis
    using c(1) e
    by (simp add: disasm_6502_main_def isa_6502_table_init_def membus_load_from_fd_def assms(1) dis_range_def dis_print_def)
qed

theorem disassembler_lists_file_witness:
  "\<exists>t. disasm_6502_main (sample_bus (\<lambda>a. 0)) (\<lambda>a. 0) [''code'' \<mapsto> [0xA9, 0x05, 0xEA, 0x02]] [] [''code''] = Some (0, t)
    \<and> dis_printed t = [''$2000 : A9 05        LDA #$05'' @ [CHR 0x0A] @ ''$2002 : EA           NOP'' @ [CHR 0x0A]
         @ ''$2003 : 02         .BYTE $02'' @ [CHR 0x0A]]"
proof -
  have starts: "code_starts isa_6502_base_table (overlay ((\<lambda>a. 0)(0xFFFF := 0xCA)) 0x2000 [0xA9, 0x05, 0xEA, 0x02])
      0x2004 0x2000 = [0x2000, 0x2002, 0x2003]"
    by (simp add: lines_eval)
  show ?thesis
    using disassembler_lists_file [of "[''code'' \<mapsto> [0xA9, 0x05, 0xEA, 0x02]]" "''code''" "[0xA9, 0x05, 0xEA, 0x02]"
        _ "\<lambda>a. 0" _ "sample_bus (\<lambda>a. 0)", OF _ _ refl refl] starts
    by (auto simp: lines_eval)
qed

text \<open>C37 (liveness).  A range that reaches the top of the address space is never listed to its end: the 16-bit
  address is always below the 32-bit end.\<close>

theorem static_disassembly_wraps:
  assumes "0x10000 \<le> unat (addr_lo r) + unat (addr_len r)"
  shows "isa_6502_static_disassembly tb b r = None"
proof -
  have "False" if "static_disassembly tb e a b = Some y" "0x10000 \<le> e" for e a y
    using that
  proof (induct rule: static_disassembly.raw_induct [rotated, consumes 1, case_names step])
    case (step disassemble tb e a b y)
    moreover have "unat a < e" using unat_u16 [of a] step.prems by linarith
    ultimately show ?case
      by (fastforce simp: Let_def bind_eq_Some_conv split: option.splits if_splits)
  qed
  then show ?thesis
    using assms by (cases "isa_6502_static_disassembly tb b r") (auto simp: isa_6502_static_disassembly_def)
qed

theorem static_disassembly_wraps_witness:
  "isa_6502_static_disassembly isa_6502_base_table (sample_bus (program []))
     (memory_addr_range_with_lo_and_hi 0xFFF0 0xFFFF) = None"
  by (rule static_disassembly_wraps) (simp add: memory_addr_range_with_lo_and_hi_def)

end
