(* ===== verification/Read_Ring.thy ===== *)
theory Read_Ring
  imports Isa_Ends
begin

text \<open>
  The operand bytes in the read ring of the bus: where an instruction, once its staged body has ended, has
  left the bytes it was read from, for the disassembly functions to pop.
\<close>

section \<open>The ring, from its last byte on\<close>

definition recent :: "membus \<Rightarrow> nat \<Rightarrow> u8" where
  "recent b k = rcache b ! (unat (rcache_idx b - 1 - of_nat k) mod 8)"

definition ring_ready :: "membus \<Rightarrow> bool" where
  "ring_ready b \<longleftrightarrow> \<not> cache_disable b \<and> length (rcache b) = 8"

lemma ring_slots: "k < 8 \<Longrightarrow> (unat (i - of_nat k :: u8) mod 8 = unat i mod 8) = (k = 0)"
proof -
  assume k: "k < 8"
  have w: "(x mod 256) mod 8 = x mod (8 :: int)" for x by (rule mod_mod_cancel) simp
  have m: "int (unat (j :: u8) mod 8) = uint j mod 8" for j by (simp add: zmod_int)
  have "uint (i - of_nat k :: u8) mod 8 = (uint i - int k) mod 8"
    using k by (simp add: uint_word_ariths w mod_simps unsigned_of_nat take_bit_eq_mod)
  then have "(unat (i - of_nat k :: u8) mod 8 = unat i mod 8) = ((uint i - int k) mod 8 = uint i mod 8)"
    by (simp only: m [symmetric] flip: of_nat_eq_iff [where 'a = int])
  also have "\<dots> = (k = 0)" using k by presburger
  finally show ?thesis .
qed

lemma recent_got [simp]:
  assumes "ring_ready b" "k < 8"
  shows "recent (bus_got m a b) k = (if k = 0 then bus_view m b a else recent b (k - 1))"
  using assms ring_slots [of k "rcache_idx b"]
  by (cases k) (auto simp: ring_ready_def recent_def bus_got_def membus_rcache_push_def nth_list_update algebra_simps)

lemma bus_put_ring: "rcache (bus_put m a v b) = rcache b" "rcache_idx (bus_put m a v b) = rcache_idx b"
  "cache_disable (bus_put m a v b) = cache_disable b"
  by (simp_all add: bus_put_def Let_def ram_store_def membus_wcache_push_def)

lemma ring_after [simp]:
  "recent (bus_put m a v b) k = recent b k"
  "ring_ready (bus_got m a b) = ring_ready b" "ring_ready (bus_put m a v b) = ring_ready b"
  by (simp_all add: recent_def ring_ready_def bus_put_ring)
    (simp add: bus_got_def membus_rcache_push_def)

section \<open>The operand in the ring\<close>

text \<open>How many bytes an instruction reads behind its operand.\<close>

definition silent_ops :: "isa_6502_op set" where
  "silent_ops = {op_STA, op_STX, op_STY, op_JSR, op_JMP, op_65C02 c02_STA, op_65C02 c02_STZ, op_65C02 c02_JMP}"

definition reads_behind :: "isa_6502_op \<Rightarrow> isa_6502_addressing \<Rightarrow> nat" where
  "reads_behind f md =
    (let own = if f \<in> silent_ops then 0 else 1 in
     case md of
       isa_6502_addressing_immediate \<Rightarrow> 0
     | isa_6502_addressing_relative \<Rightarrow> 0
     | isa_6502_addressing_indirect \<Rightarrow> 2
     | isa_6502_addressing_absolute_x_indexed_indirect \<Rightarrow> 2
     | isa_6502_addressing_x_indexed_indirect \<Rightarrow> own + 2
     | isa_6502_addressing_indirect_y_indexed \<Rightarrow> own + 2
     | _ \<Rightarrow> own)"

definition operand_in_ring :: "isa_6502_op \<Rightarrow> isa_6502_addressing \<Rightarrow> membus \<Rightarrow> u8 \<Rightarrow> u8 \<Rightarrow> bool" where
  "operand_in_ring f md b lo hi \<longleftrightarrow>
    (let k = reads_behind f md; n = isa_6502_addressing_operand_counts md in
     (n = Some 1 \<longrightarrow> recent b k = lo) \<and> (n = Some 2 \<longrightarrow> recent b k = hi \<and> recent b (k + 1) = lo))"

text \<open>The entries whose text is not that of the instruction: the body never ends, reads other bytes than
  those of its operand, or the disassembly function has no format for the mode or one that prints a variable
  it has not set.\<close>

definition misprints :: "isa_6502_op \<Rightarrow> isa_6502_addressing \<Rightarrow> bool" where
  "misprints f md \<longleftrightarrow> (f, md) \<in> endless_entries
    \<or> md = isa_6502_addressing_zeropage_indirect
    \<or> f \<in> {op_LDA, op_65C02 c02_LDA} \<and> md = isa_6502_addressing_x_indexed_indirect
    \<or> f \<in> {op_CMP, op_65C02 c02_CMP} \<and> md \<in> {isa_6502_addressing_x_indexed_indirect,
        isa_6502_addressing_indirect_y_indexed, isa_6502_addressing_zeropage, isa_6502_addressing_zeropage_x_indexed}
    \<or> f = op_LDY \<and> md \<in> {isa_6502_addressing_zeropage_x_indexed, isa_6502_addressing_absolute_x_indexed}"

definition leaves_operand :: "module_ref \<Rightarrow> isa_6502_op \<Rightarrow> isa_locals \<Rightarrow> isa_6502_instr_context \<Rightarrow> bool" where
  "leaves_operand m f l c \<longleftrightarrow>
    (\<exists>c'. staged_outcome 8 (staged_fn f) l c = Some (isa_6502_instr_stage_end, c')
       \<and> addressing_mode c' = addressing_mode c
       \<and> operand_in_ring f (addressing_mode c) (memory c') (bus_view m (memory c) (reg_PC (registers c)))
           (bus_view m (memory c) (reg_PC (registers c) + 1)))"

lemma status_of_PC: "SR_is_set which (r\<lparr>reg_PC := a\<rparr>) = SR_is_set which r"
  by (simp add: SR_is_set_def registers_SR_get_bit_def)

lemmas leaf_rules = status_of_PC leaves_operand_def staged_outcome_def operand_in_ring_def reads_behind_def
  isa_6502_addressing_operand_counts_def Let_def ctx_defs SR_is_clear_def silent_ops_def split_beta

lemmas misprints_defs = misprints_def endless_entries_def

lemma load_leaves:
  assumes "ram_bus m (memory c)" "ring_ready (memory c)" "cycle_count c = 1"
    "\<not> misprints f (addressing_mode c)"
    "addressing_mode c \<in> set (table_modes f)" "f \<in> {op_LDA, op_LDX, op_LDY, op_STA, op_STX, op_STY}"
  shows "leaves_operand m f l c"
  using assms(4-6)
  by (elim insertE emptyE; simp add: misprints_defs; elim disjE;
      simp add: load_staged_defs leaf_rules ram_read [of m] ram_write [of m] assms(1-3))

lemma operand_leaves:
  assumes "ram_bus m (memory c)" "ring_ready (memory c)" "cycle_count c = 1"
    "\<not> misprints f (addressing_mode c)"
    "addressing_mode c \<in> set (table_modes f)" "f \<in> {op_ADC, op_SBC, op_AND, op_EOR, op_ORA}"
  shows "leaves_operand m f l c"
  using assms(4-6)
  by (elim insertE emptyE; simp add: misprints_defs; elim disjE;
      simp add: alu_staged_defs leaf_rules ram_read [of m] ram_write [of m] assms(1-3))

lemma test_leaves:
  assumes "ram_bus m (memory c)" "ring_ready (memory c)" "cycle_count c = 1"
    "\<not> misprints f (addressing_mode c)"
    "addressing_mode c \<in> set (table_modes f)" "f \<in> {op_CMP, op_CPX, op_CPY, op_BIT}"
  shows "leaves_operand m f l c"
  using assms(4-6)
  by (elim insertE emptyE; simp add: misprints_defs; elim disjE;
      simp add: test_staged_defs leaf_rules ram_read [of m] ram_write [of m] assms(1-3))

lemma modify_leaves:
  assumes "ram_bus m (memory c)" "ring_ready (memory c)" "cycle_count c = 1"
    "\<not> misprints f (addressing_mode c)"
    "addressing_mode c \<in> set (table_modes f)" "f \<in> {op_INC, op_DEC, op_ASL, op_LSR, op_ROL, op_ROR}"
  shows "leaves_operand m f l c"
  using assms(4-6)
  by (elim insertE emptyE; simp add: misprints_defs; elim disjE;
      simp add: rmw_staged_defs leaf_rules ram_read [of m] ram_write [of m] assms(1-3))

lemma flow_leaves:
  assumes "ram_bus m (memory c)" "ring_ready (memory c)" "cycle_count c = 1"
    "addressing_mode c \<in> set (table_modes f)" "f \<in> {op_BCC, op_BCS, op_BNE, op_BEQ, op_BVC, op_BVS, op_BPL, op_BMI, op_BRK, op_JMP, op_JSR,
       op_RTS, op_RTI, op_PHA, op_PHP, op_PLA, op_PLP}"
  shows "leaves_operand m f l c"
  using assms(4,5)
  by (elim insertE emptyE; simp; (elim disjE)?;
      simp add: flow_staged_defs implied_staged_defs leaf_rules ram_read [of m] ram_write [of m] assms(1-3))

lemma implied_leaves:
  assumes "ram_bus m (memory c)" "ring_ready (memory c)" "cycle_count c = 1"
    "addressing_mode c \<in> set (table_modes f)" "f \<in> {op_CLC, op_SEC, op_CLI, op_SEI, op_CLD, op_SED, op_CLV, op_NOP, op_TAX, op_TAY, op_TSX,
       op_TXA, op_TYA, op_TXS, op_INX, op_INY, op_DEX, op_DEY}"
  shows "leaves_operand m f l c"
  using assms(4,5)
  by (elim insertE emptyE; simp; (elim disjE)?;
      simp add: implied_staged_defs one_cycle_def leaf_rules ram_read [of m] ram_write [of m] assms(1-3))

lemma operand65_leaves:
  assumes "ram_bus m (memory c)" "ring_ready (memory c)" "cycle_count c = 1"
    "\<not> misprints (op_65C02 g) (addressing_mode c)"
    "addressing_mode c \<in> set (table65_modes g)" "g \<in> {c02_AND, c02_EOR, c02_ORA, c02_ADC, c02_SBC}"
  shows "leaves_operand m (op_65C02 g) l c"
  using assms(4-6)
  by (elim insertE emptyE; simp add: misprints_defs; elim disjE;
      simp add: alu65_staged_defs leaf_rules ram_read [of m] ram_write [of m] assms(1-3))

lemma memory65_leaves:
  assumes "ram_bus m (memory c)" "ring_ready (memory c)" "cycle_count c = 1"
    "\<not> misprints (op_65C02 g) (addressing_mode c)"
    "addressing_mode c \<in> set (table65_modes g)" "g \<in> {c02_LDA, c02_STA, c02_STZ, c02_CMP, c02_BIT}"
  shows "leaves_operand m (op_65C02 g) l c"
  using assms(4-6)
  by (elim insertE emptyE; simp add: misprints_defs; elim disjE;
      simp add: load65_staged_defs test65_staged_defs ADDR16_zeropage_unshifted_def leaf_rules ram_read [of m] ram_write [of m] assms(1-3))

lemma modify65_leaves:
  assumes "ram_bus m (memory c)" "ring_ready (memory c)" "cycle_count c = 1"
    "\<not> misprints (op_65C02 g) (addressing_mode c)"
    "addressing_mode c \<in> set (table65_modes g)" "g \<in> {c02_INC, c02_DEC, c02_ASL, c02_ROL, c02_LSR, c02_ROR, c02_TSB, c02_TRB}"
  shows "leaves_operand m (op_65C02 g) l c"
  using assms(4-6)
  by (elim insertE emptyE; simp add: misprints_defs; elim disjE;
      simp add: rmw65_staged_defs rmw_staged_defs leaf_rules ram_read [of m] ram_write [of m] assms(1-3))

lemma flow65_leaves:
  assumes "ram_bus m (memory c)" "ring_ready (memory c)" "cycle_count c = 1"
    "addressing_mode c \<in> set (table65_modes g)" "g \<in> {c02_BRA, c02_JMP, c02_BRK, c02_PHX, c02_PHY, c02_PLX, c02_PLY}"
  shows "leaves_operand m (op_65C02 g) l c"
  using assms(4,5)
  by (elim insertE emptyE; simp; (elim disjE)?;
      simp add: flow65_staged_defs flow65_shared_defs leaf_rules ram_read [of m] ram_write [of m] assms(1-3))

lemma entries65_leave:
  assumes "ram_bus m (memory c)" "ring_ready (memory c)" "cycle_count c = 1"
    "\<not> misprints (op_65C02 g) (addressing_mode c)" "addressing_mode c \<in> set (table65_modes g)"
  shows "leaves_operand m (op_65C02 g) l c"
  using operand65_leaves [OF assms] memory65_leaves [OF assms] modify65_leaves [OF assms]
    flow65_leaves [OF assms(1-3,5)] assms(5)
  by (cases g) simp_all

lemma entries_leave:
  assumes "ram_bus m (memory c)" "ring_ready (memory c)" "cycle_count c = 1"
    "(f, addressing_mode c) \<in> dialect_entries" "\<not> misprints f (addressing_mode c)"
  shows "leaves_operand m f l c"
proof -
  have md: "addressing_mode c \<in> set (table_modes f)" using assms(4) by (rule in_table)
  then have "f \<notin> {op_IRQ, op_NMI, op_RESET}" by auto
  then show ?thesis
    using load_leaves [OF assms(1-3) assms(5) md] operand_leaves [OF assms(1-3) assms(5) md] test_leaves [OF assms(1-3) assms(5) md]
      modify_leaves [OF assms(1-3) assms(5) md] flow_leaves [OF assms(1-3) md] implied_leaves [OF assms(1-3) md]
      entries65_leave [OF assms(1-3)] assms(5) md
    by (cases f) simp_all
qed

end
