(* ===== verification/Inline_Props.thy ===== *)
theory Inline_Props
  imports Isa65_Disasm Static_Disasm Read_Ring "HOL-Library.Sublist"
begin

text \<open>
  The disassembly functions of the instructions: what they print after a staged body is the instruction and the
  operand it was read with, and it fits the buffer of the executor.
\<close>

section \<open>Formats read symbolically\<close>

text \<open>A printed character, or a byte of the read ring by its distance from the last one.\<close>

datatype mark = Plain char | Read_byte conversion nat

fun mark_text :: "membus \<Rightarrow> mark \<Rightarrow> string" where
  "mark_text b (Plain ch) = [ch]"
| "mark_text b (Read_byte cv k) = convert cv (ucast (recent b k))"

text \<open>The byte that each variable holds after the pops.\<close>

fun byte_sources :: "disasm_pop list \<Rightarrow> nat \<Rightarrow> (disasm_var \<rightharpoonup> nat) \<Rightarrow> (disasm_var \<rightharpoonup> nat)" where
  "byte_sources [] k s = s"
| "byte_sources (Rcache x # ps) k s = byte_sources ps (k + 1) (s(x := Some k))"
| "byte_sources (Wcache x # ps) k s = byte_sources ps k (s(x := None))"

definition mark_of :: "(disasm_var \<rightharpoonup> nat) \<Rightarrow> disasm_arg list \<Rightarrow> piece \<Rightarrow> mark option" where
  "mark_of s args p =
    (case p of
       Text ch \<Rightarrow> Some (Plain ch)
     | Argument n cv \<Rightarrow>
         if n < length args then
           (case args ! n of
              Of_var x \<Rightarrow> map_option (Read_byte cv) (s x)
            | Of_signed x \<Rightarrow> if cv = Signed then map_option (Read_byte cv) (s x) else None
            | _ \<Rightarrow> None)
         else None)"

definition marks :: "disasm_body \<Rightarrow> isa_6502_addressing \<Rightarrow> mark option list option" where
  "marks body md =
    (case body md of
       None \<Rightarrow> None
     | Some (pops, fmt, args) \<Rightarrow>
         map_option (List.map (mark_of (byte_sources pops 0 (\<lambda>_. None)) args)) (read_format 0 fmt))"

lemma recent_popped:
  "recent (b\<lparr>rcache_idx := rcache_idx b - 1\<rparr>) k = recent b (k + 1)"
  "recent (b\<lparr>wcache_idx := i\<rparr>) k = recent b k"
  by (simp_all add: recent_def algebra_simps)

lemma run_pops_sources:
  assumes "byte_sources ps n s x = Some k" "\<And>x k. s x = Some k \<Longrightarrow> vars x = recent b k"
    "\<And>k. recent b' k = recent b (n + k)"
  shows "fst (run_pops ps vars b') x = recent b k"
  using assms
proof (induction ps n s arbitrary: vars b' rule: byte_sources.induct)
  case (2 y ps n s)
  have v: "fst (membus_rcache_pop b') = recent b n"
    using 2(4) [of 0] by (simp add: membus_rcache_pop_def recent_def Let_def)
  have "fst (run_pops ps (vars(y := recent b n)) (snd (membus_rcache_pop b'))) x = recent b k"
  proof (rule 2(1))
    show "byte_sources ps (n + 1) (s(y := Some n)) x = Some k" using 2(2) by simp
    show "(vars(y := recent b n)) z = recent b j" if "(s(y := Some n)) z = Some j" for z j
      using that 2(3) by (auto split: if_splits)
    show "recent (snd (membus_rcache_pop b')) j = recent b (n + 1 + j)" for j
      using 2(4) [of "j + 1"] by (simp add: membus_rcache_pop_def Let_def recent_popped)
  qed
  then show ?case using v by (simp add: split_beta Let_def)
next
  case (3 y ps n s)
  have "fst (run_pops ps (vars(y := fst (membus_wcache_pop b'))) (snd (membus_wcache_pop b'))) x = recent b k"
  proof (rule 3(1))
    show "byte_sources ps n (s(y := None)) x = Some k" using 3(2) by simp
    show "(vars(y := fst (membus_wcache_pop b'))) z = recent b j" if "(s(y := None)) z = Some j" for z j
      using that 3(3) by (auto split: if_splits)
    show "recent (snd (membus_wcache_pop b')) j = recent b (n + j)" for j
      using 3(4) [of j] by (simp add: membus_wcache_pop_def Let_def recent_popped)
  qed
  then show ?case by (simp add: split_beta Let_def)
qed simp

lemma low_byte_of_argument [simp]: "ucast (scast (v :: u8) :: u32) = v" "ucast (ucast (v :: u8) :: u32) = v"
  by (rule bit_word_eqI, simp add: bit_simps)+

lemma print_mark:
  assumes "mark_of s args p = Some k" "\<And>x k. s x = Some k \<Longrightarrow> vars x = recent b k"
  shows "print_piece (List.map (arg_value vars r) args) p = mark_text b k"
  using assms
  by (auto simp: mark_of_def print_piece_def split: piece.splits if_splits disasm_arg.splits)

lemma marked_prefix:
  assumes "take (length e) (List.map f ps) = List.map Some e" "\<And>p k. f p = Some k \<Longrightarrow> g p = h k"
  shows "prefix (concat (List.map h e)) (concat (List.map g ps))"
  using assms(1)
proof (induction e arbitrary: ps)
  case (Cons k e)
  then show ?case using assms(2) by (cases ps) auto
qed simp

lemma disasm_prefix:
  assumes "marks body (addressing_mode c) = Some ms" "take (length e) ms = List.map Some e"
  shows "\<exists>shown b. run_disasm body vars c = Some (shown, c\<lparr>memory := b\<rparr>)
    \<and> prefix (concat (List.map (mark_text (memory c)) e)) shown"
proof -
  obtain pops fmt args ps where b: "body (addressing_mode c) = Some (pops, fmt, args)" "read_format 0 fmt = Some ps"
    and ms: "ms = List.map (mark_of (byte_sources pops 0 (\<lambda>_. None)) args) ps"
    using assms(1) by (auto simp: marks_def split: option.splits)
  have "prefix (concat (List.map (mark_text (memory c)) e))
    (concat (List.map (print_piece (List.map (arg_value (fst (run_pops pops vars (memory c))) (registers c)) args)) ps))"
    using assms(2) unfolding ms
    by (rule marked_prefix) (erule print_mark, erule run_pops_sources, simp_all)
  then show ?thesis by (auto simp: run_disasm_def c_snprintf_def b split_beta)
qed

section \<open>The text of an operand\<close>

definition operand_prefix :: "isa_6502_addressing \<Rightarrow> u16 \<Rightarrow> string" where
  "operand_prefix md w =
    (let lo = hex2 (lo_byte w) in case md of
       isa_6502_addressing_accumulator \<Rightarrow> '' A''
     | isa_6502_addressing_absolute \<Rightarrow> '' $'' @ hex4 w
     | isa_6502_addressing_absolute_x_indexed \<Rightarrow> '' $'' @ hex4 w @ '',X''
     | isa_6502_addressing_absolute_y_indexed \<Rightarrow> '' $'' @ hex4 w @ '',Y''
     | isa_6502_addressing_immediate \<Rightarrow> '' #$'' @ lo
     | isa_6502_addressing_indirect \<Rightarrow> '' ($'' @ hex4 w
     | isa_6502_addressing_x_indexed_indirect \<Rightarrow> '' ($'' @ lo
     | isa_6502_addressing_indirect_y_indexed \<Rightarrow> '' ($'' @ lo
     | isa_6502_addressing_relative \<Rightarrow> '' *'' @ signed_text (lo_byte w)
     | isa_6502_addressing_zeropage \<Rightarrow> '' $'' @ lo
     | isa_6502_addressing_zeropage_x_indexed \<Rightarrow> '' $'' @ lo @ '',X''
     | isa_6502_addressing_zeropage_y_indexed \<Rightarrow> '' $'' @ lo @ '',Y''
     | isa_6502_addressing_absolute_x_indexed_indirect \<Rightarrow> '' ($'' @ hex4 w @ '',X''
     | _ \<Rightarrow> [])"

definition operand_marks :: "isa_6502_addressing \<Rightarrow> nat \<Rightarrow> mark list" where
  "operand_marks md k =
    (let plain = List.map Plain; lo = [Read_byte Hex2 k]; word = [Read_byte Hex2 k, Read_byte Hex2 (k + 1)] in
     case md of
       isa_6502_addressing_accumulator \<Rightarrow> plain '' A''
     | isa_6502_addressing_absolute \<Rightarrow> plain '' $'' @ word
     | isa_6502_addressing_absolute_x_indexed \<Rightarrow> plain '' $'' @ word @ plain '',X''
     | isa_6502_addressing_absolute_y_indexed \<Rightarrow> plain '' $'' @ word @ plain '',Y''
     | isa_6502_addressing_immediate \<Rightarrow> plain '' #$'' @ lo
     | isa_6502_addressing_indirect \<Rightarrow> plain '' ($'' @ word
     | isa_6502_addressing_x_indexed_indirect \<Rightarrow> plain '' ($'' @ lo
     | isa_6502_addressing_indirect_y_indexed \<Rightarrow> plain '' ($'' @ lo
     | isa_6502_addressing_relative \<Rightarrow> plain '' *'' @ [Read_byte Signed k]
     | isa_6502_addressing_zeropage \<Rightarrow> plain '' $'' @ lo
     | isa_6502_addressing_zeropage_x_indexed \<Rightarrow> plain '' $'' @ lo @ plain '',X''
     | isa_6502_addressing_zeropage_y_indexed \<Rightarrow> plain '' $'' @ lo @ plain '',Y''
     | isa_6502_addressing_absolute_x_indexed_indirect \<Rightarrow> plain '' ($'' @ word @ plain '',X''
     | _ \<Rightarrow> [])"

lemma operand_prefix_static: "prefix (operand_prefix md w) (operand_text md w target)"
  by (cases md) (simp_all add: operand_prefix_def operand_text_def Let_def)

lemma hex_text_4: "hex_text 4 n = hex_text 2 (n div 256) @ hex_text 2 n"
proof -
  have "n div 16 div 16 = n div 256" by (simp flip: div_mult2_eq)
  then show ?thesis by (simp only: eval_nat_numeral hex_text.simps BitM.simps pred_numeral_simps) simp
qed

lemma low_digits:
  "l < 256 \<Longrightarrow> (l + 256 * h) div 16 mod 16 = l div 16" "(l + 256 * h) mod 16 = l mod (16 :: nat)"
  using div_mult_self2 [of 16 l "16 * h"] mod_mult_self2 [of l 16 "16 * h"] by (simp_all add: less_mult_imp_div_less)

lemma hex4_join: "hex4 (join_bytes lo hi) = hex2 hi @ hex2 lo"
proof -
  have "unat lo < 256" using unsigned_less [of lo] by simp
  then have "unat (join_bytes lo hi) div 256 = unat hi" "hex_text 2 (unat (join_bytes lo hi)) = hex_text 2 (unat lo)"
    unfolding join_bytes_unat by (simp_all add: numeral_2_eq_2 low_digits)
  then show ?thesis by (simp add: hex4_def hex2_def hex_text_4)
qed

lemma concat_plain: "concat (List.map (mark_text b \<circ> Plain) s) = s"
  by (induction s) simp_all

lemma operand_marks_text:
  assumes "operand_in_ring f md b lo hi"
  shows "concat (List.map (mark_text b) (operand_marks md (reads_behind f md))) = operand_prefix md (join_bytes lo hi)"
  using assms
  by (cases md) (simp_all add: operand_marks_def operand_prefix_def operand_in_ring_def Let_def hex4_join
      isa_6502_addressing_operand_counts_def)

section \<open>The entries of the tables\<close>

definition named_entries :: "isa_6502_table \<Rightarrow> (isa_6502_op \<times> isa_6502_addressing \<times> string) list" where
  "named_entries t = List.map_filter (\<lambda>d. map_option (\<lambda>f. (f, dispatch_mode d, mnemonic d)) (exec_fn d))
     (concat (concat (table t)))"

definition shows_operand :: "isa_6502_op \<times> isa_6502_addressing \<times> string \<Rightarrow> bool" where
  "shows_operand = (\<lambda>(f, md, name).
    case marks (disasm_fn f) md of
      None \<Rightarrow> False
    | Some ms \<Rightarrow> let e = List.map Plain name @ operand_marks md (reads_behind f md) in
        take (length e) ms = List.map Some e)"

text \<open>Evaluated on every entry of the two tables.\<close>

lemma formats_show_operand:
  "list_all (\<lambda>e. misprints (fst e) (fst (snd e)) \<or> shows_operand e) (named_entries isa_6502_base_table)"
  "list_all (\<lambda>e. misprints (fst e) (fst (snd e)) \<or> shows_operand e) (named_entries isa_65C02_table)"
  by code_simp+

lemma entry_shows_operand:
  assumes "t \<in> {isa_6502_base_table, isa_65C02_table}" "d \<in> set (concat (concat (table t)))" "exec_fn d = Some f"
    "\<not> misprints f (dispatch_mode d)"
  shows "shows_operand (f, dispatch_mode d, mnemonic d)"
proof -
  have "(f, dispatch_mode d, mnemonic d) \<in> set (named_entries t)"
    using assms(2,3) by (force simp: named_entries_def List.map_filter_def)
  then show ?thesis
    using assms(1,4) formats_show_operand by (auto simp: list_all_iff)
qed

lemma entry_in_dialect:
  assumes "t \<in> {isa_6502_base_table, isa_65C02_table}" "d \<in> set (concat (concat (table t)))" "exec_fn d = Some f"
  shows "(f, dispatch_mode d) \<in> dialect_entries"
proof -
  have "(f, dispatch_mode d) \<in> set (legal_entries t)"
    using assms(2,3) by (force simp: legal_entries_def List.map_filter_def)
  then show ?thesis using assms(1) by (auto simp: dialect_entries_def)
qed

text \<open>C11 (equivalence).  The two disassemblers agree: after the staged body of an entry of either table, the few in
  \<open>misprints\<close> apart, the text of its disassembly function begins with the mnemonic and the operand that
  stood behind the opcode, as the static disassembler prints them.\<close>

theorem inline_disassembly_agrees:
  assumes "ram_bus m (memory c)" "ring_ready (memory c)" "cycle_count c = 1"
    "t \<in> {isa_6502_base_table, isa_65C02_table}" "d \<in> set (concat (concat (table t)))" "exec_fn d = Some f"
    "dispatch_mode d = addressing_mode c" "\<not> misprints f (addressing_mode c)"
  shows "\<exists>c' shown c''. staged_outcome 8 (staged_fn f) l c = Some (isa_6502_instr_stage_end, c')
    \<and> run_disasm (disasm_fn f) vars c' = Some (shown, c'')
    \<and> (let w = word_at (bus_view m (memory c)) (reg_PC (registers c)); p = operand_prefix (addressing_mode c) w in
       prefix (mnemonic d @ p) shown \<and> (\<forall>target. prefix p (operand_text (addressing_mode c) w target)))"
proof -
  have e: "(f, addressing_mode c) \<in> dialect_entries" using entry_in_dialect [OF assms(4-6)] assms(7) by simp
  obtain c' where run: "staged_outcome 8 (staged_fn f) l c = Some (isa_6502_instr_stage_end, c')"
    and md: "addressing_mode c' = addressing_mode c"
    and ring: "operand_in_ring f (addressing_mode c) (memory c') (bus_view m (memory c) (reg_PC (registers c)))
      (bus_view m (memory c) (reg_PC (registers c) + 1))"
    using entries_leave [OF assms(1-3) e assms(8)] by (auto simp: leaves_operand_def)
  have "shows_operand (f, addressing_mode c, mnemonic d)"
    using entry_shows_operand [OF assms(4-6)] assms(7,8) by simp
  then obtain ms where "marks (disasm_fn f) (addressing_mode c') = Some ms"
    "take (length (List.map Plain (mnemonic d) @ operand_marks (addressing_mode c) (reads_behind f (addressing_mode c)))) ms
      = List.map Some (List.map Plain (mnemonic d) @ operand_marks (addressing_mode c) (reads_behind f (addressing_mode c)))"
    by (auto simp: shows_operand_def md Let_def split: option.splits)
  from disasm_prefix [OF this, of vars] obtain shown c'' where
    "run_disasm (disasm_fn f) vars c' = Some (shown, c'')"
    "prefix (mnemonic d @ operand_prefix (addressing_mode c) (word_at (bus_view m (memory c)) (reg_PC (registers c)))) shown"
    by (auto simp: concat_plain operand_marks_text [OF ring] word_at_def)
  then show ?thesis using run operand_prefix_static by (auto simp: Let_def)
qed

definition ring_context :: "(u16 \<Rightarrow> u8) \<Rightarrow> isa_6502_addressing \<Rightarrow> isa_6502_instr_context" where
  "ring_context mem md =
    (sample_context mem md sample_registers)\<lparr>memory := membus_set_cache_disable (sample_bus mem) False\<rparr>"

theorem inline_disassembly_agrees_witness:
  "\<exists>c' shown c''. staged_outcome 8 isa_6502_LDA sample_locals (ring_context (\<lambda>_. 0x42) isa_6502_addressing_immediate)
      = Some (isa_6502_instr_stage_end, c')
    \<and> run_disasm isa_6502_disasm_LDA (\<lambda>_. 0) c' = Some (shown, c'') \<and> prefix ''LDA #$42'' shown"
proof -
  have d: "entry op_LDA ''LDA'' ''LDA #$XX'' isa_6502_addressing_immediate
    \<in> set (concat (concat (table isa_6502_base_table)))"
    by code_simp
  have h: "hex2 0x42 = ''42''" by code_simp
  let ?c = "ring_context (\<lambda>_. 0x42) isa_6502_addressing_immediate"
  have c: "ram_bus 0 (memory ?c)" "bus_view 0 (memory ?c) (reg_PC (registers ?c)) = 0x42" "cycle_count ?c = 1"
    "addressing_mode ?c = isa_6502_addressing_immediate"
    by (simp_all add: ring_context_def sample_context_def sample_bus_ram sample_view sample_registers_def)
  have r: "ring_ready (memory ?c)"
    by (simp add: ring_context_def ring_ready_def membus_set_cache_disable_def sample_bus_def)
  show ?thesis
    using inline_disassembly_agrees [OF c(1) r c(3) _ d, of op_LDA sample_locals "\<lambda>_. 0"] c(2,4)
    by (auto simp: entry_def misprints_def endless_entries_def operand_prefix_def word_at_def h Let_def)
qed

section \<open>The buffer\<close>

fun conversion_width :: "conversion \<Rightarrow> nat" where
  "conversion_width Hex2 = 2" | "conversion_width Hex4 = 4" | "conversion_width Signed = 4" | "conversion_width Digit = 3"

definition piece_width :: "piece \<Rightarrow> nat" where
  "piece_width p = (case p of Text _ \<Rightarrow> 1 | Argument _ cv \<Rightarrow> conversion_width cv)"

definition text_width :: "disasm_body \<Rightarrow> isa_6502_addressing \<Rightarrow> nat option" where
  "text_width body md =
    (case body md of
       None \<Rightarrow> None
     | Some (_, fmt, _) \<Rightarrow> map_option (\<lambda>ps. sum_list (List.map piece_width ps)) (read_format 0 fmt))"

lemma dec_text_length: "n < 1000 \<Longrightarrow> length (dec_text n) \<le> 3"
proof -
  assume n: "n < 1000"
  have "length (dec_text k) = 1" if "k < 10" for k using that by (simp add: dec_text.simps)
  then have "length (dec_text k) \<le> 2" if "k < 100" for k using that by (subst dec_text.simps) auto
  then show ?thesis using n by (subst dec_text.simps) auto
qed

lemma hex_text_length: "length (hex_text w n) = w"
  by (induction w n rule: hex_text.induct) simp_all

lemma convert_width: "length (convert cv v) \<le> conversion_width cv"
proof (cases cv)
  case Signed
  let ?v = "ucast v :: u8"
  have "- 128 \<le> sint ?v" "sint ?v < 128" using sint_ge [of ?v] sint_lt [of ?v] by simp_all
  then have "length (dec_text (nat \<bar>sint ?v\<bar>)) \<le> 3" by (intro dec_text_length) simp
  moreover have "length (signed_text ?v) = 1 + length (dec_text (nat \<bar>sint ?v\<bar>))"
    by (simp only: signed_text_def length_append) simp
  ultimately show ?thesis using Signed by simp
next
  case Digit
  have "unat (ucast v :: u8) < 2 ^ LENGTH(8)" by (rule unsigned_less)
  then have "unat (ucast v :: u8) < 1000" by simp
  then show ?thesis using dec_text_length Digit by simp
qed (simp_all add: hex2_def hex4_def hex_text_length)

lemma printed_width: "length (concat (List.map (print_piece args) ps)) \<le> sum_list (List.map piece_width ps)"
proof (induction ps)
  case (Cons p ps)
  have "length (print_piece args p) \<le> piece_width p"
    by (auto simp: print_piece_def piece_width_def convert_width split: piece.splits)
  then show ?case using Cons by simp
qed simp

lemma run_disasm_width:
  assumes "text_width body (addressing_mode c) = Some w"
  shows "\<exists>shown c'. run_disasm body vars c = Some (shown, c') \<and> length shown \<le> w"
proof -
  obtain pops fmt args ps where "body (addressing_mode c) = Some (pops, fmt, args)" "read_format 0 fmt = Some ps"
    and w: "w = sum_list (List.map piece_width ps)"
    using assms by (auto simp: text_width_def split: option.splits)
  then show ?thesis by (auto simp: run_disasm_def c_snprintf_def split_beta w intro!: printed_width)
qed

lemma run_disasm_None: "text_width body (addressing_mode c) = None \<Longrightarrow> run_disasm body vars c = None"
  by (auto simp: text_width_def run_disasm_def c_snprintf_def split_beta Let_def split: option.splits prod.splits)

definition without_format :: "(isa_6502_op \<times> isa_6502_addressing) set" where
  "without_format = {(op_LDY, isa_6502_addressing_zeropage_x_indexed), (op_LDY, isa_6502_addressing_absolute_x_indexed)}"

lemma formats_fit:
  "list_all (\<lambda>(f, md). case text_width (disasm_fn f) md of None \<Rightarrow> (f, md) \<in> without_format
     | Some w \<Rightarrow> w < 64 \<and> (f, md) \<notin> without_format) (legal_entries isa_6502_base_table)"
  "list_all (\<lambda>(f, md). case text_width (disasm_fn f) md of None \<Rightarrow> (f, md) \<in> without_format
     | Some w \<Rightarrow> w < 64 \<and> (f, md) \<notin> without_format) (legal_entries isa_65C02_table)"
  by code_simp+

lemma inline_disassembly_text:
  assumes "(f, addressing_mode c) \<in> dialect_entries"
  shows "(run_disasm (disasm_fn f) vars c = None \<longleftrightarrow> (f, addressing_mode c) \<in> without_format)
    \<and> (run_disasm (disasm_fn f) vars c = Some (shown, c') \<longrightarrow> length shown < 64)"
proof -
  have "case text_width (disasm_fn f) (addressing_mode c) of None \<Rightarrow> (f, addressing_mode c) \<in> without_format
     | Some w \<Rightarrow> w < 64 \<and> (f, addressing_mode c) \<notin> without_format"
    using assms formats_fit by (auto simp: dialect_entries_def list_all_iff)
  then show ?thesis
    using run_disasm_width [of "disasm_fn f" c _ vars] run_disasm_None [of "disasm_fn f" c vars]
    by (force split: option.splits)
qed

text \<open>C40 (bounds).  For every entry of the two tables the text of the disassembly function, its terminating zero
  included, fits the 64 bytes of the executor's buffer, except for \<^verbatim>\<open>LDY $XX,X\<close> and \<^verbatim>\<open>LDY $XXXX,X\<close>, for which the
  function prints by a null pointer.\<close>

theorem inline_disassembly_fits_buffer:
  assumes "(f, addressing_mode c) \<in> dialect_entries"
  shows "(run_disasm (disasm_fn f) vars c = None \<longleftrightarrow> (f, addressing_mode c) \<in> without_format)
    \<and> (run_disasm (disasm_fn f) vars c = Some (shown, c') \<longrightarrow> length shown + 1 \<le> 64)"
  using inline_disassembly_text [OF assms, of vars shown c'] by auto

theorem inline_disassembly_fits_buffer_witness:
  "run_disasm isa_6502_disasm_LDY (\<lambda>_. 0) (sample_context (\<lambda>_. 0) isa_6502_addressing_zeropage_x_indexed sample_registers) = None"
proof -
  have "(op_LDY, isa_6502_addressing_zeropage_x_indexed) \<in> set (legal_entries isa_6502_base_table)" by code_simp
  then show ?thesis
    using inline_disassembly_fits_buffer [of op_LDY "sample_context (\<lambda>_. 0) isa_6502_addressing_zeropage_x_indexed sample_registers" "\<lambda>_. 0"]
    by (simp add: dialect_entries_def sample_context_def without_format_def)
qed

text \<open>In a launch that asks for the text, such an instruction has no result.\<close>

lemma unprinted_instruction_crashes:
  assumes "cb isa_6502_instr_stage_disasm" "exec_fn d = Some f" "(f, instr_mode s) \<in> dialect_entries \<inter> without_format"
  shows "disasm_instr cb d s = None"
proof -
  have "addressing_mode (instr_context_of s) = instr_mode s" by (simp add: instr_context_of_def)
  then show ?thesis
    using inline_disassembly_text [of f "instr_context_of s"] assms by (simp add: disasm_instr_def)
qed

end
