(* ===== verification/Stage_Output.thy ===== *)
theory Stage_Output
  imports Executor Membus_Files
begin

text \<open>
  What the stage callbacks print: \<^verbatim>\<open>executor_stage_callback_default\<close> of \<^verbatim>\<open>src/executor.c\<close> with
  \<^verbatim>\<open>registers_fprintf\<close>, and the callback that \<^verbatim>\<open>src/system_6502.c\<close> makes of it.  The results are the texts
  for the two streams; \<open>None\<close>: an array is read out of its bounds.
\<close>

section \<open>Registers\<close>

definition registers_fprintf :: "registers \<Rightarrow> string" where
  "registers_fprintf r =
    (let sr_bit = (\<lambda>b. dec_text (unat (registers_SR_get_bit r b))) in
     ''A:$'' @ hex2 (reg_A r) @ ''  X:$'' @ hex2 (reg_X r) @ ''  Y:$'' @ hex2 (reg_Y r)
     @ ''  SP:$01'' @ hex2 (reg_SP r) @ ''  PC:$'' @ hex4 (reg_PC r)
     @ ''  SR:[N:'' @ sr_bit register_SR_Bit_N @ '' V:'' @ sr_bit register_SR_Bit_V
     @ '' B:'' @ sr_bit register_SR_Bit_B @ '' D:'' @ sr_bit register_SR_Bit_D
     @ '' I:'' @ sr_bit register_SR_Bit_IGN @ '' Z:'' @ sr_bit register_SR_Bit_Z
     @ '' C:'' @ sr_bit register_SR_Bit_C @ '']'' @ [CHR 0x0A])"

section \<open>Stages and modes\<close>

text \<open>The values of the enumerators.\<close>

fun stage_number :: "isa_6502_instr_stage \<Rightarrow> u32" where
  "stage_number isa_6502_instr_stage_pre_load_PC = push_bit 0 1"
| "stage_number isa_6502_instr_stage_post_load_PC = push_bit 1 1"
| "stage_number isa_6502_instr_stage_pre_fetch_opcode = push_bit 2 1"
| "stage_number isa_6502_instr_stage_post_fetch_opcode = push_bit 3 1"
| "stage_number isa_6502_instr_stage_pre_decode_opcode = push_bit 4 1"
| "stage_number isa_6502_instr_stage_post_decode_opcode = push_bit 5 1"
| "stage_number isa_6502_instr_stage_pre_next_cycle = push_bit 6 1"
| "stage_number isa_6502_instr_stage_next_cycle = push_bit 7 1"
| "stage_number isa_6502_instr_stage_end = push_bit 8 1"
| "stage_number isa_6502_instr_stage_disasm = push_bit 9 1"
| "stage_number isa_6502_instr_stage_execution_complete = push_bit 10 1"
| "stage_number isa_6502_instr_stage_enter_nmi = push_bit 11 1"
| "stage_number isa_6502_instr_stage_exec_nmi = push_bit 12 1"
| "stage_number isa_6502_instr_stage_enter_irq = push_bit 13 1"
| "stage_number isa_6502_instr_stage_exec_irq = push_bit 14 1"
| "stage_number isa_6502_instr_stage_exec_dma = push_bit 15 1"
| "stage_number isa_6502_instr_stage_illegal_instruction = push_bit 31 1"

text \<open>\<^verbatim>\<open>%04X\<close>: at least four digits.\<close>

fun hex_digits :: "nat \<Rightarrow> nat" where
  "hex_digits n = (if n < 16 then 1 else 1 + hex_digits (n div 16))"

declare hex_digits.simps [simp del]

definition stage_text :: "isa_6502_instr_stage \<Rightarrow> string" where
  "stage_text at_stage =
    (let n = unat (stage_number at_stage) in ''['' @ hex_text (max 4 (hex_digits n)) n @ ''] '')"

text \<open>The array behind \<^verbatim>\<open>isa_6502_addressing_modes_descriptions\<close>, indexed by a mode; the mode of an illegal
  opcode is \<^verbatim>\<open>-1\<close>.\<close>

definition isa_6502_addressing_modes_descriptions :: "string list" where
  "isa_6502_addressing_modes_descriptions =
    [''accumulator'', ''absolute'', ''x-indexed absolute'', ''y-indexed absolute'', ''immediate'', ''implied'',
     ''indirect'', ''(zero page) x-indexed indirect'', ''(zero page) indirect y-indexed'', ''relative'',
     ''zero page'', ''x-indexed zero page'', ''y-indexed zero page'', ''zero page indirect'',
     ''absolute x-indexed indirect'']"

fun mode_number :: "isa_6502_addressing \<Rightarrow> nat option" where
  "mode_number isa_6502_addressing_undefined = None"
| "mode_number isa_6502_addressing_accumulator = Some 0"
| "mode_number isa_6502_addressing_absolute = Some 1"
| "mode_number isa_6502_addressing_absolute_x_indexed = Some 2"
| "mode_number isa_6502_addressing_absolute_y_indexed = Some 3"
| "mode_number isa_6502_addressing_immediate = Some 4"
| "mode_number isa_6502_addressing_implied = Some 5"
| "mode_number isa_6502_addressing_indirect = Some 6"
| "mode_number isa_6502_addressing_x_indexed_indirect = Some 7"
| "mode_number isa_6502_addressing_indirect_y_indexed = Some 8"
| "mode_number isa_6502_addressing_relative = Some 9"
| "mode_number isa_6502_addressing_zeropage = Some 10"
| "mode_number isa_6502_addressing_zeropage_x_indexed = Some 11"
| "mode_number isa_6502_addressing_zeropage_y_indexed = Some 12"
| "mode_number isa_6502_addressing_zeropage_indirect = Some 13"
| "mode_number isa_6502_addressing_absolute_x_indexed_indirect = Some 14"

section \<open>The callbacks\<close>

definition executor_stage_callback_default ::
    "machine \<Rightarrow> isa_6502_instr_stage \<Rightarrow> u8 \<Rightarrow> isa_6502_opcode_dispatch \<Rightarrow> u64 \<Rightarrow> (string \<times> string) option" where
  "executor_stage_callback_default s the_stage the_opcode the_dispatch the_cycle_count =
    (let head = stage_text the_stage;
         regs = head @ ''REGISTERS:      '' @ registers_fprintf (ex_registers s);
         newline = [CHR 0x0A] in
     case the_stage of
       isa_6502_instr_stage_post_load_PC \<Rightarrow> Some (regs @ newline, [])
     | isa_6502_instr_stage_post_fetch_opcode \<Rightarrow>
         Some (newline @ head @ ''FETCHED:        $'' @ hex2 the_opcode @ '' => a='' @ dec_text (opcode_A the_opcode)
           @ '' b='' @ dec_text (opcode_B the_opcode) @ '' c='' @ dec_text (opcode_C the_opcode) @ newline @ regs, [])
     | isa_6502_instr_stage_post_decode_opcode \<Rightarrow>
         (case mode_number (dispatch_mode the_dispatch) of
            None \<Rightarrow> None
          | Some n \<Rightarrow>
              Some (head @ ''DECODED:        '' @ [CHR 0x22] @ description the_dispatch @ [CHR 0x22]
                @ '' (ADDRESSING MODE '' @ dec_text n @ '' = '' @ [CHR 0x22]
                @ isa_6502_addressing_modes_descriptions ! n @ [CHR 0x22] @ '')'' @ newline, []))
     | isa_6502_instr_stage_next_cycle \<Rightarrow> Some (regs, [])
     | isa_6502_instr_stage_end \<Rightarrow>
         Some (head @ ''ELAPSED CYCLES: '' @ dec_text (unat the_cycle_count) @ newline @ regs, [])
     | isa_6502_instr_stage_execution_complete \<Rightarrow>
         Some (newline @ head @ ''TOTAL CYCLES:   '' @ dec_text (unat the_cycle_count) @ newline, [])
     | isa_6502_instr_stage_illegal_instruction \<Rightarrow>
         Some ([], newline @ head @ ''HALT:  Illegal instruction at $'' @ hex4 (reg_PC (ex_registers s))
           @ '': $'' @ hex2 the_opcode @ newline)
     | _ \<Rightarrow> Some ([], []))"

text \<open>The callback of the program reads the first 16 bytes of memory over the bus.\<close>

definition our_executor_stage_callback ::
    "machine \<Rightarrow> isa_6502_instr_stage \<Rightarrow> u8 \<Rightarrow> isa_6502_opcode_dispatch \<Rightarrow> u64 \<Rightarrow> string option
      \<Rightarrow> (string \<times> string \<times> machine) option" where
  "our_executor_stage_callback s the_stage the_opcode the_dispatch the_cycle_count disasm = do {
     (out, err) \<leftarrow> executor_stage_callback_default s the_stage the_opcode the_dispatch the_cycle_count;
     let head = stage_text the_stage;
     let newline = [CHR 0x0A];
     let at_PC = hex4 (reg_PC (ex_registers s)) @ newline;
     case the_stage of
       isa_6502_instr_stage_end \<Rightarrow> do {
         (dump, b) \<leftarrow> membus_fprintf (ex_memory s) 0 (memory_addr_range_with_lo_and_hi 0x0000 0x000F);
         Some (out @ head @ ''MEMORY:         '' @ dump, err, s\<lparr>ex_memory := b\<rparr>) }
     | isa_6502_instr_stage_disasm \<Rightarrow>
         (case disasm of
            None \<Rightarrow> Some (out, err, s)
          | Some shown \<Rightarrow>
              Some (out @ (if shown = [] then [] else head @ ''DISASM:         '' @ shown @ newline), err, s))
     | isa_6502_instr_stage_enter_nmi \<Rightarrow> Some (out @ ''[--->] ENTER NMI'' @ newline, err, s)
     | isa_6502_instr_stage_enter_irq \<Rightarrow> Some (out @ ''[--->] ENTER IRQ'' @ newline, err, s)
     | isa_6502_instr_stage_exec_nmi \<Rightarrow> Some (out @ ''[<---] EXEC NMI @ $'' @ at_PC, err, s)
     | isa_6502_instr_stage_exec_irq \<Rightarrow> Some (out @ ''[<---] EXEC IRQ @ $'' @ at_PC, err, s)
     | _ \<Rightarrow> Some (out, err, s) }"

section \<open>Illegal opcodes\<close>

text \<open>The default callback reads out of bounds exactly when an illegal opcode has been decoded, and the loop makes
  that callback before it looks whether the opcode is legal.\<close>

lemma callback_out_of_bounds:
  "executor_stage_callback_default s st op d n = None \<longleftrightarrow>
    st = isa_6502_instr_stage_post_decode_opcode \<and> dispatch_mode d = isa_6502_addressing_undefined"
  by (cases st; cases "dispatch_mode d") (simp_all add: executor_stage_callback_default_def Let_def)

lemma illegal_opcode_reported_twice:
  assumes "dispatch_mode (isa_6502_table_lookup_dispatch (ex_isa s) (instr_opcode s)) = isa_6502_addressing_undefined"
  shows "trace (snd (snd (decode_instr (\<lambda>_. True) s))) = trace s @
    List.map (\<lambda>st. (st, instr_opcode s, isa_6502_addressing_undefined, instr_cycles s))
      [isa_6502_instr_stage_pre_decode_opcode, isa_6502_instr_stage_post_decode_opcode,
       isa_6502_instr_stage_illegal_instruction]"
  using assms by (simp add: decode_instr_def emit_instr_def emit_def Let_def)

end
