(* ===== verification/System_6502.thy ===== *)
theory System_6502
  imports Cli_Parse Membus_Files Static_Disasm
begin

text \<open>
  The program \<^verbatim>\<open>src/system_6502.c\<close>: one virtual machine and a sequence of options, each of which changes
  memory, runs code or sets how code is run.  \<^verbatim>\<open>getopt_long\<close> has split the command line into pairs of an
  option and its argument.  Of what is printed, memory dumps and disassemblies are kept.

  The stage callback of the program prints; that it reads the first 16 bytes of memory for that (which
  moves the read ring of the bus) is left out.
\<close>

section \<open>The input thread\<close>

text \<open>What the keys on the standard input ask the executor for, up to \<^verbatim>\<open>q\<close>.  The provider gives random
  bytes, the consumer prints and never refuses; \<^verbatim>\<open>4\<close> prints memory.\<close>

definition tui_request :: "(u16 \<Rightarrow> u8 option) \<Rightarrow> char \<Rightarrow> executor_request option" where
  "tui_request provider c =
    (if c = CHR ''>'' then Some (request_dma_copyout (memory_addr_range_with_lo_and_len 0x2000 0x0010) (\<lambda>_ _. True))
     else if c = CHR ''<'' then Some (request_dma_copyin (memory_addr_range_with_lo_and_len 0x4000 0x0010) provider)
     else if c_tolower c = CHR ''n'' then Some request_nmi
     else if c_tolower c = CHR ''i'' then Some request_irq
     else if c_tolower c = CHR ''q'' then Some request_exec_stop
     else None)"

fun tui_input_thread_run :: "(u16 \<Rightarrow> u8 option) \<Rightarrow> string \<Rightarrow> executor_request list" where
  "tui_input_thread_run provider [] = []"
| "tui_input_thread_run provider (c # cs) =
    (case tui_request provider c of
       None \<Rightarrow> tui_input_thread_run provider cs
     | Some q \<Rightarrow> q # (if c_tolower c = CHR ''q'' then [] else tui_input_thread_run provider cs))"

section \<open>The state of the program\<close>

text \<open>What it finds: the contents of what \<^verbatim>\<open>malloc\<close> returns, the files it may create, and a machine for the
  static variables and the windows of the other thread.\<close>

record environment =
  malloc_executor :: executor
  malloc_ram :: "u16 \<Rightarrow> u8"
  can_create :: "string \<Rightarrow> bool"
  process :: machine

record session =
  the_vm :: machine
  the_dialect :: isa_6502_dialect
  exec_callback :: stage_callback
  session_mode :: u32
  files :: "string \<Rightarrow> u8 list option"
  printed :: "string list"

text \<open>The program goes on, or has called \<^verbatim>\<open>exit\<close>.\<close>

datatype progress = going session | exited int session

definition exec_mode_default :: u32 where
  "exec_mode_default = exec_mode_staged OR exec_mode_verbose"

definition all_stages :: stage_callback where "all_stages = (\<lambda>_. True)"

definition interrupt_stages :: stage_callback where
  "interrupt_stages st \<longleftrightarrow> st \<in> {isa_6502_instr_stage_enter_nmi, isa_6502_instr_stage_enter_irq,
     isa_6502_instr_stage_exec_nmi, isa_6502_instr_stage_exec_irq}"

text \<open>A new machine in the place of the one that was freed, if there was one.\<close>

definition alloc_vm :: "environment \<Rightarrow> module_heap \<Rightarrow> isa_6502_dialect \<Rightarrow> machine \<Rightarrow> machine option" where
  "alloc_vm env heap dialect rest = do {
     let junk = malloc_executor env;
     e \<leftarrow> executor_alloc_with_default_components
            (junk\<lparr>ex_memory := (ex_memory junk)\<lparr>bus_heap := heap\<rparr>\<rparr>) (malloc_ram env);
     tb \<leftarrow> isa_6502_table_init (Some (ex_isa e)) dialect;
     Some (executor.extend (e\<lparr>ex_isa := tb\<rparr>) (executor.more rest)) }"

definition with_memory :: "membus \<Rightarrow> session \<Rightarrow> session" where
  "with_memory b s = s\<lparr>the_vm := (the_vm s)\<lparr>ex_memory := b\<rparr>\<rparr>"

definition print_text :: "string \<Rightarrow> session \<Rightarrow> session" where
  "print_text t s = s\<lparr>printed := printed s @ [t]\<rparr>"

section \<open>Options\<close>

text \<open>After \<^verbatim>\<open>open\<close> the program asks whether the descriptor is not 0, so that a failure, \<open>-1\<close>, goes on like a
  success.\<close>

definition option_new_vm :: "environment \<Rightarrow> session \<Rightarrow> session option" where
  "option_new_vm env s = do {
     heap \<leftarrow> executor_free (the_vm s);
     vm \<leftarrow> alloc_vm env heap (the_dialect s) (the_vm s);
     Some (s\<lparr>the_vm := vm\<rparr>) }"

definition option_exec :: "string \<Rightarrow> session \<Rightarrow> session option" where
  "option_exec optarg s =
    (case parse_mem_spec optarg of
       None \<Rightarrow> Some s
     | Some (addr_start, addr_end, _) \<Rightarrow> do {
         (total_cycles, vm) \<leftarrow> executor_launch_in_address_range (session_mode s) (exec_callback s)
           (memory_addr_range_with_lo_and_hi addr_start addr_end) addr_start (the_vm s);
         Some (s\<lparr>the_vm := vm\<rparr>) })"

definition option_load :: "string \<Rightarrow> session \<Rightarrow> session option" where
  "option_load optarg s =
    (case parse_file_spec optarg of
       None \<Rightarrow> Some s
     | Some (file_path, addr_start, addr_end, _) \<Rightarrow> do {
         (did_read, _, b) \<leftarrow> membus_load_from_fd (ex_memory (the_vm s))
           (memory_addr_range_with_lo_and_hi addr_start addr_end) (files s file_path);
         Some (with_memory b s) })"

definition option_brun :: "string \<Rightarrow> session \<Rightarrow> session option" where
  "option_brun optarg s =
    (let file_path = takeWhile (\<lambda>c. c \<noteq> CHR ''@'') optarg;
         start = (if file_path = optarg then Some 0x2000
                  else map_option fst (parse_addr (drop (length file_path + 1) optarg)))
     in case start of
          None \<Rightarrow> Some s
        | Some addr_start \<Rightarrow>
            if file_path = [] then Some s
            else do {
              (did_read, _, b) \<leftarrow> membus_load_from_fd (ex_memory (the_vm s))
                (memory_addr_range_with_lo_and_hi addr_start 0xFFFF) (files s file_path);
              let s = with_memory b s;
              if did_read > 0 then do {
                (total_cycles, vm) \<leftarrow> executor_launch_in_address_range (session_mode s) (exec_callback s)
                  (memory_addr_range_with_lo_and_len addr_start (of_nat did_read)) addr_start (the_vm s);
                Some (s\<lparr>the_vm := vm\<rparr>) }
              else Some s })"

definition option_save :: "environment \<Rightarrow> string \<Rightarrow> session \<Rightarrow> session option" where
  "option_save env optarg s =
    (let should_append = (take 1 optarg = ''+'');
         optarg = (if should_append then drop 1 optarg else optarg)
     in case parse_file_spec optarg of
          None \<Rightarrow> Some s
        | Some (file_path, addr_start, addr_end, _) \<Rightarrow> do {
            (did_write, bytes, b) \<leftarrow> membus_save_to_fd (ex_memory (the_vm s))
              (memory_addr_range_with_lo_and_hi addr_start addr_end) (can_create env file_path);
            let old = (if should_append then case files s file_path of None \<Rightarrow> [] | Some bs \<Rightarrow> bs else []);
            let s = with_memory b s;
            Some (if can_create env file_path then s\<lparr>files := (files s)(file_path \<mapsto> old @ bytes)\<rparr> else s) })"

definition option_poke :: "string \<Rightarrow> session \<Rightarrow> session option" where
  "option_poke optarg s =
    (case parse_fill_spec optarg of
       None \<Rightarrow> Some s
     | Some (fill_value, fill_size, addr_start, addr_end, _) \<Rightarrow> do {
         let r = memory_addr_range_with_lo_and_hi addr_start addr_end;
         b \<leftarrow> (if fill_size = 1 then membus_write_byte_to_range (ex_memory (the_vm s)) r (ucast fill_value)
                else if fill_size = 2 then membus_write_word_to_range (ex_memory (the_vm s)) r fill_value
                else Some (ex_memory (the_vm s)));
         Some (with_memory b s) })"

definition option_dump :: "string \<Rightarrow> session \<Rightarrow> session option" where
  "option_dump optarg s =
    (case parse_mem_spec optarg of
       None \<Rightarrow> Some s
     | Some (addr_start, addr_end, _) \<Rightarrow> do {
         (t, b) \<leftarrow> membus_fprintf (ex_memory (the_vm s)) 0 (memory_addr_range_with_lo_and_hi addr_start addr_end);
         Some (print_text t (with_memory b s)) })"

definition option_disasm :: "string \<Rightarrow> session \<Rightarrow> session option" where
  "option_disasm optarg s =
    (case parse_mem_spec optarg of
       None \<Rightarrow> Some s
     | Some (addr_start, addr_end, _) \<Rightarrow> do {
         (ls, b) \<leftarrow> isa_6502_static_disassembly (ex_isa (the_vm s)) (ex_memory (the_vm s))
           (memory_addr_range_with_lo_and_hi addr_start addr_end);
         Some (print_text (concat ls) (with_memory b s)) })"

definition option_isa :: "string \<Rightarrow> session \<Rightarrow> session option" where
  "option_isa optarg s =
    (case parse_isa_dialect optarg of
       None \<Rightarrow> Some s
     | Some (d, _) \<Rightarrow> do {
         tb \<leftarrow> isa_6502_table_init (Some (ex_isa (the_vm s))) d;
         Some (s\<lparr>the_dialect := d, the_vm := (the_vm s)\<lparr>ex_isa := tb\<rparr>\<rparr>) })"

definition handle_option :: "environment \<Rightarrow> char \<Rightarrow> string \<Rightarrow> session \<Rightarrow> progress option" where
  "handle_option env optch optarg s =
    (if optch = CHR ''h'' then Some (exited 0 s)
     else if optch = CHR ''V'' then Some (exited 0 s)
     else if optch = CHR ''n'' then map_option going (option_new_vm env s)
     else if optch = CHR ''R'' then do {
       vm \<leftarrow> executor_hard_reset (the_vm s);
       Some (going (s\<lparr>the_vm := vm\<rparr>)) }
     else if optch = CHR ''b'' then do {
       (total_cycles, vm) \<leftarrow> executor_soft_reset (session_mode s) (exec_callback s) (the_vm s);
       Some (going (s\<lparr>the_vm := vm\<rparr>)) }
     else if optch = CHR ''x'' then map_option going (option_exec optarg s)
     else if optch = CHR ''v'' then Some (going (s\<lparr>exec_callback := all_stages\<rparr>))
     else if optch = CHR ''q'' then Some (going (s\<lparr>exec_callback := no_callback\<rparr>))
     else if optch = CHR ''1'' then Some (going (s\<lparr>exec_callback := interrupt_stages\<rparr>))
     else if optch = CHR ''l'' then map_option going (option_load optarg s)
     else if optch = CHR ''r'' then map_option going (option_brun optarg s)
     else if optch = CHR ''s'' then map_option going (option_save env optarg s)
     else if optch = CHR ''p'' then map_option going (option_poke optarg s)
     else if optch = CHR ''d'' then map_option going (option_dump optarg s)
     else if optch = CHR ''D'' then map_option going (option_disasm optarg s)
     else if optch = CHR ''i'' then map_option going (option_isa optarg s)
     else if optch = CHR ''m'' then
       (case parse_exec_mode optarg of
          None \<Rightarrow> Some (exited 22 s)
        | Some m \<Rightarrow> Some (going (s\<lparr>session_mode := m\<rparr>)))
     else Some (going s))"

fun handle_options :: "environment \<Rightarrow> (char \<times> string) list \<Rightarrow> session \<Rightarrow> progress option" where
  "handle_options env [] s = Some (going s)"
| "handle_options env ((optch, optarg) # rest) s = do {
     p \<leftarrow> handle_option env optch optarg s;
     case p of going s \<Rightarrow> handle_options env rest s | exited rc s \<Rightarrow> Some (exited rc s) }"

text \<open>The exit status and what the program leaves behind.\<close>

definition system_6502_main ::
    "environment \<Rightarrow> (string \<Rightarrow> u8 list option) \<Rightarrow> (char \<times> string) list \<Rightarrow> (int \<times> session) option" where
  "system_6502_main env fs opts = do {
     vm \<leftarrow> alloc_vm env (bus_heap (ex_memory (malloc_executor env))) isa_6502_dialect_base (process env);
     p \<leftarrow> handle_options env opts
       \<lparr>the_vm = vm, the_dialect = isa_6502_dialect_base, exec_callback = all_stages,
        session_mode = exec_mode_default, files = fs, printed = []\<rparr>;
     Some (case p of going s \<Rightarrow> (0, s) | exited rc s \<Rightarrow> (rc, s)) }"

end
