(* ===== verification/Cli_Props.thy ===== *)
theory Cli_Props
  imports Cli_Parse
begin

text \<open>
  Properties of the arguments of the command line: what they denote, and that a printed specification
  is read back.
\<close>

text \<open>Rules that evaluate the parsers on a given string.\<close>

lemmas parse_eval = parse_addr_def parse_len_def parse_number_def parse_addr_str_def c_strtoul_def c_strtol_def
  read_number_def read_base_def read_sign_def digit_value_def char_code_def c_isspace_def c_isdigit_def
  c_isxdigit_def c_tolower_def has_prefix_nocase_def Let_def MEMORY_ADDR_IRQ_VECTOR_def
  MEMORY_ADDR_NMI_VECTOR_def MEMORY_ADDR_RES_VECTOR_def

section \<open>Printed specifications are read back\<close>

lemma mask_16: "(0xFFFF :: u64) = mask 16"
  by (simp add: mask_eq_decr_exp)

lemma parse_hex4: "stops 16 rest \<Longrightarrow> parse_number 16 (hex4 a @ rest) = Some (a, rest)"
proof -
  assume "stops 16 rest"
  moreover have "unat a < 16 ^ 4" using unat_u16 [of a] by simp
  ultimately have "c_strtoul 16 (hex4 a @ rest) = (of_nat (unat a), rest)"
    unfolding hex4_def by (intro strtoul_hex_text) auto
  moreover have "(ucast (of_nat (unat a) AND 0xFFFF :: u64) :: u16) = a"
    unfolding mask_16 by (rule bit_word_eqI) (auto simp: bit_simps)
  ultimately show ?thesis by (simp add: parse_number_def hex4_def)
qed

lemma stops_simps [simp]:
  "stops 16 []" "stops 16 (CHR ''-'' # s)" "stops 16 (CHR '':'' # s)" "stops 16 (CHR ''@'' # s)"
  by (simp_all add: stops_def digit_value_def char_code_def)

lemma parse_dollar [simp]:
  "parse_addr (CHR ''$'' # s) = parse_number 16 s" "parse_len (CHR ''$'' # s) = parse_number 16 s"
  by (simp_all add: parse_addr_def parse_len_def)

lemma hex2_prefix:
  "takeWhile c_isxdigit (hex2 v @ CHR ''@'' # s) = hex2 v" "take (Suc 0) (hex2 v) \<noteq> ''x''"
proof -
  have d: "\<forall>c \<in> set (hex2 v). \<exists>d < 16. c = hex_digit d" by (auto simp: hex2_def dest: hex_text_digit)
  then have "\<forall>c \<in> set (hex2 v). c_isxdigit c" by (auto simp: c_isxdigit_def hex_digit_cases)
  moreover have "\<not> c_isxdigit (CHR ''@'')" by (simp add: c_isxdigit_def digit_value_def char_code_def)
  ultimately show "takeWhile c_isxdigit (hex2 v @ CHR ''@'' # s) = hex2 v" by simp
  obtain a b where h: "hex2 v = [a, b]"
    by (metis hex2_def length_0_conv length_Suc_conv length_hex_text numeral_2_eq_2)
  then have "a \<noteq> CHR ''x''" using d by (auto simp: hex_digit_cases)
  then show "take (Suc 0) (hex2 v) \<noteq> ''x''" using h by simp
qed

lemma parse_hex2:
  "parse_fill_spec (CHR ''$'' # hex2 v @ CHR ''@'' # s)
    = map_option (\<lambda>(a, b, rest). (widen v, 1, a, b, rest)) (parse_mem_spec s)"
proof -
  have "unat v < 16 ^ 2" using unat_u8 [of v] by simp
  then have u: "c_strtoul 16 (hex2 v @ CHR ''@'' # s) = (of_nat (unat v), CHR ''@'' # s)"
    unfolding hex2_def by (intro strtoul_hex_text) auto
  have "(ucast (of_nat (unat v) AND 0xFFFF :: u64) :: u16) = widen v"
    unfolding mask_16 by (rule bit_word_eqI) (auto simp: bit_simps dest: bit_imp_le_length)
  then have "parse_byte_word (CHR ''$'' # hex2 v @ CHR ''@'' # s) = Some (widen v, 1, CHR ''@'' # s)"
    using length_hex_text [of 2 "unat v"]
    by (simp add: parse_byte_word_def hex2_prefix u Let_def hex2_def [symmetric])
  then show ?thesis
    by (simp add: parse_fill_spec_def) (cases "parse_mem_spec s"; auto)
qed

lemma parse_specs:
  "parse_mem_spec (CHR ''$'' # hex4 a) = Some (a, a, [])"
  "parse_mem_spec (CHR ''$'' # hex4 a @ CHR ''-'' # CHR ''$'' # hex4 b) = Some (a, if b < a then 0xFFFF else b, [])"
  "parse_mem_spec (CHR ''$'' # hex4 a @ CHR '':'' # CHR ''$'' # hex4 n)
    = Some (a, if a + n - 1 < a then 0xFFFF else a + n - 1, [])"
  by (simp_all add: parse_mem_spec_def parse_hex4 parse_hex4 [of "[]", simplified] Let_def del: not_less)

text \<open>C38 (roundtrip).  A memory specification printed in hexadecimal, as one address, as two or as an address
  and a length, is read back as the addresses it was printed from.\<close>

theorem mem_spec_roundtrip:
  assumes "a \<le> b" "0 < n" "unat a + unat n \<le> 0x10000"
  shows "parse_mem_spec (''$'' @ hex4 a) = Some (a, a, [])
    \<and> parse_mem_spec (''$'' @ hex4 a @ ''-$'' @ hex4 b) = Some (a, b, [])
    \<and> parse_mem_spec (''$'' @ hex4 a @ '':$'' @ hex4 n) = Some (a, a + n - 1, [])"
proof -
  have "a + n - 1 = word_of_nat (unat a + (unat n - 1))"
    using assms(2) by (simp add: of_nat_diff word_less_nat_alt)
  moreover have "unat a + (unat n - 1) < 0x10000"
    using assms(2,3) by (auto simp: word_less_nat_alt)
  ultimately have "unat (a + n - 1) = unat a + (unat n - 1)"
    by (simp only: unat_of_nat) simp
  then have "\<not> a + n - 1 < a"
    by (simp add: word_less_nat_alt)
  moreover have "\<not> b < a" using assms(1) by simp
  ultimately show ?thesis
    by (simp add: parse_specs del: not_less)
qed

theorem mem_spec_roundtrip_witness:
  "parse_mem_spec ''$0200'' = Some (0x200, 0x200, [])
   \<and> parse_mem_spec ''$0200-$02FF'' = Some (0x200, 0x2FF, [])
   \<and> parse_mem_spec ''$0200:$0100'' = Some (0x200, 0x2FF, [])"
proof -
  have "hex4 0x200 = ''0200''" "hex4 0x2FF = ''02FF''" "hex4 0x100 = ''0100''"
    by (simp_all add: hex4_def hex_text_eval)
  then show ?thesis using mem_spec_roundtrip [of "0x200" "0x2FF" "0x100"] by simp
qed

lemma mem_spec_end:
  assumes "parse_mem_spec s = Some (a, b, rest)"
  shows "b = a \<or> (\<exists>e. b = (if e < a then 0xFFFF else e))"
proof -
  obtain s' where "parse_addr s = Some (a, s')"
    "(case s' of [] \<Rightarrow> b = a | c # cs \<Rightarrow> \<exists>e. b = (if e < a then 0xFFFF else e))"
    using assms unfolding parse_mem_spec_def Let_def
    by (cases "parse_addr s") (force split: list.splits if_splits bind_splits)+
  then show ?thesis by (cases s') auto
qed

lemma mem_spec_le: "parse_mem_spec s = Some (a, b, rest) \<Longrightarrow> a \<le> b"
proof -
  assume "parse_mem_spec s = Some (a, b, rest)"
  from mem_spec_end [OF this] show "a \<le> b"
    using unat_u16 [of a] by (auto simp: word_le_nat_alt [of a "0xFFFF"] split: if_splits)
qed

text \<open>C39 (bounds).  Whatever the specification, the addresses it denotes are in order, and the range made of them
  holds the addresses from the first to the last, except that the whole address space becomes the
  empty range.\<close>

theorem mem_spec_denotes:
  assumes "parse_mem_spec s = Some (a, b, rest)"
  shows "a \<le> b \<and> range_set (memory_addr_range_with_lo_and_hi a b)
    = (if a = 0 \<and> b = 0xFFFF then {} else {a .. b})"
proof -
  have "a \<le> b" by (rule mem_spec_le [OF assms])
  moreover have "range_set (memory_addr_range_with_lo_and_hi a b) = {a .. b}" if "\<not> (a = 0 \<and> b = 0xFFFF)"
    unfolding memory_addr_range_with_lo_and_hi_def by (rule interval_range_set [OF \<open>a \<le> b\<close> that])
  moreover have "range_set (memory_addr_range_with_lo_and_hi 0 0xFFFF) = {}"
    by (rule range_set_empty) (simp add: memory_addr_range_with_lo_and_hi_def)
  ultimately show ?thesis by metis
qed

theorem mem_spec_denotes_witness:
  "range_set (memory_addr_range_with_lo_and_hi 0 0xFFFF) = {}
   \<and> range_set (memory_addr_range_with_lo_and_hi 0xFFFA 0xFFFF) = {0xFFFA .. 0xFFFF}"
proof -
  have "parse_mem_spec ''0:*'' = Some (0, 0xFFFE, [])" "parse_mem_spec ''0-$ffff'' = Some (0, 0xFFFF, [])"
    "parse_mem_spec ''0xFFFA-0xFFFF'' = Some (0xFFFA, 0xFFFF, [])"
    by (simp_all add: parse_mem_spec_def parse_eval)
  from mem_spec_denotes [OF this(2)] mem_spec_denotes [OF this(3)] show ?thesis by simp
qed

end
