(* ===== verification/System_Props.thy ===== *)
theory System_Props
  imports System_6502 Cli_Props File_Props Programs
begin

text \<open>
  Properties of the program as a whole: a machine code program that the options poke into memory and
  execute is the program of the reference machine; memory that is saved is restored by loading; what
  happens to arguments that do not parse, to files that are missing and after the first execution.
\<close>

section \<open>Frames of the options\<close>

lemma with_memory_simps [simp]:
  "ex_memory (the_vm (with_memory b s)) = b" "with_memory b (with_memory b' s) = with_memory b s"
  "with_memory (ex_memory (the_vm s)) s = s"
  "files (with_memory b s) = files s" "exec_callback (with_memory b s) = exec_callback s"
  "session_mode (with_memory b s) = session_mode s" "printed (with_memory b s) = printed s"
  "the_vm (with_memory b s) = (the_vm s)\<lparr>ex_memory := b\<rparr>"
  by (simp_all add: with_memory_def)

lemma handle_options_append:
  "handle_options env (xs @ ys) s = do {
     p \<leftarrow> handle_options env xs s;
     case p of going t \<Rightarrow> handle_options env ys t | exited rc t \<Rightarrow> Some (exited rc t) }"
proof (induction xs arbitrary: s)
  case (Cons x xs)
  show ?case
    by (cases x, simp, rule bind_cong_fun) (simp add: Cons split: progress.split)
qed simp

section \<open>A program from the command line\<close>

text \<open>The bytes of a program, one option for each, and the option that executes them.\<close>

fun poke_options :: "nat \<Rightarrow> u8 list \<Rightarrow> (char \<times> string) list" where
  "poke_options a [] = []"
| "poke_options a (v # vs) = (CHR ''p'', ''$'' @ hex2 v @ ''@$'' @ hex4 (word_of_nat a)) # poke_options (Suc a) vs"

definition exec_option :: "u16 \<Rightarrow> u16 \<Rightarrow> char \<times> string" where
  "exec_option lo hi = (CHR ''x'', ''$'' @ hex4 lo @ ''-$'' @ hex4 hi)"

lemma poke_byte:
  assumes "ram_bus m (ex_memory (the_vm s))"
  shows "\<exists>b. handle_option env CHR ''p'' (''$'' @ hex2 v @ ''@$'' @ hex4 a) s = Some (going (with_memory b s))
    \<and> ram_bus m b \<and> bus_view m b = (bus_view m (ex_memory (the_vm s)))(a := v)"
proof -
  have "range_stop (memory_addr_range_with_lo_and_hi a a) - unat a = Suc 0"
    using unat_u16 [of a]
    by (simp add: range_stop_def memory_addr_range_with_lo_and_hi_def Let_def)
  moreover have "addr_lo (memory_addr_range_with_lo_and_hi a a) = a"
    by (simp add: memory_addr_range_with_lo_and_hi_def)
  ultimately show ?thesis
    using assms
    by (intro exI [of _ "bus_put m a v (ex_memory (the_vm s))"])
      (simp add: handle_option_def option_poke_def parse_hex2 parse_specs membus_write_byte_to_range_def
        Let_def ram_write [of m])
qed

lemma poke_all:
  assumes "ram_bus m (ex_memory (the_vm s))"
  shows "\<exists>b. handle_options env (poke_options a vs) s = Some (going (with_memory b s))
    \<and> ram_bus m b \<and> bus_view m b = overlay (bus_view m (ex_memory (the_vm s))) a vs"
  using assms
proof (induction vs arbitrary: a s)
  case Nil
  then show ?case by (intro exI [of _ "ex_memory (the_vm s)"]) simp
next
  case (Cons v vs)
  obtain b where b: "handle_option env CHR ''p'' (''$'' @ hex2 v @ ''@$'' @ hex4 (word_of_nat a)) s
      = Some (going (with_memory b s))"
    "ram_bus m b" "bus_view m b = (bus_view m (ex_memory (the_vm s)))(word_of_nat a := v)"
    using poke_byte [OF Cons.prems] by blast
  obtain c where "handle_options env (poke_options (Suc a) vs) (with_memory b s) = Some (going (with_memory c s))"
    "ram_bus m c" "bus_view m c = overlay (bus_view m b) (Suc a) vs"
    using Cons.IH [of "with_memory b s" "Suc a"] b(2) by auto
  then show ?case using b(1,3) by (intro exI [of _ c]) simp
qed

text \<open>The machine a new session starts with.\<close>

definition first_registers :: "u16 \<Rightarrow> registers" where
  "first_registers PC = \<lparr>reg_A = 0, reg_X = 0, reg_Y = 0, reg_SP = 0, reg_PC = PC, reg_SR = 0\<rparr>"

lemma alloc_vm_machine:
  assumes "bus_heap (ex_memory (malloc_executor env)) = h"
  shows "\<exists>vm. alloc_vm env h isa_6502_dialect_base rest = Some vm \<and> ram_bus (length h) (ex_memory vm)
    \<and> bus_view (length h) (ex_memory vm) = (malloc_ram env)(0xFFFF := 0xCA)
    \<and> ex_isa vm = isa_6502_base_table \<and> windows vm = windows rest \<and> \<not> state_locked vm
    \<and> ex_registers vm = first_registers 0xFFFC"
proof -
  let ?junk = "ex_memory (malloc_executor env)"
  obtain b where b: "default_bus ?junk (malloc_ram env) 0 = Some b" "ram_bus (length h) b"
    "\<forall>a. a \<noteq> 0xFFFF \<longrightarrow> bus_view (length h) b a = malloc_ram env a" "bus_view (length h) b 0xFFFF = 0xCA"
    using default_bus_ram [of 0 ?junk "malloc_ram env"] assms
    by (auto simp: MEMBUS_TIER_PRE_OP_def MEMBUS_TIER_POST_OP_def)
  have "bus_view (length h) b = (malloc_ram env)(0xFFFF := 0xCA)" using b(3,4) by auto
  moreover have "?junk\<lparr>bus_heap := h\<rparr> = ?junk" using assms by simp
  moreover have "registers_reset r = first_registers 0xFFFC" for r
    by (simp add: registers_reset_def first_registers_def)
  ultimately show ?thesis
    using b(1,2)
    by (cases rest) (simp add: alloc_vm_def executor_alloc_with_default_components_def isa_6502_table_init_def
        registers_init_def executor.defs Let_def)
qed

lemma default_mode:
  "mode_locking exec_mode_default" "exec_mode_default AND exec_mode_mask = exec_mode_staged"
  "mode_callback exec_mode_default cb = cb"
  by (simp_all add: mode_locking_def mode_callback_def exec_mode_default_def exec_mode_defs)

lemma range_lo_included:
  assumes "lo \<le> hi" "\<not> (lo = 0 \<and> hi = 0xFFFF)"
  shows "memory_addr_range_does_include (memory_addr_range_with_lo_and_hi lo hi) lo"
  using interval_range_set [OF assms] assms(1)
  unfolding range_set_def memory_addr_range_with_lo_and_hi_def by auto

lemma exec_follows:
  assumes "ram_bus m (ex_memory (the_vm s))" "windows (the_vm s) = []" "\<not> state_locked (the_vm s)"
    "exec_callback s = no_callback" "session_mode s = exec_mode_default" "lo \<le> hi" "\<not> (lo = 0 \<and> hi = 0xFFFF)"
    "ref_program (ex_isa (the_vm s)) conforms (PC_end_of (memory_addr_range_with_lo_and_hi lo hi)) n
      ((ex_registers (the_vm s))\<lparr>reg_PC := lo\<rparr>, bus_view m (ex_memory (the_vm s))) = Some (q, k)"
  shows "\<exists>t. handle_option env CHR ''x'' (snd (exec_option lo hi)) s = Some (going (s\<lparr>the_vm := t\<rparr>))
    \<and> machine_cpu m t = q"
proof -
  let ?r = "memory_addr_range_with_lo_and_hi lo hi"
  obtain t where "launch no_callback True (staged_turns no_callback True) ?r lo (the_vm s) = Some (k, t)"
    "machine_cpu m t = q"
    using staged_machine.launch_follows [of m "the_vm s" _ True ?r n lo q k] assms by auto
  then show ?thesis
    using assms(4,5) leD [OF assms(6)] range_lo_included [OF assms(6,7)]
    by (intro exI [of _ t]) (simp add: handle_option_def option_exec_def exec_option_def parse_specs executor_launch_in_address_range_def
        launch_in_mode_eq default_mode Let_def del: not_less)
qed

text \<open>C1 (refinement).  The whole program is the reference machine: the command line that silences the
  callback, chooses a dialect, pokes a program byte by byte and executes it ends with exit status 0 and
  with the registers and memory that the reference processor has at the end of the program, for every
  program that conforms and stops, whatever memory held before.\<close>

theorem poke_and_run:
  assumes "windows (process env) = []" "lo \<le> hi" "\<not> (lo = 0 \<and> hi = 0xFFFF)"
    and "(dialect, tb) \<in> {(''6502'', isa_6502_base_table), (''65C02'', isa_65C02_table)}"
    and "ref_program tb conforms (PC_end_of (memory_addr_range_with_lo_and_hi lo hi)) n
      (first_registers lo, overlay ((malloc_ram env)(0xFFFF := 0xCA)) a program_bytes) = Some (q, k)"
  shows "\<exists>t. system_6502_main env fs
        ((CHR ''q'', []) # (CHR ''i'', dialect) # poke_options a program_bytes @ [exec_option lo hi]) = Some (0, t)
    \<and> machine_cpu (length (bus_heap (ex_memory (malloc_executor env)))) (the_vm t) = q"
proof -
  let ?m = "length (bus_heap (ex_memory (malloc_executor env)))"
  obtain vm where vm: "alloc_vm env (bus_heap (ex_memory (malloc_executor env))) isa_6502_dialect_base (process env) = Some vm"
    "ram_bus ?m (ex_memory vm)" "bus_view ?m (ex_memory vm) = (malloc_ram env)(0xFFFF := 0xCA)"
    "windows vm = []" "\<not> state_locked vm" "ex_registers vm = first_registers 0xFFFC"
    using alloc_vm_machine [OF refl, of env "process env"] assms(1) by auto
  define s0 where "s0 = \<lparr>the_vm = vm, the_dialect = isa_6502_dialect_base, exec_callback = no_callback,
    session_mode = exec_mode_default, files = fs, printed = []\<rparr>"
  obtain d where d: "handle_option env CHR ''i'' dialect s0 = Some (going (s0\<lparr>the_dialect := d, the_vm := vm\<lparr>ex_isa := tb\<rparr>\<rparr>))"
    using assms(4) by (auto simp: handle_option_def option_isa_def isa_6502_table_init_def parse_isa_dialect_def
        equal_nocase_def s0_def)
  define s where "s = s0\<lparr>the_dialect := d, the_vm := vm\<lparr>ex_isa := tb\<rparr>\<rparr>"
  obtain b where b: "handle_options env (poke_options a program_bytes) s = Some (going (with_memory b s))" "ram_bus ?m b"
    "bus_view ?m b = overlay ((malloc_ram env)(0xFFFF := 0xCA)) a program_bytes"
    using poke_all [of ?m s env a program_bytes] vm(2,3) by (auto simp: s_def)
  have "(ex_registers (the_vm (with_memory b s)))\<lparr>reg_PC := lo\<rparr> = first_registers lo"
    using vm(6) by (simp add: first_registers_def s_def)
  then obtain t where t: "handle_option env CHR ''x'' (snd (exec_option lo hi)) (with_memory b s)
      = Some (going ((with_memory b s)\<lparr>the_vm := t\<rparr>))" "machine_cpu ?m t = q"
    using exec_follows [of ?m "with_memory b s" lo hi n q k env] assms(2,3,5) b vm(4,5) by (auto simp: s_def s0_def)
  have "handle_option env CHR ''q'' [] (s0\<lparr>exec_callback := all_stages\<rparr>) = Some (going s0)"
    by (simp add: handle_option_def s0_def)
  then show ?thesis
    using vm(1) b(1) t d by (simp add: system_6502_main_def handle_options_append exec_option_def s_def s0_def)
qed

text \<open>\<^verbatim>\<open>LDA #5; ADC #3; STA $10\<close> and an illegal opcode, poked to $0200.\<close>

definition sample_environment :: environment where
  "sample_environment = \<lparr>malloc_executor = executor.truncate (sample_machine (\<lambda>a. 0) []), malloc_ram = (\<lambda>a. 0xFF),
     can_create = (\<lambda>path. True), process = sample_machine (\<lambda>a. 0) []\<rparr>"

lemma sample_environment_fields [simp]:
  "process sample_environment = sample_machine (\<lambda>a. 0) []" "malloc_ram sample_environment a = 0xFF"
  "length (bus_heap (ex_memory (malloc_executor sample_environment))) = 1" "can_create sample_environment path"
  by (simp_all add: sample_environment_def executor.defs sample_machine_def sample_bus_def)

theorem poke_and_run_witness:
  "\<exists>t. system_6502_main sample_environment Map.empty
      [(CHR ''q'', []), (CHR ''i'', ''6502''), (CHR ''p'', ''$A9@$0200''), (CHR ''p'', ''$05@$0201''),
       (CHR ''p'', ''$69@$0202''), (CHR ''p'', ''$03@$0203''), (CHR ''p'', ''$85@$0204''), (CHR ''p'', ''$10@$0205''), (CHR ''p'', ''$02@$0206''),
       (CHR ''x'', ''$0200-$02FF'')] = Some (0, t)
    \<and> reg_A (ex_registers (the_vm t)) = 8 \<and> bus_view 1 (ex_memory (the_vm t)) 0x10 = 8"
proof -
  let ?bytes = "[0xA9, 0x05, 0x69, 0x03, 0x85, 0x10, 0x02]"
  let ?mem = "overlay ((\<lambda>a. 0xFF)(0xFFFF := 0xCA)) 0x200 ?bytes"
  have run: "ref_program isa_6502_base_table conforms (PC_end_of (memory_addr_range_with_lo_and_hi 0x200 0x2FF)) 3
      (first_registers 0x200, ?mem)
    = Some (((first_registers 0x207)\<lparr>reg_A := 8\<rparr>, ?mem(0x10 := 8)), 8)"
    by (simp add: program_eval first_registers_def PC_end_of_def memory_addr_range_with_lo_and_hi_def)
  have "malloc_ram sample_environment = (\<lambda>a. 0xFF)" by (simp add: fun_eq_iff)
  moreover have "poke_options 0x200 ?bytes @ [exec_option 0x200 0x2FF] =
      [(CHR ''p'', ''$A9@$0200''), (CHR ''p'', ''$05@$0201''), (CHR ''p'', ''$69@$0202''),
       (CHR ''p'', ''$03@$0203''), (CHR ''p'', ''$85@$0204''), (CHR ''p'', ''$10@$0205''), (CHR ''p'', ''$02@$0206''),
       (CHR ''x'', ''$0200-$02FF'')]"
    by (simp add: exec_option_def hex2_def hex4_def hex_text_eval hex_text.simps)
  ultimately show ?thesis
    using poke_and_run [of sample_environment "0x200" "0x2FF" "''6502''" isa_6502_base_table 3 "0x200" ?bytes _ 8 Map.empty] run
    by (auto simp: machine_cpu_def first_registers_def)
qed

section \<open>Files\<close>

text \<open>The argument that names a file and a range.\<close>

definition file_spec :: "string \<Rightarrow> u16 \<Rightarrow> u16 \<Rightarrow> string" where
  "file_spec path lo hi = path @ ''@$'' @ hex4 lo @ ''-$'' @ hex4 hi"

lemma last_at_append: "CHR ''@'' \<notin> set rest \<Longrightarrow> last_at (path @ CHR ''@'' # rest) = Some (length path)"
proof -
  assume rest: "CHR ''@'' \<notin> set rest"
  let ?s = "path @ CHR ''@'' # rest"
  have "[0..<length ?s] = [0..<Suc (length path)] @ [Suc (length path)..<length ?s]"
    using upt_add_eq_append [of 0 "Suc (length path)" "length rest"] by simp
  moreover have "?s ! i \<noteq> CHR ''@''" if "Suc (length path) \<le> i" "i < length ?s" for i
  proof -
    have "?s ! i = rest ! (i - Suc (length path))" using that by (simp add: nth_append)
    moreover have "rest ! (i - Suc (length path)) \<in> set rest" using that by (intro nth_mem) auto
    ultimately show ?thesis using rest by metis
  qed
  then have "filter (\<lambda>i. ?s ! i = CHR ''@'') [Suc (length path)..<length ?s] = []"
    by (simp only: filter_empty_conv set_upt) auto
  ultimately show ?thesis by (simp add: last_at_def Let_def)
qed

lemma parse_file_hex:
  assumes "path \<noteq> []" "lo \<le> hi"
  shows "parse_file_spec (file_spec path lo hi) = Some (path, lo, hi, [])"
proof -
  have "CHR ''@'' \<notin> set (hex4 v)" for v
    by (metis hex_digit_cases(6) hex4_def hex_text_digit)
  then have "last_at (file_spec path lo hi) = Some (length path)"
    using last_at_append [of "''$'' @ hex4 lo @ ''-$'' @ hex4 hi" path] by (simp add: file_spec_def)
  then show ?thesis
    using assms leD [OF assms(2)] by (simp add: parse_file_spec_def file_spec_def parse_specs del: not_less)
qed

lemma save_option:
  assumes "ram_bus m (ex_memory (the_vm s))" "path \<noteq> []" "hd path \<noteq> CHR ''+''" "can_create env path"
    "lo \<le> hi" "\<not> (lo = 0 \<and> hi = 0xFFFF)"
  shows "\<exists>b. option_save env (file_spec path lo hi) s = Some ((with_memory b s)
      \<lparr>files := (files s)(path \<mapsto> region (bus_view m (ex_memory (the_vm s))) (unat lo) (unat hi + 1))\<rparr>)
    \<and> ram_bus m b \<and> bus_view m b = bus_view m (ex_memory (the_vm s))"
proof -
  have le: "unat lo \<le> unat hi + 1" using assms(5) by (simp add: word_le_nat_alt)
  obtain b where b: "membus_save_to_fd (ex_memory (the_vm s)) (memory_addr_range_with_lo_and_hi lo hi) True
      = Some (int (unat hi + 1 - unat lo), region (bus_view m (ex_memory (the_vm s))) (unat lo) (unat hi + 1), b)"
    "ram_bus m b" "bus_view m b = bus_view m (ex_memory (the_vm s))"
    using save_region [OF assms(1) le, of 0 "[]"] stream_stop_hi(1) [OF assms(5,6)]
    by (auto simp: membus_save_to_fd_def memory_addr_range_with_lo_and_hi_def)
  have plus: "take 1 (file_spec path lo hi) \<noteq> ''+''"
    using assms(2,3) by (cases path) (simp_all add: file_spec_def)
  show ?thesis
    using b assms(4) plus by (intro exI [of _ b])
      (simp add: option_save_def parse_file_hex [OF assms(2,5)] Let_def with_memory_def)
qed

lemma load_option:
  assumes "ram_bus m (ex_memory (the_vm s))" "path \<noteq> []" "lo \<le> hi" "\<not> (lo = 0 \<and> hi = 0xFFFF)"
    "files s path = Some bytes" "length bytes \<le> unat hi + 1 - unat lo"
  shows "\<exists>b. option_load (file_spec path lo hi) s = Some (with_memory b s)
    \<and> ram_bus m b \<and> bus_view m b = overlay (bus_view m (ex_memory (the_vm s))) (unat lo) bytes"
  using load_file [OF assms(1,6), of 0] assms(5) stream_stop_hi(1) [OF assms(3,4)]
  by (auto simp: option_load_def parse_file_hex [OF assms(2,3)] membus_load_from_fd_def)
    (auto simp: memory_addr_range_with_lo_and_hi_def)

text \<open>C33 (roundtrip).  Memory that is saved is what loading the file restores: in any later session that finds
  the file, at any content of its memory, the region gets the saved bytes back and no other address
  changes.\<close>

theorem save_then_load:
  assumes "ram_bus m (ex_memory (the_vm s))" "path \<noteq> []" "hd path \<noteq> CHR ''+''" "can_create env path"
    "lo \<le> hi" "\<not> (lo = 0 \<and> hi = 0xFFFF)"
    and "ram_bus k (ex_memory (the_vm u))"
  shows "\<exists>t. handle_option env CHR ''s'' (file_spec path lo hi) s = Some (going t)
    \<and> (files u path = files t path \<longrightarrow>
        (\<exists>v. handle_option env CHR ''l'' (file_spec path lo hi) u = Some (going v)
          \<and> bus_view k (ex_memory (the_vm v)) = (\<lambda>a. if a \<in> {lo .. hi}
              then bus_view m (ex_memory (the_vm s)) a else bus_view k (ex_memory (the_vm u)) a)))"
proof -
  let ?f = "bus_view m (ex_memory (the_vm s))" and ?g = "bus_view k (ex_memory (the_vm u))"
  obtain b where b: "option_save env (file_spec path lo hi) s = Some ((with_memory b s)
      \<lparr>files := (files s)(path \<mapsto> region ?f (unat lo) (unat hi + 1))\<rparr>)"
    using save_option [OF assms(1-6)] by blast
  have "unat lo \<le> unat hi + 1" "unat hi + 1 \<le> 0x10000"
    using assms(5) unat_u16 [of hi] by (simp_all add: word_le_nat_alt)
  from overlay_region [OF this, of ?g ?f]
  have view: "overlay ?g (unat lo) (region ?f (unat lo) (unat hi + 1)) = (\<lambda>a. if a \<in> {lo .. hi} then ?f a else ?g a)"
    by (auto simp: fun_eq_iff word_le_nat_alt)
  show ?thesis
  proof (rule exI, intro conjI impI)
    show "handle_option env CHR ''s'' (file_spec path lo hi) s = Some (going ((with_memory b s)
        \<lparr>files := (files s)(path \<mapsto> region ?f (unat lo) (unat hi + 1))\<rparr>))"
      using b by (simp add: handle_option_def)
    assume "files u path = files ((with_memory b s)
        \<lparr>files := (files s)(path \<mapsto> region ?f (unat lo) (unat hi + 1))\<rparr>) path"
    then obtain c where c: "option_load (file_spec path lo hi) u = Some (with_memory c u)"
      "bus_view k c = overlay ?g (unat lo) (region ?f (unat lo) (unat hi + 1))"
      using load_option [OF assms(7,2,5,6), of "region ?f (unat lo) (unat hi + 1)"] by auto
    from c(1) c(2) [unfolded view] show "\<exists>v. handle_option env CHR ''l'' (file_spec path lo hi) u = Some (going v)
        \<and> bus_view k (ex_memory (the_vm v)) = (\<lambda>a. if a \<in> {lo .. hi} then ?f a else ?g a)"
      by (auto simp: handle_option_def)
  qed
qed

definition sample_session :: "(u16 \<Rightarrow> u8) \<Rightarrow> (string \<Rightarrow> u8 list option) \<Rightarrow> session" where
  "sample_session ram fs = \<lparr>the_vm = sample_machine ram [], the_dialect = isa_6502_dialect_base,
     exec_callback = no_callback, session_mode = exec_mode_default, files = fs, printed = []\<rparr>"

lemma sample_session_fields [simp]:
  "the_vm (sample_session ram fs) = sample_machine ram []" "files (sample_session ram fs) = fs"
  "session_mode (sample_session ram fs) = exec_mode_default"
  "exec_callback (sample_session ram fs) = no_callback"
  by (simp_all add: sample_session_def)

theorem save_then_load_witness:
  "\<exists>t v. handle_option sample_environment CHR ''s'' ''a@b@$0200-$02FF'' (sample_session (\<lambda>a. 7) Map.empty) = Some (going t)
    \<and> handle_option sample_environment CHR ''l'' ''a@b@$0200-$02FF'' (sample_session (\<lambda>a. 9) (files t)) = Some (going v)
    \<and> bus_view 0 (ex_memory (the_vm v)) 0x2FF = 7 \<and> bus_view 0 (ex_memory (the_vm v)) 0x300 = 9"
proof -
  have spec: "file_spec ''a@b'' 0x200 0x2FF = ''a@b@$0200-$02FF''"
    by (simp add: file_spec_def hex4_def hex_text_eval)
  have ok: "ram_bus 0 (ex_memory (the_vm (sample_session ram fs)))" for ram fs
    by (simp add: sample_bus_ram)
  obtain t where t: "handle_option sample_environment CHR ''s'' ''a@b@$0200-$02FF'' (sample_session (\<lambda>a. 7) Map.empty) = Some (going t)"
    using save_then_load [OF ok _ _ _ _ _ ok, of "''a@b''" sample_environment "0x200" "0x2FF" "\<lambda>a. 7" Map.empty
      "\<lambda>a. 9" Map.empty, unfolded spec] by auto
  show ?thesis
    using save_then_load [OF ok _ _ _ _ _ ok, of "''a@b''" sample_environment "0x200" "0x2FF" "\<lambda>a. 7" Map.empty
        "\<lambda>a. 9" "files t", unfolded spec] t
    by (auto simp: sample_view)
qed

text \<open>What the code asks of the argument of an option before it acts.\<close>

definition argument_parses :: "char \<Rightarrow> string \<Rightarrow> bool" where
  "argument_parses optch optarg \<longleftrightarrow>
     (if optch \<in> {CHR ''x'', CHR ''d'', CHR ''D''} then parse_mem_spec optarg \<noteq> None
      else if optch = CHR ''l'' then parse_file_spec optarg \<noteq> None
      else if optch = CHR ''s'' then
        parse_file_spec (if take 1 optarg = ''+'' then drop 1 optarg else optarg) \<noteq> None
      else if optch = CHR ''r'' then
        (let path = takeWhile (\<lambda>c. c \<noteq> CHR ''@'') optarg
         in path \<noteq> [] \<and> (path = optarg \<or> parse_addr (drop (length path + 1) optarg) \<noteq> None))
      else if optch = CHR ''p'' then parse_fill_spec optarg \<noteq> None
      else if optch = CHR ''i'' then parse_isa_dialect optarg \<noteq> None
      else if optch = CHR ''m'' then parse_exec_mode optarg \<noteq> None
      else True)"

text \<open>The file that \<^verbatim>\<open>-l\<close> or \<^verbatim>\<open>-r\<close> is to read; \<^verbatim>\<open>-s\<close> creates a file that is missing.\<close>

definition file_to_read :: "char \<Rightarrow> string \<Rightarrow> string option" where
  "file_to_read optch optarg =
     (if optch = CHR ''l'' then map_option fst (parse_file_spec optarg)
      else if optch = CHR ''r'' then Some (takeWhile (\<lambda>c. c \<noteq> CHR ''@'') optarg)
      else None)"

lemma load_nothing: "membus_load_from_fd b r None = Some (0, [], b)"
  by (subst membus_load_from_fd_def, subst load_chunks.simps) (simp add: Let_def)

lemma bad_argument:
  assumes "\<not> argument_parses optch optarg"
  shows "handle_option env optch optarg s = Some (if optch = CHR ''m'' then exited 22 s else going s)"
proof -
  consider "optch \<in> {CHR ''x'', CHR ''d'', CHR ''D''}" "parse_mem_spec optarg = None"
    | "optch = CHR ''l''" "parse_file_spec optarg = None"
    | "optch = CHR ''s''" "parse_file_spec (if take 1 optarg = ''+'' then drop 1 optarg else optarg) = None"
    | "optch = CHR ''r''" | "optch = CHR ''p''" "parse_fill_spec optarg = None"
    | "optch = CHR ''i''" "parse_isa_dialect optarg = None" | "optch = CHR ''m''" "parse_exec_mode optarg = None"
    using assms by (simp only: argument_parses_def split: if_split_asm) simp_all
  then show ?thesis
  proof cases
    case 1
    then show ?thesis
      by (elim insertE emptyE) (simp_all add: handle_option_def option_exec_def option_dump_def option_disasm_def)
  next
    case 4
    let ?path = "takeWhile (\<lambda>c. c \<noteq> CHR ''@'') optarg"
    have "?path = [] \<or> ?path \<noteq> optarg \<and> parse_addr (drop (length ?path + 1) optarg) = None"
      using assms 4 by (simp only: argument_parses_def Let_def) (simp del: not_None_eq)
    then have "option_brun optarg s = Some s"
      unfolding option_brun_def Let_def
      by (elim disjE conjE)
        (simp_all only: if_True if_False option.case option.map simp_thms split: option.split)
    with 4 show ?thesis by (simp add: handle_option_def)
  qed (simp_all only: handle_option_def option_load_def option_save_def option_poke_def option_isa_def Let_def,
    simp_all)
qed

lemma missing_file:
  assumes "file_to_read optch optarg = Some path" "files s path = None"
  shows "optch \<noteq> CHR ''m'' \<and> handle_option env optch optarg s = Some (going s)"
proof -
  consider "optch = CHR ''l''" | "optch = CHR ''r''"
    using assms(1) by (simp only: file_to_read_def split: if_split_asm) simp_all
  then show ?thesis
  proof cases
    case 1
    then show ?thesis
      using assms by (cases "parse_file_spec optarg")
        (auto simp: file_to_read_def handle_option_def option_load_def load_nothing)
  next
    case 2
    then have "files s (takeWhile (\<lambda>c. c \<noteq> CHR ''@'') optarg) = None" using assms by (simp add: file_to_read_def)
    with 2 show ?thesis
      by (simp add: handle_option_def option_brun_def load_nothing Let_def split: option.split)
  qed
qed

text \<open>C34 (error).  An option whose argument does not parse, and a load or a run of a file that does not exist,
  leave the session as it is.  The program goes on with the next option, except that it exits with
  the status \<^verbatim>\<open>EINVAL\<close>, which is 22, when it does not know the execution mode of \<^verbatim>\<open>-m\<close>.\<close>

theorem bad_argument_changes_nothing:
  assumes "\<not> argument_parses optch optarg
    \<or> (\<exists>path. file_to_read optch optarg = Some path \<and> files s path = None)"
  shows "handle_options env ((optch, optarg) # opts) s
    = (if optch = CHR ''m'' then Some (exited 22 s) else handle_options env opts s)"
  using assms bad_argument [of optch optarg env s] missing_file [of optch optarg _ s env]
  by (elim disjE exE conjE) simp_all

theorem bad_argument_changes_nothing_witness:
  "handle_options sample_environment
      [(CHR ''l'', ''none@$0200-$02FF''), (CHR ''s'', ''+none''), (CHR ''r'', ''none@''), (CHR ''m'', ''bogus''),
       (CHR ''R'', [])] (sample_session (\<lambda>a. 0) Map.empty)
    = Some (exited 22 (sample_session (\<lambda>a. 0) Map.empty))"
proof -
  let ?s = "sample_session (\<lambda>a. 0) Map.empty"
  have bad: "\<not> argument_parses CHR ''s'' ''+none''" "\<not> argument_parses CHR ''m'' ''bogus''"
    by code_simp+
  have run: "\<not> argument_parses CHR ''r'' ''none@''"
    by (simp add: argument_parses_def parse_addr_def)
  have load: "\<not> argument_parses CHR ''l'' spec
      \<or> (\<exists>path. file_to_read CHR ''l'' spec = Some path \<and> files ?s path = None)" for spec
    by (cases "parse_file_spec spec") (auto simp: argument_parses_def file_to_read_def)
  show ?thesis
    by (simp only: bad_argument_changes_nothing [OF load] bad_argument_changes_nothing [OF disjI1, OF bad(1)]
        bad_argument_changes_nothing [OF disjI1, OF run] bad_argument_changes_nothing [OF disjI1, OF bad(2)])
      simp
qed

section \<open>After the first execution\<close>

lemma exec_locks:
  assumes "option_exec spec s = Some t" "parse_mem_spec spec = Some (a, b, rest)" "\<not> (a = 0 \<and> b = 0xFFFF)"
    "mode_locking (session_mode s)" "session_mode s AND exec_mode_mask \<in> {exec_mode_staged, exec_mode_static}"
  shows "state_locked (the_vm t) \<and> session_mode t = session_mode s"
proof -
  have "memory_addr_range_does_include (memory_addr_range_with_lo_and_hi a b) a"
    by (rule range_lo_included [OF mem_spec_le [OF assms(2)] assms(3)])
  then obtain n where t: "launch_in_mode (session_mode s) (exec_callback s) (memory_addr_range_with_lo_and_hi a b) a (the_vm s)
      = Some (n, the_vm t)" "session_mode t = session_mode s"
    using assms(1,2) by (auto simp: option_exec_def executor_launch_in_address_range_def bind_eq_Some_conv)
  have "state_locked (the_vm t)"
    by (rule lock_held.keeps_launch_in_mode [OF t(1) assms(5)])
      (use assms(4) in \<open>auto simp: mode_locking_def dest: launch_begin_frame(3)\<close>)
  then show ?thesis using t(2) by simp
qed

text \<open>C35 (liveness).  One execution with locks is the last thing the program does with its machine: a second
  one, a hardware reset and a new machine wait for ever for the lock that the first has kept.\<close>

theorem second_execution_hangs:
  assumes "handle_option env CHR ''x'' spec s = Some (going t)" "parse_mem_spec spec = Some (a, b, rest)"
    "\<not> (a = 0 \<and> b = 0xFFFF)" "mode_locking (session_mode s)"
    "session_mode s AND exec_mode_mask \<in> {exec_mode_staged, exec_mode_static}"
  shows "handle_options env ((CHR ''x'', spec) # opts) t = None \<and> handle_options env ((CHR ''R'', arg) # opts) t = None
    \<and> handle_options env ((CHR ''n'', arg) # opts) t = None"
proof -
  have "option_exec spec s = Some t" using assms(1) by (auto simp: handle_option_def)
  from exec_locks [OF this assms(2-5)]
  have locked: "state_locked (the_vm t)" "session_mode t = session_mode s" by auto
  have "option_exec spec t = None"
  proof (rule ccontr)
    assume "option_exec spec t \<noteq> None"
    then obtain n vm where "launch_in_mode (session_mode t) (exec_callback t) (memory_addr_range_with_lo_and_hi a b) a (the_vm t)
        = Some (n, vm) \<or> \<not> memory_addr_range_does_include (memory_addr_range_with_lo_and_hi a b) a"
      using assms(2) by (auto simp: option_exec_def executor_launch_in_address_range_def bind_eq_Some_conv split: if_splits)
    then show False
      using range_lo_included [OF mem_spec_le [OF assms(2)] assms(3)] locked assms(4,5)
      by (auto simp: launch_in_mode_eq Let_def locked_out split: if_splits)
  qed
  moreover have "executor_hard_reset (the_vm t) = None" "executor_free (the_vm t) = None"
    using locked(1) locked_out(1) [of "the_vm t" request_hard_reset] by (simp_all add: locked_out)
  ultimately show ?thesis by (simp add: handle_option_def option_new_vm_def)
qed

theorem second_execution_hangs_witness:
  "\<exists>t. handle_option sample_environment CHR ''x'' ''$0000-$00FF'' (sample_session (program [0x02]) Map.empty) = Some (going t)
    \<and> handle_options sample_environment [(CHR ''x'', ''$0000-$00FF'')] t = None
    \<and> handle_options sample_environment [(CHR ''R'', [])] t = None"
proof -
  have spec: "parse_mem_spec ''$0000-$00FF'' = Some (0, 0xFF, [])"
    by (simp add: parse_mem_spec_def parse_eval)
  have "ref_program isa_6502_base_table conforms (PC_end_of (memory_addr_range_with_lo_and_hi 0 0xFF)) 0
      (sample_registers\<lparr>reg_PC := 0\<rparr>, bus_view 0 (sample_bus (program [0x02])))
    = Some ((sample_registers\<lparr>reg_PC := 1\<rparr>, bus_view 0 (sample_bus (program [0x02]))), 1)"
    by (simp add: program_eval sample_view program_def sample_registers_def PC_end_of_def memory_addr_range_with_lo_and_hi_def)
  then obtain vm where "handle_option sample_environment CHR ''x'' ''$0000-$00FF'' (sample_session (program [0x02]) Map.empty)
      = Some (going ((sample_session (program [0x02]) Map.empty)\<lparr>the_vm := vm\<rparr>))"
    using exec_follows [of 0 "sample_session (program [0x02]) Map.empty" 0 "0xFF" 0 _ _ sample_environment]
    by (auto simp: sample_bus_ram exec_option_def hex4_def hex_text_eval sample_machine_def)
  from this second_execution_hangs [OF this spec] show ?thesis by (auto simp: default_mode)
qed

end
