(* ===== verification/Spec2Isabelle.thy ===== *)
theory Spec2Isabelle
  imports Executor_Props Dma_Props Bus_Props Memory_Props Watch_Props Disasm_Props Inline_Props Stage_Output
  System_Props
begin

text \<open>
  A verification development for the \<^verbatim>\<open>system_6502\<close> emulator: an emulator of the 6502 and 65C02
  processors with a memory bus of pluggable modules, an executor that runs programs in two modes, and
  watchpoints, and the command line programs around them.  The theories are translations of the C files,
  function by function, with the properties of the parts and of their composition.

  \<^bold>\<open>The program.\<close>  A bus (\<^verbatim>\<open>src/libmembus\<close>) holds modules in tiers and answers reads and writes of
  16-bit addresses by asking the modules in order; watchpoints are one more kind of module, which calls
  back.  The instruction set (\<^verbatim>\<open>src/isa_6502.c\<close> with one file per instruction in \<^verbatim>\<open>src/isa_6502/\<close> and
  \<^verbatim>\<open>src/isa_65C02/\<close>) is a dispatch table from opcodes to functions on a context of registers and bus.
  Each function exists twice: a staged body that is called once per clock cycle and keeps its position
  in static variables, and a static body that does the whole instruction.  The executor
  (\<^verbatim>\<open>src/executor.c\<close>) fetches, decodes and runs instructions, stops for DMA, services interrupts, and takes
  requests of other threads whenever it drops its lock.  The program \<^verbatim>\<open>system_6502\<close> owns one executor and
  changes, saves, prints or runs its memory as the options of its command line say; \<^verbatim>\<open>disasm_6502\<close> lists
  files.

  \<^bold>\<open>Conventions.\<close>  A C integer is a word of its width (\<open>u8\<close>, \<open>u16\<close>, \<open>u32\<close>, \<open>u64\<close>).  A function that may not
  return (a null or dangling pointer is followed, a lock is taken twice, a loop does not end) has an
  \<open>option\<close> as its result, \<open>None\<close> for those; a loop that may run for ever is a \<open>partial_function\<close>, so that
  its divergence is \<open>None\<close> too.  Static and uninitialised variables are fields of \<open>isa_locals\<close>, which the
  theorems leave arbitrary unless they say otherwise.  Pointers are references into heaps carried by the
  state (\<open>module_heap\<close>, \<open>watch_store\<close>).  The build is the default one: locks, bus caches and the disassembly of
  executed instructions (\<^verbatim>\<open>ENABLE_DISASSEMBLY\<close>) on.

  \<^bold>\<open>The parts.\<close>
  \<^item> Registers (\<^verbatim>\<open>registers.h\<close>, \<^verbatim>\<open>registers.c\<close>): \<open>Registers\<close>.
  \<^item> Address ranges (\<^verbatim>\<open>memory_addr_range.h\<close>, \<^verbatim>\<open>.c\<close>): \<open>Addr_Range\<close>, with the set of addresses of a range.
  \<^item> Bus modules (\<^verbatim>\<open>membus_module_byte|word|std64k|paged|mirror.c\<close>): \<open>Bus_Modules\<close>.  The interface of a
    store of bytes is the locale \<open>byte_store\<close> of \<open>Byte_Store\<close>, interpreted on the modules.
  \<^item> The bus (\<^verbatim>\<open>membus.c\<close>): \<open>Membus\<close>; \<open>Bus_Laws\<close> has the routing and the totality on well-formed buses
    (\<open>bus_ok\<close>), \<open>Bus_Ram\<close> the bus of one 64k module (\<open>ram_bus\<close>) as a \<open>byte_store\<close>.
  \<^item> The base instructions (\<^verbatim>\<open>src/isa_6502/*.c\<close>): \<open>Isa_Base\<close> (context, stages, stack), \<open>Isa_Alu\<close>, \<open>Isa_Load\<close>,
    \<open>Isa_Test\<close>, \<open>Isa_Rmw\<close>, \<open>Isa_Flow\<close>, \<open>Isa_Implied\<close>; the table is \<open>Isa_Table\<close>.  A function \<open>isa_6502_X\<close> is
    \<^verbatim>\<open>ISA_6502_INSTR(X)\<close>, \<open>isa_6502_static_X\<close> is \<^verbatim>\<open>ISA_6502_STATIC_INSTR(X)\<close>.
  \<^item> The 65C02 (\<^verbatim>\<open>src/isa_65C02/*.c\<close>): \<open>Isa65_Alu\<close>, \<open>Isa65_Load\<close>, \<open>Isa65_Test\<close>, \<open>Isa65_Rmw\<close>, \<open>Isa65_Flow\<close>,
    \<open>Isa65_Ops\<close>; its table and the choice of a dialect are \<open>Isa65_Table\<close>.
  \<^item> The disassembly functions of the instructions (\<^verbatim>\<open>ISA_6502_DISASM\<close>, \<^verbatim>\<open>ISA_65C02_DISASM\<close>): \<open>Inline_Disasm\<close>
    (formats, arguments and what they pop from the rings of the bus), \<open>Isa_Disasm\<close>, \<open>Isa65_Disasm\<close>.  Such a
    function is data: for each addressing mode the variables it pops, its format string and its arguments.
  \<^item> The executor (\<^verbatim>\<open>executor.c\<close>): \<open>Executor\<close>.  The eight launch functions of the source are instances of one
    definition, as their text is: with or without locks, with or without calls of the stage callback,
    staged or static.  The steps of other threads are a script in the state (\<open>windows\<close>), of which one
    entry is played whenever the executor drops its lock.  What the stage callbacks print is \<open>Stage_Output\<close>.
  \<^item> Watchpoints (\<^verbatim>\<open>membus_module_watchpoints.c\<close>): \<open>Watchpoints\<close>.
  \<^item> Files and dumps (\<^verbatim>\<open>membus_load_from_fd\<close>, \<^verbatim>\<open>membus_save_to_fd\<close>, \<^verbatim>\<open>membus_fprintf\<close>): \<open>Membus_Files\<close>; the
    static disassembly (\<^verbatim>\<open>isa_6502_static_disassembly\<close>): \<open>Static_Disasm\<close>.
  \<^item> The programs (\<^verbatim>\<open>system_6502.c\<close>, \<^verbatim>\<open>disasm_6502.c\<close>): \<open>C_Strings\<close> (the functions of the C library they use),
    \<open>Cli_Parse\<close> (their parsers), \<open>System_6502\<close> and \<open>Disasm_6502\<close>.  The command line is a list of pairs of an
    option and its argument; the state of \<^verbatim>\<open>system_6502\<close> is the machine, the mode and callback of the next
    execution, the files and what was printed (\<open>session\<close>).

  \<^bold>\<open>The contracts.\<close>  \<open>Isa_Ref\<close> is a reference machine for both processors, written independently of the code:
  what each instruction does to registers and a memory of bytes, and its clock cycles.  \<open>Isa_Refine\<close> shows
  that the staged bodies implement it in the modes of \<open>conform_modes\<close>; \<open>Conformance\<close> and \<open>Conformance65\<close> show
  that this list is exact on the 151 and 178 entries of the two tables, by a state in which the body
  leaves the reference for each of the others (38 and 50).  Both are about the states of \<open>conform_state\<close>: no
  decimal \<open>ADC\<close>, no comparison whose sign is not the order of its operands.  \<open>Isa_Agree\<close> relates the two bodies of a
  function (locale \<open>agreeing_bodies\<close>), \<open>Isa_Frame\<close> says what no body does (locales \<open>context_contract\<close>,
  \<open>counted_contract\<close>), \<open>Isa_Arith\<close> reads the results as numbers, \<open>Isa_Ends\<close> bounds the cycles,
  \<open>Read_Ring\<close> says where the read ring holds the operand afterwards, and \<open>Inline_Props\<close> that the disassembly
  functions print it as the static disassembler does.
  \<open>Executor_Laws\<close> has the inductions over the three loops of the executor and its invariants (locale
  \<open>machine_invariant\<close>), \<open>Executor_Sim\<close> the simulation of the staged functions by the static ones,
  \<open>Executor_Ref\<close> and \<open>Programs\<close> the refinement of whole programs (locale \<open>reference_execution\<close>).
  \<open>Watch_Laws\<close> and \<open>Watch_Tree\<close> relate the linked objects of the watchpoint module to lists and a functional
  search tree.  The properties are in \<open>Programs\<close>, \<open>Conformance\<close>, \<open>Conformance65\<close>, \<open>Isa_Props\<close>, \<open>Isa_Ends\<close>,
  \<open>Executor_Props\<close>, \<open>Dma_Props\<close>, \<open>Bus_Props\<close>, \<open>Memory_Props\<close>, \<open>Watch_Props\<close>, \<open>Cli_Props\<close>, \<open>Disasm_Props\<close>,
  \<open>System_Props\<close> (with \<open>File_Props\<close>), and here those of the executor as a whole; \<open>Sample_Machine\<close> has the concrete states their witnesses use.

  \<^bold>\<open>Bounds.\<close>  \<open>run_cycles n\<close> calls a staged body at most \<open>n\<close> times.  Seven are enough for every body that ends
  (\<open>staged_bodies_end\<close>), the theorems on single instructions allow eight; the executor itself has no bound.

  \<^bold>\<open>Not modelled.\<close>  The help text (\<^verbatim>\<open>usage\<close>), a failing \<^verbatim>\<open>malloc\<close>, \<^verbatim>\<open>getopt_long\<close>, which splits the
  command line, and the remaining programs (\<^verbatim>\<open>nes_mockup.c\<close>, \<^verbatim>\<open>tui_window.c\<close>, \<^verbatim>\<open>membus_test.c\<close>), which call
  the modelled operations and print.  In a launch a stage callback is modelled by the stages it asks for and
  a trace of what it is told, and \<open>Stage_Output\<close> has the texts it makes of that; the DMA callbacks and
  the callbacks of watchpoints are parameters that do not change the machine.
\<close>

section \<open>The executor\<close>



text \<open>No launch function with locking gives \<open>state_lock\<close> back, on any way out of its
  loop: once one has returned, every operation that takes the lock (a request of any kind, another
  launch, \<^verbatim>\<open>executor_free\<close>) waits for ever.\<close>

theorem lock_is_never_released:
  assumes "launch_in_mode exec_mode cb r PC s = Some (n, t)"
    and "exec_mode AND exec_mode_no_locking = 0"
    and "exec_mode AND exec_mode_mask \<in> {exec_mode_staged, exec_mode_static}"
  shows "apply_request q t = None \<and> executor_free t = None \<and> launch_in_mode exec_mode cb r' PC' t = None"
proof -
  have "state_locked t"
    by (rule lock_held.keeps_launch_in_mode [OF assms(1,3)])
      (use assms(2) in \<open>auto simp: mode_locking_def dest: launch_begin_frame(3)\<close>)
  then show ?thesis
    using assms(2,3) by (auto simp: locked_out launch_in_mode_eq Let_def mode_locking_def)
qed

theorem lock_is_never_released_witness:
  "\<exists>t. launch_in_mode 0 no_callback whole_range 0 (sample_machine (program [0x02]) []) = Some (1, t)
     \<and> executor_set_irq t = None"
proof -
  obtain t where t: "launch_in_mode 0 no_callback whole_range 0 (sample_machine (program [0x02]) []) = Some (1, t)"
    using sample_halts [of True "staged_turns no_callback True" "[]"]
    by (auto simp: launch_in_mode_eq mode_locking_def mode_callback_def exec_mode_defs Let_def)
  from lock_is_never_released [OF this, of request_irq] show ?thesis
    using t by (auto simp: exec_mode_defs)
qed

text \<open>C7 (invariant).  Whatever the program, the other threads and the DMA callbacks do, a launch
  that returns leaves a well-formed bus well formed and the dispatch table alone.\<close>

theorem launch_keeps_bus:
  assumes "launch_in_mode exec_mode cb r PC s = Some (n, t)" "bus_ok (ex_memory s)"
  shows "bus_ok (ex_memory t) \<and> ex_isa t = ex_isa s"
proof (cases "exec_mode AND exec_mode_mask \<in> {exec_mode_staged, exec_mode_static}")
  case True
  then show ?thesis
    using bus_kept.keeps_launch_in_mode [OF assms(1)] isa_fixed.keeps_launch_in_mode [OF assms(1)]
      assms(2) by (auto simp: launch_begin_frame)
qed (use assms in \<open>auto simp: launch_in_mode_eq\<close>)

theorem launch_keeps_bus_witness:
  "\<exists>t. launch_in_mode 1 no_callback whole_range 0 (sample_machine (program [0x02]) []) = Some (1, t)
     \<and> bus_ok (ex_memory t)"
proof -
  obtain t where t: "launch_in_mode 1 no_callback whole_range 0 (sample_machine (program [0x02]) []) = Some (1, t)"
    using sample_halts [of True "static_turn no_callback True" "[]"]
    by (auto simp: launch_in_mode_eq mode_locking_def mode_callback_def exec_mode_defs Let_def)
  from launch_keeps_bus [OF this] show ?thesis using t by (simp add: sample_bus_ok)
qed

text \<open>A launch at an illegal opcode executes nothing: it returns one cycle, the
  memory after the fetch, and registers that differ in the PC only.\<close>

theorem illegal_opcode_halts:
  assumes "exec_mode AND exec_mode_mask \<in> {exec_mode_staged, exec_mode_static}"
    and "\<not> state_locked s" "ucast PC < PC_end_of r"
    and "membus_read_addr (ex_memory s) PC = Some (b, m)"
    and "dispatch_mode (isa_6502_table_lookup_dispatch (ex_isa s) b) = isa_6502_addressing_undefined"
  shows "\<exists>t. launch_in_mode exec_mode cb r PC s = Some (1, t) \<and> ex_memory t = m
    \<and> ex_registers t = (ex_registers s)\<lparr>reg_PC := PC + 1\<rparr>"
proof -
  have "\<exists>t. launch cb' lk execute r PC s = Some (1, t) \<and> ex_memory t = m
    \<and> ex_registers t = (ex_registers s)\<lparr>reg_PC := PC + 1\<rparr>" for cb' lk execute
  proof -
    obtain u where u: "launch_begin cb' lk PC s = Some u"
      using assms(2) launch_begins by blast
    note frame = launch_begin_frame [OF u]
    obtain v where v: "fetch_instr cb' u = Some v" "instr_opcode v = b" "ex_memory v = m"
      "ex_isa v = ex_isa s" "total_cycles v = 1"
      "ex_registers v = (ex_registers s)\<lparr>reg_PC := PC + 1\<rparr>"
      using assms(4) by (auto simp: fetch_instr_def Let_def emit_defs frame count_cycle_def)
    obtain d w where w: "decode_instr cb' v = (False, d, w)" "ex_memory w = m" "total_cycles w = 1"
      "ex_registers w = (ex_registers s)\<lparr>reg_PC := PC + 1\<rparr>"
      using assms(5) v by (auto simp: decode_instr_def Let_def emit_defs)
    show ?thesis
      using launch_illegal [OF u assms(3) v(1) w(1)] w(2-4)
      by (auto simp: launch_end_def Let_def clear_flags_def emit_defs)
  qed
  then show ?thesis using assms(1) by (auto simp: launch_in_mode_eq Let_def)
qed

theorem illegal_opcode_halts_witness:
  "\<exists>t. launch_in_mode 0 no_callback whole_range 0 (sample_machine (program [0x02]) []) = Some (1, t)
     \<and> reg_PC (ex_registers t) = 1"
  using illegal_opcode_halts [of 0 "sample_machine (program [0x02]) []" 0 whole_range "0x02"
      "sample_bus (program [0x02])" no_callback]
  by (auto simp: exec_mode_defs lookup_illegal UNUSED_OPCODE_def program_def)

text \<open>C8 (safety).  An opcode whose two low bits are set is not illegal for the executor: the fourth
  block of either dialect's table is all zeros, so its addressing mode is the accumulator mode and its function
  pointer is null.  A launch that
  starts at such an opcode, with nobody interfering, has no result: it calls the null pointer.\<close>

theorem opcode_block_3_crashes:
  assumes "exec_mode AND exec_mode_mask \<in> {exec_mode_staged, exec_mode_static}"
    and "ex_isa s \<in> {isa_6502_base_table, isa_65C02_table}" "windows s = []" "ucast PC < PC_end_of r"
    and "membus_read_addr (ex_memory s) PC = Some (b, m)" "b AND 0x03 = 0x03"
  shows "launch_in_mode exec_mode cb r PC s = None"
proof -
  have "launch cb' lk execute r PC s = None"
    if "execute = staged_turns cb' lk \<or> execute = static_turn cb' lk" for cb' lk execute
  proof (cases "launch_begin cb' lk PC s")
    case (Some u)
    note frame = launch_begin_frame [OF Some]
    obtain v where v: "fetch_instr cb' u = Some v" "instr_opcode v = b" "ex_isa v = ex_isa s"
      "windows v = []" "is_in_dma v = False" "lk \<longrightarrow> state_locked v"
      "ex_flags v = ex_flags s AND NOT internal_flags"
      using assms(3,5) by (auto simp: fetch_instr_def Let_def emit_defs frame count_cycle_def)
    have z: "isa_6502_table_lookup_dispatch (ex_isa s) b = zero_dispatch"
      using assms(2,6) lookup_block_3 lookup65_block_3 by auto
    obtain w where w: "decode_instr cb' v = (True, zero_dispatch, w)" "quiet lk w"
      using v
      by (auto simp: decode_instr_def Let_def z emit_defs quiet_def and.assoc zero_dispatch_def)
    have "execute zero_dispatch w = None"
      using that w(2) quiet_window [OF w(2)]
      by (auto simp: static_turn_def staged_turn_def staged_turns.simps quiet_def quiet_flags zero_dispatch_def)
    then have "run_loop (instruction_step cb' lk execute) (PC_end_of r) u = None"
      using assms(4) v(1) w(1)
      by (subst run_loop.simps)
        (simp add: frame has_flag_def internal_flags_def flag_defs and.assoc instruction_step_def)
    then show ?thesis by (simp add: launch_def Some)
  qed (simp add: launch_def)
  then show ?thesis using assms(1) by (auto simp: launch_in_mode_eq Let_def)
qed

theorem opcode_block_3_crashes_witness:
  "launch_in_mode 0 no_callback whole_range 0 (sample_machine (program [0x03]) []) = None"
  using opcode_block_3_crashes [of 0 "sample_machine (program [0x03]) []" 0 whole_range "0x03"
      "sample_bus (program [0x03])" no_callback]
  by (simp add: exec_mode_defs program_def)

end
